(* ===== verification/Prelude.thy ===== *)
theory Prelude
  imports Complex_Main "HOL-Library.AList" "HOL-Library.Multiset" "HOL-Library.Word"
begin

text \<open>
  Shared vocabulary of the development: the values and errors of the language, the
  error and state-with-error results that every fallible operation returns, the
  insertion-ordered \<open>Map\<close> of JavaScript as an association list, stable sorting by a
  comparator, and the generic lemmas and rule collections that the component proofs use.
\<close>

named_theorems sx_simps \<open>unfolding rules of the state-with-error results\<close>
named_theorems jsmap_simps \<open>lookup laws of insertion-ordered maps\<close>

section \<open>Values and errors\<close>

text \<open>
  A number of the language is a double: the doubles that are not finite are constructors
  of their own, the finite ones are rationals (the sign of zero is not observed by the
  code that is modelled).
\<close>

datatype js_number = Num rat | NaN | PosInf | NegInf

text \<open>A value of type \<open>unknown\<close>. Property order is kept, as objects keep it.\<close>

datatype js_value =
    JUndefined
  | JNull
  | JBool bool
  | JNum js_number
  | JStr string
  | JArr "js_value list"
  | JObj "(string \<times> js_value) list"

text \<open>
  The error classes of \<open>core/errors.ts\<close> with their message, an application error with a
  status, a name, a message and further properties of its own, the errors of the language
  that the code raises (\<open>Error\<close>, \<open>RangeError\<close>, \<open>SyntaxError\<close>, \<open>TypeError\<close>), the error a
  failed schema raises, and a value thrown by code that is not modelled.
\<close>

datatype js_error =
    ValidationError string
  | UnauthorizedError string
  | ForbiddenError string
  | RegisteredDomainError string
  | NotFoundError string
  | ConflictError string
  | PreconditionFailedError string
  | InvalidStateError string
  | AppError int string string "(string \<times> js_value) list"
  | PlainError string
  | ZodError
  | RangeError
  | SyntaxError
  | TypeError
  | Foreign js_value

section \<open>Results\<close>

text \<open>Results of pure operations: \<open>Inl\<close> is a throw, \<open>Inr\<close> a return.\<close>

type_synonym 'a result = "js_error + 'a"

definition bindE :: "'a result \<Rightarrow> ('a \<Rightarrow> 'b result) \<Rightarrow> 'b result" where
  "bindE m f = (case m of Inl e \<Rightarrow> Inl e | Inr x \<Rightarrow> f x)"

lemma bindE_simps [simp]:
  "bindE (Inl e) f = Inl e"
  "bindE (Inr x) f = f x"
  by (simp_all add: bindE_def)

lemma bindE_Inr_iff: "bindE m f = Inr y \<longleftrightarrow> (\<exists>x. m = Inr x \<and> f x = Inr y)"
  by (cases m) auto

lemma bindE_split: "P (bindE m f) \<longleftrightarrow> (\<forall>e. m = Inl e \<longrightarrow> P (Inl e)) \<and> (\<forall>x. m = Inr x \<longrightarrow> P (f x))"
  by (cases m) auto

lemma if_Inl_Inr_iff: "(if b then Inl e else m) = Inr y \<longleftrightarrow> \<not> b \<and> m = Inr y"
  by simp

lemmas result_Inr = bindE_Inr_iff if_Inl_Inr_iff

fun mapE :: "('a \<Rightarrow> 'b result) \<Rightarrow> 'a list \<Rightarrow> 'b list result" where
  "mapE f [] = Inr []"
| "mapE f (x # xs) = bindE (f x) (\<lambda>y. bindE (mapE f xs) (\<lambda>ys. Inr (y # ys)))"

text \<open>A schema that returns its argument unchanged, or throws.\<close>

definition checkE :: "('a \<Rightarrow> bool) \<Rightarrow> js_error \<Rightarrow> 'a \<Rightarrow> 'a result" where
  "checkE p e x = (if p x then Inr x else Inl e)"

lemma checkE_Inr_iff [simp]: "checkE p e x = Inr y \<longleftrightarrow> p x \<and> y = x"
  by (auto simp: checkE_def)

lemma checkE_True: "p x \<Longrightarrow> checkE p e x = Inr x"
  by (simp add: checkE_def)

lemma mapE_checkE_Inr_iff:
  "mapE (checkE p e) xs = Inr ys \<longleftrightarrow> list_all p xs \<and> ys = xs"
  by (induction xs arbitrary: ys) (auto simp: bindE_Inr_iff)

lemma mapE_Inr_iff: "mapE f xs = Inr ys \<longleftrightarrow> list_all2 (\<lambda>x y. f x = Inr y) xs ys"
  by (induction xs arbitrary: ys) (auto simp: bindE_Inr_iff list_all2_Cons1)

lemma mapE_cong_Inr: "\<forall>x \<in> set xs. f x = Inr (g x) \<Longrightarrow> mapE f xs = Inr (map g xs)"
  by (induction xs) auto

lemma mapE_length: "mapE f xs = Inr ys \<Longrightarrow> length ys = length xs"
  by (simp add: mapE_Inr_iff list_all2_lengthD)

text \<open>
  Results of operations on a state. A throw does not undo what was done before it, so
  the state is returned in both cases.
\<close>

type_synonym ('s, 'a) sx = "'s \<Rightarrow> 'a result \<times> 's"

definition returnS :: "'a \<Rightarrow> ('s, 'a) sx" where
  [sx_simps]: "returnS x s = (Inr x, s)"

definition throwS :: "js_error \<Rightarrow> ('s, 'a) sx" where
  [sx_simps]: "throwS e s = (Inl e, s)"

definition liftS :: "'a result \<Rightarrow> ('s, 'a) sx" where
  [sx_simps]: "liftS r s = (r, s)"

definition getS :: "('s \<Rightarrow> 'a) \<Rightarrow> ('s, 'a) sx" where
  [sx_simps]: "getS f s = (Inr (f s), s)"

definition modifyS :: "('s \<Rightarrow> 's) \<Rightarrow> ('s, unit) sx" where
  [sx_simps]: "modifyS f s = (Inr (), f s)"

definition bindS :: "('s, 'a) sx \<Rightarrow> ('a \<Rightarrow> ('s, 'b) sx) \<Rightarrow> ('s, 'b) sx" where
  "bindS m f s = (case m s of (Inl e, s') \<Rightarrow> (Inl e, s') | (Inr x, s') \<Rightarrow> f x s')"

definition thenS :: "('s, 'a) sx \<Rightarrow> ('s, 'b) sx \<Rightarrow> ('s, 'b) sx" where
  [sx_simps]: "thenS m k = bindS m (\<lambda>_. k)"

text \<open>\<open>try m catch handler\<close>: the handler runs in the state the throw left.\<close>

definition catchS :: "('s, 'a) sx \<Rightarrow> (js_error \<Rightarrow> ('s, 'a) sx) \<Rightarrow> ('s, 'a) sx" where
  "catchS m handler s = (case m s of (Inl e, s') \<Rightarrow> handler e s' | (Inr x, s') \<Rightarrow> (Inr x, s'))"

lemma bindS_simps [simp]:
  "m s = (Inl e, s') \<Longrightarrow> bindS m f s = (Inl e, s')"
  "m s = (Inr x, s') \<Longrightarrow> bindS m f s = f x s'"
  by (simp_all add: bindS_def)

lemma catchS_simps [simp]:
  "m s = (Inl e, s') \<Longrightarrow> catchS m handler s = handler e s'"
  "m s = (Inr x, s') \<Longrightarrow> catchS m handler s = (Inr x, s')"
  by (simp_all add: catchS_def)

lemma bindS_basic [sx_simps]:
  "bindS (returnS x) f s = f x s"
  "bindS (throwS e) f s = (Inl e, s)"
  "bindS (getS g) f s = f (g s) s"
  "bindS (modifyS g) f' s = f' () (g s)"
  "bindS (liftS (Inl e)) f s = (Inl e, s)"
  "bindS (liftS (Inr x)) f s = f x s"
  by (simp_all add: bindS_def returnS_def throwS_def getS_def modifyS_def liftS_def)

lemma bindS_assoc: "bindS (bindS m f) g s = bindS m (\<lambda>x. bindS (f x) g) s"
  by (simp add: bindS_def split: prod.split sum.split)

lemma bindS_Inr_iff:
  "bindS m f s = (Inr y, t) \<longleftrightarrow> (\<exists>x s'. m s = (Inr x, s') \<and> f x s' = (Inr y, t))"
  by (auto simp: bindS_def split: prod.splits sum.splits)

fun forS :: "'a list \<Rightarrow> ('a \<Rightarrow> ('s, unit) sx) \<Rightarrow> ('s, unit) sx" where
  "forS [] body = returnS ()"
| "forS (x # xs) body = bindS (body x) (\<lambda>_. forS xs body)"

fun mapS :: "('a \<Rightarrow> ('s, 'b) sx) \<Rightarrow> 'a list \<Rightarrow> ('s, 'b list) sx" where
  "mapS f [] = returnS []"
| "mapS f (x # xs) = bindS (f x) (\<lambda>y. bindS (mapS f xs) (\<lambda>ys. returnS (y # ys)))"

text \<open>An operation that leaves a projection of the state alone.\<close>

definition keepsS :: "('s \<Rightarrow> 'p) \<Rightarrow> ('s, 'a) sx \<Rightarrow> bool" where
  "keepsS p m \<longleftrightarrow> (\<forall>s. p (snd (m s)) = p s)"

lemma keepsS_D: "keepsS p m \<Longrightarrow> m s = (r, t) \<Longrightarrow> p t = p s"
  unfolding keepsS_def by (metis snd_conv)

lemma keepsS_bindS [intro]: "keepsS p m \<Longrightarrow> (\<And>x. keepsS p (f x)) \<Longrightarrow> keepsS p (bindS m f)"
  unfolding keepsS_def bindS_def by (auto split: prod.split sum.split) (metis snd_conv)+

section \<open>Insertion-ordered maps\<close>

text \<open>
  A \<open>Map\<close> keeps its keys in insertion order; setting a present key keeps its place. The
  library's \<open>AList.update\<close> and \<open>AList.delete\<close> do just this.
\<close>

type_synonym 'v jsmap = "(string \<times> 'v) list"

abbreviation map_get :: "'v jsmap \<Rightarrow> string \<Rightarrow> 'v option" where
  "map_get m k \<equiv> map_of m k"

abbreviation map_set :: "string \<Rightarrow> 'v \<Rightarrow> 'v jsmap \<Rightarrow> 'v jsmap" where
  "map_set \<equiv> AList.update"

abbreviation map_delete :: "string \<Rightarrow> 'v jsmap \<Rightarrow> 'v jsmap" where
  "map_delete \<equiv> AList.delete"

definition map_has :: "'v jsmap \<Rightarrow> string \<Rightarrow> bool" where
  "map_has m k \<longleftrightarrow> map_of m k \<noteq> None"

definition map_values :: "'v jsmap \<Rightarrow> 'v list" where
  "map_values m = map snd m"

text \<open>\<open>new Map(pairs)\<close>: a later pair with the same key replaces the value of an earlier one.\<close>

definition map_from :: "(string \<times> 'v) list \<Rightarrow> 'v jsmap" where
  "map_from ps = foldl (\<lambda>m (k, v). map_set k v m) [] ps"

definition map_ok :: "'v jsmap \<Rightarrow> bool" where
  "map_ok m \<longleftrightarrow> distinct (map fst m)"

lemma map_get_set [jsmap_simps, simp]: "map_get (map_set k v m) k' = (if k' = k then Some v else map_get m k')"
  by (simp add: update_conv)

lemma map_get_delete [jsmap_simps, simp]: "map_get (map_delete k m) k' = (if k' = k then None else map_get m k')"
  by (simp add: delete_conv)

lemma map_has_set [simp]: "map_has (map_set k v m) k' \<longleftrightarrow> k' = k \<or> map_has m k'"
  by (auto simp: map_has_def)

lemma map_ok_Nil [simp, intro!]: "map_ok []"
  by (simp add: map_ok_def)

lemma map_ok_set [simp, intro]: "map_ok m \<Longrightarrow> map_ok (map_set k v m)"
  by (simp add: map_ok_def distinct_update)

lemma map_ok_delete [simp, intro]: "map_ok m \<Longrightarrow> map_ok (map_delete k m)"
  by (simp add: map_ok_def distinct_delete)

lemma map_ok_get_iff: "map_ok m \<Longrightarrow> map_get m k = Some v \<longleftrightarrow> (k, v) \<in> set m"
  by (simp add: map_ok_def)

lemma map_values_get: "map_ok m \<Longrightarrow> v \<in> set (map_values m) \<longleftrightarrow> (\<exists>k. map_get m k = Some v)"
  by (force simp: map_values_def map_ok_get_iff image_iff)

lemma map_get_values: "map_get m k = Some v \<Longrightarrow> v \<in> set (map_values m)"
  by (auto simp: map_values_def dest: map_of_SomeD intro: rev_image_eqI)

lemma map_set_fresh: "\<not> map_has m k \<Longrightarrow> map_set k v m = m @ [(k, v)]"
  by (induction m) (auto simp: map_has_def split: if_splits)

lemma map_get_from_aux:
  "map_get (foldl (\<lambda>m (k, v). map_set k v m) m ps) k =
     (case map_of (rev ps) k of Some v \<Rightarrow> Some v | None \<Rightarrow> map_get m k)"
  by (induction ps arbitrary: m) (auto simp: map_add_def split: option.splits)

lemma map_get_from: "map_get (map_from ps) k = map_of (rev ps) k"
  by (simp add: map_from_def map_get_from_aux split: option.split)

lemma map_of_rev_distinct: "distinct (map fst ps) \<Longrightarrow> map_of (rev ps) k = map_of ps k"
  by (rule map_of_eqI[THEN fun_cong]) (auto simp: map_of_eq_None_iff rev_map[symmetric] intro!: map_of_is_SomeI)

section \<open>Lists\<close>

text \<open>\<open>findIndex\<close>, with \<open>None\<close> for -1, and \<open>slice(from, to)\<close> for bounds that are not negative.\<close>

fun find_index :: "('a \<Rightarrow> bool) \<Rightarrow> 'a list \<Rightarrow> nat option" where
  "find_index p [] = None"
| "find_index p (x # xs) = (if p x then Some 0 else map_option Suc (find_index p xs))"

definition slice :: "nat \<Rightarrow> nat \<Rightarrow> 'a list \<Rightarrow> 'a list" where
  "slice i j xs = take (j - i) (drop i xs)"

lemma find_index_SomeD: "find_index p xs = Some i \<Longrightarrow> i < length xs \<and> p (xs ! i)"
  by (induction xs arbitrary: i) (auto split: if_splits)

lemma find_index_None_iff: "find_index p xs = None \<longleftrightarrow> (\<forall>x \<in> set xs. \<not> p x)"
  by (induction xs) auto

lemma find_SomeD: "find p xs = Some x \<Longrightarrow> x \<in> set xs \<and> p x"
  by (auto simp: find_Some_iff in_set_conv_nth)

lemma find_key_distinct: "distinct (map key xs) \<Longrightarrow> x \<in> set xs \<Longrightarrow> find (\<lambda>y. key y = key x) xs = Some x"
  by (induction xs) auto

text \<open>\<open>a || b\<close> on comparison results: a zero is falsy.\<close>

definition cmp_or :: "int \<Rightarrow> int \<Rightarrow> int" where
  "cmp_or a b = (if a \<noteq> 0 then a else b)"

text \<open>
  \<open>Array.prototype.sort\<close> with a comparator is stable; any stable sort gives the same
  list for a consistent comparator.
\<close>

fun insert_by :: "('a \<Rightarrow> 'a \<Rightarrow> int) \<Rightarrow> 'a \<Rightarrow> 'a list \<Rightarrow> 'a list" where
  "insert_by cmp x [] = [x]"
| "insert_by cmp x (y # ys) = (if cmp x y \<le> 0 then x # y # ys else y # insert_by cmp x ys)"

definition js_sort :: "('a \<Rightarrow> 'a \<Rightarrow> int) \<Rightarrow> 'a list \<Rightarrow> 'a list" where
  "js_sort cmp xs = foldr (insert_by cmp) xs []"

lemma js_sort_simps [simp]:
  "js_sort cmp [] = []"
  "js_sort cmp (x # xs) = insert_by cmp x (js_sort cmp xs)"
  by (simp_all add: js_sort_def)

lemma mset_insert_by [simp]: "mset (insert_by cmp x ys) = add_mset x (mset ys)"
  by (induction ys) auto

lemma mset_js_sort [simp]: "mset (js_sort cmp xs) = mset xs"
  by (induction xs) auto

lemma set_js_sort [simp]: "set (js_sort cmp xs) = set xs"
  by (metis mset_js_sort set_mset_mset)

lemma length_js_sort [simp]: "length (js_sort cmp xs) = length xs"
  by (metis mset_js_sort size_mset)

lemma distinct_js_sort [simp]: "distinct (js_sort cmp xs) = distinct xs"
  by (metis mset_js_sort mset_eq_imp_distinct_iff)

locale comparator =
  fixes cmp :: "'a \<Rightarrow> 'a \<Rightarrow> int"
  assumes cmp_total: "0 < cmp x y \<Longrightarrow> cmp y x \<le> 0"
    and cmp_trans: "cmp x y \<le> 0 \<Longrightarrow> cmp y z \<le> 0 \<Longrightarrow> cmp x z \<le> 0"
begin

lemma sorted_insert_by:
  "sorted_wrt (\<lambda>x y. cmp x y \<le> 0) ys \<Longrightarrow> sorted_wrt (\<lambda>x y. cmp x y \<le> 0) (insert_by cmp x ys)"
proof (induction ys)
  case (Cons y ys)
  have "set (insert_by cmp x ys) = insert x (set ys)"
    by (metis mset_insert_by set_mset_mset set_mset_add_mset_insert)
  with Cons show ?case
    by (auto intro: cmp_trans cmp_total simp: not_le)
qed simp

lemma sorted_js_sort: "sorted_wrt (\<lambda>x y. cmp x y \<le> 0) (js_sort cmp xs)"
  by (induction xs) (simp_all add: sorted_insert_by)

lemma sorted_prefix_least:
  assumes "x \<in> set (take n (js_sort cmp xs))" and "y \<in> set (drop n (js_sort cmp xs))"
  shows "cmp x y \<le> 0"
proof -
  have "sorted_wrt (\<lambda>x y. cmp x y \<le> 0) (take n (js_sort cmp xs) @ drop n (js_sort cmp xs))"
    by (simp add: sorted_js_sort)
  then have "\<forall>x \<in> set (take n (js_sort cmp xs)). \<forall>y \<in> set (drop n (js_sort cmp xs)). cmp x y \<le> 0"
    unfolding sorted_wrt_append by blast
  with assms show ?thesis by blast
qed

end

text \<open>
  What the code relies on in \<open>localeCompare\<close>, whose order the language leaves to the
  implementation: opposite signs in the two directions, and transitivity.
\<close>

locale collation =
  fixes collate :: "string \<Rightarrow> string \<Rightarrow> int"
  assumes collate_sym: "0 < collate x y \<longleftrightarrow> collate y x < 0"
    and collate_trans: "collate x y \<le> 0 \<Longrightarrow> collate y z \<le> 0 \<Longrightarrow> collate x z \<le> 0"
begin

lemma collate_refl [simp]: "collate x x = 0"
  using collate_sym[of x x] by linarith

lemma collate_zero_sym: "collate x y = 0 \<Longrightarrow> collate y x = 0"
  using collate_sym[of x y] collate_sym[of y x] by linarith

lemma collate_zero_trans: "collate x y = 0 \<Longrightarrow> collate y z = 0 \<Longrightarrow> collate x z = 0"
  using collate_trans[of x y z] collate_trans[of z y x] collate_zero_sym[of x y]
    collate_zero_sym[of y z] collate_sym[of z x] collate_sym[of x z] by linarith

text \<open>Ordering records by one text key and then by another, as every listing of the store does.\<close>

lemma two_keys:
  fixes f g :: "'a \<Rightarrow> string"
  shows "comparator (\<lambda>x y. cmp_or (collate (f x) (f y)) (collate (g x) (g y)))"
proof
  fix x y :: 'a
  assume "0 < cmp_or (collate (f x) (f y)) (collate (g x) (g y))"
  then show "cmp_or (collate (f y) (f x)) (collate (g y) (g x)) \<le> 0"
    using collate_sym[of "f x" "f y"] collate_sym[of "g x" "g y"] collate_zero_sym[of "f x" "f y"]
    by (auto simp: cmp_or_def split: if_splits)
next
  fix x y z :: 'a
  assume xy: "cmp_or (collate (f x) (f y)) (collate (g x) (g y)) \<le> 0"
    and yz: "cmp_or (collate (f y) (f z)) (collate (g y) (g z)) \<le> 0"
  have le: "collate (f x) (f y) \<le> 0" "collate (f y) (f z) \<le> 0"
    using xy yz by (auto simp: cmp_or_def split: if_splits)
  show "cmp_or (collate (f x) (f z)) (collate (g x) (g z)) \<le> 0"
  proof (cases "collate (f x) (f z) = 0")
    case True
    then have "collate (f x) (f y) = 0" "collate (f y) (f z) = 0"
      using le collate_trans[of "f z" "f x" "f y"] collate_trans[of "f y" "f z" "f x"]
        collate_zero_sym[of "f x" "f z"] collate_sym[of "f y" "f x"] collate_sym[of "f z" "f y"]
      by linarith+
    then have "collate (g x) (g y) \<le> 0" "collate (g y) (g z) \<le> 0"
      using xy yz by (auto simp: cmp_or_def)
    with True show ?thesis using collate_trans by (simp add: cmp_or_def)
  next
    case False
    then show ?thesis using collate_trans[OF le] by (simp add: cmp_or_def)
  qed
qed

end

end
