(* ===== verification/Js_Text.thy ===== *)
theory Js_Text
  imports Prelude
begin

text \<open>
  Text of the language. A string of the program is represented by its UTF-8 encoding, one
  \<open>char\<close> per byte (strings with a lone surrogate, which have none, are left out). So the
  byte length of the encoding is the length of the list, and \<open>js_length\<close> counts what the
  language's \<open>length\<close> counts, UTF-16 code units. The functions of the standard library
  that the code calls on strings are defined here, with the environment (\<open>host\<close>) for what
  the language leaves to the implementation and for third-party functions.
\<close>

section \<open>Characters\<close>

abbreviation code :: "char \<Rightarrow> nat" where
  "code c \<equiv> of_char c"

definition is_digit :: "char \<Rightarrow> bool" where
  "is_digit c \<longleftrightarrow> 48 \<le> code c \<and> code c \<le> 57"

definition is_lower :: "char \<Rightarrow> bool" where
  "is_lower c \<longleftrightarrow> 97 \<le> code c \<and> code c \<le> 122"

definition is_upper :: "char \<Rightarrow> bool" where
  "is_upper c \<longleftrightarrow> 65 \<le> code c \<and> code c \<le> 90"

definition is_alnum :: "char \<Rightarrow> bool" where
  "is_alnum c \<longleftrightarrow> is_digit c \<or> is_lower c \<or> is_upper c"

definition is_hex_lower :: "char \<Rightarrow> bool" where
  "is_hex_lower c \<longleftrightarrow> is_digit c \<or> (97 \<le> code c \<and> code c \<le> 102)"

definition is_id_char :: "char \<Rightarrow> bool" where
  \<comment> \<open>the class \<open>[A-Za-z0-9_-]\<close>\<close>
  "is_id_char c \<longleftrightarrow> is_alnum c \<or> c = CHR ''_'' \<or> c = CHR ''-''"

definition is_ascii :: "string \<Rightarrow> bool" where
  "is_ascii s \<longleftrightarrow> list_all (\<lambda>c. code c < 128) s"

lemmas char_class_defs = is_digit_def is_lower_def is_upper_def is_alnum_def is_hex_lower_def is_id_char_def

section \<open>Code points and length\<close>

definition lead_width :: "char \<Rightarrow> nat" where
  "lead_width c = (if code c < 192 then 1 else if code c < 224 then 2 else if code c < 240 then 3 else 4)"

fun code_points :: "string \<Rightarrow> string list" where
  "code_points [] = []"
| "code_points (c # s) =
     (c # take (lead_width c - 1) s) # code_points (drop (lead_width c - 1) s)"

lemma concat_code_points [simp]: "concat (code_points s) = s"
  by (induction s rule: code_points.induct) simp_all

lemma code_points_ascii: "is_ascii s \<Longrightarrow> code_points s = map (\<lambda>c. [c]) s"
  by (induction s) (auto simp: is_ascii_def lead_width_def)

definition js_length :: "string \<Rightarrow> nat" where
  "js_length s = sum_list (map (\<lambda>p. if length p = 4 then 2 else 1) (code_points s))"

lemma js_length_ascii: "is_ascii s \<Longrightarrow> js_length s = length s"
  by (simp add: js_length_def code_points_ascii o_def sum_list_triv)

lemma length_ge_code_points: "length (code_points s) \<le> length s"
  by (induction s rule: code_points.induct) (auto intro: le_trans)

text \<open>The class \<open>\s\<close>, which is also what \<open>trim\<close> strips: a predicate on code points.\<close>

definition is_space :: "string \<Rightarrow> bool" where
  "is_space p \<longleftrightarrow> map code p \<in>
     {[9], [10], [11], [12], [13], [32], [194, 160], [225, 154, 128], [226, 128, 168],
      [226, 128, 169], [226, 128, 175], [226, 129, 159], [227, 128, 128], [239, 187, 191]}
   \<or> (length p = 3 \<and> code (p ! 0) = 226 \<and> code (p ! 1) = 128 \<and> 128 \<le> code (p ! 2) \<and> code (p ! 2) \<le> 138)"

definition js_trim :: "string \<Rightarrow> string" where
  "js_trim s = concat (rev (dropWhile is_space (rev (dropWhile is_space (code_points s)))))"

text \<open>The class \<open>[\r\n]\<close>, and what \<open>.\<close> does not match (line terminators).\<close>

definition has_crlf :: "string \<Rightarrow> bool" where
  "has_crlf s \<longleftrightarrow> list_ex (\<lambda>c. code c = 13 \<or> code c = 10) s"

definition is_line_terminator :: "string \<Rightarrow> bool" where
  "is_line_terminator p \<longleftrightarrow> map code p \<in> {[10], [13], [226, 128, 168], [226, 128, 169]}"

section \<open>Case\<close>

definition ascii_lower :: "char \<Rightarrow> char" where
  "ascii_lower c = (if is_upper c then char_of (code c + 32 :: nat) else c)"

definition ascii_upper :: "char \<Rightarrow> char" where
  "ascii_upper c = (if is_lower c then char_of (code c - 32 :: nat) else c)"

lemma code_ascii_lower: "code (ascii_lower c) = (if is_upper c then code c + 32 else code c)"
  by (auto simp: ascii_lower_def is_upper_def take_bit_eq_mod)

lemma ascii_lower_idem [simp]: "ascii_lower (ascii_lower c) = ascii_lower c"
proof (cases "is_upper c")
  case True
  then have "\<not> is_upper (ascii_lower c)"
    using code_ascii_lower[of c] by (simp add: is_upper_def)
  then show ?thesis by (simp add: ascii_lower_def)
qed (simp add: ascii_lower_def)

lemma is_ascii_lower: "is_ascii s \<Longrightarrow> is_ascii (map ascii_lower s)"
  by (induction s) (auto simp: is_ascii_def code_ascii_lower is_upper_def)

section \<open>Searching and replacing\<close>

definition starts_with :: "string \<Rightarrow> string \<Rightarrow> bool" where
  "starts_with p s \<longleftrightarrow> take (length p) s = p"

lemma starts_with_append [simp]: "starts_with p (p @ s)"
  by (simp add: starts_with_def)

lemma starts_with_iff: "starts_with p s \<longleftrightarrow> (\<exists>r. s = p @ r)"
  unfolding starts_with_def by (metis append_eq_conv_conj append_take_drop_id)

definition replace_all_char :: "char \<Rightarrow> string \<Rightarrow> string \<Rightarrow> string" where
  "replace_all_char c r s = concat (map (\<lambda>x. if x = c then r else [x]) s)"

fun split_on :: "char \<Rightarrow> string \<Rightarrow> string list" where
  "split_on c [] = [[]]"
| "split_on c (x # s) =
     (if x = c then [] # split_on c s
      else (case split_on c s of [] \<Rightarrow> [[x]] | p # ps \<Rightarrow> (x # p) # ps))"

fun join_with :: "string \<Rightarrow> string list \<Rightarrow> string" where
  "join_with d [] = []"
| "join_with d [p] = p"
| "join_with d (p # ps) = p @ d @ join_with d ps"

lemma split_on_nonempty [simp]: "split_on c s \<noteq> []"
  by (induction s) (auto split: list.splits)

lemma split_on_free: "c \<notin> set p \<Longrightarrow> split_on c p = [p]"
  by (induction p) auto

lemma split_on_append: "c \<notin> set p \<Longrightarrow> split_on c (p @ c # s) = p # split_on c s"
  by (induction p) auto

lemma split_on_join:
  "ps \<noteq> [] \<Longrightarrow> list_all (\<lambda>p. c \<notin> set p) ps \<Longrightarrow> split_on c (join_with [c] ps) = ps"
  by (induction "[c]" ps rule: join_with.induct) (auto simp: split_on_free split_on_append)

lemma join_with_inject:
  assumes "join_with [c] ps = join_with [c] qs" "ps \<noteq> []" "qs \<noteq> []"
    and "list_all (\<lambda>p. c \<notin> set p) ps" "list_all (\<lambda>p. c \<notin> set p) qs"
  shows "ps = qs"
  using assms split_on_join by metis

section \<open>Decimal numerals\<close>

definition digit_char :: "nat \<Rightarrow> char" where
  "digit_char n = char_of (48 + n)"

lemma code_digit_char [simp]: "n < 10 \<Longrightarrow> code (digit_char n) = 48 + n"
  by (simp add: digit_char_def take_bit_eq_mod)

lemma is_digit_digit_char [simp]: "n < 10 \<Longrightarrow> is_digit (digit_char n)"
  by (simp add: is_digit_def)

definition digit_val :: "char \<Rightarrow> nat" where
  "digit_val c = code c - 48"

lemma digit_val_char [simp]: "n < 10 \<Longrightarrow> digit_val (digit_char n) = n"
  by (simp add: digit_val_def)

fun nat_dec :: "nat \<Rightarrow> string" where
  "nat_dec n = (if n < 10 then [digit_char n] else nat_dec (n div 10) @ [digit_char (n mod 10)])"

declare nat_dec.simps [simp del]

definition int_dec :: "int \<Rightarrow> string" where
  "int_dec i = (if i < 0 then CHR ''-'' # nat_dec (nat (- i)) else nat_dec (nat i))"

definition dec_val :: "string \<Rightarrow> nat" where
  "dec_val s = foldl (\<lambda>a c. 10 * a + digit_val c) 0 s"

lemma dec_val_snoc [simp]: "dec_val (s @ [c]) = 10 * dec_val s + digit_val c"
  by (simp add: dec_val_def)

lemma dec_val_nat_dec [simp]: "dec_val (nat_dec n) = n"
proof (induction n rule: nat_dec.induct)
  case (1 n)
  then show ?case
    by (subst nat_dec.simps) (auto simp: dec_val_def)
qed

lemma nat_dec_inject [simp]: "nat_dec m = nat_dec n \<longleftrightarrow> m = n"
  by (metis dec_val_nat_dec)

lemma nat_dec_digits: "list_all is_digit (nat_dec n)"
proof (induction n rule: nat_dec.induct)
  case (1 n)
  then show ?case by (subst nat_dec.simps) auto
qed

lemma nat_dec_nonempty [simp]: "nat_dec n \<noteq> []"
  by (subst nat_dec.simps) simp

text \<open>Numerals of a fixed width, with leading zeros.\<close>

fun pad_dec :: "nat \<Rightarrow> nat \<Rightarrow> string" where
  "pad_dec 0 n = []"
| "pad_dec (Suc w) n = pad_dec w (n div 10) @ [digit_char (n mod 10)]"

lemma length_pad_dec [simp]: "length (pad_dec w n) = w"
  by (induction w arbitrary: n) auto

lemma dec_val_pad_dec: "n < 10 ^ w \<Longrightarrow> dec_val (pad_dec w n) = n"
proof (induction w arbitrary: n)
  case (Suc w)
  then have "n div 10 < 10 ^ w" by (simp add: less_mult_imp_div_less mult.commute)
  then show ?case by (simp add: Suc.IH)
qed (simp add: dec_val_def)

lemma pad_dec_digits: "list_all is_digit (pad_dec w n)"
  by (induction w arbitrary: n) auto

section \<open>Percent encoding\<close>

definition hex_digit :: "nat \<Rightarrow> char" where
  "hex_digit n = (if n < 10 then char_of (48 + n) else char_of (55 + n))"

definition is_uri_unreserved :: "char \<Rightarrow> bool" where
  "is_uri_unreserved c \<longleftrightarrow> is_alnum c \<or> code c \<in> {45, 95, 46, 33, 126, 42, 39, 40, 41}"

definition percent_encode :: "char \<Rightarrow> string" where
  "percent_encode c =
     (if is_uri_unreserved c then [c] else [CHR ''%'', hex_digit (code c div 16), hex_digit (code c mod 16)])"

text \<open>\<open>encodeURIComponent\<close> escapes the bytes of the UTF-8 encoding.\<close>

definition encode_uri_component :: "string \<Rightarrow> string" where
  "encode_uri_component s = concat (map percent_encode s)"

lemma code_div_16: "code c div 16 < 16"
  using nat_of_char_less_256[of c] by (simp only: less_mult_imp_div_less)

lemma code_mod_16: "code c mod 16 < (16 :: nat)"
  by simp

lemma code_hex_digit: "n < 16 \<Longrightarrow> code (hex_digit n) = (if n < 10 then 48 + n else 55 + n)"
  by (simp add: hex_digit_def take_bit_eq_mod)

lemma hex_digit_inject:
  assumes "m < 16" "n < 16" "hex_digit m = hex_digit n"
  shows "m = n"
proof -
  have "(if m < 10 then 48 + m else 55 + m) = code (hex_digit n)"
    using code_hex_digit[OF assms(1)] by (simp only: assms(3))
  also have "\<dots> = (if n < 10 then 48 + n else 55 + n)"
    by (rule code_hex_digit[OF assms(2)])
  finally show ?thesis by (auto split: if_splits)
qed

lemma percent_encode_prefix_free:
  "percent_encode c @ s = percent_encode d @ t \<Longrightarrow> c = d \<and> s = t"
proof -
  assume eq: "percent_encode c @ s = percent_encode d @ t"
  have pc: "\<not> is_uri_unreserved (CHR ''%'')"
    by (simp add: is_uri_unreserved_def char_class_defs)
  consider "is_uri_unreserved c" "is_uri_unreserved d" | "\<not> is_uri_unreserved c" "\<not> is_uri_unreserved d"
    using eq pc by (auto simp: percent_encode_def split: if_splits)
  then show ?thesis
  proof cases
    case 2
    have "hex_digit (code c div 16) = hex_digit (code d div 16)"
      "hex_digit (code c mod 16) = hex_digit (code d mod 16)" and st: "s = t"
      using 2 eq by (auto simp: percent_encode_def)
    then have "code c div 16 = code d div 16" "code c mod 16 = code d mod 16"
      by (auto intro: hex_digit_inject code_div_16 code_mod_16)
    then have "code c div 16 * 16 + code c mod 16 = code d div 16 * 16 + code d mod 16"
      by (simp only:)
    then have "code c = code d"
      by (simp only: div_mult_mod_eq)
    with st show ?thesis by simp
  qed (use eq in \<open>auto simp: percent_encode_def\<close>)
qed

lemma encode_uri_component_inject: "encode_uri_component s = encode_uri_component t \<longleftrightarrow> s = t"
proof (induction s arbitrary: t)
  case Nil
  then show ?case
    by (cases t) (auto simp: encode_uri_component_def percent_encode_def)
next
  case (Cons c s)
  show ?case
  proof (cases t)
    case Nil
    then show ?thesis by (simp add: encode_uri_component_def percent_encode_def)
  next
    case (Cons d t')
    then show ?thesis
      using Cons.IH percent_encode_prefix_free[of c "encode_uri_component s" d "encode_uri_component t'"]
      by (auto simp: encode_uri_component_def)
  qed
qed

lemma colon_notin_encode [simp]: "CHR '':'' \<notin> set (encode_uri_component s)"
proof -
  have "CHR '':'' \<notin> set (percent_encode c)" for c
  proof -
    have "code (hex_digit n) \<noteq> 58" if "n < 16" for n
      using code_hex_digit[OF that] that by auto
    then have "hex_digit n \<noteq> CHR '':''" if "n < 16" for n
      using that by fastforce
    then have "hex_digit (code c div 16) \<noteq> CHR '':''" "hex_digit (code c mod 16) \<noteq> CHR '':''"
      using code_div_16 code_mod_16 by blast+
    then show ?thesis
      by (auto simp: percent_encode_def is_uri_unreserved_def char_class_defs)
  qed
  then show ?thesis by (simp add: encode_uri_component_def)
qed

lemma encode_uri_unreserved: "list_all is_uri_unreserved s \<Longrightarrow> encode_uri_component s = s"
  by (induction s) (auto simp: encode_uri_component_def percent_encode_def)

lemma encode_uri_nonempty [simp]: "encode_uri_component s = [] \<longleftrightarrow> s = []"
  by (cases s) (auto simp: encode_uri_component_def percent_encode_def)

section \<open>Order of strings\<close>

text \<open>The order of \<open><\<close> and of \<open>sort()\<close> without a comparator.\<close>

fun code_unit_compare :: "string \<Rightarrow> string \<Rightarrow> int" where
  "code_unit_compare [] [] = 0"
| "code_unit_compare [] (_ # _) = -1"
| "code_unit_compare (_ # _) [] = 1"
| "code_unit_compare (a # s) (b # t) =
     (if code a < code b then -1 else if code b < code a then 1 else code_unit_compare s t)"

lemma code_unit_compare_sym: "code_unit_compare s t + code_unit_compare t s = 0"
  by (induction s t rule: code_unit_compare.induct) auto

lemma code_unit_compare_eq: "code_unit_compare s t = 0 \<longleftrightarrow> s = t"
  by (induction s t rule: code_unit_compare.induct) (auto simp: not_less dest: antisym)

lemma code_unit_compare_trans:
  "code_unit_compare s t \<le> 0 \<Longrightarrow> code_unit_compare t u \<le> 0 \<Longrightarrow> code_unit_compare s u \<le> 0"
proof (induction s t arbitrary: u rule: code_unit_compare.induct)
  case (1 u)
  then show ?case by (cases u) auto
next
  case (2 b t)
  then show ?case by (cases u) auto
next
  case (3 a s)
  then show ?case by simp
next
  case (4 a s b t)
  show ?case
  proof (cases u)
    case (Cons c u')
    then consider "code a < code b" | "code b < code c" | "code a = code b" "code b = code c"
      using "4.prems" by (force split: if_splits)
    then show ?thesis
    proof cases
      case 3
      then have "code_unit_compare s t \<le> 0" "code_unit_compare t u' \<le> 0"
        using "4.prems" Cons by simp_all
      then have "code_unit_compare s u' \<le> 0"
        using "4.IH" 3 by simp
      with 3 Cons show ?thesis by simp
    qed (use "4.prems" Cons in \<open>auto split: if_splits\<close>)
  qed (use "4.prems" in simp)
qed

interpretation code_units: collation code_unit_compare
proof
  fix x y z :: string
  show "0 < code_unit_compare x y \<longleftrightarrow> code_unit_compare y x < 0"
    using code_unit_compare_sym[of x y] by linarith
  show "code_unit_compare x y \<le> 0 \<Longrightarrow> code_unit_compare y z \<le> 0 \<Longrightarrow> code_unit_compare x z \<le> 0"
    by (rule code_unit_compare_trans)
qed

section \<open>Optional values\<close>

text \<open>A string is truthy when it is present and not empty.\<close>

definition truthy :: "string option \<Rightarrow> bool" where
  "truthy x \<longleftrightarrow> (case x of None \<Rightarrow> False | Some s \<Rightarrow> s \<noteq> [])"

lemma truthy_simps [simp]: "\<not> truthy None" "truthy (Some s) \<longleftrightarrow> s \<noteq> []"
  by (simp_all add: truthy_def)

lemma truthy_iff: "truthy x \<longleftrightarrow> (\<exists>s. x = Some s \<and> s \<noteq> [])"
  by (cases x) auto

text \<open>\<open>x ?? y\<close>.\<close>

definition coalesce :: "'a option \<Rightarrow> 'a \<Rightarrow> 'a" where
  "coalesce x y = (case x of None \<Rightarrow> y | Some v \<Rightarrow> v)"

lemma coalesce_simps [simp]: "coalesce None y = y" "coalesce (Some v) y = v"
  by (simp_all add: coalesce_def)

section \<open>The environment\<close>

text \<open>
  What the code calls and this development does not define: the parts of the standard
  library that the language leaves to the implementation or to Unicode tables
  (\<open>toLowerCase\<close> and \<open>toUpperCase\<close> beyond ASCII, the text of numbers that are not integers, the date formats beyond the one \<open>toISOString\<close> writes,
  \<open>localeCompare\<close>) and functions of third-party packages (the formats \<open>email\<close>,
  \<open>datetime\<close> and \<open>url\<close> of the schema library, SHA-256, HMAC and HTML-to-text conversion).
\<close>

record host =
  h_lower :: "string \<Rightarrow> string"
  h_upper :: "string \<Rightarrow> string"
  h_number_text :: "rat \<Rightarrow> string"
  h_date_fallback :: "string \<Rightarrow> int option"
  h_collate :: "string \<Rightarrow> string \<Rightarrow> int"
  h_email :: "string \<Rightarrow> bool"
  h_datetime :: "string \<Rightarrow> bool"
  h_sha256 :: "string \<Rightarrow> string"
  h_hmac_sha256 :: "8 word list \<Rightarrow> string \<Rightarrow> 8 word list"
  h_url :: "string \<Rightarrow> bool"
  h_html_to_text :: "string \<Rightarrow> nat \<Rightarrow> string"

definition js_lower :: "host \<Rightarrow> string \<Rightarrow> string" where
  "js_lower h s = (if is_ascii s then map ascii_lower s else h_lower h s)"

definition js_upper :: "host \<Rightarrow> string \<Rightarrow> string" where
  "js_upper h s = (if is_ascii s then map ascii_upper s else h_upper h s)"

lemma js_lower_ascii: "is_ascii s \<Longrightarrow> js_lower h s = map ascii_lower s"
  by (simp add: js_lower_def)

end
