(* ===== verification/Iso_Time.thy ===== *)
theory Iso_Time
  imports Js_Text "HOL-Library.Monad_Syntax"
begin

text \<open>
  Dates. A \<open>Date\<close> is its time value, the milliseconds since 1970-01-01 UTC, an \<open>int\<close> of at
  most \<open>8.64e15\<close> in absolute value; a value outside that range is an invalid date.
  \<open>to_iso\<close> is \<open>toISOString\<close>, \<open>date_parse\<close> is \<open>Date.parse\<close>: defined on the formats with a time
  and an offset that the delivery records use, left to the environment on all others. The
  main result is the round trip \<open>date_parse (to_iso t) = t\<close>.
\<close>

section \<open>The calendar\<close>

text \<open>
  Years begin in March here, so that the leap day is the last of its year; day 0 is
  0000-03-01, which is 719468 days before 1970-01-01.
\<close>

definition year_parts :: "int \<Rightarrow> int \<times> int \<times> int \<times> int \<times> int" where
  "year_parts z =
     (let n400 = z div 146097; r400 = z mod 146097;
          n100 = min 3 (r400 div 36524); r100 = r400 - n100 * 36524;
          n4 = r100 div 1461; r4 = r100 mod 1461;
          n1 = min 3 (r4 div 365)
      in (n400, n100, n4, n1, r4 - n1 * 365))"

lemma min_div_parts:
  fixes r k w :: int
  assumes "0 < w" "0 \<le> r" "r < (k + 1) * w + e" "0 \<le> k" "0 \<le> e"
  shows "0 \<le> min k (r div w)" "min k (r div w) \<le> k" "0 \<le> r - min k (r div w) * w"
    "r - min k (r div w) * w < w + e"
proof -
  define q where "q = r div w"
  have "0 \<le> r mod w" "r mod w < w" "q * w + r mod w = r"
    using assms(1) by (simp_all add: q_def)
  then have q: "q * w \<le> r" "r < q * w + w" by linarith+
  have "0 \<le> q" using assms(1,2) by (simp add: q_def pos_imp_zdiv_nonneg_iff)
  note q = q this
  show "0 \<le> min k (r div w)" "min k (r div w) \<le> k" using assms q(3) by (simp_all add: q_def)
  show "0 \<le> r - min k (r div w) * w" "r - min k (r div w) * w < w + e"
  proof -
    have "min k q * w \<le> q * w" using assms(1) by (simp add: mult_right_mono)
    with q(1) show "0 \<le> r - min k (r div w) * w" by (simp add: q_def)
    show "r - min k (r div w) * w < w + e"
      using assms q(2) by (cases "k \<le> q") (simp_all add: q_def[symmetric] min_def algebra_simps)
  qed
qed

lemma year_parts_bounds:
  assumes "year_parts z = (n400, n100, n4, n1, doy)"
  shows "0 \<le> n100 \<and> n100 \<le> 3 \<and> 0 \<le> n4 \<and> n4 \<le> 24 \<and> 0 \<le> n1 \<and> n1 \<le> 3 \<and> 0 \<le> doy \<and> doy \<le> 365
    \<and> z = 146097 * n400 + 36524 * n100 + 1461 * n4 + 365 * n1 + doy"
proof -
  define r400 where "r400 = z mod 146097"
  define r100 where "r100 = r400 - min 3 (r400 div 36524) * 36524"
  define r4 where "r4 = r100 mod 1461"
  have eq: "year_parts z = (z div 146097, min 3 (r400 div 36524), r100 div 1461, min 3 (r4 div 365),
      r4 - min 3 (r4 div 365) * 365)"
    unfolding year_parts_def Let_def r400_def r100_def r4_def by (rule refl)
  have n400: "n400 = z div 146097" and n100: "n100 = min 3 (r400 div 36524)"
    and n4: "n4 = r100 div 1461" and n1: "n1 = min 3 (r4 div 365)" and doy: "doy = r4 - n1 * 365"
    using assms unfolding eq prod.inject by blast+
  have z: "z = 146097 * n400 + r400" "0 \<le> r400" "r400 < 146097"
    by (simp_all add: n400 r400_def)
  have r100: "r100 = r400 - n100 * 36524" "0 \<le> n100" "n100 \<le> 3" "0 \<le> r100" "r100 \<le> 36524"
    using min_div_parts[of 36524 r400 3 1] z(2,3) by (simp_all add: n100 r100_def)
  have r4: "r100 = 1461 * n4 + r4" "0 \<le> r4" "r4 < 1461"
    by (simp_all add: n4 r4_def)
  have "0 \<le> n4" "n4 \<le> 24" using r100 r4 by linarith+
  moreover have "0 \<le> n1" "n1 \<le> 3" "0 \<le> doy" "doy \<le> 365"
    using min_div_parts[of 365 r4 3 1] r4(2,3) by (simp_all add: n1 doy)
  ultimately show ?thesis using z r100 r4 doy by linarith
qed

definition civil_of_days :: "int \<Rightarrow> int \<times> int \<times> int" where
  "civil_of_days n =
     (case year_parts (n + 719468) of (n400, n100, n4, n1, doy) \<Rightarrow>
        let mp = (5 * doy + 2) div 153;
            d = doy - (153 * mp + 2) div 5 + 1;
            m = (if mp < 10 then mp + 3 else mp - 9);
            y = 400 * n400 + 100 * n100 + 4 * n4 + n1
        in (if m \<le> 2 then y + 1 else y, m, d))"

definition days_of_civil :: "int \<Rightarrow> int \<Rightarrow> int \<Rightarrow> int" where
  "days_of_civil y m d =
     (let y' = (if m \<le> 2 then y - 1 else y);
          mp = (if 2 < m then m - 3 else m + 9);
          yoe = y' mod 400
      in (y' div 400) * 146097 + (yoe * 365 + yoe div 4 - yoe div 100)
         + ((153 * mp + 2) div 5 + d - 1) - 719468)"

lemma month_parts:
  fixes doy :: int
  assumes "0 \<le> doy" "doy \<le> 365" and mp: "mp = (5 * doy + 2) div 153"
    and m: "m = (if mp < 10 then mp + 3 else mp - 9)" and d: "d = doy - (153 * mp + 2) div 5 + 1"
  shows "0 \<le> mp" "mp \<le> 11" "1 \<le> m \<and> m \<le> 12 \<and> 1 \<le> d \<and> d \<le> 31"
proof -
  define q where "q = (153 * mp + 2) div 5"
  have "153 * mp \<le> 5 * doy + 2" "5 * doy + 2 < 153 * mp + 153"
    unfolding mp by linarith+
  moreover have "5 * q \<le> 153 * mp + 2" "153 * mp + 2 < 5 * q + 5"
    unfolding q_def by linarith+
  moreover have "d = doy - q + 1" by (simp only: d q_def)
  ultimately show "0 \<le> mp" "mp \<le> 11" "1 \<le> m \<and> m \<le> 12 \<and> 1 \<le> d \<and> d \<le> 31"
    using assms(1,2) m by (simp_all split: if_splits)
qed

lemma civil_of_days_bounds:
  assumes "civil_of_days n = (y, m, d)"
  shows "1 \<le> m \<and> m \<le> 12 \<and> 1 \<le> d \<and> d \<le> 31"
proof -
  obtain n400 n100 n4 n1 doy where p: "year_parts (n + 719468) = (n400, n100, n4, n1, doy)"
    by (cases "year_parts (n + 719468)") auto
  then have "0 \<le> doy" "doy \<le> 365" using year_parts_bounds by blast+
  moreover have "m = (if (5 * doy + 2) div 153 < 10 then (5 * doy + 2) div 153 + 3 else (5 * doy + 2) div 153 - 9)"
    "d = doy - (153 * ((5 * doy + 2) div 153) + 2) div 5 + 1"
    using assms p by (auto simp: civil_of_days_def Let_def)
  ultimately show ?thesis by (rule month_parts(3)[OF _ _ refl])
qed

theorem days_of_civil_of_days:
  assumes "civil_of_days n = (y, m, d)"
  shows "days_of_civil y m d = n"
proof -
  obtain n400 n100 n4 n1 doy where p: "year_parts (n + 719468) = (n400, n100, n4, n1, doy)"
    by (cases "year_parts (n + 719468)") auto
  note b = year_parts_bounds[OF p]
  define mp where "mp = (5 * doy + 2) div 153"
  define yoe where "yoe = 100 * n100 + 4 * n4 + n1"
  define y' where "y' = 400 * n400 + yoe"
  have m: "m = (if mp < 10 then mp + 3 else mp - 9)" and d: "d = doy - (153 * mp + 2) div 5 + 1"
    and y: "y = (if m \<le> 2 then y' + 1 else y')"
    using assms p by (auto simp: civil_of_days_def Let_def mp_def yoe_def y'_def)
  have mp: "0 \<le> mp" "mp \<le> 11"
    using b month_parts(1,2)[of doy mp] mp_def by blast+
  have yoe: "0 \<le> yoe" "yoe < 400" using b unfolding yoe_def by linarith+
  have "yoe div 4 = 25 * n100 + n4"
    by (rule int_div_pos_eq[of _ _ _ n1]) (use b in \<open>simp_all add: yoe_def\<close>)
  moreover have "yoe div 100 = n100"
    by (rule int_div_pos_eq[of _ _ _ "4 * n4 + n1"]) (use b in \<open>simp_all add: yoe_def\<close>)
  moreover have "y' div 400 = n400" "y' mod 400 = yoe" using yoe by (auto simp: y'_def)
  moreover have "(if m \<le> 2 then y - 1 else y) = y'" using y by auto
  moreover have "(if 2 < m then m - 3 else m + 9) = mp" using m mp by auto
  ultimately have "days_of_civil y m d = 146097 * n400 + (yoe * 365 + 25 * n100 + n4 - n100) + doy - 719468"
    by (simp add: days_of_civil_def Let_def d)
  then show ?thesis using b by (simp add: yoe_def)
qed

lemma civil_year_bounds:
  assumes "civil_of_days n = (y, m, d)" and "- 100000000 \<le> n" and "n \<le> 100000000"
  shows "- 999999 \<le> y \<and> y \<le> 999999"
proof -
  obtain n400 n100 n4 n1 doy where p: "year_parts (n + 719468) = (n400, n100, n4, n1, doy)"
    by (cases "year_parts (n + 719468)") auto
  then have "y = 400 * n400 + 100 * n100 + 4 * n4 + n1 \<or> y = 400 * n400 + 100 * n100 + 4 * n4 + n1 + 1"
    using assms(1) by (auto simp: civil_of_days_def Let_def)
  with year_parts_bounds[OF p] assms(2,3) show ?thesis by linarith
qed

section \<open>Printing\<close>

definition max_time :: int where
  "max_time = 8640000000000000"

definition valid_time :: "int \<Rightarrow> bool" where
  "valid_time t \<longleftrightarrow> - max_time \<le> t \<and> t \<le> max_time"

text \<open>\<open>new Date(t)\<close>: \<open>None\<close> is an invalid date.\<close>

definition make_date :: "int \<Rightarrow> int option" where
  "make_date t = (if valid_time t then Some t else None)"

definition iso_year :: "int \<Rightarrow> string" where
  "iso_year y =
     (if 0 \<le> y \<and> y \<le> 9999 then pad_dec 4 (nat y)
      else (if y < 0 then CHR ''-'' else CHR ''+'') # pad_dec 6 (nat \<bar>y\<bar>))"

definition to_iso :: "int \<Rightarrow> string" where
  "to_iso t =
     (case civil_of_days (t div 86400000) of (y, m, d) \<Rightarrow>
        let r = nat (t mod 86400000)
        in iso_year y @ ''-'' @ pad_dec 2 (nat m) @ ''-'' @ pad_dec 2 (nat d)
           @ ''T'' @ pad_dec 2 (r div 3600000) @ '':'' @ pad_dec 2 (r div 60000 mod 60)
           @ '':'' @ pad_dec 2 (r div 1000 mod 60) @ ''.'' @ pad_dec 3 (r mod 1000) @ ''Z'')"

section \<open>Parsing\<close>

definition read_num :: "nat \<Rightarrow> string \<Rightarrow> (nat \<times> string) option" where
  "read_num w s =
     (if length (take w s) = w \<and> list_all is_digit (take w s)
      then Some (dec_val (take w s), drop w s) else None)"

definition read_char :: "char \<Rightarrow> string \<Rightarrow> string option" where
  "read_char c s = (case s of [] \<Rightarrow> None | x # r \<Rightarrow> if x = c then Some r else None)"

definition read_year :: "string \<Rightarrow> (int \<times> string) option" where
  "read_year s =
     (case s of [] \<Rightarrow> None
      | c # r \<Rightarrow>
         if c = CHR ''+'' then map_option (map_prod int id) (read_num 6 r)
         else if c = CHR ''-'' then
           (case read_num 6 r of None \<Rightarrow> None
            | Some (n, r') \<Rightarrow> if n = 0 then None else Some (- int n, r'))
         else map_option (map_prod int id) (read_num 4 s))"

text \<open>Minutes east of UTC, at the end of the text.\<close>

definition read_offset :: "string \<Rightarrow> int option" where
  "read_offset s =
     (if s = ''Z'' then Some 0
      else case s of [] \<Rightarrow> None
      | c # r \<Rightarrow>
         if c = CHR ''+'' \<or> c = CHR ''-'' then do {
           (oh, r) \<leftarrow> read_num 2 r;
           r \<leftarrow> read_char (CHR '':'') r;
           (om, r) \<leftarrow> read_num 2 r;
           if r = [] \<and> oh \<le> 23 \<and> om \<le> 59
           then Some ((if c = CHR ''-'' then -1 else 1) * int (oh * 60 + om)) else None
         } else None)"

text \<open>Seconds, with three digits of milliseconds or none; absent seconds are 0.\<close>

definition read_seconds :: "string \<Rightarrow> (nat \<times> nat \<times> string) option" where
  "read_seconds s =
     (case read_char (CHR '':'') s of
        None \<Rightarrow> Some (0, 0, s)
      | Some r \<Rightarrow> do {
          (sec, r) \<leftarrow> read_num 2 r;
          case read_char (CHR ''.'') r of
            None \<Rightarrow> Some (sec, 0, r)
          | Some r' \<Rightarrow> do { (ms, r'') \<leftarrow> read_num 3 r'; Some (sec, ms, r'') }
        })"

definition time_value :: "int \<Rightarrow> int \<Rightarrow> int \<Rightarrow> nat \<Rightarrow> nat \<Rightarrow> nat \<Rightarrow> nat \<Rightarrow> int \<Rightarrow> int" where
  "time_value y m d hh mi sec ms off =
     days_of_civil y m d * 86400000 + int (((hh * 60 + mi) * 60 + sec) * 1000 + ms) - off * 60000"

definition parse_iso :: "string \<Rightarrow> int option" where
  "parse_iso s = do {
     (y, s) \<leftarrow> read_year s;
     s \<leftarrow> read_char (CHR ''-'') s;
     (m, s) \<leftarrow> read_num 2 s;
     s \<leftarrow> read_char (CHR ''-'') s;
     (d, s) \<leftarrow> read_num 2 s;
     s \<leftarrow> read_char (CHR ''T'') s;
     (hh, s) \<leftarrow> read_num 2 s;
     s \<leftarrow> read_char (CHR '':'') s;
     (mi, s) \<leftarrow> read_num 2 s;
     (sec, ms, s) \<leftarrow> read_seconds s;
     off \<leftarrow> read_offset s;
     if 1 \<le> m \<and> m \<le> 12 \<and> 1 \<le> d \<and> d \<le> 31 \<and> hh \<le> 23 \<and> mi \<le> 59 \<and> sec \<le> 59
     then make_date (time_value y (int m) (int d) hh mi sec ms off) else None }"

text \<open>\<open>Date.parse\<close> and \<open>new Date(string)\<close>: \<open>None\<close> is not a number, an invalid date.\<close>

definition date_parse :: "host \<Rightarrow> string \<Rightarrow> int option" where
  "date_parse h s = (case parse_iso s of Some t \<Rightarrow> Some t | None \<Rightarrow> h_date_fallback h s)"

text \<open>\<open>new Date(string).toISOString()\<close> throws on an invalid date.\<close>

definition to_iso_of_string :: "host \<Rightarrow> string \<Rightarrow> string result" where
  "to_iso_of_string h s = (case date_parse h s of None \<Rightarrow> Inl RangeError | Some t \<Rightarrow> Inr (to_iso t))"

definition date_to_iso :: "int option \<Rightarrow> string result" where
  "date_to_iso d = (case d of None \<Rightarrow> Inl RangeError | Some t \<Rightarrow> Inr (to_iso t))"

section \<open>The round trip\<close>

lemma read_num_pad [simp]: "n < 10 ^ w \<Longrightarrow> read_num w (pad_dec w n @ s) = Some (n, s)"
  by (simp add: read_num_def dec_val_pad_dec pad_dec_digits)

lemma read_char_same [simp]: "read_char c (c # s) = Some s"
  by (simp add: read_char_def)

lemma pad_dec_4_head: "pad_dec 4 n = c # r \<Longrightarrow> c \<noteq> CHR ''+'' \<and> c \<noteq> CHR ''-''"
  using pad_dec_digits[of 4 n] by (auto simp: is_digit_def)

lemma read_year_iso:
  assumes "- 999999 \<le> y" "y \<le> 999999"
  shows "read_year (iso_year y @ s) = Some (y, s)"
proof (cases "0 \<le> y \<and> y \<le> 9999")
  case True
  obtain c r where cr: "pad_dec 4 (nat y) = c # r"
    by (metis length_0_conv length_pad_dec neq_Nil_conv zero_neq_numeral)
  have "read_year (iso_year y @ s) = map_option (map_prod int id) (read_num 4 (pad_dec 4 (nat y) @ s))"
    using True cr pad_dec_4_head[OF cr] by (simp add: read_year_def iso_year_def)
  moreover have "read_num 4 (pad_dec 4 (nat y) @ s) = Some (nat y, s)"
    using True by (intro read_num_pad) (simp add: nat_less_iff)
  ultimately show ?thesis using True by simp
next
  case False
  then have "nat \<bar>y\<bar> < 10 ^ 6" using assms by auto
  then have "read_num 6 (pad_dec 6 (nat \<bar>y\<bar>) @ s) = Some (nat \<bar>y\<bar>, s)" by (rule read_num_pad)
  with False show ?thesis by (auto simp: read_year_def iso_year_def)
qed

lemma day_parts:
  fixes r :: nat
  assumes "r < 86400000"
  shows "((r div 3600000 * 60 + r div 60000 mod 60) * 60 + r div 1000 mod 60) * 1000 + r mod 1000 = r"
    and "r div 3600000 \<le> 23"
proof -
  have "r div 60000 = r div 3600000 * 60 + r div 60000 mod 60"
    using div_mult_mod_eq[of "r div 60000" 60] by (simp add: div_mult2_eq[symmetric])
  moreover have "r div 1000 = r div 60000 * 60 + r div 1000 mod 60"
    using div_mult_mod_eq[of "r div 1000" 60] by (simp add: div_mult2_eq[symmetric])
  ultimately show "((r div 3600000 * 60 + r div 60000 mod 60) * 60 + r div 1000 mod 60) * 1000 + r mod 1000 = r"
    using div_mult_mod_eq[of r 1000] by simp
  show "r div 3600000 \<le> 23" using assms by linarith
qed

theorem parse_iso_to_iso: "valid_time t \<Longrightarrow> parse_iso (to_iso t) = Some t"
proof -
  assume v: "valid_time t"
  obtain y m d where c: "civil_of_days (t div 86400000) = (y, m, d)"
    by (cases "civil_of_days (t div 86400000)") auto
  define r where "r = nat (t mod 86400000)"
  have r: "r < 86400000" and t: "t = t div 86400000 * 86400000 + int r"
    by (simp_all add: r_def)
  note b = civil_of_days_bounds[OF c] and days = days_of_civil_of_days[OF c]
  have y: "- 999999 \<le> y" "y \<le> 999999"
    using civil_year_bounds[OF c] v by (auto simp: valid_time_def max_time_def)
  have md: "nat m < 10 ^ 2" "nat d < 10 ^ 2" "1 \<le> nat m" "nat m \<le> 12" "1 \<le> nat d" "nat d \<le> 31"
    "int (nat m) = m" "int (nat d) = d"
    using b by auto
  have parts: "r div 3600000 < 10 ^ 2" "r div 60000 mod 60 < 10 ^ 2" "r div 1000 mod 60 < 10 ^ 2"
    "r mod 1000 < 10 ^ 3" "r div 60000 mod 60 \<le> 59" "r div 1000 mod 60 \<le> 59"
    using day_parts(2)[OF r] by (simp_all add: le_simps(2)[symmetric])
  have tv: "time_value y (int (nat m)) (int (nat d)) (r div 3600000) (r div 60000 mod 60)
      (r div 1000 mod 60) (r mod 1000) 0 = t"
    unfolding time_value_def md(7,8) days day_parts(1)[OF r] using t by simp
  have "to_iso t = iso_year y @ CHR ''-'' # pad_dec 2 (nat m) @ CHR ''-'' # pad_dec 2 (nat d) @ CHR ''T'' #
      pad_dec 2 (r div 3600000) @ CHR '':'' # pad_dec 2 (r div 60000 mod 60) @ CHR '':'' #
      pad_dec 2 (r div 1000 mod 60) @ CHR ''.'' # pad_dec 3 (r mod 1000) @ ''Z''"
    by (simp add: to_iso_def c Let_def r_def)
  then show ?thesis
    using md(1-6) parts day_parts(2)[OF r] tv v
    by (simp add: parse_iso_def read_year_iso y read_seconds_def read_offset_def make_date_def)
qed

theorem date_parse_to_iso [simp]: "valid_time t \<Longrightarrow> date_parse h (to_iso t) = Some t"
  by (simp add: date_parse_def parse_iso_to_iso)

corollary to_iso_inject: "valid_time s \<Longrightarrow> valid_time t \<Longrightarrow> to_iso s = to_iso t \<longleftrightarrow> s = t"
  by (metis option.inject parse_iso_to_iso)

lemma to_iso_nonempty: "to_iso t \<noteq> []"
  by (auto simp: to_iso_def Let_def split: prod.split)

lemma to_iso_of_to_iso [simp]: "valid_time t \<Longrightarrow> to_iso_of_string h (to_iso t) = Inr (to_iso t)"
  by (simp add: to_iso_of_string_def)

text \<open>Comparisons of parsed dates, false when one is not a number.\<close>

definition date_less :: "int option \<Rightarrow> int option \<Rightarrow> bool" where
  "date_less a b = (case (a, b) of (Some x, Some y) \<Rightarrow> x < y | _ \<Rightarrow> False)"

definition date_le :: "int option \<Rightarrow> int option \<Rightarrow> bool" where
  "date_le a b = (case (a, b) of (Some x, Some y) \<Rightarrow> x \<le> y | _ \<Rightarrow> False)"

lemma date_less_simps [simp]:
  "date_less (Some x) (Some y) \<longleftrightarrow> x < y" "\<not> date_less None b" "\<not> date_less a None"
  "date_le (Some x) (Some y) \<longleftrightarrow> x \<le> y" "\<not> date_le None b" "\<not> date_le a None"
  by (auto simp: date_less_def date_le_def split: option.splits)

text \<open>\<open>new Date(Math.max(...values.map(Date.parse))).toISOString()\<close>.\<close>

fun max_times :: "int option list \<Rightarrow> int option" where
  "max_times [] = None"
| "max_times [x] = x"
| "max_times (x # xs) = (case (x, max_times xs) of (Some a, Some b) \<Rightarrow> Some (max a b) | _ \<Rightarrow> None)"

end
