(* ===== verification/Delivery_Model.thy ===== *)
theory Delivery_Model
  imports Iso_Time
begin

text \<open>
  The provider-neutral delivery records of \<open>src/core/delivery-model.ts\<close>: the enumerations,
  one record type per schema, and one executable predicate per schema that says what its
  \<open>parse\<close> accepts (\<open>parse\<close> returns its argument or throws). The literal fields
  \<open>schema_version\<close> and \<open>record_type\<close> have one value each and are left out of the records.
  The identities of outbox items and provider events are built as in the source, and
  shown to be injective.
\<close>

section \<open>Enumerations\<close>

datatype envelope_role = Role_to | Role_cc | Role_bcc

fun role_str :: "envelope_role \<Rightarrow> string" where
  "role_str Role_to = ''to''"
| "role_str Role_cc = ''cc''"
| "role_str Role_bcc = ''bcc''"

datatype diagnostic_category =
    Application_error | Invalid_data | Network_dns | Network_refused | Network_reset
  | Provider_error | Provider_rejected | Provider_throttled | Provider_unavailable | Timeout

fun category_str :: "diagnostic_category \<Rightarrow> string" where
  "category_str Application_error = ''application_error''"
| "category_str Invalid_data = ''invalid_data''"
| "category_str Network_dns = ''network_dns''"
| "category_str Network_refused = ''network_refused''"
| "category_str Network_reset = ''network_reset''"
| "category_str Provider_error = ''provider_error''"
| "category_str Provider_rejected = ''provider_rejected''"
| "category_str Provider_throttled = ''provider_throttled''"
| "category_str Provider_unavailable = ''provider_unavailable''"
| "category_str Timeout = ''timeout''"

definition all_categories :: "diagnostic_category list" where
  "all_categories = [Application_error, Invalid_data, Network_dns, Network_refused, Network_reset,
     Provider_error, Provider_rejected, Provider_throttled, Provider_unavailable, Timeout]"

text \<open>Membership of a text in the enumeration, with the member it names.\<close>

definition category_of_str :: "string \<Rightarrow> diagnostic_category option" where
  "category_of_str s = find (\<lambda>c. category_str c = s) all_categories"

lemma category_of_str_str [simp]: "category_of_str (category_str c) = Some c"
  by (cases c) (simp_all add: category_of_str_def all_categories_def)

datatype message_status =
    Msg_queued | Msg_scheduled | Msg_sending | Msg_accepted | Msg_partially_delivered
  | Msg_delivered | Msg_delivery_delayed | Msg_bounced | Msg_complained | Msg_failed
  | Msg_canceled | Msg_suppressed

fun message_status_str :: "message_status \<Rightarrow> string" where
  "message_status_str Msg_queued = ''queued''"
| "message_status_str Msg_scheduled = ''scheduled''"
| "message_status_str Msg_sending = ''sending''"
| "message_status_str Msg_accepted = ''accepted''"
| "message_status_str Msg_partially_delivered = ''partially_delivered''"
| "message_status_str Msg_delivered = ''delivered''"
| "message_status_str Msg_delivery_delayed = ''delivery_delayed''"
| "message_status_str Msg_bounced = ''bounced''"
| "message_status_str Msg_complained = ''complained''"
| "message_status_str Msg_failed = ''failed''"
| "message_status_str Msg_canceled = ''canceled''"
| "message_status_str Msg_suppressed = ''suppressed''"

datatype recipient_status =
    Rc_queued | Rc_sending | Rc_accepted | Rc_delivery_delayed | Rc_delivered | Rc_opened
  | Rc_clicked | Rc_bounced | Rc_complained | Rc_rejected | Rc_failed | Rc_suppressed | Rc_canceled

datatype attempt_status =
    At_pending | At_submitting | At_accepted | At_ambiguous | At_retryable_failed | At_permanent_failed

datatype provider_event_type =
    Ev_accepted | Ev_delivered | Ev_delayed | Ev_bounced | Ev_complained | Ev_rejected
  | Ev_opened | Ev_clicked | Ev_failed

fun event_type_str :: "provider_event_type \<Rightarrow> string" where
  "event_type_str Ev_accepted = ''accepted''"
| "event_type_str Ev_delivered = ''delivered''"
| "event_type_str Ev_delayed = ''delayed''"
| "event_type_str Ev_bounced = ''bounced''"
| "event_type_str Ev_complained = ''complained''"
| "event_type_str Ev_rejected = ''rejected''"
| "event_type_str Ev_opened = ''opened''"
| "event_type_str Ev_clicked = ''clicked''"
| "event_type_str Ev_failed = ''failed''"

datatype outbox_job_type = Dispatch_message | Wake_scheduled_message | Reconcile_message

fun job_type_str :: "outbox_job_type \<Rightarrow> string" where
  "job_type_str Dispatch_message = ''dispatch-message''"
| "job_type_str Wake_scheduled_message = ''wake-scheduled-message''"
| "job_type_str Reconcile_message = ''reconcile-message''"

datatype event_source = Provider_event_id string | Normalized_event_digest string

section \<open>Records\<close>

record provider_reference =
  pr_name :: string
  pr_adapter_version :: string
  pr_capability_version :: string

record message_record =
  msg_id :: string
  msg_provider :: provider_reference
  msg_intent_digest :: string
  msg_recipient_ids :: "string list"
  msg_status :: message_status
  msg_created_at :: string
  msg_updated_at :: string
  msg_scheduled_at :: "string option"

record recipient_record =
  rc_id :: string
  rc_message_id :: string
  rc_role :: envelope_role
  rc_ordinal :: int
  rc_address :: string
  rc_status :: recipient_status
  rc_latest_attempt_id :: "string option"
  rc_created_at :: string
  rc_updated_at :: string

record attempt_record =
  at_id :: string
  at_message_id :: string
  at_recipient_ids :: "string list"
  at_sequence :: int
  at_provider :: provider_reference
  at_status :: attempt_status
  at_provider_message_id :: "string option"
  at_diagnostic_category :: "diagnostic_category option"
  at_started_at :: string
  at_completed_at :: "string option"

record event_record =
  ev_id :: string
  ev_provider :: provider_reference
  ev_source :: event_source
  ev_message_id :: string
  ev_attempt_id :: "string option"
  ev_recipient_ids :: "string list"
  ev_provider_message_id :: "string option"
  ev_type :: provider_event_type
  ev_provider_at :: string
  ev_received_at :: string
  ev_terminal :: bool
  ev_diagnostic_category :: "diagnostic_category option"

record outbox_record =
  ob_id :: string
  ob_message_id :: string
  ob_job_type :: outbox_job_type
  ob_generation :: int
  ob_due_at :: string
  ob_attempts :: int
  ob_lease_owner :: "string option"
  ob_lease_expires_at :: "string option"
  ob_dispatched_at :: "string option"
  ob_last_diagnostic_category :: "diagnostic_category option"
  ob_created_at :: string
  ob_updated_at :: string

section \<open>Formats of the string fields\<close>

text \<open>An optional field is absent or satisfies its format.\<close>

definition opt_ok :: "('a \<Rightarrow> bool) \<Rightarrow> 'a option \<Rightarrow> bool" where
  "opt_ok p x = (case x of None \<Rightarrow> True | Some v \<Rightarrow> p v)"

lemma opt_ok_simps [simp]: "opt_ok p None" "opt_ok p (Some v) = p v"
  by (simp_all add: opt_ok_def)

text \<open>\<open>0|[1-9]\d*\<close>\<close>

definition is_num_identifier :: "string \<Rightarrow> bool" where
  "is_num_identifier s \<longleftrightarrow>
     s = ''0'' \<or> (s \<noteq> [] \<and> list_all is_digit s \<and> hd s \<noteq> CHR ''0'')"

text \<open>The core of a version has no hyphen, so the suffix begins at the first one.\<close>

definition is_semver :: "string \<Rightarrow> bool" where
  "is_semver s \<longleftrightarrow>
     (let core = takeWhile (\<lambda>c. c \<noteq> CHR ''-'') s; suffix = dropWhile (\<lambda>c. c \<noteq> CHR ''-'') s
      in length (split_on CHR ''.'' core) = 3 \<and> list_all is_num_identifier (split_on CHR ''.'' core)
       \<and> (suffix = [] \<or> (tl suffix \<noteq> [] \<and>
            list_all (\<lambda>c. is_alnum c \<or> c = CHR ''.'' \<or> c = CHR ''-'') (tl suffix))))"

definition is_provider_name :: "string \<Rightarrow> bool" where
  "is_provider_name s \<longleftrightarrow>
     2 \<le> length s \<and> length s \<le> 64 \<and> is_lower (hd s)
   \<and> list_all (\<lambda>c. is_lower c \<or> is_digit c \<or> c = CHR ''-'') (tl s)"

definition is_sha256_hex :: "string \<Rightarrow> bool" where
  "is_sha256_hex s \<longleftrightarrow> length s = 64 \<and> list_all is_hex_lower s"

definition is_prefixed_id :: "string \<Rightarrow> nat \<Rightarrow> nat \<Rightarrow> string \<Rightarrow> bool" where
  "is_prefixed_id p lo hi s \<longleftrightarrow>
     starts_with p s \<and> (let r = drop (length p) s in lo \<le> length r \<and> length r \<le> hi \<and> list_all is_id_char r)"

definition is_message_id :: "string \<Rightarrow> bool" where
  "is_message_id = is_prefixed_id ''email_'' 16 128"

definition is_recipient_id :: "string \<Rightarrow> bool" where
  "is_recipient_id = is_prefixed_id ''rcpt_'' 22 128"

definition is_attempt_id :: "string \<Rightarrow> bool" where
  "is_attempt_id = is_prefixed_id ''attempt_'' 22 128"

definition is_opaque_char :: "char \<Rightarrow> bool" where
  "is_opaque_char c \<longleftrightarrow> (33 \<le> code c \<and> code c \<le> 63) \<or> (65 \<le> code c \<and> code c \<le> 126)"

definition is_provider_opaque_id :: "string \<Rightarrow> bool" where
  "is_provider_opaque_id s \<longleftrightarrow> s \<noteq> [] \<and> length s \<le> 512 \<and> list_all is_opaque_char s"

definition is_provider_message_id :: "string \<Rightarrow> bool" where
  "is_provider_message_id s \<longleftrightarrow>
     s \<noteq> [] \<and> length s \<le> 512 \<and> list_all (\<lambda>c. 33 \<le> code c \<and> code c \<le> 126) s"

text \<open>The segment after the version is up to the next colon; the last may hold colons.\<close>

definition is_provider_event_identity :: "string \<Rightarrow> bool" where
  "is_provider_event_identity s \<longleftrightarrow>
     s \<noteq> [] \<and> js_length s \<le> 2048 \<and> starts_with ''provider-event:v1:'' s
   \<and> (let r = drop 18 s; seg = takeWhile (\<lambda>c. c \<noteq> CHR '':'') r; r' = dropWhile (\<lambda>c. c \<noteq> CHR '':'') r;
          v = (if starts_with '':id:'' r' then drop 4 r' else if starts_with '':digest:'' r' then drop 8 r' else [])
      in seg \<noteq> [] \<and> v \<noteq> [] \<and> list_all (\<lambda>p. \<not> is_line_terminator p) (code_points v))"

definition is_job_segment :: "string \<Rightarrow> bool" where
  "is_job_segment s \<longleftrightarrow>
     2 \<le> length s \<and> is_lower (hd s) \<and> list_all (\<lambda>c. is_lower c \<or> is_digit c \<or> c = CHR ''-'') (tl s)"

definition is_outbox_identity :: "string \<Rightarrow> bool" where
  "is_outbox_identity s \<longleftrightarrow>
     s \<noteq> [] \<and> js_length s \<le> 512
   \<and> (case split_on CHR '':'' s of
        [a, b, m, j, g] \<Rightarrow> a = ''outbox'' \<and> b = ''v1'' \<and> m \<noteq> [] \<and> is_job_segment j
          \<and> g \<noteq> [] \<and> list_all is_digit g
      | _ \<Rightarrow> False)"

text \<open>\<open>z.number().int()\<close> takes the integers a double holds exactly.\<close>

definition is_safe_int :: "int \<Rightarrow> bool" where
  "is_safe_int n \<longleftrightarrow> - 9007199254740991 \<le> n \<and> n \<le> 9007199254740991"

definition unique_values :: "string list \<Rightarrow> bool" where
  "unique_values xs \<longleftrightarrow> distinct xs"

definition updated_at_ok :: "host \<Rightarrow> string \<Rightarrow> string \<Rightarrow> bool" where
  "updated_at_ok h created updated \<longleftrightarrow> \<not> date_less (date_parse h updated) (date_parse h created)"

section \<open>Identities\<close>

fun event_source_ok :: "event_source \<Rightarrow> bool" where
  "event_source_ok (Provider_event_id v) = is_provider_opaque_id v"
| "event_source_ok (Normalized_event_digest v) = is_sha256_hex v"

fun source_kind_str :: "event_source \<Rightarrow> string" where
  "source_kind_str (Provider_event_id _) = ''id''"
| "source_kind_str (Normalized_event_digest _) = ''digest''"

fun source_value :: "event_source \<Rightarrow> string" where
  "source_value (Provider_event_id v) = v"
| "source_value (Normalized_event_digest v) = v"

definition createProviderEventIdentity :: "string \<Rightarrow> event_source \<Rightarrow> string result" where
  "createProviderEventIdentity provider source =
     bindE (checkE is_provider_name ZodError provider) (\<lambda>provider.
     bindE (checkE event_source_ok ZodError source) (\<lambda>source.
     checkE is_provider_event_identity ZodError
       (join_with '':'' [''provider-event'', ''v1'', encode_uri_component provider,
          source_kind_str source, encode_uri_component (source_value source)])))"

definition createOutboxIdentity :: "string \<Rightarrow> outbox_job_type \<Rightarrow> int \<Rightarrow> string result" where
  "createOutboxIdentity message_id job_type generation =
     bindE (checkE is_message_id ZodError message_id) (\<lambda>message_id.
     bindE (checkE (\<lambda>g. is_safe_int g \<and> 0 \<le> g) ZodError generation) (\<lambda>generation.
     checkE is_outbox_identity ZodError
       (join_with '':'' [''outbox'', ''v1'', encode_uri_component message_id,
          job_type_str job_type, int_dec generation])))"

section \<open>Schemas\<close>

definition provider_reference_ok :: "provider_reference \<Rightarrow> bool" where
  "provider_reference_ok p \<longleftrightarrow>
     is_provider_name (pr_name p) \<and> is_semver (pr_adapter_version p) \<and> is_semver (pr_capability_version p)"

definition message_ok :: "host \<Rightarrow> message_record \<Rightarrow> bool" where
  "message_ok h m \<longleftrightarrow>
     is_message_id (msg_id m) \<and> provider_reference_ok (msg_provider m) \<and> is_sha256_hex (msg_intent_digest m)
   \<and> list_all is_recipient_id (msg_recipient_ids m) \<and> 1 \<le> length (msg_recipient_ids m)
   \<and> h_datetime h (msg_created_at m) \<and> h_datetime h (msg_updated_at m) \<and> opt_ok (h_datetime h) (msg_scheduled_at m)
   \<and> updated_at_ok h (msg_created_at m) (msg_updated_at m) \<and> unique_values (msg_recipient_ids m)"

definition recipient_ok :: "host \<Rightarrow> recipient_record \<Rightarrow> bool" where
  "recipient_ok h r \<longleftrightarrow>
     is_recipient_id (rc_id r) \<and> is_message_id (rc_message_id r) \<and> is_safe_int (rc_ordinal r) \<and> 0 \<le> rc_ordinal r
   \<and> h_email h (rc_address r) \<and> js_length (rc_address r) \<le> 320 \<and> opt_ok is_attempt_id (rc_latest_attempt_id r)
   \<and> h_datetime h (rc_created_at r) \<and> h_datetime h (rc_updated_at r)
   \<and> updated_at_ok h (rc_created_at r) (rc_updated_at r)"

definition attempt_ok :: "host \<Rightarrow> attempt_record \<Rightarrow> bool" where
  "attempt_ok h a \<longleftrightarrow>
     is_attempt_id (at_id a) \<and> is_message_id (at_message_id a)
   \<and> list_all is_recipient_id (at_recipient_ids a) \<and> 1 \<le> length (at_recipient_ids a)
   \<and> is_safe_int (at_sequence a) \<and> 0 < at_sequence a \<and> provider_reference_ok (at_provider a)
   \<and> opt_ok is_provider_message_id (at_provider_message_id a)
   \<and> h_datetime h (at_started_at a) \<and> opt_ok (h_datetime h) (at_completed_at a)
   \<and> unique_values (at_recipient_ids a)
   \<and> (at_status a \<notin> {At_pending, At_submitting}) = (at_completed_at a \<noteq> None)
   \<and> opt_ok (\<lambda>c. \<not> date_less (date_parse h c) (date_parse h (at_started_at a))) (at_completed_at a)
   \<and> (at_status a \<in> {At_retryable_failed, At_permanent_failed}) = (at_diagnostic_category a \<noteq> None)"

definition event_ok :: "host \<Rightarrow> event_record \<Rightarrow> bool" where
  "event_ok h e \<longleftrightarrow>
     is_provider_event_identity (ev_id e) \<and> provider_reference_ok (ev_provider e) \<and> event_source_ok (ev_source e)
   \<and> is_message_id (ev_message_id e) \<and> opt_ok is_attempt_id (ev_attempt_id e)
   \<and> list_all is_recipient_id (ev_recipient_ids e) \<and> opt_ok is_provider_message_id (ev_provider_message_id e)
   \<and> h_datetime h (ev_provider_at e) \<and> h_datetime h (ev_received_at e)
   \<and> unique_values (ev_recipient_ids e)
   \<and> createProviderEventIdentity (pr_name (ev_provider e)) (ev_source e) = Inr (ev_id e)"

definition outbox_ok :: "host \<Rightarrow> outbox_record \<Rightarrow> bool" where
  "outbox_ok h o' \<longleftrightarrow>
     is_outbox_identity (ob_id o') \<and> is_message_id (ob_message_id o')
   \<and> is_safe_int (ob_generation o') \<and> 0 \<le> ob_generation o' \<and> h_datetime h (ob_due_at o')
   \<and> is_safe_int (ob_attempts o') \<and> 0 \<le> ob_attempts o' \<and> opt_ok is_provider_opaque_id (ob_lease_owner o')
   \<and> opt_ok (h_datetime h) (ob_lease_expires_at o') \<and> opt_ok (h_datetime h) (ob_dispatched_at o')
   \<and> h_datetime h (ob_created_at o') \<and> h_datetime h (ob_updated_at o')
   \<and> updated_at_ok h (ob_created_at o') (ob_updated_at o')
   \<and> createOutboxIdentity (ob_message_id o') (ob_job_type o') (ob_generation o') = Inr (ob_id o')
   \<and> (ob_lease_owner o' = None) = (ob_lease_expires_at o' = None)
   \<and> \<not> (ob_dispatched_at o' \<noteq> None \<and> ob_lease_owner o' \<noteq> None)"

definition parse_message :: "host \<Rightarrow> message_record \<Rightarrow> message_record result" where
  "parse_message h = checkE (message_ok h) ZodError"

definition parse_recipient :: "host \<Rightarrow> recipient_record \<Rightarrow> recipient_record result" where
  "parse_recipient h = checkE (recipient_ok h) ZodError"

definition parse_attempt :: "host \<Rightarrow> attempt_record \<Rightarrow> attempt_record result" where
  "parse_attempt h = checkE (attempt_ok h) ZodError"

definition parse_event :: "host \<Rightarrow> event_record \<Rightarrow> event_record result" where
  "parse_event h = checkE (event_ok h) ZodError"

definition parse_outbox :: "host \<Rightarrow> outbox_record \<Rightarrow> outbox_record result" where
  "parse_outbox h = checkE (outbox_ok h) ZodError"

lemmas parse_defs = parse_message_def parse_recipient_def parse_attempt_def parse_event_def parse_outbox_def

text \<open>Serialised equality without \<open>received_at\<close>: the parsed records agree on every other field.\<close>

definition isEquivalentProviderEventReplay :: "host \<Rightarrow> event_record \<Rightarrow> event_record \<Rightarrow> bool result" where
  "isEquivalentProviderEventReplay h l r =
     bindE (parse_event h l) (\<lambda>l. bindE (parse_event h r) (\<lambda>r.
       Inr (l\<lparr>ev_received_at := []\<rparr> = r\<lparr>ev_received_at := []\<rparr>)))"

section \<open>Lemmas\<close>

lemma id_chars_unreserved: "is_id_char c \<Longrightarrow> is_uri_unreserved c"
  by (auto simp: is_id_char_def is_uri_unreserved_def)

lemma prefixed_id_unreserved:
  assumes "is_prefixed_id p lo hi s" "list_all is_id_char p"
  shows "list_all is_uri_unreserved s"
proof -
  obtain r where s: "s = p @ r" using assms(1) by (auto simp: is_prefixed_id_def starts_with_iff)
  with assms have "list_all is_id_char s" by (simp add: is_prefixed_id_def Let_def)
  then show ?thesis by (auto simp: list_all_iff intro: id_chars_unreserved)
qed

lemma message_id_encode [simp]: "is_message_id s \<Longrightarrow> encode_uri_component s = s"
  unfolding is_message_id_def
  by (intro encode_uri_unreserved prefixed_id_unreserved) (assumption, simp add: char_class_defs)

lemma unreserved_ascii: "is_uri_unreserved c \<Longrightarrow> code c < 128"
  by (auto simp: is_uri_unreserved_def char_class_defs)

lemma message_id_length: "is_message_id s \<Longrightarrow> length s \<le> 134 \<and> s \<noteq> []"
  by (auto simp: is_message_id_def is_prefixed_id_def starts_with_iff Let_def)

lemma message_id_ascii: "is_message_id s \<Longrightarrow> is_ascii s"
  using prefixed_id_unreserved[of "''email_''" 16 128 s]
  by (auto simp: is_message_id_def is_ascii_def list_all_iff char_class_defs intro: unreserved_ascii)

lemma colon_notin_message_id: "is_message_id s \<Longrightarrow> CHR '':'' \<notin> set s"
  by (metis message_id_encode colon_notin_encode)

lemma colon_notin_nat_dec [simp]: "CHR '':'' \<notin> set (nat_dec n)"
  using nat_dec_digits[of n] by (auto simp: list_all_iff is_digit_def)

lemma colon_notin_int_dec [simp]: "CHR '':'' \<notin> set (int_dec n)"
  by (simp add: int_dec_def)

lemma int_dec_inject: "0 \<le> m \<Longrightarrow> 0 \<le> n \<Longrightarrow> int_dec m = int_dec n \<longleftrightarrow> m = n"
  by (auto simp: int_dec_def)

lemma job_type_str_inject [simp]: "job_type_str a = job_type_str b \<longleftrightarrow> a = b"
  by (cases a; cases b) simp_all

lemma colon_notin_job_type [simp]: "CHR '':'' \<notin> set (job_type_str j)"
  by (cases j) simp_all

lemma is_job_segment_str [simp]: "is_job_segment (job_type_str j)"
  by (cases j) (simp_all add: is_job_segment_def char_class_defs)

lemma createOutboxIdentity_InrD:
  assumes "createOutboxIdentity m j g = Inr i"
  shows "is_message_id m \<and> 0 \<le> g \<and> i = join_with '':'' [''outbox'', ''v1'', m, job_type_str j, int_dec g]"
  using assms by (auto simp: createOutboxIdentity_def bindE_Inr_iff)

lemma outbox_segments:
  "is_message_id m \<Longrightarrow>
     split_on CHR '':'' (join_with '':'' [''outbox'', ''v1'', m, job_type_str j, int_dec g])
       = [''outbox'', ''v1'', m, job_type_str j, int_dec g]"
  by (intro split_on_join) (simp_all add: colon_notin_message_id)

lemma nat_dec_length: "n < 10 ^ w \<Longrightarrow> 0 < w \<Longrightarrow> length (nat_dec n) \<le> w"
proof (induction w arbitrary: n)
  case (Suc w)
  show ?case
  proof (cases "n < 10")
    case True
    then show ?thesis by (subst nat_dec.simps) simp
  next
    case False
    then have "0 < w" using Suc.prems(1) by (cases w) auto
    moreover have "n div 10 < 10 ^ w" using Suc.prems(1) by (simp add: less_mult_imp_div_less mult.commute)
    ultimately show ?thesis using False Suc.IH by (subst nat_dec.simps) simp
  qed
qed simp

lemma ascii_append [simp]: "is_ascii (s @ t) \<longleftrightarrow> is_ascii s \<and> is_ascii t"
  by (simp add: is_ascii_def)

lemma ascii_Cons [simp]: "is_ascii (c # s) \<longleftrightarrow> code c < 128 \<and> is_ascii s"
  by (simp add: is_ascii_def)

lemma ascii_Nil [simp]: "is_ascii []"
  by (simp add: is_ascii_def)

lemma ascii_nat_dec: "is_ascii (nat_dec n)"
  using nat_dec_digits[of n] by (auto simp: is_ascii_def list_all_iff is_digit_def)

lemma ascii_job_type [simp]: "is_ascii (job_type_str j)"
  by (cases j) simp_all

lemma length_job_type: "length (job_type_str j) \<le> 22"
  by (cases j) simp_all

text \<open>Every valid message ID and generation has an outbox identity.\<close>

lemma createOutboxIdentity_total:
  assumes "is_message_id m" "0 \<le> g" "is_safe_int g"
  shows "createOutboxIdentity m j g = Inr (join_with '':'' [''outbox'', ''v1'', m, job_type_str j, int_dec g])"
    (is "_ = Inr ?i")
proof -
  have g: "int_dec g = nat_dec (nat g)" using assms(2) by (simp add: int_dec_def)
  have "nat g < 10 ^ 16" using assms(2,3) by (auto simp: is_safe_int_def)
  then have "length (int_dec g) \<le> 16" using nat_dec_length[of "nat g" 16] by (simp add: g)
  then have "length ?i \<le> 512"
    using message_id_length[OF assms(1)] length_job_type[of j] by simp
  moreover have "is_ascii ?i"
    using message_id_ascii[OF assms(1)] by (simp add: g ascii_nat_dec)
  ultimately have "js_length ?i \<le> 512" by (simp add: js_length_ascii del: join_with.simps)
  moreover have "list_all is_digit (int_dec g)" "int_dec g \<noteq> []"
    by (simp_all add: g nat_dec_digits)
  ultimately have "is_outbox_identity ?i"
    unfolding is_outbox_identity_def outbox_segments[OF assms(1)]
    using message_id_length[OF assms(1)] by simp
  then show ?thesis
    using assms by (simp add: createOutboxIdentity_def checkE_def del: join_with.simps)
qed

lemma colon_notin_provider_name: "is_provider_name s \<Longrightarrow> CHR '':'' \<notin> set s"
proof -
  assume p: "is_provider_name s"
  then obtain c t where "s = c # t" by (cases s) (auto simp: is_provider_name_def)
  with p show ?thesis by (auto simp: is_provider_name_def list_all_iff char_class_defs)
qed

lemma createProviderEventIdentity_InrD:
  assumes "createProviderEventIdentity p s = Inr i"
  shows "i = join_with '':'' [''provider-event'', ''v1'', encode_uri_component p,
    source_kind_str s, encode_uri_component (source_value s)]"
  using assms by (auto simp: createProviderEventIdentity_def bindE_Inr_iff)

lemma event_source_eqI: "source_kind_str s = source_kind_str t \<Longrightarrow> source_value s = source_value t \<Longrightarrow> s = t"
  by (cases s; cases t) simp_all

lemma colon_notin_source_kind [simp]: "CHR '':'' \<notin> set (source_kind_str s)"
  by (cases s) simp_all

text \<open>
  Outbox identities are collision-free: two deliveries whose identity is the same are
  the same logical operation, the same message, job type and generation. A reconciler that
  publishes a job again after a crash can therefore be deduplicated by the identity alone.
\<close>

theorem outbox_identity_injective:
  assumes "createOutboxIdentity m1 j1 g1 = Inr i" and "createOutboxIdentity m2 j2 g2 = Inr i"
  shows "m1 = m2 \<and> j1 = j2 \<and> g1 = g2"
proof -
  note d = createOutboxIdentity_InrD[OF assms(1)] createOutboxIdentity_InrD[OF assms(2)]
  then have "[''outbox'', ''v1'', m1, job_type_str j1, int_dec g1] = [''outbox'', ''v1'', m2, job_type_str j2, int_dec g2]"
    using outbox_segments by metis
  with d show ?thesis by (simp add: int_dec_inject)
qed

theorem outbox_identity_injective_witness:
  "createOutboxIdentity ''email_0123456789abcdef'' Dispatch_message 0
     = Inr ''outbox:v1:email_0123456789abcdef:dispatch-message:0''
   \<and> createOutboxIdentity ''email_0123456789abcdef'' Dispatch_message 1
     \<noteq> Inr ''outbox:v1:email_0123456789abcdef:dispatch-message:0''
   \<and> (''email_0123456789abcdef'' = ''email_0123456789abcdef'' \<and> Dispatch_message = Dispatch_message \<and> (0 :: int) = 0)"
  (is "?i \<and> ?j \<and> ?k")
proof -
  have i: ?i by code_simp
  moreover have ?j using outbox_identity_injective[OF i] by force
  ultimately show ?thesis using outbox_identity_injective[OF i i] by blast
qed

text \<open>
  Provider event identities are collision-free across providers and sources: an
  event identity determines the provider's name and the event's source, so events of
  different providers, or of one provider with different event IDs or digests, are never
  taken for replays of each other.
\<close>

theorem provider_event_identity_injective:
  assumes "createProviderEventIdentity p1 s1 = Inr i" and "createProviderEventIdentity p2 s2 = Inr i"
  shows "p1 = p2 \<and> s1 = s2"
proof -
  let ?segs = "\<lambda>p s. [''provider-event'', ''v1'', encode_uri_component p, source_kind_str s,
      encode_uri_component (source_value s)]"
  have split: "split_on CHR '':'' (join_with '':'' (?segs p s)) = ?segs p s" for p s
    by (intro split_on_join) simp_all
  have "?segs p1 s1 = ?segs p2 s2"
    using createProviderEventIdentity_InrD[OF assms(1)] createProviderEventIdentity_InrD[OF assms(2)] split
    by metis
  then show ?thesis
    by (auto simp: encode_uri_component_inject intro: event_source_eqI)
qed

theorem provider_event_identity_injective_witness:
  "createProviderEventIdentity ''aws-ses'' (Provider_event_id ''sns:1'') = Inr ''provider-event:v1:aws-ses:id:sns%3A1''
   \<and> createProviderEventIdentity ''aws-ses'' (Normalized_event_digest ''sns:1'')
     \<noteq> Inr ''provider-event:v1:aws-ses:id:sns%3A1''
   \<and> (''aws-ses'' = ''aws-ses'' \<and> Provider_event_id ''sns:1'' = Provider_event_id ''sns:1'')"
  (is "?i \<and> ?j \<and> ?k")
proof -
  have i: ?i by code_simp
  moreover have ?j using provider_event_identity_injective[OF i] by force
  ultimately show ?thesis using provider_event_identity_injective[OF i i] by blast
qed

end
