(* ===== verification/Email_Types.thy ===== *)
theory Email_Types
  imports Delivery_Model
begin

text \<open>
  The data types of \<open>src/core/types.ts\<close>, one record or datatype per interface or union. An
  optional field is an \<open>option\<close>; an object used as a dictionary is a list of pairs in
  property order.
\<close>

section \<open>Statuses and events\<close>

datatype email_status =
    Em_queued | Em_scheduled | Em_sending | Em_sent | Em_delivered | Em_delivery_delayed
  | Em_opened | Em_clicked | Em_bounced | Em_complained | Em_failed | Em_canceled | Em_suppressed

fun email_status_str :: "email_status \<Rightarrow> string" where
  "email_status_str Em_queued = ''queued''"
| "email_status_str Em_scheduled = ''scheduled''"
| "email_status_str Em_sending = ''sending''"
| "email_status_str Em_sent = ''sent''"
| "email_status_str Em_delivered = ''delivered''"
| "email_status_str Em_delivery_delayed = ''delivery_delayed''"
| "email_status_str Em_opened = ''opened''"
| "email_status_str Em_clicked = ''clicked''"
| "email_status_str Em_bounced = ''bounced''"
| "email_status_str Em_complained = ''complained''"
| "email_status_str Em_failed = ''failed''"
| "email_status_str Em_canceled = ''canceled''"
| "email_status_str Em_suppressed = ''suppressed''"

datatype webhook_event_type =
    Wh_sent | Wh_delivered | Wh_delivery_delayed | Wh_opened | Wh_clicked | Wh_bounced
  | Wh_complained | Wh_failed | Wh_scheduled | Wh_suppressed | Wh_received

fun webhook_event_str :: "webhook_event_type \<Rightarrow> string" where
  "webhook_event_str Wh_sent = ''email.sent''"
| "webhook_event_str Wh_delivered = ''email.delivered''"
| "webhook_event_str Wh_delivery_delayed = ''email.delivery_delayed''"
| "webhook_event_str Wh_opened = ''email.opened''"
| "webhook_event_str Wh_clicked = ''email.clicked''"
| "webhook_event_str Wh_bounced = ''email.bounced''"
| "webhook_event_str Wh_complained = ''email.complained''"
| "webhook_event_str Wh_failed = ''email.failed''"
| "webhook_event_str Wh_scheduled = ''email.scheduled''"
| "webhook_event_str Wh_suppressed = ''email.suppressed''"
| "webhook_event_str Wh_received = ''email.received''"

datatype api_scope =
    Scope_all | Emails_send | Emails_read | Diagnostics_read | Templates_read | Templates_write
  | Domains_read | Domains_write | Webhooks_read | Webhooks_write | Suppressions_read
  | Suppressions_write | Api_keys_read | Api_keys_write

section \<open>API keys and suppressions\<close>

record authenticated_principal =
  ap_id :: string
  ap_name :: string
  ap_scopes :: "api_scope list"
  ap_bootstrap :: bool

record public_api_key =
  ak_id :: string
  ak_name :: string
  ak_prefix :: string
  ak_scopes :: "api_scope list"
  ak_created_at :: string
  ak_expires_at :: "string option"
  ak_revoked_at :: "string option"

text \<open>An API key record is the public key extended with the hash of its token.\<close>

record api_key_record = public_api_key +
  ak_key_hash :: string

datatype suppression_reason = Reason_bounce | Reason_complaint | Reason_manual

record suppression_record =
  sup_id :: string
  sup_email :: string
  sup_reason :: suppression_reason
  sup_created_at :: string
  sup_updated_at :: string
  sup_source_email_id :: "string option"
  sup_detail :: "string option"

section \<open>Emails\<close>

record email_tag =
  tag_name :: string
  tag_value :: string

datatype content_disposition = Inline_part | Attachment_part

record attachment_presentation =
  atp_content_type :: "string option"
  atp_content_id :: "string option"
  atp_content_disposition :: "content_disposition option"

record email_attachment = attachment_presentation +
  att_filename :: string
  att_content :: "string option"
  att_attachment_id :: "string option"
  att_object_key :: "string option"
  att_size_bytes :: "int option"
  att_checksum_sha256 :: "string option"

datatype attachment_input =
    Inline_attachment string string attachment_presentation
  | Uploaded_attachment string "string option" attachment_presentation

record attachment_upload_record =
  au_id :: string
  au_filename :: string
  au_content_type :: string
  au_size_bytes :: int
  au_checksum_sha256 :: string
  au_object_key :: string
  au_upload_token_hash :: string
  au_created_at :: string
  au_upload_expires_at :: string
  au_expires_at :: string

record attachment_object_reference =
  aor_object_key :: string
  aor_size_bytes :: int
  aor_checksum_sha256 :: string

datatype variable_value = Str_value string | Num_value js_number

record template_reference =
  tr_id :: string
  tr_variables :: "(string \<times> variable_value) list option"

text \<open>What the input and the record of an email share.\<close>

record email_content =
  em_to :: "string list"
  em_html :: "string option"
  em_text :: "string option"
  em_cc :: "string list option"
  em_bcc :: "string list option"
  em_reply_to :: "string list option"
  em_headers :: "(string \<times> string) list option"
  em_tags :: "email_tag list option"
  em_scheduled_at :: "string option"

record send_email_input = email_content +
  in_from :: "string option"
  in_subject :: "string option"
  in_template :: "template_reference option"
  in_attachments :: "attachment_input list option"

record email_record = email_content +
  em_from :: string
  em_subject :: string
  em_attachments :: "email_attachment list option"
  em_id :: string
  em_status :: email_status
  em_last_event :: string
  em_created_at :: string
  em_updated_at :: string
  em_provider_id :: "string option"
  em_request_hash :: string
  em_attempts :: int
  em_error :: "string option"
  em_send_lease_until :: "int option"
  em_payload_ref :: "string option"

record idempotency_claim =
  ic_key_hash :: string
  ic_request_hash :: string
  ic_expires_at :: int

record create_email_result =
  cer_record :: email_record
  cer_replayed :: bool

section \<open>Received emails\<close>

record received_email_attachment =
  rea_id :: string
  rea_filename :: string
  rea_size :: int
  rea_content_type :: string
  rea_content_disposition :: "content_disposition option"
  rea_content_id :: "string option"
  rea_object_key :: string

record received_email_record =
  re_id :: string
  re_provider_message_id :: string
  re_message_id :: string
  re_from :: string
  re_to :: "string list"
  re_received_for :: "string list"
  re_bcc :: "string list"
  re_cc :: "string list"
  re_reply_to :: "string list"
  re_subject :: string
  re_created_at :: string
  re_raw_object_key :: string
  re_content_object_key :: string
  re_attachments :: "received_email_attachment list"
  re_content_truncated :: bool
  re_expires_at :: string
  re_webhook_queued_at :: "string option"

section \<open>Templates\<close>

datatype template_variable_type = Var_string | Var_number

record template_variable =
  tv_id :: string
  tv_key :: string
  tv_type :: template_variable_type
  tv_fallback_value :: "variable_value option"
  tv_created_at :: string
  tv_updated_at :: string

record template_version =
  tver_id :: string
  tver_name :: string
  tver_html :: string
  tver_text :: "string option"
  tver_alias :: "string option"
  tver_from :: "string option"
  tver_subject :: "string option"
  tver_reply_to :: "string list option"
  tver_variables :: "template_variable list"
  tver_created_at :: string
  tver_source_version_id :: "string option"

datatype publication_source = Source_api | Source_cli

record publication_actor =
  pa_id :: string
  pa_name :: string

record template_publication =
  tp_id :: string
  tp_template_id :: string
  tp_version :: template_version
  tp_published_at :: string
  tp_expires_at :: string
  tp_actor :: publication_actor
  tp_source :: publication_source
  tp_source_version_id :: "string option"

record template_record =
  tmpl_id :: string
  tmpl_created_at :: string
  tmpl_updated_at :: string
  tmpl_revision :: int
  tmpl_draft :: template_version
  tmpl_published :: "template_version option"
  tmpl_published_at :: "string option"

section \<open>Domains\<close>

datatype dns_record_status = Dns_pending | Dns_verified | Dns_failed
datatype dns_purpose = Dns_SPF | Dns_DKIM | Dns_DMARC | Dns_MX
datatype dns_type = Dns_TXT | Dns_CNAME | Dns_type_MX

record domain_dns_record =
  dns_record :: dns_purpose
  dns_name :: string
  dns_kind :: dns_type
  dns_value :: string
  dns_status :: dns_record_status
  dns_priority :: "int option"

datatype domain_status = Dom_not_started | Dom_pending | Dom_verified | Dom_failed

record domain_record =
  dom_id :: string
  dom_name :: string
  dom_status :: domain_status
  dom_region :: string
  dom_created_at :: string
  dom_updated_at :: string
  dom_records :: "domain_dns_record list"

record domain_provider_result =
  dpr_status :: domain_status
  dpr_records :: "domain_dns_record list"

section \<open>Webhooks and jobs\<close>

datatype webhook_status = Wh_enabled | Wh_disabled

record public_webhook_endpoint =
  wh_id :: string
  wh_endpoint :: string
  wh_events :: "webhook_event_type list"
  wh_status :: webhook_status
  wh_created_at :: string

record webhook_endpoint = public_webhook_endpoint +
  wh_signing_secret :: string

text \<open>The data of an event is an open object: its fields in property order.\<close>

record webhook_event =
  we_type :: webhook_event_type
  we_created_at :: string
  we_data :: "(string \<times> js_value) list"

datatype webhook_delivery_status = Wd_pending | Wd_delivering | Wd_succeeded | Wd_failed | Wd_cancelled

record webhook_delivery =
  wd_id :: string
  wd_webhook_id :: string
  wd_event_type :: webhook_event_type
  wd_status :: webhook_delivery_status
  wd_attempts :: int
  wd_response_status :: "int option"
  wd_last_error :: "string option"
  wd_last_attempt_at :: "string option"
  wd_replayed_from :: "string option"
  wd_created_at :: string
  wd_updated_at :: string
  wd_expires_at :: string

record webhook_delivery_record = webhook_delivery +
  wd_event :: webhook_event

datatype job =
    Send_email string "string option"
  | Reconcile_outbox "string option"
  | Publish_received_email string
  | Deliver_webhook string "string option" webhook_event

record 'a page =
  pg_data :: "'a list"
  pg_has_more :: bool
  pg_next_cursor :: "string option"

end
