(* ===== verification/Delivery_Commit.thy ===== *)
theory Delivery_Commit
  imports Email_Types
begin

text \<open>
  The validation of an atomic delivery commit, \<open>src/core/delivery-commit.ts\<close>: the email, the
  provider-neutral message, its recipients, the outbox item and the idempotency claim must
  describe one and the same delivery before a store may write them together.
\<close>

section \<open>The commit\<close>

record delivery_commit =
  dc_email :: email_record
  dc_message :: message_record
  dc_recipients :: "recipient_record list"
  dc_outbox :: outbox_record
  dc_idempotency :: "idempotency_claim option"

definition recipient_position :: "recipient_record \<Rightarrow> string" where
  "recipient_position r = role_str (rc_role r) @ '':'' @ int_dec (rc_ordinal r)"

definition commit_records_match :: "email_record \<Rightarrow> message_record \<Rightarrow> bool" where
  "commit_records_match email message \<longleftrightarrow>
     em_id email = msg_id message \<and> em_request_hash email = msg_intent_digest message
   \<and> em_created_at email = msg_created_at message \<and> em_updated_at email = msg_updated_at message
   \<and> email_status_str (em_status email) = message_status_str (msg_status message)
   \<and> em_scheduled_at email = msg_scheduled_at message"

definition commit_recipients_match ::
  "email_record \<Rightarrow> message_record \<Rightarrow> recipient_record list \<Rightarrow> bool" where
  "commit_recipients_match email message recipients \<longleftrightarrow>
     (let ids = map rc_id recipients;
          initial = (if em_status email = Em_suppressed then Rc_suppressed else Rc_queued)
      in recipients \<noteq> [] \<and> unique_values ids \<and> length (msg_recipient_ids message) = length recipients
       \<and> list_all (\<lambda>id. id \<in> set ids) (msg_recipient_ids message)
       \<and> list_all (\<lambda>r. rc_message_id r = msg_id message \<and> rc_status r = initial
            \<and> rc_latest_attempt_id r = None \<and> rc_created_at r = msg_created_at message
            \<and> rc_updated_at r = msg_updated_at message) recipients)"

definition commit_outbox_matches :: "email_record \<Rightarrow> message_record \<Rightarrow> outbox_record \<Rightarrow> bool" where
  "commit_outbox_matches email message outbox \<longleftrightarrow>
     ob_message_id outbox = msg_id message \<and> ob_job_type outbox = Dispatch_message
   \<and> ob_generation outbox = 0 \<and> ob_due_at outbox = coalesce (em_scheduled_at email) (em_created_at email)
   \<and> ob_attempts outbox = 0 \<and> ob_lease_owner outbox = None \<and> ob_lease_expires_at outbox = None
   \<and> ob_dispatched_at outbox = (if em_status email = Em_suppressed then Some (em_updated_at email) else None)
   \<and> ob_last_diagnostic_category outbox = None \<and> ob_created_at outbox = msg_created_at message
   \<and> ob_updated_at outbox = msg_updated_at message"

definition validateDeliveryCommit :: "host \<Rightarrow> delivery_commit \<Rightarrow> int \<Rightarrow> delivery_commit result" where
  "validateDeliveryCommit h input now =
     (if now < 0 then Inl (PlainError ''Atomic delivery commit requires a valid current time.'') else
      bindE (parse_message h (dc_message input)) (\<lambda>message.
      bindE (mapE (parse_recipient h) (dc_recipients input)) (\<lambda>recipients.
      bindE (parse_outbox h (dc_outbox input)) (\<lambda>outbox.
      let email = dc_email input in
      if em_status email \<notin> {Em_queued, Em_scheduled, Em_suppressed}
      then Inl (PlainError ''Atomic delivery commit requires a dispatchable or suppressed email.'')
      else if \<not> commit_records_match email message
      then Inl (PlainError ''Legacy email and provider-neutral message records do not match.'')
      else if (case dc_idempotency input of None \<Rightarrow> False
               | Some c \<Rightarrow> ic_request_hash c \<noteq> em_request_hash email \<or> ic_expires_at c \<le> now)
      then Inl (PlainError ''Idempotency claim does not match the delivery intent.'')
      else if \<not> commit_recipients_match email message recipients
      then Inl (PlainError ''Recipient records do not match the delivery message.'')
      else if \<not> unique_values (map (\<lambda>r. js_lower h (rc_address r)) recipients)
            \<or> \<not> unique_values (map recipient_position recipients)
      then Inl (PlainError ''Delivery recipients must have unique addresses and envelope positions.'')
      else if \<not> commit_outbox_matches email message outbox
      then Inl (PlainError ''Outbox item does not match the delivery intent.'')
      else Inr \<lparr>dc_email = email, dc_message = message, dc_recipients = recipients,
                dc_outbox = outbox, dc_idempotency = dc_idempotency input\<rparr>))))"

section \<open>What a validated commit guarantees\<close>

lemma validate_Inr_iff:
  "validateDeliveryCommit h c now = Inr c' \<longleftrightarrow>
     c' = c \<and> 0 \<le> now \<and> message_ok h (dc_message c) \<and> list_all (recipient_ok h) (dc_recipients c)
   \<and> outbox_ok h (dc_outbox c) \<and> em_status (dc_email c) \<in> {Em_queued, Em_scheduled, Em_suppressed}
   \<and> commit_records_match (dc_email c) (dc_message c)
   \<and> opt_ok (\<lambda>i. ic_request_hash i = em_request_hash (dc_email c) \<and> now < ic_expires_at i) (dc_idempotency c)
   \<and> commit_recipients_match (dc_email c) (dc_message c) (dc_recipients c)
   \<and> unique_values (map (\<lambda>r. js_lower h (rc_address r)) (dc_recipients c))
   \<and> unique_values (map recipient_position (dc_recipients c))
   \<and> commit_outbox_matches (dc_email c) (dc_message c) (dc_outbox c)"
  by (cases c; cases "dc_idempotency c")
    (auto simp: validateDeliveryCommit_def parse_defs bindE_Inr_iff mapE_checkE_Inr_iff not_less not_le)

lemma validate_D:
  assumes "validateDeliveryCommit h c now = Inr c'"
  shows "c' = c" "message_ok h (dc_message c)" "list_all (recipient_ok h) (dc_recipients c)"
    "outbox_ok h (dc_outbox c)" "commit_records_match (dc_email c) (dc_message c)"
    "commit_recipients_match (dc_email c) (dc_message c) (dc_recipients c)"
    "commit_outbox_matches (dc_email c) (dc_message c) (dc_outbox c)"
  using assms by (simp_all add: validate_Inr_iff)

text \<open>Equal lengths, no duplicates and inclusion make the recipients a permutation of the IDs.\<close>

lemma same_length_subset_perm:
  assumes "distinct xs" "set xs \<subseteq> set ys" "length xs = length ys"
  shows "mset xs = mset ys"
proof -
  have card: "card (set xs) = length ys" using assms(1,3) by (simp add: distinct_card)
  have "card (set ys) \<le> length ys" by (rule card_length)
  with card card_mono[OF _ assms(2)] have eq: "card (set ys) = length ys" by simp
  then have "distinct ys" by (rule card_distinct)
  moreover have "set xs = set ys"
    using assms(2) card eq by (simp add: card_subset_eq)
  ultimately show ?thesis using assms(1) set_eq_iff_mset_eq_distinct by blast
qed

lemma commit_recipients_perm:
  assumes "message_ok h m" "commit_recipients_match e m rs"
  shows "mset (map rc_id rs) = mset (msg_recipient_ids m)" "distinct (map rc_id rs)"
proof -
  have "mset (msg_recipient_ids m) = mset (map rc_id rs)"
    using assms by (intro same_length_subset_perm)
      (auto simp: message_ok_def unique_values_def commit_recipients_match_def Let_def list_all_iff)
  then show "mset (map rc_id rs) = mset (msg_recipient_ids m)" by simp
  show "distinct (map rc_id rs)"
    using assms(2) by (simp add: commit_recipients_match_def Let_def unique_values_def)
qed

end
