(* ===== verification/Recipient_Ledger.thy ===== *)
theory Recipient_Ledger
  imports Delivery_Commit
begin

text \<open>
  The pure transition planner of \<open>src/core/recipient-ledger.ts\<close>. A ledger is an email with
  its provider-neutral message, recipients and attempts; a plan is the ledger after one
  transition (an attempt starts or completes, a provider event arrives, the message is
  cancelled or suppressed locally) with the recipients it changed. A transition that does
  not fit the ledger throws.
\<close>

section \<open>Ledgers and plans\<close>

record delivery_ledger_state =
  dl_email :: email_record
  dl_message :: message_record
  dl_recipients :: "recipient_record list"
  dl_attempts :: "attempt_record list"

record delivery_ledger_plan = delivery_ledger_state +
  dl_changed_recipient_ids :: "string list"

datatype completion_status = Completed_accepted | Completed_retryable_failed | Completed_permanent_failed

fun completion_attempt_status :: "completion_status \<Rightarrow> attempt_status" where
  "completion_attempt_status Completed_accepted = At_accepted"
| "completion_attempt_status Completed_retryable_failed = At_retryable_failed"
| "completion_attempt_status Completed_permanent_failed = At_permanent_failed"

record attempt_completion =
  cp_message_id :: string
  cp_attempt_id :: string
  cp_status :: completion_status
  cp_completed_at :: string
  cp_provider_message_id :: "string option"
  cp_diagnostic_category :: "diagnostic_category option"
  cp_public_error :: "string option"

section \<open>Recipient statuses\<close>

definition delivery_positive :: "recipient_status \<Rightarrow> bool" where
  "delivery_positive s \<longleftrightarrow> s \<in> {Rc_delivered, Rc_opened, Rc_clicked}"

definition delivery_negative :: "recipient_status \<Rightarrow> bool" where
  "delivery_negative s \<longleftrightarrow> s \<in> {Rc_bounced, Rc_rejected, Rc_failed}"

fun engagement_rank :: "recipient_status \<Rightarrow> nat option" where
  "engagement_rank Rc_queued = Some 0"
| "engagement_rank Rc_sending = Some 1"
| "engagement_rank Rc_accepted = Some 2"
| "engagement_rank Rc_delivery_delayed = Some 3"
| "engagement_rank Rc_delivered = Some 4"
| "engagement_rank Rc_opened = Some 5"
| "engagement_rank Rc_clicked = Some 6"
| "engagement_rank _ = None"

fun event_target :: "provider_event_type \<Rightarrow> recipient_status" where
  "event_target Ev_accepted = Rc_accepted"
| "event_target Ev_delivered = Rc_delivered"
| "event_target Ev_delayed = Rc_delivery_delayed"
| "event_target Ev_bounced = Rc_bounced"
| "event_target Ev_complained = Rc_complained"
| "event_target Ev_rejected = Rc_rejected"
| "event_target Ev_opened = Rc_opened"
| "event_target Ev_clicked = Rc_clicked"
| "event_target Ev_failed = Rc_failed"

definition transitionRecipientStatus :: "recipient_status \<Rightarrow> provider_event_type \<Rightarrow> recipient_status" where
  "transitionRecipientStatus current event =
     (let target = event_target event in
      if current = Rc_suppressed then current
      else if event = Ev_complained then Rc_complained
      else if current = Rc_complained \<or> current = Rc_canceled then current
      else if event = Ev_bounced then Rc_bounced
      else if current = Rc_bounced then current
      else if event = Ev_rejected then
        (if current \<in> {Rc_delivered, Rc_opened, Rc_clicked} then current else Rc_rejected)
      else if current = Rc_rejected then current
      else if event = Ev_failed then
        (if current \<in> {Rc_delivered, Rc_opened, Rc_clicked} then current else Rc_failed)
      else if current = Rc_failed then current
      else case (engagement_rank current, engagement_rank target) of
        (Some c, Some t) \<Rightarrow> if c < t then target else current
      | _ \<Rightarrow> current)"

section \<open>Aggregates\<close>

definition deriveDeliveryMessageStatus :: "recipient_record list \<Rightarrow> message_status result" where
  "deriveDeliveryMessageStatus recipients =
     (if recipients = [] then Inl (PlainError ''A delivery message requires at least one recipient.'') else
      let statuses = map rc_status recipients;
          positiveCount = length (filter delivery_positive statuses)
      in Inr (
        if Rc_suppressed \<in> set statuses then Msg_suppressed
        else if Rc_complained \<in> set statuses then Msg_complained
        else if 0 < positiveCount then
          (if positiveCount = length statuses then Msg_delivered else Msg_partially_delivered)
        else if Rc_bounced \<in> set statuses then Msg_bounced
        else if list_ex delivery_negative statuses then Msg_failed
        else if list_all (\<lambda>s. s = Rc_canceled) statuses then Msg_canceled
        else if Rc_delivery_delayed \<in> set statuses then Msg_delivery_delayed
        else if Rc_accepted \<in> set statuses then Msg_accepted
        else if Rc_sending \<in> set statuses then Msg_sending
        else Msg_queued))"

text \<open>The public status of an aggregate; the last case passes the aggregate through.\<close>

definition derivePublicEmailStatus :: "message_status \<Rightarrow> recipient_record list \<Rightarrow> email_status" where
  "derivePublicEmailStatus aggregate recipients =
     (case aggregate of
        Msg_accepted \<Rightarrow> Em_sent
      | Msg_partially_delivered \<Rightarrow>
          if list_ex (\<lambda>r. rc_status r = Rc_bounced) recipients then Em_bounced
          else if list_ex (\<lambda>r. rc_status r \<in> {Rc_rejected, Rc_failed}) recipients then Em_failed
          else Em_delivered
      | Msg_delivered \<Rightarrow>
          if list_ex (\<lambda>r. rc_status r = Rc_clicked) recipients then Em_clicked
          else if list_ex (\<lambda>r. rc_status r = Rc_opened) recipients then Em_opened
          else Em_delivered
      | Msg_queued \<Rightarrow> Em_queued
      | Msg_scheduled \<Rightarrow> Em_scheduled
      | Msg_sending \<Rightarrow> Em_sending
      | Msg_delivery_delayed \<Rightarrow> Em_delivery_delayed
      | Msg_bounced \<Rightarrow> Em_bounced
      | Msg_complained \<Rightarrow> Em_complained
      | Msg_failed \<Rightarrow> Em_failed
      | Msg_canceled \<Rightarrow> Em_canceled
      | Msg_suppressed \<Rightarrow> Em_suppressed)"

section \<open>Shared steps of the plans\<close>

definition ledger_records_belong ::
  "email_record \<Rightarrow> message_record \<Rightarrow> recipient_record list \<Rightarrow> attempt_record list \<Rightarrow> bool" where
  "ledger_records_belong email message recipients attempts \<longleftrightarrow>
     em_id email = msg_id message
   \<and> length recipients = length (msg_recipient_ids message)
   \<and> list_all (\<lambda>id. id \<in> set (map rc_id recipients)) (msg_recipient_ids message)
   \<and> list_all (\<lambda>r. rc_message_id r = msg_id message) recipients
   \<and> unique_values (map at_id attempts) \<and> distinct (map at_sequence attempts)
   \<and> list_all (\<lambda>a. at_message_id a = msg_id message \<and> at_provider a = msg_provider message
        \<and> list_all (\<lambda>id. id \<in> set (map rc_id recipients)) (at_recipient_ids a)) attempts"

definition assertLedgerState :: "host \<Rightarrow> ('a) delivery_ledger_state_scheme \<Rightarrow> delivery_ledger_state result" where
  "assertLedgerState h state =
     bindE (parse_message h (dl_message state)) (\<lambda>message.
     bindE (mapE (parse_recipient h) (dl_recipients state)) (\<lambda>recipients.
     bindE (mapE (parse_attempt h) (dl_attempts state)) (\<lambda>attempts.
     if \<not> ledger_records_belong (dl_email state) message recipients attempts
     then Inl (PlainError ''Delivery ledger records do not belong to one message.'')
     else let recipientById = map_from (map (\<lambda>r. (rc_id r, r)) recipients) in
       Inr \<lparr>dl_email = dl_email state, dl_message = message,
            dl_recipients = map (\<lambda>id. the (map_get recipientById id)) (msg_recipient_ids message),
            dl_attempts = attempts\<rparr>)))"

definition updateEmailForRecipients ::
  "email_record \<Rightarrow> message_record \<Rightarrow> recipient_record list \<Rightarrow> string \<Rightarrow> string option \<Rightarrow> email_record" where
  "updateEmailForRecipients email message recipients updatedAt publicError =
     (let status = derivePublicEmailStatus (msg_status message) recipients
      in email\<lparr>em_status := status, em_last_event := email_status_str status, em_updated_at := updatedAt,
               em_send_lease_until := None, em_error := publicError\<rparr>)"

definition updateMessage ::
  "host \<Rightarrow> message_record \<Rightarrow> recipient_record list \<Rightarrow> string \<Rightarrow> message_record result" where
  "updateMessage h message recipients updatedAt =
     bindE (deriveDeliveryMessageStatus recipients) (\<lambda>status.
       parse_message h (message\<lparr>msg_status := status, msg_updated_at := updatedAt\<rparr>))"

definition latestTimestamp :: "host \<Rightarrow> string list \<Rightarrow> string result" where
  "latestTimestamp h values = date_to_iso (Option.bind (max_times (map (date_parse h) values)) make_date)"

definition plan_of ::
  "email_record \<Rightarrow> message_record \<Rightarrow> recipient_record list \<Rightarrow> attempt_record list \<Rightarrow> string list \<Rightarrow> delivery_ledger_plan" where
  "plan_of email message recipients attempts changed =
     \<lparr>dl_email = email, dl_message = message, dl_recipients = recipients, dl_attempts = attempts,
      dl_changed_recipient_ids = changed\<rparr>"

section \<open>Starting an attempt\<close>

definition max_sequence :: "attempt_record list \<Rightarrow> int" where
  "max_sequence attempts = foldr max (map at_sequence attempts) 0"

definition attempt_starts :: "delivery_ledger_state \<Rightarrow> attempt_record \<Rightarrow> bool" where
  "attempt_starts state attempt \<longleftrightarrow>
     at_message_id attempt = msg_id (dl_message state) \<and> at_provider attempt = msg_provider (dl_message state)
   \<and> at_status attempt = At_submitting \<and> at_completed_at attempt = None
   \<and> length (at_recipient_ids attempt) = length (msg_recipient_ids (dl_message state))
   \<and> list_all (\<lambda>id. id \<in> set (at_recipient_ids attempt)) (msg_recipient_ids (dl_message state))
   \<and> \<not> list_ex (\<lambda>a. at_id a = at_id attempt \<or> at_sequence a = at_sequence attempt) (dl_attempts state)
   \<and> at_sequence attempt = max_sequence (dl_attempts state) + 1"

definition planAttemptStart ::
  "host \<Rightarrow> ('a) delivery_ledger_state_scheme \<Rightarrow> attempt_record \<Rightarrow> (delivery_ledger_plan \<times> attempt_record) result" where
  "planAttemptStart h inputState inputAttempt =
     bindE (assertLedgerState h inputState) (\<lambda>state.
     bindE (parse_attempt h inputAttempt) (\<lambda>attempt.
     if \<not> attempt_starts state attempt
     then Inl (PlainError ''Provider submission attempt does not match the ledger.'')
     else if list_ex (\<lambda>r. rc_status r \<noteq> Rc_queued) (dl_recipients state)
     then Inl (PlainError ''Only queued recipients can begin another attempt.'')
     else
       bindE (mapE (\<lambda>r. parse_recipient h (r\<lparr>rc_status := Rc_sending, rc_latest_attempt_id := Some (at_id attempt),
                rc_updated_at := at_started_at attempt\<rparr>)) (dl_recipients state)) (\<lambda>recipients.
       bindE (updateMessage h (dl_message state) recipients (at_started_at attempt)) (\<lambda>message.
       Inr (plan_of ((dl_email state)\<lparr>em_status := Em_sending, em_last_event := ''sending'',
                em_updated_at := at_started_at attempt\<rparr>) message recipients (dl_attempts state @ [attempt])
              (map rc_id recipients), attempt)))))"

section \<open>Completing an attempt\<close>

definition completion_recipient_status ::
  "completion_status \<Rightarrow> diagnostic_category option \<Rightarrow> recipient_status" where
  "completion_recipient_status status category =
     (let failureStatus = (if category = Some Provider_rejected \<or> category = Some Invalid_data
                           then Rc_rejected else Rc_failed)
      in case status of
           Completed_accepted \<Rightarrow> Rc_accepted
         | Completed_retryable_failed \<Rightarrow> Rc_queued
         | Completed_permanent_failed \<Rightarrow> failureStatus)"

definition complete_attempt :: "attempt_record \<Rightarrow> attempt_completion \<Rightarrow> string \<Rightarrow> attempt_record" where
  "complete_attempt current input completedAt =
     current\<lparr>at_status := completion_attempt_status (cp_status input),
             at_completed_at := Some completedAt,
             at_provider_message_id :=
               (if truthy (cp_provider_message_id input) then cp_provider_message_id input
                else at_provider_message_id current),
             at_diagnostic_category :=
               (if cp_diagnostic_category input \<noteq> None then cp_diagnostic_category input
                else at_diagnostic_category current)\<rparr>"

definition attempt_owns :: "attempt_record \<Rightarrow> recipient_record \<Rightarrow> bool" where
  "attempt_owns attempt r \<longleftrightarrow>
     rc_id r \<in> set (at_recipient_ids attempt) \<and> rc_latest_attempt_id r = Some (at_id attempt)"

definition complete_email ::
  "email_record \<Rightarrow> attempt_completion \<Rightarrow> email_record" where
  "complete_email email input =
     (if cp_status input = Completed_accepted \<and> truthy (cp_provider_message_id input)
      then email\<lparr>em_provider_id := cp_provider_message_id input\<rparr>
      else if cp_status input = Completed_retryable_failed then email\<lparr>em_last_event := ''retrying''\<rparr>
      else email)"

definition planAttemptCompletion ::
  "host \<Rightarrow> ('a) delivery_ledger_state_scheme \<Rightarrow> attempt_completion \<Rightarrow> (delivery_ledger_plan \<times> attempt_record) result" where
  "planAttemptCompletion h inputState input =
     bindE (assertLedgerState h inputState) (\<lambda>state.
     case find_index (\<lambda>a. at_id a = cp_attempt_id input \<and> at_message_id a = cp_message_id input) (dl_attempts state) of
       None \<Rightarrow> Inl (PlainError ''Provider submission attempt is not active.'')
     | Some attemptIndex \<Rightarrow>
        let currentAttempt = dl_attempts state ! attemptIndex in
        if at_status currentAttempt \<noteq> At_submitting
        then Inl (PlainError ''Provider submission attempt is not active.'')
        else if list_ex (\<lambda>r. rc_status r \<noteq> Rc_sending \<or> rc_latest_attempt_id r \<noteq> Some (at_id currentAttempt))
               (filter (\<lambda>r. rc_id r \<in> set (at_recipient_ids currentAttempt)) (dl_recipients state))
        then Inl (PlainError ''Provider submission attempt does not own every sending recipient.'')
        else
          bindE (to_iso_of_string h (cp_completed_at input)) (\<lambda>completedAt.
          bindE (parse_attempt h (complete_attempt currentAttempt input completedAt)) (\<lambda>attempt.
          let recipientStatus = completion_recipient_status (cp_status input) (cp_diagnostic_category input) in
          bindE (mapE (\<lambda>r. if attempt_owns currentAttempt r
                     then parse_recipient h (r\<lparr>rc_status := recipientStatus, rc_updated_at := completedAt\<rparr>)
                     else Inr r) (dl_recipients state)) (\<lambda>recipients.
          bindE (updateMessage h (dl_message state) recipients completedAt) (\<lambda>message.
          let email = updateEmailForRecipients (dl_email state) message recipients completedAt
                (if cp_status input = Completed_accepted then None else cp_public_error input)
          in Inr (plan_of (complete_email email input) message recipients
                    ((dl_attempts state)[attemptIndex := attempt])
                    (map rc_id (filter (attempt_owns currentAttempt) (dl_recipients state))), attempt))))))"

section \<open>Provider events\<close>

definition event_correlates :: "delivery_ledger_state \<Rightarrow> event_record \<Rightarrow> bool" where
  "event_correlates state event \<longleftrightarrow>
     (let providerMatches = (case ev_provider_message_id event of None \<Rightarrow> []
            | Some pid \<Rightarrow> filter (\<lambda>a. at_status a = At_accepted \<and> at_provider_message_id a = Some pid) (dl_attempts state));
          recipientIds = map rc_id (dl_recipients state)
      in ev_message_id event = msg_id (dl_message state) \<and> ev_provider event = msg_provider (dl_message state)
       \<and> (case find (\<lambda>a. Some (at_id a) = ev_attempt_id event) (dl_attempts state) of
            None \<Rightarrow> False
          | Some attempt \<Rightarrow>
              at_status attempt = At_accepted \<and> at_provider attempt = ev_provider event
            \<and> (ev_provider_message_id event = None
               \<or> (length providerMatches = 1 \<and> at_id (hd providerMatches) = at_id attempt))
            \<and> (ev_provider_message_id event = None \<or> ev_provider_message_id event = at_provider_message_id attempt)
            \<and> list_all (\<lambda>id. id \<in> set recipientIds \<and> id \<in> set (at_recipient_ids attempt)) (ev_recipient_ids event)))"

definition event_changes :: "event_record \<Rightarrow> recipient_record \<Rightarrow> bool" where
  "event_changes event r \<longleftrightarrow>
     rc_id r \<in> set (ev_recipient_ids event) \<and> transitionRecipientStatus (rc_status r) (ev_type event) \<noteq> rc_status r"

definition planProviderEvent ::
  "host \<Rightarrow> ('a) delivery_ledger_state_scheme \<Rightarrow> event_record \<Rightarrow> (delivery_ledger_plan \<times> event_record) result" where
  "planProviderEvent h inputState inputEvent =
     bindE (assertLedgerState h inputState) (\<lambda>state.
     bindE (parse_event h inputEvent) (\<lambda>event.
     if \<not> event_correlates state event
     then Inl (PlainError ''Provider event cannot be correlated to one accepted attempt.'')
     else
       bindE (latestTimestamp h [em_updated_at (dl_email state), msg_updated_at (dl_message state), ev_received_at event])
         (\<lambda>mutationTimestamp.
       bindE (mapE (\<lambda>r. if event_changes event r
                then parse_recipient h (r\<lparr>rc_status := transitionRecipientStatus (rc_status r) (ev_type event),
                       rc_updated_at := mutationTimestamp\<rparr>)
                else Inr r) (dl_recipients state)) (\<lambda>recipients.
       bindE (updateMessage h (dl_message state) recipients mutationTimestamp) (\<lambda>message.
       Inr (plan_of (updateEmailForRecipients (dl_email state) message recipients mutationTimestamp None)
              message recipients (dl_attempts state)
              (map rc_id (filter (event_changes event) (dl_recipients state))), event))))))"

section \<open>Local cancellation and suppression\<close>

datatype local_status = Local_canceled | Local_suppressed

fun local_recipient_status :: "local_status \<Rightarrow> recipient_status" where
  "local_recipient_status Local_canceled = Rc_canceled"
| "local_recipient_status Local_suppressed = Rc_suppressed"

definition local_changes :: "local_status \<Rightarrow> recipient_record \<Rightarrow> bool" where
  "local_changes status r \<longleftrightarrow>
     rc_status r \<notin> {Rc_complained, Rc_suppressed} \<and> rc_status r \<noteq> local_recipient_status status"

definition planLocalRecipientState ::
  "host \<Rightarrow> ('a) delivery_ledger_state_scheme \<Rightarrow> local_status \<Rightarrow> string \<Rightarrow> delivery_ledger_plan result" where
  "planLocalRecipientState h inputState status updatedAt =
     bindE (assertLedgerState h inputState) (\<lambda>state.
     if list_ex (\<lambda>a. at_status a = At_submitting) (dl_attempts state)
        \<or> list_ex (\<lambda>r. rc_status r = Rc_sending) (dl_recipients state)
     then Inl (PlainError ''Local recipient state cannot change during provider submission.'')
     else
       bindE (to_iso_of_string h updatedAt) (\<lambda>updatedIso.
       bindE (latestTimestamp h [em_updated_at (dl_email state), msg_updated_at (dl_message state), updatedIso])
         (\<lambda>timestamp.
       bindE (mapE (\<lambda>r. if local_changes status r
                then parse_recipient h (r\<lparr>rc_status := local_recipient_status status, rc_updated_at := timestamp\<rparr>)
                else Inr r) (dl_recipients state)) (\<lambda>recipients.
       bindE (updateMessage h (dl_message state) recipients timestamp) (\<lambda>message.
       Inr (plan_of (updateEmailForRecipients (dl_email state) message recipients timestamp None)
              message recipients (dl_attempts state)
              (map rc_id (filter (local_changes status) (dl_recipients state)))))))))"

section \<open>Histories of provider events\<close>

text \<open>The status after a sequence of events, each applied to the status the last one left.\<close>

definition status_after :: "recipient_status \<Rightarrow> provider_event_type list \<Rightarrow> recipient_status" where
  "status_after s evs = foldl transitionRecipientStatus s evs"

lemma status_after_simps [simp]:
  "status_after s [] = s"
  "status_after s (e # evs) = status_after (transitionRecipientStatus s e) evs"
  "status_after s (evs @ evs') = status_after (status_after s evs) evs'"
  by (simp_all add: status_after_def)

lemma delivery_positive_simps [simp]:
  "delivery_positive Rc_delivered" "delivery_positive Rc_opened" "delivery_positive Rc_clicked"
  "\<not> delivery_positive Rc_queued" "\<not> delivery_positive Rc_sending" "\<not> delivery_positive Rc_accepted"
  "\<not> delivery_positive Rc_delivery_delayed" "\<not> delivery_positive Rc_bounced"
  "\<not> delivery_positive Rc_complained" "\<not> delivery_positive Rc_rejected" "\<not> delivery_positive Rc_failed"
  "\<not> delivery_positive Rc_suppressed" "\<not> delivery_positive Rc_canceled"
  by (simp_all add: delivery_positive_def)

lemma transition_idem: "transitionRecipientStatus (transitionRecipientStatus s e) e = transitionRecipientStatus s e"
  by (cases s; cases e) (simp_all add: transitionRecipientStatus_def)

text \<open>An event that no longer changes the status never will, whatever arrives in between.\<close>

lemma transition_absorbed:
  "transitionRecipientStatus s e = s \<Longrightarrow>
     transitionRecipientStatus (transitionRecipientStatus s e') e = transitionRecipientStatus s e'"
  by (cases s; cases e) (simp_all add: transitionRecipientStatus_def; cases e'; simp)+

lemma status_after_absorbed:
  "transitionRecipientStatus s e = s \<Longrightarrow> transitionRecipientStatus (status_after s evs) e = status_after s evs"
  by (induction evs arbitrary: s) (auto dest: transition_absorbed)

lemma status_after_replay_aux:
  "e \<in> set evs \<Longrightarrow> transitionRecipientStatus (status_after s evs) e = status_after s evs"
  by (induction evs arbitrary: s) (auto simp: status_after_absorbed[OF transition_idem])

text \<open>
  The abstract specification of a history. Complaints and bounces win in any order. Before
  the first positive event a rejection or a failure settles the recipient, and a rejection
  replaces a failure. Otherwise the status is the furthest one reached.
\<close>

definition positive_event :: "provider_event_type \<Rightarrow> bool" where
  "positive_event e \<longleftrightarrow> delivery_positive (event_target e)"

definition stage :: "nat \<Rightarrow> recipient_status" where
  "stage n = [Rc_queued, Rc_sending, Rc_accepted, Rc_delivery_delayed, Rc_delivered, Rc_opened, Rc_clicked] ! n"

definition furthest :: "recipient_status \<Rightarrow> provider_event_type list \<Rightarrow> recipient_status" where
  "furthest s evs = (case engagement_rank s of None \<Rightarrow> s | Some r \<Rightarrow>
     stage (foldr max (List.map_filter (\<lambda>e. engagement_rank (event_target e)) evs) r))"

definition settled_early :: "recipient_status \<Rightarrow> provider_event_type list \<Rightarrow> bool" where
  "settled_early s evs \<longleftrightarrow> s \<in> {Rc_rejected, Rc_failed} \<or> (\<not> delivery_positive s
     \<and> list_ex (\<lambda>e. e \<in> {Ev_rejected, Ev_failed}) (takeWhile (\<lambda>e. \<not> positive_event e) evs))"

definition history_status :: "recipient_status \<Rightarrow> provider_event_type list \<Rightarrow> recipient_status" where
  "history_status s evs =
     (if s = Rc_suppressed then Rc_suppressed
      else if s = Rc_complained \<or> Ev_complained \<in> set evs then Rc_complained
      else if s = Rc_canceled then Rc_canceled
      else if s = Rc_bounced \<or> Ev_bounced \<in> set evs then Rc_bounced
      else if settled_early s evs then
        (if s = Rc_rejected \<or> Ev_rejected \<in> set evs then Rc_rejected else Rc_failed)
      else furthest s evs)"

lemma map_filter_Cons:
  "List.map_filter f (x # xs) = (case f x of None \<Rightarrow> List.map_filter f xs | Some y \<Rightarrow> y # List.map_filter f xs)"
  by (simp add: List.map_filter_def split: option.split)

lemma foldr_max_init: "foldr max xs (max a b) = max a (foldr max xs (b :: 'a :: linorder))"
  by (induction xs) (auto simp: max.left_commute)

lemma rank_le: "engagement_rank s = Some r \<Longrightarrow> r \<le> 6"
  by (cases s) auto

lemma foldr_max_rank_le: "r \<le> 6 \<Longrightarrow> foldr max (List.map_filter (\<lambda>e. engagement_rank (event_target e)) evs) r \<le> 6"
  by (induction evs) (auto simp: map_filter_Cons List.map_filter_def dest: rank_le split: option.splits)

lemma stage_rank: "engagement_rank s = Some r \<Longrightarrow> stage r = s"
  by (cases s) (auto simp: stage_def)

lemma history_status_Nil [simp]: "history_status s [] = s"
  by (cases s) (simp_all add: history_status_def settled_early_def furthest_def List.map_filter_def stage_def)


lemma furthest_Cons:
  assumes "engagement_rank s = Some r" "engagement_rank (event_target e) = Some t"
  shows "furthest s (e # evs) = furthest (if r < t then event_target e else s) evs"
proof -
  have "furthest s (e # evs) =
      stage (foldr max (List.map_filter (\<lambda>e. engagement_rank (event_target e)) evs) (max t r))"
    using assms by (simp add: furthest_def map_filter_Cons foldr_max_init)
  then show ?thesis using assms by (auto simp: furthest_def max_def)
qed

lemma furthest_skip: "engagement_rank (event_target e) = None \<Longrightarrow> furthest s (e # evs) = furthest s evs"
  by (simp add: furthest_def map_filter_Cons split: option.split)

lemma history_status_Cons: "history_status s (e # evs) = history_status (transitionRecipientStatus s e) evs"
proof (cases "s \<in> {Rc_suppressed, Rc_complained, Rc_canceled, Rc_bounced, Rc_rejected, Rc_failed}")
  case True
  then show ?thesis
    by (cases e) (auto simp: history_status_def transitionRecipientStatus_def settled_early_def)
next
  case False
  then obtain r where r: "engagement_rank s = Some r" by (cases s) auto
  show ?thesis
  proof (cases "engagement_rank (event_target e)")
    case None
    with False r show ?thesis
      by (cases e; cases "delivery_positive s")
        (auto simp: history_status_def transitionRecipientStatus_def settled_early_def furthest_skip
          positive_event_def delivery_positive_def)
  next
    case (Some t)
    define u where "u = (if r < t then event_target e else s)"
    have "transitionRecipientStatus s e = u"
      using False r Some by (cases e) (auto simp: transitionRecipientStatus_def u_def)
    moreover have "settled_early s (e # evs) = settled_early u evs"
      using False r Some by (cases s; cases e) (auto simp: settled_early_def positive_event_def u_def)
    moreover have "furthest s (e # evs) = furthest u evs"
      unfolding u_def by (rule furthest_Cons[OF r Some])
    moreover have "u \<notin> {Rc_suppressed, Rc_complained, Rc_canceled, Rc_bounced, Rc_rejected, Rc_failed}"
      "e \<notin> {Ev_complained, Ev_bounced, Ev_rejected, Ev_failed}"
      using False Some by (auto simp: u_def split: if_splits; cases e; simp)+
    ultimately show ?thesis
      using False by (auto simp: history_status_def)
  qed
qed

text \<open>
  C24. Any history of provider events, in any order and with any repetitions, leaves a
  recipient in the status its specification gives: a suppressed or canceled recipient stays
  (a complaint still overrides a cancellation), a complaint wins over a bounce and a bounce
  over everything else, whatever the order; a rejection or failure counts only when it came
  before the first delivery, open or click; otherwise the status is the furthest stage
  reached.
\<close>

theorem history_status_correct: "status_after s evs = history_status s evs"
  by (induction evs arbitrary: s) (simp_all add: history_status_Cons)

text \<open>
  Redelivery is harmless: applying an event that is already in the history again, at
  any later point, never changes the recipient's status, so at-least-once provider
  notifications converge.
\<close>

theorem redelivered_event_absorbed:
  assumes "e \<in> set evs"
  shows "transitionRecipientStatus (status_after s evs) e = status_after s evs"
  using assms by (rule status_after_replay_aux)

theorem redelivered_event_absorbed_witness:
  "transitionRecipientStatus (status_after Rc_sending [Ev_delivered, Ev_bounced, Ev_opened]) Ev_delivered
     = status_after Rc_sending [Ev_delivered, Ev_bounced, Ev_opened]"
  by (rule redelivered_event_absorbed) simp

section \<open>The aggregates as functions of the statuses that occur\<close>

lemma derive_status_set:
  "deriveDeliveryMessageStatus rs =
     (let S = set (map rc_status rs) in
      if rs = [] then Inl (PlainError ''A delivery message requires at least one recipient.'')
      else Inr (
        if Rc_suppressed \<in> S then Msg_suppressed
        else if Rc_complained \<in> S then Msg_complained
        else if \<exists>s \<in> S. delivery_positive s then
          (if \<forall>s \<in> S. delivery_positive s then Msg_delivered else Msg_partially_delivered)
        else if Rc_bounced \<in> S then Msg_bounced
        else if Rc_rejected \<in> S \<or> Rc_failed \<in> S then Msg_failed
        else if S = {Rc_canceled} then Msg_canceled
        else if Rc_delivery_delayed \<in> S then Msg_delivery_delayed
        else if Rc_accepted \<in> S then Msg_accepted
        else if Rc_sending \<in> S then Msg_sending
        else Msg_queued))"
proof (cases "rs = []")
  case True
  then show ?thesis by (simp add: deriveDeliveryMessageStatus_def)
next
  case False
  obtain ss where ss: "map rc_status rs = ss" "ss \<noteq> []" using False by auto
  have some: "0 < length (filter delivery_positive ss) \<longleftrightarrow> (\<exists>s \<in> set ss. delivery_positive s)"
    by (simp add: filter_empty_conv)
  have all: "length (filter delivery_positive ss) = length ss \<longleftrightarrow> (\<forall>s \<in> set ss. delivery_positive s)"
    by (metis filter_True filter_id_conv length_filter_less less_irrefl)
  have neg: "Rc_bounced \<notin> set ss \<Longrightarrow>
      list_ex delivery_negative ss \<longleftrightarrow> Rc_rejected \<in> set ss \<or> Rc_failed \<in> set ss"
    by (auto simp: list_ex_iff delivery_negative_def)
  have can: "list_all (\<lambda>s. s = Rc_canceled) ss \<longleftrightarrow> set ss = {Rc_canceled}"
    using ss(2) by (cases ss) (auto simp: list_all_iff)
  show ?thesis
    using False unfolding deriveDeliveryMessageStatus_def Let_def ss(1) some all can
    by (simp add: neg)
qed

abbreviation some_status :: "(recipient_status \<Rightarrow> bool) \<Rightarrow> recipient_record list \<Rightarrow> bool" where
  "some_status p rs \<equiv> list_ex (\<lambda>r. p (rc_status r)) rs"

abbreviation every_status :: "(recipient_status \<Rightarrow> bool) \<Rightarrow> recipient_record list \<Rightarrow> bool" where
  "every_status p rs \<equiv> rs \<noteq> [] \<and> list_all (\<lambda>r. p (rc_status r)) rs"

lemma derive_status_order:
  "set (map rc_status rs) = set (map rc_status rs') \<Longrightarrow> deriveDeliveryMessageStatus rs = deriveDeliveryMessageStatus rs'"
  unfolding derive_status_set by (auto simp: Let_def)

lemma derive_all:
  "rs \<noteq> [] \<Longrightarrow> list_all (\<lambda>r. rc_status r = s) rs \<Longrightarrow> set (map rc_status rs) = {s}"
  by (cases rs) (auto simp: list_all_iff)

text \<open>
  The message status is exactly the documented aggregate of its recipients: suppressed
  if any recipient is; otherwise complained if any complained; delivered if and only if
  every recipient was delivered, opened or clicked, and partially delivered if only some
  were; bounced and failed only when nobody received it; canceled if and only if every
  recipient is canceled; a message without recipients has no status and throws.
\<close>

theorem aggregate_status_spec:
  "(deriveDeliveryMessageStatus rs = Inr Msg_suppressed \<longleftrightarrow> some_status (\<lambda>s. s = Rc_suppressed) rs)
   \<and> (deriveDeliveryMessageStatus rs = Inr Msg_complained \<longleftrightarrow>
        some_status (\<lambda>s. s = Rc_complained) rs \<and> \<not> some_status (\<lambda>s. s = Rc_suppressed) rs)
   \<and> (deriveDeliveryMessageStatus rs = Inr Msg_delivered \<longleftrightarrow> every_status delivery_positive rs)
   \<and> (deriveDeliveryMessageStatus rs = Inr Msg_partially_delivered \<longleftrightarrow>
        some_status delivery_positive rs \<and> some_status (\<lambda>s. \<not> delivery_positive s) rs
        \<and> \<not> some_status (\<lambda>s. s \<in> {Rc_suppressed, Rc_complained}) rs)
   \<and> (deriveDeliveryMessageStatus rs = Inr Msg_bounced \<longleftrightarrow>
        some_status (\<lambda>s. s = Rc_bounced) rs
        \<and> \<not> some_status (\<lambda>s. s \<in> {Rc_suppressed, Rc_complained} \<or> delivery_positive s) rs)
   \<and> (deriveDeliveryMessageStatus rs = Inr Msg_failed \<longleftrightarrow>
        some_status (\<lambda>s. s \<in> {Rc_rejected, Rc_failed}) rs
        \<and> \<not> some_status (\<lambda>s. s \<in> {Rc_suppressed, Rc_complained, Rc_bounced} \<or> delivery_positive s) rs)
   \<and> (deriveDeliveryMessageStatus rs = Inr Msg_canceled \<longleftrightarrow> every_status (\<lambda>s. s = Rc_canceled) rs)
   \<and> (isl (deriveDeliveryMessageStatus rs) \<longleftrightarrow> rs = [])"
proof (cases "rs = []")
  case True
  then show ?thesis by (simp add: deriveDeliveryMessageStatus_def)
next
  case False
  obtain S where S: "S = set (map rc_status rs)" "S \<noteq> {}" using False by auto
  obtain p a where p: "p \<longleftrightarrow> (\<exists>s \<in> S. delivery_positive s)" and a: "a \<longleftrightarrow> (\<forall>s \<in> S. delivery_positive s)"
    by blast
  have ex: "some_status (\<lambda>s. s = x) rs \<longleftrightarrow> x \<in> S"
    "some_status (\<lambda>s. s \<in> {x, y}) rs \<longleftrightarrow> x \<in> S \<or> y \<in> S"
    "some_status (\<lambda>s. s \<in> {x, y} \<or> delivery_positive s) rs \<longleftrightarrow> x \<in> S \<or> y \<in> S \<or> p"
    "some_status (\<lambda>s. s \<in> {x, y, z} \<or> delivery_positive s) rs \<longleftrightarrow> x \<in> S \<or> y \<in> S \<or> z \<in> S \<or> p"
    "some_status delivery_positive rs \<longleftrightarrow> p" "some_status (\<lambda>s. \<not> delivery_positive s) rs \<longleftrightarrow> \<not> a"
    "every_status delivery_positive rs \<longleftrightarrow> a" "every_status (\<lambda>s. s = x) rs \<longleftrightarrow> S = {x}" for x y z
    using False by (cases rs; auto simp: p a S(1) list_ex_iff list_all_iff)+
  have facts: "a \<Longrightarrow> p \<and> Rc_suppressed \<notin> S \<and> Rc_complained \<notin> S"
    "S = {Rc_canceled} \<Longrightarrow> \<not> p" "S = {Rc_canceled} \<Longrightarrow> x \<in> S \<longleftrightarrow> x = Rc_canceled" for x
    using S(2) by (auto simp: p a)
  show ?thesis
    unfolding derive_status_set ex p[symmetric] a[symmetric] S(1)[symmetric] Let_def
    using False facts(1,2) facts(3)[of Rc_suppressed] facts(3)[of Rc_complained] facts(3)[of Rc_bounced]
      facts(3)[of Rc_rejected] facts(3)[of Rc_failed]
    by (intro conjI) (simp_all, (blast+)?)
qed

end
