(* ===== verification/Store_State.thy ===== *)
theory Store_State
  imports Recipient_Ledger
begin

text \<open>
  The state of the in-memory store, \<open>src/adapters/memory-store.ts\<close>: one insertion-ordered
  map per private field. The optional \<open>afterDeliveryMutation\<close> hook, which the tests use to
  inject faults, is a parameter of the operations: a function of all mutations announced so
  far that may throw. The store's methods never yield to another one before they return, so
  each is one atomic operation on the state. The listing helper \<open>pageFromMap\<close> is here too.
\<close>

section \<open>Mutations\<close>

datatype delivery_entity =
    Ent_email | Ent_message | Ent_recipient nat | Ent_idempotency | Ent_outbox | Ent_attempt | Ent_provider_event

datatype delivery_mutation =
    Mut_commit delivery_entity
  | Mut_commit_swap
  | Mut_lease
  | Mut_acknowledge
  | Mut_failure
  | Mut_ledger delivery_entity

type_synonym mutation_hook = "delivery_mutation list \<Rightarrow> js_error option"

section \<open>The maps\<close>

record idempotency_entry = idempotency_claim +
  ie_email_id :: string

record mem =
  m_emails :: "email_record jsmap"
  m_attachment_uploads :: "attachment_upload_record jsmap"
  m_received_emails :: "received_email_record jsmap"
  m_received_claims :: "int jsmap"
  m_idempotency :: "idempotency_entry jsmap"
  m_domains :: "domain_record jsmap"
  m_webhooks :: "webhook_endpoint jsmap"
  m_webhook_deliveries :: "webhook_delivery_record jsmap"
  m_api_keys :: "api_key_record jsmap"
  m_suppressions :: "suppression_record jsmap"
  m_templates :: "template_record jsmap"
  m_template_aliases :: "string jsmap"
  m_published_aliases :: "string jsmap"
  m_template_versions :: "template_publication jsmap jsmap"
  m_messages :: "message_record jsmap"
  m_recipients :: "recipient_record jsmap"
  m_attempts :: "attempt_record jsmap"
  m_events :: "event_record jsmap"
  m_outbox :: "outbox_record jsmap"
  m_outbox_by_message :: "string jsmap"
  m_publish_failures :: int
  m_mutations :: "delivery_mutation list"

definition empty_store :: mem where
  "empty_store = \<lparr>m_emails = [], m_attachment_uploads = [], m_received_emails = [], m_received_claims = [],
     m_idempotency = [], m_domains = [], m_webhooks = [], m_webhook_deliveries = [], m_api_keys = [],
     m_suppressions = [], m_templates = [], m_template_aliases = [], m_published_aliases = [],
     m_template_versions = [], m_messages = [], m_recipients = [], m_attempts = [], m_events = [],
     m_outbox = [], m_outbox_by_message = [], m_publish_failures = 0, m_mutations = []\<rparr>"

text \<open>What the delivery operations can change, without the log of the hook.\<close>

record delivery_maps =
  v_emails :: "email_record jsmap"
  v_idempotency :: "idempotency_entry jsmap"
  v_messages :: "message_record jsmap"
  v_recipients :: "recipient_record jsmap"
  v_attempts :: "attempt_record jsmap"
  v_events :: "event_record jsmap"
  v_outbox :: "outbox_record jsmap"
  v_outbox_by_message :: "string jsmap"

definition delivery_view :: "mem \<Rightarrow> delivery_maps" where
  "delivery_view s = \<lparr>v_emails = m_emails s, v_idempotency = m_idempotency s, v_messages = m_messages s,
     v_recipients = m_recipients s, v_attempts = m_attempts s, v_events = m_events s, v_outbox = m_outbox s,
     v_outbox_by_message = m_outbox_by_message s\<rparr>"

definition afterDeliveryMutation :: "mutation_hook \<Rightarrow> delivery_mutation \<Rightarrow> (mem, unit) sx" where
  "afterDeliveryMutation hook mutation s =
     (let s' = s\<lparr>m_mutations := m_mutations s @ [mutation]\<rparr>
      in case hook (m_mutations s') of None \<Rightarrow> (Inr (), s') | Some e \<Rightarrow> (Inl e, s'))"

text \<open>Everything but the log is left alone by the hook.\<close>

abbreviation unlogged :: "mem \<Rightarrow> mem" where
  "unlogged s \<equiv> s\<lparr>m_mutations := []\<rparr>"

lemma hook_cases:
  obtains e where "afterDeliveryMutation hook m s = (Inl e, s\<lparr>m_mutations := m_mutations s @ [m]\<rparr>)"
  | "afterDeliveryMutation hook m s = (Inr (), s\<lparr>m_mutations := m_mutations s @ [m]\<rparr>)"
  by (cases "hook (m_mutations s @ [m])") (simp_all add: afterDeliveryMutation_def Let_def)

lemma hook_keeps [intro]: "keepsS unlogged (afterDeliveryMutation hook m)"
  unfolding keepsS_def
proof
  fix s
  show "unlogged (snd (afterDeliveryMutation hook m s)) = unlogged s"
    by (rule hook_cases[of hook m s]) simp_all
qed

section \<open>Pages\<close>

definition page_order :: "host \<Rightarrow> ('a \<Rightarrow> string) \<Rightarrow> ('a \<Rightarrow> string) \<Rightarrow> 'a \<Rightarrow> 'a \<Rightarrow> int" where
  "page_order h idf created l r = cmp_or (h_collate h (created r) (created l)) (h_collate h (idf r) (idf l))"

definition pageFromMap ::
  "host \<Rightarrow> ('a \<Rightarrow> string) \<Rightarrow> ('a \<Rightarrow> string) \<Rightarrow> 'a list \<Rightarrow> nat \<Rightarrow> string option \<Rightarrow> 'a page result" where
  "pageFromMap h idf created values limit cursor =
     (let sorted = js_sort (page_order h idf created) values;
          cursorIndex = (if truthy cursor then find_index (\<lambda>r. Some (idf r) = cursor) sorted else None)
      in if truthy cursor \<and> cursorIndex = None
         then Inl (ValidationError ''The pagination cursor is invalid.'')
         else let offset = (case cursorIndex of None \<Rightarrow> 0 | Some i \<Rightarrow> i + 1);
                  data = slice offset (offset + limit) sorted
              in Inr (if offset + length data < length sorted \<and> data \<noteq> []
                      then \<lparr>pg_data = data, pg_has_more = True, pg_next_cursor = Some (idf (last data))\<rparr>
                      else \<lparr>pg_data = data, pg_has_more = False, pg_next_cursor = None\<rparr>))"

end
