(* ===== verification/Delivery_Store.thy ===== *)
theory Delivery_Store
  imports Store_State
begin

text \<open>
  The delivery operations of the in-memory store (\<open>MemoryStore\<close> in
  \<open>src/adapters/memory-store.ts\<close>): emails and their idempotency claims, the atomic delivery
  commit, the delivery ledger, and the transactional outbox with its leases. Dates are
  milliseconds since the epoch of valid dates. The hook is \<open>afterDeliveryMutation\<close>.
\<close>

section \<open>Emails\<close>

text \<open>The unexpired claim of an idempotency key.\<close>

definition live_claim :: "mem \<Rightarrow> idempotency_claim option \<Rightarrow> int \<Rightarrow> idempotency_entry option" where
  "live_claim s claim now = (case claim of None \<Rightarrow> None | Some c \<Rightarrow>
     (case map_get (m_idempotency s) (ic_key_hash c) of None \<Rightarrow> None
      | Some entry \<Rightarrow> if now < ic_expires_at entry then Some entry else None))"

definition claims_hash :: "idempotency_claim option \<Rightarrow> string option" where
  "claims_hash claim = map_option ic_request_hash claim"

definition put_claim :: "idempotency_claim option \<Rightarrow> string \<Rightarrow> idempotency_entry jsmap \<Rightarrow> idempotency_entry jsmap" where
  "put_claim claim email_id m = (case claim of None \<Rightarrow> m
     | Some c \<Rightarrow> map_set (ic_key_hash c) \<lparr>ic_key_hash = ic_key_hash c, ic_request_hash = ic_request_hash c,
         ic_expires_at = ic_expires_at c, ie_email_id = email_id\<rparr> m)"

definition createEmail :: "int \<Rightarrow> email_record \<Rightarrow> idempotency_claim option \<Rightarrow> (mem, create_email_result) sx" where
  "createEmail now_ms record claim s =
     (case live_claim s claim (now_ms div 1000) of
        Some entry \<Rightarrow>
          if Some (ic_request_hash entry) \<noteq> claims_hash claim
          then (Inl (ConflictError ''The Idempotency-Key has already been used with a different request.''), s)
          else (case map_get (m_emails s) (ie_email_id entry) of
              None \<Rightarrow> (Inl (ConflictError ''The idempotent request exists but its email record is unavailable.''), s)
            | Some existing \<Rightarrow> (Inr \<lparr>cer_record = existing, cer_replayed = True\<rparr>, s))
      | None \<Rightarrow>
          (Inr \<lparr>cer_record = record, cer_replayed = False\<rparr>,
           s\<lparr>m_emails := map_set (em_id record) record (m_emails s),
             m_idempotency := put_claim claim (em_id record) (m_idempotency s)\<rparr>))"

definition getEmail :: "string \<Rightarrow> mem \<Rightarrow> email_record option" where
  "getEmail i s = map_get (m_emails s) i"

definition send_lease_expired :: "email_record \<Rightarrow> int \<Rightarrow> bool" where
  "send_lease_expired record now \<longleftrightarrow>
     em_status record = Em_sending \<and> opt_ok (\<lambda>l. l < now div 1000) (em_send_lease_until record)
     \<and> em_send_lease_until record \<noteq> None"

definition claimEmailForSend :: "string \<Rightarrow> int \<Rightarrow> int \<Rightarrow> (mem, email_record option) sx" where
  "claimEmailForSend i attempt now s =
     (case map_get (m_emails s) i of
        None \<Rightarrow> (Inr None, s)
      | Some record \<Rightarrow>
          if em_status record \<notin> {Em_queued, Em_scheduled} \<and> \<not> send_lease_expired record now
          then (Inr None, s)
          else let updated = record\<lparr>em_status := Em_sending, em_last_event := ''sending'',
                   em_attempts := max (em_attempts record + 1) attempt, em_updated_at := to_iso now,
                   em_send_lease_until := Some (now div 1000 + 120), em_error := None\<rparr>
               in (Inr (Some updated), s\<lparr>m_emails := map_set i updated (m_emails s)\<rparr>))"

definition updateEmail ::
  "string \<Rightarrow> (email_record \<Rightarrow> email_record) \<Rightarrow> email_status list option \<Rightarrow> (mem, email_record option) sx" where
  "updateEmail i updates fromStatuses s =
     (case map_get (m_emails s) i of
        None \<Rightarrow> (Inr None, s)
      | Some record \<Rightarrow>
          if \<not> opt_ok (\<lambda>ss. em_status record \<in> set ss) fromStatuses then (Inr None, s)
          else (Inr (Some (updates record)), s\<lparr>m_emails := map_set i (updates record) (m_emails s)\<rparr>))"

text \<open>The outbox item of a message, found through the index.\<close>

definition outbox_of_message :: "mem \<Rightarrow> string \<Rightarrow> outbox_record option" where
  "outbox_of_message s i =
     (let outboxId = map_get (m_outbox_by_message s) i
      in if truthy outboxId then map_get (m_outbox s) (the outboxId) else None)"

definition rescheduleEmailAndOutbox :: "string \<Rightarrow> string \<Rightarrow> int \<Rightarrow> (mem, email_record option) sx" where
  "rescheduleEmailAndOutbox i scheduledAt now s =
     (case (map_get (m_emails s) i, map_get (m_messages s) i, outbox_of_message s i) of
        (Some email, Some message, Some outbox) \<Rightarrow>
          if em_status email \<notin> {Em_queued, Em_scheduled} \<or> ob_dispatched_at outbox \<noteq> None
             \<or> ob_lease_owner outbox \<noteq> None
          then (Inr None, s)
          else let timestamp = to_iso now;
                   updated = email\<lparr>em_scheduled_at := Some scheduledAt, em_status := Em_scheduled,
                     em_last_event := ''scheduled'', em_updated_at := timestamp\<rparr>
               in (Inr (Some updated),
                   s\<lparr>m_emails := map_set i updated (m_emails s),
                     m_messages := map_set i (message\<lparr>msg_scheduled_at := Some scheduledAt,
                       msg_status := Msg_scheduled, msg_updated_at := timestamp\<rparr>) (m_messages s),
                     m_outbox := map_set (ob_id outbox)
                       (outbox\<lparr>ob_due_at := scheduledAt, ob_updated_at := timestamp\<rparr>) (m_outbox s)\<rparr>)
      | _ \<Rightarrow> (Inr None, s))"

definition listEmails :: "host \<Rightarrow> nat \<Rightarrow> string option \<Rightarrow> mem \<Rightarrow> email_record page result" where
  "listEmails h limit cursor s = pageFromMap h em_id em_created_at (map_values (m_emails s)) limit cursor"

section \<open>The atomic commit\<close>

record delivery_commit_result = delivery_commit +
  dcr_replayed :: bool

definition deliveryResult :: "mem \<Rightarrow> string \<Rightarrow> bool \<Rightarrow> delivery_commit_result option" where
  "deliveryResult s messageId replayed =
     (case (map_get (m_emails s) messageId, map_get (m_messages s) messageId, outbox_of_message s messageId) of
        (Some email, Some message, Some outbox) \<Rightarrow>
          (case those (map (map_get (m_recipients s)) (msg_recipient_ids message)) of
             None \<Rightarrow> None
           | Some recipients \<Rightarrow> Some \<lparr>dc_email = email, dc_message = message, dc_recipients = recipients,
               dc_outbox = outbox,
               dc_idempotency = map_option (\<lambda>e. \<lparr>ic_key_hash = ic_key_hash e, ic_request_hash = ic_request_hash e,
                 ic_expires_at = ic_expires_at e\<rparr>)
                 (find (\<lambda>e. ie_email_id e = messageId) (map_values (m_idempotency s))),
               dcr_replayed = replayed\<rparr>)
      | _ \<Rightarrow> None)"

definition getDelivery :: "string \<Rightarrow> mem \<Rightarrow> delivery_commit_result option" where
  "getDelivery messageId s = deliveryResult s messageId False"

fun stage_recipients ::
  "mutation_hook \<Rightarrow> nat \<Rightarrow> recipient_record list \<Rightarrow> recipient_record jsmap \<Rightarrow> (mem, recipient_record jsmap) sx" where
  "stage_recipients hook i [] staged = returnS staged"
| "stage_recipients hook i (r # rs) staged =
     (if map_has staged (rc_id r) then throwS (ConflictError ''Recipient identity is already in use.'')
      else thenS (afterDeliveryMutation hook (Mut_commit (Ent_recipient i)))
             (stage_recipients hook (Suc i) rs (map_set (rc_id r) r staged)))"

text \<open>The staged writes with their announcements, up to the point where they become visible.\<close>

definition stage_commit :: "mutation_hook \<Rightarrow> delivery_commit \<Rightarrow> (mem, recipient_record jsmap) sx" where
  "stage_commit hook c =
     bindS (getS m_recipients) (\<lambda>recipients.
     thenS (afterDeliveryMutation hook (Mut_commit Ent_email)) (
     thenS (afterDeliveryMutation hook (Mut_commit Ent_message)) (
     bindS (stage_recipients hook 0 (dc_recipients c) recipients) (\<lambda>nextRecipients.
     thenS (if dc_idempotency c = None then returnS () else afterDeliveryMutation hook (Mut_commit Ent_idempotency)) (
     thenS (afterDeliveryMutation hook (Mut_commit Ent_outbox)) (
     returnS nextRecipients))))))"

definition commit_delivery_writes :: "mutation_hook \<Rightarrow> delivery_commit \<Rightarrow> (mem, delivery_commit_result) sx" where
  "commit_delivery_writes hook c =
     bindS (getS id) (\<lambda>s.
     let email = dc_email c; message = dc_message c; outbox = dc_outbox c in
     bindS (stage_commit hook c) (\<lambda>nextRecipients.
     thenS (modifyS (\<lambda>t. t\<lparr>
       m_emails := map_set (em_id email) email (m_emails s),
       m_idempotency := put_claim (dc_idempotency c) (em_id email) (m_idempotency s),
       m_messages := map_set (msg_id message) message (m_messages s),
       m_recipients := nextRecipients,
       m_outbox := map_set (ob_id outbox) outbox (m_outbox s),
       m_outbox_by_message := map_set (msg_id message) (ob_id outbox) (m_outbox_by_message s)\<rparr>)) (
     thenS (afterDeliveryMutation hook Mut_commit_swap)
       (returnS (delivery_commit.extend c \<lparr>dcr_replayed = False\<rparr>)))))"

definition commitDelivery :: "host \<Rightarrow> mutation_hook \<Rightarrow> delivery_commit \<Rightarrow> int \<Rightarrow> (mem, delivery_commit_result) sx" where
  "commitDelivery h hook input now =
     bindS (liftS (validateDeliveryCommit h input now)) (\<lambda>c.
     bindS (getS id) (\<lambda>s.
     case live_claim s (dc_idempotency c) now of
       Some entry \<Rightarrow>
         if Some (ic_request_hash entry) \<noteq> claims_hash (dc_idempotency c)
         then throwS (ConflictError ''The Idempotency-Key has already been used with a different request.'')
         else (case deliveryResult s (ie_email_id entry) True of
             None \<Rightarrow> throwS (ConflictError ''The idempotent delivery exists but its atomic records are unavailable.'')
           | Some replay \<Rightarrow> returnS replay)
     | None \<Rightarrow>
         if map_has (m_emails s) (em_id (dc_email c)) \<or> map_has (m_messages s) (msg_id (dc_message c))
            \<or> map_has (m_outbox s) (ob_id (dc_outbox c))
         then throwS (ConflictError ''Delivery identity is already in use.'')
         else commit_delivery_writes hook c))"

section \<open>The delivery ledger\<close>

record delivery_ledger_snapshot = delivery_ledger_state +
  dls_events :: "event_record list"

record ledger_mutation_result = delivery_ledger_snapshot +
  lmr_replayed :: bool
  lmr_changed_recipient_ids :: "string list"
  lmr_attempt :: "attempt_record option"
  lmr_event :: "event_record option"

definition attempt_order :: "host \<Rightarrow> attempt_record \<Rightarrow> attempt_record \<Rightarrow> int" where
  "attempt_order h l r = cmp_or (at_sequence l - at_sequence r) (h_collate h (at_id l) (at_id r))"

definition event_order :: "host \<Rightarrow> event_record \<Rightarrow> event_record \<Rightarrow> int" where
  "event_order h l r = cmp_or (h_collate h (ev_received_at l) (ev_received_at r)) (h_collate h (ev_id l) (ev_id r))"

definition deliveryLedger :: "host \<Rightarrow> mem \<Rightarrow> string \<Rightarrow> delivery_ledger_snapshot option" where
  "deliveryLedger h s messageId =
     (case (map_get (m_emails s) messageId, map_get (m_messages s) messageId) of
        (Some email, Some message) \<Rightarrow>
          (case those (map (map_get (m_recipients s)) (msg_recipient_ids message)) of
             None \<Rightarrow> None
           | Some recipients \<Rightarrow> Some \<lparr>dl_email = email, dl_message = message, dl_recipients = recipients,
               dl_attempts = js_sort (attempt_order h)
                 (filter (\<lambda>a. at_message_id a = messageId) (map_values (m_attempts s))),
               dls_events = js_sort (event_order h)
                 (filter (\<lambda>e. ev_message_id e = messageId) (map_values (m_events s)))\<rparr>)
      | _ \<Rightarrow> None)"

definition deliveryLedgerResult ::
  "host \<Rightarrow> mem \<Rightarrow> string \<Rightarrow> bool \<Rightarrow> string list \<Rightarrow> attempt_record option \<Rightarrow> event_record option
     \<Rightarrow> ledger_mutation_result option" where
  "deliveryLedgerResult h s messageId replayed changed attempt event =
     map_option (\<lambda>snapshot. delivery_ledger_snapshot.extend snapshot
       \<lparr>lmr_replayed = replayed, lmr_changed_recipient_ids = changed, lmr_attempt = attempt, lmr_event = event\<rparr>)
     (deliveryLedger h s messageId)"

fun announce_recipients :: "mutation_hook \<Rightarrow> nat \<Rightarrow> recipient_record list \<Rightarrow> (mem, unit) sx" where
  "announce_recipients hook i [] = returnS ()"
| "announce_recipients hook i (r # rs) =
     thenS (afterDeliveryMutation hook (Mut_ledger (Ent_recipient i))) (announce_recipients hook (Suc i) rs)"

definition put_all :: "('a \<Rightarrow> string) \<Rightarrow> 'a list \<Rightarrow> 'a jsmap \<Rightarrow> 'a jsmap" where
  "put_all key xs m = fold (\<lambda>x. map_set (key x) x) xs m"

definition announce_plan ::
  "mutation_hook \<Rightarrow> ('a) delivery_ledger_state_scheme \<Rightarrow> attempt_record option \<Rightarrow> event_record option \<Rightarrow> (mem, unit) sx" where
  "announce_plan hook plan attempt event =
     thenS (afterDeliveryMutation hook (Mut_ledger Ent_email)) (
     thenS (afterDeliveryMutation hook (Mut_ledger Ent_message)) (
     thenS (announce_recipients hook 0 (dl_recipients plan)) (
     thenS (if attempt = None then returnS () else afterDeliveryMutation hook (Mut_ledger Ent_attempt))
       (if event = None then returnS () else afterDeliveryMutation hook (Mut_ledger Ent_provider_event)))))"

definition commitLedgerPlan ::
  "mutation_hook \<Rightarrow> ('a) delivery_ledger_state_scheme \<Rightarrow> attempt_record option \<Rightarrow> event_record option \<Rightarrow> (mem, unit) sx" where
  "commitLedgerPlan hook plan attempt event =
     bindS (getS id) (\<lambda>s.
     thenS (announce_plan hook plan attempt event) (
     modifyS (\<lambda>t. t\<lparr>
       m_emails := map_set (em_id (dl_email plan)) (dl_email plan) (m_emails s),
       m_messages := map_set (msg_id (dl_message plan)) (dl_message plan) (m_messages s),
       m_recipients := put_all rc_id (dl_recipients plan) (m_recipients s),
       m_attempts := put_all at_id (case attempt of None \<Rightarrow> [] | Some a \<Rightarrow> [a]) (m_attempts s),
       m_events := put_all ev_id (case event of None \<Rightarrow> [] | Some e \<Rightarrow> [e]) (m_events s)\<rparr>)))"

definition getDeliveryLedger :: "host \<Rightarrow> string \<Rightarrow> mem \<Rightarrow> delivery_ledger_snapshot option" where
  "getDeliveryLedger h messageId s = deliveryLedger h s messageId"

definition beginDeliveryAttempt ::
  "host \<Rightarrow> mutation_hook \<Rightarrow> attempt_record \<Rightarrow> (mem, ledger_mutation_result option) sx" where
  "beginDeliveryAttempt h hook input =
     bindS (liftS (parse_attempt h input)) (\<lambda>attempt.
     bindS (getS id) (\<lambda>s.
     case deliveryLedger h s (at_message_id attempt) of
       None \<Rightarrow> returnS None
     | Some snapshot \<Rightarrow>
        (case find (\<lambda>a. at_id a = at_id attempt \<or> at_sequence a = at_sequence attempt) (dl_attempts snapshot) of
           Some existing \<Rightarrow>
             if existing \<noteq> attempt
             then throwS (ConflictError ''Delivery attempt identity or sequence is already in use.'')
             else returnS (deliveryLedgerResult h s (at_message_id attempt) True [] (Some existing) None)
         | None \<Rightarrow>
             bindS (liftS (planAttemptStart h snapshot attempt)) (\<lambda>(plan, _).
             thenS (commitLedgerPlan hook plan (Some attempt) None)
               (getS (\<lambda>t. deliveryLedgerResult h t (at_message_id attempt) False (dl_changed_recipient_ids plan)
                  (Some attempt) None))))))"

definition same_completion :: "attempt_record \<Rightarrow> attempt_completion \<Rightarrow> string \<Rightarrow> bool" where
  "same_completion existing input completedAt \<longleftrightarrow>
     at_completed_at existing = Some completedAt
   \<and> at_provider_message_id existing = cp_provider_message_id input
   \<and> at_diagnostic_category existing = cp_diagnostic_category input"

definition completeDeliveryAttempt ::
  "host \<Rightarrow> mutation_hook \<Rightarrow> attempt_completion \<Rightarrow> (mem, ledger_mutation_result option) sx" where
  "completeDeliveryAttempt h hook input =
     bindS (getS id) (\<lambda>s.
     case deliveryLedger h s (cp_message_id input) of
       None \<Rightarrow> returnS None
     | Some snapshot \<Rightarrow>
        (case find (\<lambda>a. at_id a = cp_attempt_id input) (dl_attempts snapshot) of
           None \<Rightarrow> throwS (ConflictError ''Delivery attempt does not exist.'')
         | Some existing \<Rightarrow>
             if at_status existing \<noteq> At_submitting
             then if at_status existing \<noteq> completion_attempt_status (cp_status input)
               then throwS (ConflictError ''Delivery attempt has already completed differently.'')
               else bindS (liftS (to_iso_of_string h (cp_completed_at input))) (\<lambda>completedAt.
                 if \<not> same_completion existing input completedAt
                 then throwS (ConflictError ''Delivery attempt has already completed differently.'')
                 else returnS (deliveryLedgerResult h s (cp_message_id input) True [] (Some existing) None))
             else
               bindS (liftS (planAttemptCompletion h snapshot input)) (\<lambda>(plan, attempt).
               thenS (commitLedgerPlan hook plan (Some attempt) None)
                 (getS (\<lambda>t. deliveryLedgerResult h t (cp_message_id input) False (dl_changed_recipient_ids plan)
                    (Some attempt) None)))))"

definition appendProviderEvent ::
  "host \<Rightarrow> mutation_hook \<Rightarrow> event_record \<Rightarrow> (mem, ledger_mutation_result option) sx" where
  "appendProviderEvent h hook input =
     bindS (liftS (parse_event h input)) (\<lambda>event.
     bindS (getS id) (\<lambda>s.
     case map_get (m_events s) (ev_id event) of
       Some existing \<Rightarrow>
         bindS (liftS (isEquivalentProviderEventReplay h existing event)) (\<lambda>same.
         if \<not> same
         then throwS (ConflictError ''Provider event identity is already used by a different normalized event.'')
         else returnS (deliveryLedgerResult h s (ev_message_id existing) True [] None (Some existing)))
     | None \<Rightarrow>
        (case deliveryLedger h s (ev_message_id event) of
           None \<Rightarrow> returnS None
         | Some snapshot \<Rightarrow>
             bindS (liftS (planProviderEvent h snapshot event)) (\<lambda>(plan, _).
             thenS (commitLedgerPlan hook plan None (Some event))
               (getS (\<lambda>t. deliveryLedgerResult h t (ev_message_id event) False (dl_changed_recipient_ids plan)
                  None (Some event)))))))"

definition applyLocalDeliveryState ::
  "host \<Rightarrow> mutation_hook \<Rightarrow> string \<Rightarrow> local_status \<Rightarrow> string \<Rightarrow> (mem, ledger_mutation_result option) sx" where
  "applyLocalDeliveryState h hook messageId status updatedAt =
     bindS (getS id) (\<lambda>s.
     case deliveryLedger h s messageId of
       None \<Rightarrow> returnS None
     | Some snapshot \<Rightarrow>
         bindS (liftS (planLocalRecipientState h snapshot status updatedAt)) (\<lambda>plan.
         thenS (commitLedgerPlan hook plan None None)
           (getS (\<lambda>t. deliveryLedgerResult h t messageId False (dl_changed_recipient_ids plan) None None))))"

definition getProviderEvent :: "string \<Rightarrow> mem \<Rightarrow> event_record option" where
  "getProviderEvent i s = map_get (m_events s) i"

definition getLatestProviderEventReceivedAt :: "host \<Rightarrow> mem \<Rightarrow> string option" where
  "getLatestProviderEventReceivedAt h s =
     (case js_sort (\<lambda>l r. h_collate h r l) (map ev_received_at (map_values (m_events s))) of
        [] \<Rightarrow> None | t # _ \<Rightarrow> Some t)"

section \<open>The outbox\<close>

definition js_integer :: "js_number \<Rightarrow> int option" where
  "js_integer n = (case n of Num q \<Rightarrow> if of_int \<lfloor>q\<rfloor> = q then Some \<lfloor>q\<rfloor> else None | _ \<Rightarrow> None)"

record lease_due_input =
  lo_owner :: string
  lo_now :: int
  lo_lease_seconds :: js_number
  lo_limit :: js_number

text \<open>\<open>/^[^\s@]{1,512}$/\<close>\<close>

definition is_lease_owner :: "string \<Rightarrow> bool" where
  "is_lease_owner s \<longleftrightarrow> 1 \<le> js_length s \<and> js_length s \<le> 512 \<and> CHR ''@'' \<notin> set s
     \<and> list_all (\<lambda>p. \<not> is_space p) (code_points s)"

definition getOutboxItem :: "string \<Rightarrow> mem \<Rightarrow> outbox_record option" where
  "getOutboxItem i s = map_get (m_outbox s) i"

definition outbox_is_due :: "host \<Rightarrow> int \<Rightarrow> outbox_record \<Rightarrow> bool" where
  "outbox_is_due h now item \<longleftrightarrow>
     ob_dispatched_at item = None \<and> date_le (date_parse h (ob_due_at item)) (Some now)
   \<and> opt_ok (\<lambda>l. date_le (date_parse h l) (Some now)) (ob_lease_expires_at item)"

definition outbox_order :: "host \<Rightarrow> outbox_record \<Rightarrow> outbox_record \<Rightarrow> int" where
  "outbox_order h l r = cmp_or (h_collate h (ob_due_at l) (ob_due_at r)) (h_collate h (ob_id l) (ob_id r))"

definition leased_item :: "outbox_record \<Rightarrow> string \<Rightarrow> string \<Rightarrow> string \<Rightarrow> outbox_record" where
  "leased_item item owner expires now =
     item\<lparr>ob_attempts := ob_attempts item + 1, ob_lease_owner := Some owner, ob_lease_expires_at := Some expires,
          ob_updated_at := now\<rparr>"

fun lease_each ::
  "host \<Rightarrow> mutation_hook \<Rightarrow> string \<Rightarrow> string \<Rightarrow> string \<Rightarrow> outbox_record list \<Rightarrow> (mem, outbox_record list) sx" where
  "lease_each h hook owner expires now [] = returnS []"
| "lease_each h hook owner expires now (item # items) =
     bindS (liftS (parse_outbox h (leased_item item owner expires now))) (\<lambda>updated.
     thenS (modifyS (\<lambda>s. s\<lparr>m_outbox := map_set (ob_id item) updated (m_outbox s)\<rparr>)) (
     thenS (afterDeliveryMutation hook Mut_lease) (
     bindS (lease_each h hook owner expires now items) (\<lambda>leased.
     returnS (updated # leased)))))"

definition due_outbox :: "host \<Rightarrow> int \<Rightarrow> mem \<Rightarrow> outbox_record list" where
  "due_outbox h now s = js_sort (outbox_order h) (filter (outbox_is_due h now) (map_values (m_outbox s)))"

definition leaseDueOutbox :: "host \<Rightarrow> mutation_hook \<Rightarrow> lease_due_input \<Rightarrow> (mem, outbox_record list) sx" where
  "leaseDueOutbox h hook input =
     (if \<not> is_lease_owner (lo_owner input)
      then throwS (PlainError ''Outbox lease owner must be a privacy-safe opaque ID.'')
      else case (js_integer (lo_lease_seconds input), js_integer (lo_limit input)) of
        (None, _) \<Rightarrow> throwS (PlainError ''Outbox lease duration must be a positive integer.'')
      | (Some seconds, limit) \<Rightarrow>
         if seconds \<le> 0 then throwS (PlainError ''Outbox lease duration must be a positive integer.'')
         else case limit of
           None \<Rightarrow> throwS (PlainError ''Outbox lease limit must be a positive integer.'')
         | Some n \<Rightarrow>
            if n \<le> 0 then throwS (PlainError ''Outbox lease limit must be a positive integer.'')
            else if n > 1000 then throwS (PlainError ''Outbox lease limit cannot exceed 1000.'')
            else
              bindS (liftS (date_to_iso (make_date (lo_now input + seconds * 1000)))) (\<lambda>leaseExpiresAt.
              bindS (getS (due_outbox h (lo_now input))) (\<lambda>due.
              lease_each h hook (lo_owner input) leaseExpiresAt (to_iso (lo_now input)) (take (nat n) due))))"

definition owns_lease :: "string \<Rightarrow> outbox_record \<Rightarrow> bool" where
  "owns_lease owner item \<longleftrightarrow> ob_dispatched_at item = None \<and> ob_lease_owner item = Some owner"

definition acknowledgeOutbox :: "host \<Rightarrow> mutation_hook \<Rightarrow> string \<Rightarrow> string \<Rightarrow> int \<Rightarrow> (mem, bool) sx" where
  "acknowledgeOutbox h hook i owner now =
     bindS (getS (getOutboxItem i)) (\<lambda>item.
     case item of None \<Rightarrow> returnS False
     | Some item \<Rightarrow>
        if \<not> owns_lease owner item then returnS False
        else bindS (liftS (parse_outbox h (item\<lparr>ob_lease_owner := None, ob_lease_expires_at := None,
               ob_dispatched_at := Some (to_iso now), ob_updated_at := to_iso now\<rparr>))) (\<lambda>updated.
             thenS (modifyS (\<lambda>s. s\<lparr>m_outbox := map_set i updated (m_outbox s)\<rparr>)) (
             thenS (afterDeliveryMutation hook Mut_acknowledge) (returnS True))))"

definition recordOutboxFailure ::
  "host \<Rightarrow> mutation_hook \<Rightarrow> string \<Rightarrow> string \<Rightarrow> diagnostic_category \<Rightarrow> int \<Rightarrow> (mem, bool) sx" where
  "recordOutboxFailure h hook i owner category now =
     bindS (getS (getOutboxItem i)) (\<lambda>item.
     case item of None \<Rightarrow> returnS False
     | Some item \<Rightarrow>
        if \<not> owns_lease owner item then returnS False
        else bindS (liftS (parse_outbox h (item\<lparr>ob_lease_owner := None, ob_lease_expires_at := None,
               ob_last_diagnostic_category := Some category, ob_updated_at := to_iso now\<rparr>))) (\<lambda>updated.
             thenS (modifyS (\<lambda>s. s\<lparr>m_outbox := map_set i updated (m_outbox s),
                 m_publish_failures := m_publish_failures s + 1\<rparr>)) (
             thenS (afterDeliveryMutation hook Mut_failure) (returnS True))))"

section \<open>Outbox metrics\<close>

record outbox_metrics =
  om_due :: int
  om_leased :: int
  om_stuck_leases :: int
  om_undispatched :: int
  om_oldest_due_age_seconds :: "int option"
  om_publish_failures_total :: int
  om_truncated :: bool

record metrics_loop =
  ml_due :: int
  ml_leased :: int
  ml_stuck :: int
  ml_undispatched :: int
  ml_oldest :: "int option option"

text \<open>
  One iteration. \<open>ml_oldest\<close> is \<open>undefined\<close> (\<open>None\<close>) or the smallest due date so far, which is
  not a number once a due date does not parse (comparisons with it are false).
\<close>

definition metrics_step :: "host \<Rightarrow> int \<Rightarrow> outbox_record \<Rightarrow> metrics_loop \<Rightarrow> metrics_loop" where
  "metrics_step h now item acc =
     (if ob_dispatched_at item \<noteq> None then acc else
      let acc1 = acc\<lparr>ml_undispatched := ml_undispatched acc + 1\<rparr>;
          dueAt = date_parse h (ob_due_at item)
      in if date_less (Some now) dueAt then acc1 else
      let acc2 = acc1\<lparr>ml_oldest := Some (case ml_oldest acc1 of None \<Rightarrow> dueAt
            | Some old \<Rightarrow> (case (old, dueAt) of (Some a, Some b) \<Rightarrow> Some (min a b) | _ \<Rightarrow> None))\<rparr>
      in if ob_lease_expires_at item \<noteq> None \<and> opt_ok (\<lambda>l. date_less (Some now) (date_parse h l)) (ob_lease_expires_at item)
         then acc2\<lparr>ml_leased := ml_leased acc2 + 1\<rparr>
         else acc2\<lparr>ml_due := ml_due acc2 + 1,
                   ml_stuck := ml_stuck acc2 + (if ob_lease_expires_at item \<noteq> None then 1 else 0)\<rparr>)"

text \<open>The age is not a number (here \<open>None\<close>) when a due date does not parse.\<close>

definition getOutboxMetrics :: "host \<Rightarrow> int \<Rightarrow> mem \<Rightarrow> outbox_metrics" where
  "getOutboxMetrics h now s =
     (let m = fold (metrics_step h now) (map_values (m_outbox s))
            \<lparr>ml_due = 0, ml_leased = 0, ml_stuck = 0, ml_undispatched = 0, ml_oldest = None\<rparr>
      in \<lparr>om_due = ml_due m, om_leased = ml_leased m, om_stuck_leases = ml_stuck m,
          om_undispatched = ml_undispatched m,
          om_oldest_due_age_seconds = (case ml_oldest m of None \<Rightarrow> Some 0
            | Some oldest \<Rightarrow> map_option (\<lambda>d. max 0 ((now - d) div 1000)) oldest),
          om_publish_failures_total = m_publish_failures s, om_truncated = False\<rparr>)"

end
