(* ===== verification/Ledger_Facts.thy ===== *)
theory Ledger_Facts
  imports Recipient_Ledger
begin

text \<open>
  What the planners of \<open>Recipient_Ledger\<close> guarantee. A planner that returns keeps the ledger
  well formed, changes only the recipients it names, and the reachable ledgers of a message
  are those of a protocol in which a message is handed to the provider at most once:
  attempts are numbered from 1, all but the last failed retryably, and an attempt can start
  only while every recipient is queued.
\<close>

section \<open>Well-formed ledgers\<close>

definition attempt_in :: "message_record \<Rightarrow> attempt_record \<Rightarrow> bool" where
  "attempt_in m a \<longleftrightarrow> at_message_id a = msg_id m \<and> at_provider a = msg_provider m
     \<and> set (at_recipient_ids a) \<subseteq> set (msg_recipient_ids m)"

lemma attempt_in_update [simp]: "attempt_in (m\<lparr>msg_status := s, msg_updated_at := t\<rparr>) = attempt_in m"
  by (simp add: attempt_in_def fun_eq_iff)

definition ledger_wf :: "host \<Rightarrow> delivery_ledger_state \<Rightarrow> bool" where
  "ledger_wf h st \<longleftrightarrow>
     message_ok h (dl_message st) \<and> list_all (recipient_ok h) (dl_recipients st)
   \<and> list_all (attempt_ok h) (dl_attempts st)
   \<and> em_id (dl_email st) = msg_id (dl_message st)
   \<and> map rc_id (dl_recipients st) = msg_recipient_ids (dl_message st)
   \<and> list_all (\<lambda>r. rc_message_id r = msg_id (dl_message st)) (dl_recipients st)
   \<and> distinct (map at_id (dl_attempts st)) \<and> distinct (map at_sequence (dl_attempts st))
   \<and> list_all (attempt_in (dl_message st)) (dl_attempts st)"

abbreviation ledger_of :: "('a) delivery_ledger_state_scheme \<Rightarrow> delivery_ledger_state" where
  "ledger_of \<equiv> delivery_ledger_state.truncate"

lemma ledger_of_simps [simp]:
  "dl_email (ledger_of st) = dl_email st" "dl_message (ledger_of st) = dl_message st"
  "dl_recipients (ledger_of st) = dl_recipients st" "dl_attempts (ledger_of st) = dl_attempts st"
  by (simp_all add: delivery_ledger_state.truncate_def)

lemma plan_of_simps [simp]:
  "dl_email (plan_of e m rs as cs) = e" "dl_message (plan_of e m rs as cs) = m"
  "dl_recipients (plan_of e m rs as cs) = rs" "dl_attempts (plan_of e m rs as cs) = as"
  "dl_changed_recipient_ids (plan_of e m rs as cs) = cs"
  by (simp_all add: plan_of_def)

lemma assertLedgerState_Inr:
  "assertLedgerState h st = Inr st' \<longleftrightarrow>
     message_ok h (dl_message st) \<and> list_all (recipient_ok h) (dl_recipients st)
   \<and> list_all (attempt_ok h) (dl_attempts st)
   \<and> ledger_records_belong (dl_email st) (dl_message st) (dl_recipients st) (dl_attempts st)
   \<and> st' = \<lparr>dl_email = dl_email st, dl_message = dl_message st,
       dl_recipients = map (\<lambda>id. the (map_get (map_from (map (\<lambda>r. (rc_id r, r)) (dl_recipients st))) id))
         (msg_recipient_ids (dl_message st)),
       dl_attempts = dl_attempts st\<rparr>"
  by (auto simp: assertLedgerState_def parse_defs bindE_Inr_iff mapE_checkE_Inr_iff Let_def)

text \<open>The recipients of a ledger are a permutation of the message's recipient IDs.\<close>

lemma belong_perm:
  assumes "message_ok h m" "ledger_records_belong e m rs as"
  shows "distinct (map rc_id rs)" "set (map rc_id rs) = set (msg_recipient_ids m)"
proof -
  have "mset (msg_recipient_ids m) = mset (map rc_id rs)"
    using assms by (intro same_length_subset_perm)
      (auto simp: message_ok_def unique_values_def ledger_records_belong_def list_all_iff)
  then show "distinct (map rc_id rs)" "set (map rc_id rs) = set (msg_recipient_ids m)"
    using assms(1) by (metis mset_eq_imp_distinct_iff message_ok_def unique_values_def, metis mset_eq_setD)
qed

lemma recipient_lookup:
  assumes "distinct (map rc_id rs)" "r \<in> set rs"
  shows "map_get (map_from (map (\<lambda>r. (rc_id r, r)) rs)) (rc_id r) = Some r"
  using assms by (auto simp: map_get_from map_of_rev_distinct comp_def intro!: map_of_is_SomeI)

lemma reorder_self:
  "distinct (map rc_id rs) \<Longrightarrow> map (\<lambda>id. the (map_get (map_from (map (\<lambda>r. (rc_id r, r)) rs)) id)) (map rc_id rs) = rs"
  by (simp add: recipient_lookup cong: map_cong)

lemma assert_wf:
  assumes "assertLedgerState h st = Inr st'"
  shows "ledger_wf h st'" "dl_email st' = dl_email st" "dl_message st' = dl_message st"
    "dl_attempts st' = dl_attempts st" "set (dl_recipients st') = set (dl_recipients st)"
    "mset (dl_recipients st') = mset (dl_recipients st)"
proof -
  let ?rs = "dl_recipients st" and ?m = "dl_message st"
  note a = assms[unfolded assertLedgerState_Inr]
  then have p: "distinct (map rc_id ?rs)" "set (map rc_id ?rs) = set (msg_recipient_ids ?m)"
    using belong_perm by blast+
  show simple: "dl_email st' = dl_email st" "dl_message st' = dl_message st" "dl_attempts st' = dl_attempts st"
    using a by simp_all
  obtain get where get: "get = (\<lambda>id. the (map_get (map_from (map (\<lambda>r. (rc_id r, r)) ?rs)) id))"
    by blast
  have recs: "dl_recipients st' = map get (msg_recipient_ids ?m)" using a get by simp
  have look: "rc_id (get id) = id \<and> get id \<in> set ?rs" if "id \<in> set (msg_recipient_ids ?m)" for id
  proof -
    from that p(2) obtain r where "r \<in> set ?rs" "rc_id r = id" by (metis imageE list.set_map)
    then show ?thesis using recipient_lookup[OF p(1)] by (auto simp: get)
  qed
  have ids: "map rc_id (dl_recipients st') = msg_recipient_ids ?m"
    unfolding recs by (simp add: look map_idI)
  have sub: "set (dl_recipients st') \<subseteq> set ?rs"
    unfolding recs using look by auto
  have len: "length (dl_recipients st') = length ?rs"
    using a by (simp add: ledger_records_belong_def)
  have dist: "distinct (dl_recipients st')"
    using ids p(1) a by (metis distinct_map message_ok_def unique_values_def)
  show perm: "mset (dl_recipients st') = mset ?rs"
    using same_length_subset_perm[OF dist sub len] .
  then show set_eq: "set (dl_recipients st') = set ?rs" by (metis set_mset_mset)
  show "ledger_wf h st'"
    using a ids set_eq p(2) simple
    by (auto simp: ledger_wf_def ledger_records_belong_def unique_values_def list_all_iff attempt_in_def)
qed

lemma wf_assert: "ledger_wf h st \<Longrightarrow> assertLedgerState h st = Inr st"
proof -
  assume w: "ledger_wf h st"
  then have d: "distinct (map rc_id (dl_recipients st))"
    by (auto simp: ledger_wf_def message_ok_def unique_values_def)
  have "ledger_records_belong (dl_email st) (dl_message st) (dl_recipients st) (dl_attempts st)"
    using w by (auto simp: ledger_wf_def ledger_records_belong_def unique_values_def list_all_iff attempt_in_def
      simp del: set_map dest: arg_cong[where f = length] arg_cong[where f = set])
  with w show ?thesis
    unfolding assertLedgerState_Inr using reorder_self[OF d] by (simp add: ledger_wf_def)
qed

lemma assert_truncate [simp]: "assertLedgerState h (ledger_of st) = assertLedgerState h st"
  by (simp add: assertLedgerState_def cong: if_cong)

section \<open>Facts shared by the planners\<close>

lemma mapE_parse_if:
  "mapE (\<lambda>r. if c r then parse_recipient h (g r) else Inr r) rs = Inr rs' \<longleftrightarrow>
     rs' = map (\<lambda>r. if c r then g r else r) rs \<and> (\<forall>r \<in> set rs. c r \<longrightarrow> recipient_ok h (g r))"
  by (induction rs arbitrary: rs') (auto simp: bindE_Inr_iff parse_defs)

lemma mapE_parse_all:
  "mapE (\<lambda>r. parse_recipient h (g r)) rs = Inr rs' \<longleftrightarrow>
     rs' = map g rs \<and> (\<forall>r \<in> set rs. recipient_ok h (g r))"
  by (induction rs arbitrary: rs') (auto simp: bindE_Inr_iff parse_defs)

lemma updateMessage_Inr:
  "updateMessage h m rs t = Inr m' \<longleftrightarrow>
     (\<exists>s. deriveDeliveryMessageStatus rs = Inr s \<and> m' = m\<lparr>msg_status := s, msg_updated_at := t\<rparr>) \<and> message_ok h m'"
  by (auto simp: updateMessage_def bindE_Inr_iff parse_defs)

lemma updateEmail_id [simp]: "em_id (updateEmailForRecipients e m rs t x) = em_id e"
  by (simp add: updateEmailForRecipients_def Let_def)

lemma complete_email_id [simp]: "em_id (complete_email e i) = em_id e"
  by (simp add: complete_email_def)

lemma complete_attempt_simps [simp]:
  "at_id (complete_attempt a i t) = at_id a" "at_message_id (complete_attempt a i t) = at_message_id a"
  "at_recipient_ids (complete_attempt a i t) = at_recipient_ids a" "at_sequence (complete_attempt a i t) = at_sequence a"
  "at_provider (complete_attempt a i t) = at_provider a"
  "at_status (complete_attempt a i t) = completion_attempt_status (cp_status i)"
  by (simp_all add: complete_attempt_def)

text \<open>Updating each recipient without touching its identity keeps a ledger well formed.\<close>

lemma wf_update:
  assumes "ledger_wf h st" "\<And>r. rc_id (f r) = rc_id r" "\<And>r. rc_message_id (f r) = rc_message_id r"
    "\<forall>r \<in> set (dl_recipients st). recipient_ok h (f r)"
    "updateMessage h (dl_message st) (map f (dl_recipients st)) t = Inr m'" "em_id e' = em_id (dl_email st)"
  shows "ledger_wf h \<lparr>dl_email = e', dl_message = m', dl_recipients = map f (dl_recipients st),
    dl_attempts = dl_attempts st\<rparr>"
  using assms by (auto simp: ledger_wf_def updateMessage_Inr list_all_iff comp_def)

lemma wf_recipient_ok: "ledger_wf h st \<Longrightarrow> r \<in> set (dl_recipients st) \<Longrightarrow> recipient_ok h r"
  by (simp add: ledger_wf_def list_all_iff)

lemma wf_update_if:
  assumes "ledger_wf h st" "\<And>r. rc_id (g r) = rc_id r" "\<And>r. rc_message_id (g r) = rc_message_id r"
    "\<forall>r \<in> set (dl_recipients st). c r \<longrightarrow> recipient_ok h (g r)"
    "updateMessage h (dl_message st) (map (\<lambda>r. if c r then g r else r) (dl_recipients st)) t = Inr m'"
    "em_id e' = em_id (dl_email st)"
  shows "ledger_wf h \<lparr>dl_email = e', dl_message = m',
    dl_recipients = map (\<lambda>r. if c r then g r else r) (dl_recipients st), dl_attempts = dl_attempts st\<rparr>"
  using assms by (intro wf_update[where f = "\<lambda>r. if c r then g r else r"]) (auto intro: wf_recipient_ok)

lemma wf_append_attempt:
  "ledger_wf h st \<Longrightarrow> attempt_ok h a \<Longrightarrow> attempt_in (dl_message st) a \<Longrightarrow>
     \<forall>b \<in> set (dl_attempts st). at_id b \<noteq> at_id a \<and> at_sequence b \<noteq> at_sequence a \<Longrightarrow>
     ledger_wf h (st\<lparr>dl_attempts := dl_attempts st @ [a]\<rparr>)"
  by (auto simp: ledger_wf_def)

lemma wf_replace_attempt:
  assumes "ledger_wf h st" "i < length (dl_attempts st)" "attempt_ok h a"
    "at_id a = at_id (dl_attempts st ! i)" "at_message_id a = at_message_id (dl_attempts st ! i)"
    "at_sequence a = at_sequence (dl_attempts st ! i)" "at_provider a = at_provider (dl_attempts st ! i)"
    "at_recipient_ids a = at_recipient_ids (dl_attempts st ! i)"
  shows "ledger_wf h (st\<lparr>dl_attempts := (dl_attempts st)[i := a]\<rparr>)"
proof -
  have "map at_id ((dl_attempts st)[i := a]) = map at_id (dl_attempts st)"
    "map at_sequence ((dl_attempts st)[i := a]) = map at_sequence (dl_attempts st)"
    using assms by (metis map_update list_update_id nth_map)+
  moreover have "attempt_in (dl_message st) a = attempt_in (dl_message st) (dl_attempts st ! i)"
    using assms by (simp add: attempt_in_def)
  ultimately show ?thesis
    using assms by (auto simp: ledger_wf_def list_all_iff dest!: set_update_subset_insert[THEN subsetD])
qed

lemma attempt_starts_ids:
  assumes "message_ok h (dl_message st)" "attempt_ok h a" "attempt_starts st a"
  shows "set (at_recipient_ids a) = set (msg_recipient_ids (dl_message st))" "attempt_in (dl_message st) a"
    "\<forall>b \<in> set (dl_attempts st). at_id b \<noteq> at_id a \<and> at_sequence b \<noteq> at_sequence a"
    "at_status a = At_submitting" "at_sequence a = max_sequence (dl_attempts st) + 1"
proof -
  have "mset (msg_recipient_ids (dl_message st)) = mset (at_recipient_ids a)"
    using assms by (intro same_length_subset_perm)
      (auto simp: message_ok_def unique_values_def attempt_starts_def list_all_iff)
  then show e: "set (at_recipient_ids a) = set (msg_recipient_ids (dl_message st))" by (metis mset_eq_setD)
  then show "attempt_in (dl_message st) a" using assms(3) by (simp add: attempt_in_def attempt_starts_def)
  show "\<forall>b \<in> set (dl_attempts st). at_id b \<noteq> at_id a \<and> at_sequence b \<noteq> at_sequence a"
    "at_status a = At_submitting" "at_sequence a = max_sequence (dl_attempts st) + 1"
    using assms(3) by (auto simp: attempt_starts_def list_ex_iff)
qed

section \<open>What each planner returns\<close>

definition started_recipient :: "attempt_record \<Rightarrow> recipient_record \<Rightarrow> recipient_record" where
  "started_recipient a r = r\<lparr>rc_status := Rc_sending, rc_latest_attempt_id := Some (at_id a), rc_updated_at := at_started_at a\<rparr>"

lemma start_Inr:
  assumes "planAttemptStart h st a = Inr (plan, a')"
  obtains st' where "assertLedgerState h st = Inr st'" "ledger_wf h st'" "a' = a" "attempt_ok h a"
    "attempt_starts st' a" "\<forall>r \<in> set (dl_recipients st'). rc_status r = Rc_queued"
    "dl_recipients plan = map (started_recipient a) (dl_recipients st')"
    "dl_attempts plan = dl_attempts st' @ [a]"
    "dl_changed_recipient_ids plan = map rc_id (dl_recipients st')"
    "dl_email plan = (dl_email st')\<lparr>em_status := Em_sending, em_last_event := ''sending'', em_updated_at := at_started_at a\<rparr>"
    "dl_message plan = (dl_message st')\<lparr>msg_status := Msg_sending, msg_updated_at := at_started_at a\<rparr>"
    "ledger_wf h (ledger_of plan)"
proof -
  from assms obtain st' recs m' where s: "assertLedgerState h st = Inr st'" "a' = a" "attempt_ok h a"
      "attempt_starts st' a" "\<forall>r \<in> set (dl_recipients st'). rc_status r = Rc_queued"
    and recs: "mapE (\<lambda>r. parse_recipient h (started_recipient a r)) (dl_recipients st') = Inr recs"
    and m: "updateMessage h (dl_message st') recs (at_started_at a) = Inr m'"
    and plan: "plan = plan_of ((dl_email st')\<lparr>em_status := Em_sending, em_last_event := ''sending'',
        em_updated_at := at_started_at a\<rparr>) m' recs (dl_attempts st' @ [a]) (map rc_id recs)"
    unfolding planAttemptStart_def started_recipient_def
    by (auto simp: bindE_Inr_iff parse_attempt_def list_ex_iff split: if_splits)
  note w = assert_wf(1)[OF s(1)]
  have r: "recs = map (started_recipient a) (dl_recipients st')"
      "\<forall>r \<in> set (dl_recipients st'). recipient_ok h (started_recipient a r)"
    using recs by (simp_all add: mapE_parse_all)
  have m': "m' = (dl_message st')\<lparr>msg_status := Msg_sending, msg_updated_at := at_started_at a\<rparr>"
  proof -
    have "recs \<noteq> []" using m by (auto simp: updateMessage_Inr deriveDeliveryMessageStatus_def)
    then have "set (map rc_status recs) = {Rc_sending}"
      by (intro derive_all) (auto simp: r started_recipient_def list_all_iff)
    then show ?thesis using m by (auto simp: updateMessage_Inr derive_status_set Let_def split: if_splits)
  qed
  have w1: "ledger_wf h \<lparr>dl_email = dl_email plan, dl_message = m', dl_recipients = recs, dl_attempts = dl_attempts st'\<rparr>"
    unfolding r(1) using w r(2) m
    by (intro wf_update) (auto simp: r(1) started_recipient_def plan)
  have "message_ok h (dl_message st')" using w by (simp add: ledger_wf_def)
  note ids = attempt_starts_ids[OF this s(3,4)]
  have "ledger_wf h (ledger_of plan)"
    using wf_append_attempt[OF w1 s(3)] ids(2,3)
    by (simp add: m' plan delivery_ledger_state.truncate_def)
  then show thesis
    using that[OF s(1) w s(2-5)] r(1) m' plan by (simp add: started_recipient_def comp_def)
qed

definition completed_recipient :: "attempt_record \<Rightarrow> recipient_status \<Rightarrow> string \<Rightarrow> recipient_record \<Rightarrow> recipient_record" where
  "completed_recipient a s t r = (if attempt_owns a r then r\<lparr>rc_status := s, rc_updated_at := t\<rparr> else r)"

text \<open>The owning check, and that a completion touches exactly the recipients it owns.\<close>

lemma completion_Inr:
  assumes "planAttemptCompletion h st c = Inr (plan, a')"
  obtains st' i a t where "assertLedgerState h st = Inr st'" "ledger_wf h st'"
    "i < length (dl_attempts st')" "dl_attempts st' ! i = a" "at_id a = cp_attempt_id c"
    "at_message_id a = cp_message_id c" "at_status a = At_submitting"
    "\<forall>r \<in> set (dl_recipients st'). rc_id r \<in> set (at_recipient_ids a) \<longrightarrow>
       rc_status r = Rc_sending \<and> rc_latest_attempt_id r = Some (at_id a)"
    "to_iso_of_string h (cp_completed_at c) = Inr t" "a' = complete_attempt a c t" "attempt_ok h a'"
    "dl_recipients plan = map (completed_recipient a
       (completion_recipient_status (cp_status c) (cp_diagnostic_category c)) t) (dl_recipients st')"
    "dl_attempts plan = (dl_attempts st')[i := a']"
    "dl_changed_recipient_ids plan = map rc_id (filter (attempt_owns a) (dl_recipients st'))"
    "updateMessage h (dl_message st') (dl_recipients plan) t = Inr (dl_message plan)"
    "dl_email plan = complete_email (updateEmailForRecipients (dl_email st') (dl_message plan) (dl_recipients plan) t
       (if cp_status c = Completed_accepted then None else cp_public_error c)) c"
    "ledger_wf h (ledger_of plan)"
proof -
  let ?s = "completion_recipient_status (cp_status c) (cp_diagnostic_category c)"
  from assms obtain st' i where s: "assertLedgerState h st = Inr st'"
    and i: "find_index (\<lambda>a. at_id a = cp_attempt_id c \<and> at_message_id a = cp_message_id c) (dl_attempts st') = Some i"
    unfolding planAttemptCompletion_def by (auto simp: bindE_Inr_iff split: option.splits)
  define a where "a = dl_attempts st' ! i"
  from assms obtain t recs m' where
    a: "at_status a = At_submitting"
    "\<forall>r \<in> set (dl_recipients st'). rc_id r \<in> set (at_recipient_ids a) \<longrightarrow>
       rc_status r = Rc_sending \<and> rc_latest_attempt_id r = Some (at_id a)"
    and t: "to_iso_of_string h (cp_completed_at c) = Inr t"
    and a': "a' = complete_attempt a c t" "attempt_ok h a'"
    and recs: "mapE (\<lambda>r. if attempt_owns a r then parse_recipient h (r\<lparr>rc_status := ?s, rc_updated_at := t\<rparr>)
       else Inr r) (dl_recipients st') = Inr recs"
    and m: "updateMessage h (dl_message st') recs t = Inr m'"
    and plan: "plan = plan_of (complete_email (updateEmailForRecipients (dl_email st') m' recs t
       (if cp_status c = Completed_accepted then None else cp_public_error c)) c) m' recs ((dl_attempts st')[i := a'])
       (map rc_id (filter (attempt_owns a) (dl_recipients st')))"
    unfolding planAttemptCompletion_def a_def using s i
    by (auto simp: bindE_Inr_iff parse_attempt_def list_ex_iff Let_def split: if_splits)
  note w = assert_wf(1)[OF s] and i' = find_index_SomeD[OF i, folded a_def]
  have r: "recs = map (completed_recipient a ?s t) (dl_recipients st')"
    using recs by (simp add: mapE_parse_if completed_recipient_def cong: map_cong)
  have "ledger_wf h \<lparr>dl_email = dl_email plan, dl_message = m', dl_recipients = recs, dl_attempts = dl_attempts st'\<rparr>"
    unfolding r completed_recipient_def
    by (rule wf_update_if[OF w]) (use recs m in \<open>simp_all add: mapE_parse_if plan\<close>)
  from wf_replace_attempt[OF this, of i a'] have "ledger_wf h (ledger_of plan)"
    using i' a' by (simp add: a_def plan delivery_ledger_state.truncate_def)
  then show thesis
    using that[OF s w _ a_def[symmetric] _ _ a t a'] i' r m by (simp add: plan)
qed

definition evented_recipient :: "event_record \<Rightarrow> string \<Rightarrow> recipient_record \<Rightarrow> recipient_record" where
  "evented_recipient e t r = (if event_changes e r
     then r\<lparr>rc_status := transitionRecipientStatus (rc_status r) (ev_type e), rc_updated_at := t\<rparr> else r)"

lemma event_Inr:
  assumes "planProviderEvent h st e = Inr (plan, e')"
  obtains st' t where "assertLedgerState h st = Inr st'" "ledger_wf h st'" "e' = e" "event_ok h e"
    "event_correlates st' e"
    "latestTimestamp h [em_updated_at (dl_email st'), msg_updated_at (dl_message st'), ev_received_at e] = Inr t"
    "dl_recipients plan = map (evented_recipient e t) (dl_recipients st')"
    "dl_attempts plan = dl_attempts st'"
    "dl_changed_recipient_ids plan = map rc_id (filter (event_changes e) (dl_recipients st'))"
    "updateMessage h (dl_message st') (dl_recipients plan) t = Inr (dl_message plan)"
    "dl_email plan = updateEmailForRecipients (dl_email st') (dl_message plan) (dl_recipients plan) t None"
    "ledger_wf h (ledger_of plan)"
proof -
  from assms obtain st' t recs m' where s: "assertLedgerState h st = Inr st'" "e' = e" "event_ok h e"
      "event_correlates st' e"
      "latestTimestamp h [em_updated_at (dl_email st'), msg_updated_at (dl_message st'), ev_received_at e] = Inr t"
    and recs: "mapE (\<lambda>r. if event_changes e r then parse_recipient h
        (r\<lparr>rc_status := transitionRecipientStatus (rc_status r) (ev_type e), rc_updated_at := t\<rparr>) else Inr r)
        (dl_recipients st') = Inr recs"
    and m: "updateMessage h (dl_message st') recs t = Inr m'"
    and plan: "plan = plan_of (updateEmailForRecipients (dl_email st') m' recs t None) m' recs (dl_attempts st')
        (map rc_id (filter (event_changes e) (dl_recipients st')))"
    unfolding planProviderEvent_def by (auto simp: bindE_Inr_iff parse_event_def split: if_splits)
  note w = assert_wf(1)[OF s(1)]
  have r: "recs = map (evented_recipient e t) (dl_recipients st')"
    using recs by (simp add: mapE_parse_if evented_recipient_def cong: map_cong)
  have "ledger_wf h \<lparr>dl_email = dl_email plan, dl_message = m', dl_recipients = recs, dl_attempts = dl_attempts st'\<rparr>"
    unfolding r evented_recipient_def
    by (rule wf_update_if[OF w]) (use recs m in \<open>simp_all add: mapE_parse_if plan\<close>)
  then show thesis
    using that[OF s(1) w s(2-5)] r m by (simp add: plan delivery_ledger_state.truncate_def)
qed

definition local_recipient :: "local_status \<Rightarrow> string \<Rightarrow> recipient_record \<Rightarrow> recipient_record" where
  "local_recipient s t r = (if local_changes s r
     then r\<lparr>rc_status := local_recipient_status s, rc_updated_at := t\<rparr> else r)"

lemma local_Inr:
  assumes "planLocalRecipientState h st s u = Inr plan"
  obtains st' t where "assertLedgerState h st = Inr st'" "ledger_wf h st'"
    "\<forall>a \<in> set (dl_attempts st'). at_status a \<noteq> At_submitting"
    "\<forall>r \<in> set (dl_recipients st'). rc_status r \<noteq> Rc_sending"
    "dl_recipients plan = map (local_recipient s t) (dl_recipients st')"
    "dl_attempts plan = dl_attempts st'"
    "dl_changed_recipient_ids plan = map rc_id (filter (local_changes s) (dl_recipients st'))"
    "updateMessage h (dl_message st') (dl_recipients plan) t = Inr (dl_message plan)"
    "dl_email plan = updateEmailForRecipients (dl_email st') (dl_message plan) (dl_recipients plan) t None"
    "ledger_wf h (ledger_of plan)"
proof -
  from assms obtain st' t recs m' where s: "assertLedgerState h st = Inr st'"
      "\<forall>a \<in> set (dl_attempts st'). at_status a \<noteq> At_submitting"
      "\<forall>r \<in> set (dl_recipients st'). rc_status r \<noteq> Rc_sending"
    and recs: "mapE (\<lambda>r. if local_changes s r then parse_recipient h
        (r\<lparr>rc_status := local_recipient_status s, rc_updated_at := t\<rparr>) else Inr r) (dl_recipients st') = Inr recs"
    and m: "updateMessage h (dl_message st') recs t = Inr m'"
    and plan: "plan = plan_of (updateEmailForRecipients (dl_email st') m' recs t None) m' recs (dl_attempts st')
        (map rc_id (filter (local_changes s) (dl_recipients st')))"
    unfolding planLocalRecipientState_def
    by (auto simp: bindE_Inr_iff list_ex_iff split: if_splits)
  note w = assert_wf(1)[OF s(1)]
  have r: "recs = map (local_recipient s t) (dl_recipients st')"
    using recs by (simp add: mapE_parse_if local_recipient_def cong: map_cong)
  have "ledger_wf h \<lparr>dl_email = dl_email plan, dl_message = m', dl_recipients = recs, dl_attempts = dl_attempts st'\<rparr>"
    unfolding r local_recipient_def
    by (rule wf_update_if[OF w]) (use recs m in \<open>simp_all add: mapE_parse_if plan\<close>)
  then show thesis
    using that[OF s(1) w s(2-3), of t] r m by (simp add: plan delivery_ledger_state.truncate_def)
qed


section \<open>When the planners succeed\<close>

lemma updateMessage_eq:
  "deriveDeliveryMessageStatus rs = Inr s \<Longrightarrow> message_ok h (m\<lparr>msg_status := s, msg_updated_at := t\<rparr>) \<Longrightarrow>
     updateMessage h m rs t = Inr (m\<lparr>msg_status := s, msg_updated_at := t\<rparr>)"
  by (simp add: updateMessage_def parse_message_def checkE_def)

lemma planAttemptStart_eq:
  assumes "ledger_wf h st" "attempt_ok h a" "attempt_starts st a"
    "\<forall>r \<in> set (dl_recipients st). rc_status r = Rc_queued \<and> recipient_ok h (started_recipient a r)"
    "updateMessage h (dl_message st) (map (started_recipient a) (dl_recipients st)) (at_started_at a) = Inr m"
  shows "planAttemptStart h st a = Inr (plan_of
      ((dl_email st)\<lparr>em_status := Em_sending, em_last_event := ''sending'', em_updated_at := at_started_at a\<rparr>)
      m (map (started_recipient a) (dl_recipients st)) (dl_attempts st @ [a]) (map rc_id (dl_recipients st)), a)"
proof -
  have "mapE (\<lambda>r. parse_recipient h (started_recipient a r)) (dl_recipients st) = Inr (map (started_recipient a) (dl_recipients st))"
    using assms(4) by (simp add: mapE_parse_all)
  moreover have "\<not> list_ex (\<lambda>r. rc_status r \<noteq> Rc_queued) (dl_recipients st)"
    using assms(4) by (simp add: list_ex_iff)
  moreover have "map rc_id (map (started_recipient a) (dl_recipients st)) = map rc_id (dl_recipients st)"
    by (simp add: started_recipient_def)
  ultimately show ?thesis
    using assms by (simp add: planAttemptStart_def wf_assert parse_attempt_def checkE_def started_recipient_def[symmetric])
qed

lemma planAttemptCompletion_eq:
  assumes "ledger_wf h st"
    "find_index (\<lambda>a. at_id a = cp_attempt_id c \<and> at_message_id a = cp_message_id c) (dl_attempts st) = Some i"
    "dl_attempts st ! i = a" "at_status a = At_submitting"
    "\<forall>r \<in> set (dl_recipients st). rc_id r \<in> set (at_recipient_ids a) \<longrightarrow>
       rc_status r = Rc_sending \<and> rc_latest_attempt_id r = Some (at_id a)"
    "to_iso_of_string h (cp_completed_at c) = Inr t" "attempt_ok h (complete_attempt a c t)"
    "\<forall>r \<in> set (dl_recipients st). recipient_ok h (completed_recipient a
       (completion_recipient_status (cp_status c) (cp_diagnostic_category c)) t r)"
    "rs = map (completed_recipient a (completion_recipient_status (cp_status c) (cp_diagnostic_category c)) t) (dl_recipients st)"
    "updateMessage h (dl_message st) rs t = Inr m"
  shows "planAttemptCompletion h st c = Inr (plan_of
      (complete_email (updateEmailForRecipients (dl_email st) m rs t
         (if cp_status c = Completed_accepted then None else cp_public_error c)) c)
      m rs ((dl_attempts st)[i := complete_attempt a c t])
      (map rc_id (filter (attempt_owns a) (dl_recipients st))), complete_attempt a c t)"
proof -
  let ?s = "completion_recipient_status (cp_status c) (cp_diagnostic_category c)"
  have "mapE (\<lambda>r. if attempt_owns a r then parse_recipient h (r\<lparr>rc_status := ?s, rc_updated_at := t\<rparr>)
      else Inr r) (dl_recipients st) = Inr rs"
    using assms(8,9) by (auto simp: mapE_parse_if completed_recipient_def split: if_splits)
  moreover have "\<not> list_ex (\<lambda>r. rc_status r \<noteq> Rc_sending \<or> rc_latest_attempt_id r \<noteq> Some (at_id a))
      (filter (\<lambda>r. rc_id r \<in> set (at_recipient_ids a)) (dl_recipients st))"
    using assms(5) by (auto simp: list_ex_iff)
  ultimately show ?thesis
    using assms(1-4,6,7,10) by (simp add: planAttemptCompletion_def wf_assert parse_attempt_def checkE_def Let_def)
qed

lemma planProviderEvent_eq:
  assumes "ledger_wf h st" "event_ok h e" "event_correlates st e"
    "latestTimestamp h [em_updated_at (dl_email st), msg_updated_at (dl_message st), ev_received_at e] = Inr t"
    "\<forall>r \<in> set (dl_recipients st). recipient_ok h (evented_recipient e t r)"
    "updateMessage h (dl_message st) (map (evented_recipient e t) (dl_recipients st)) t = Inr m"
  shows "planProviderEvent h st e = Inr (plan_of
      (updateEmailForRecipients (dl_email st) m (map (evented_recipient e t) (dl_recipients st)) t None)
      m (map (evented_recipient e t) (dl_recipients st)) (dl_attempts st)
      (map rc_id (filter (event_changes e) (dl_recipients st))), e)"
proof -
  have "mapE (\<lambda>r. if event_changes e r then parse_recipient h
      (r\<lparr>rc_status := transitionRecipientStatus (rc_status r) (ev_type e), rc_updated_at := t\<rparr>) else Inr r)
      (dl_recipients st) = Inr (map (evented_recipient e t) (dl_recipients st))"
    using assms(5) by (auto simp: mapE_parse_if evented_recipient_def split: if_splits)
  then show ?thesis
    using assms(1-4,6) by (simp add: planProviderEvent_def wf_assert parse_event_def checkE_def)
qed

section \<open>The protocol of one message\<close>

text \<open>A step of a ledger is one planner that returns; its plan is the next ledger.\<close>

inductive ledger_step :: "host \<Rightarrow> delivery_ledger_state \<Rightarrow> delivery_ledger_state \<Rightarrow> bool" for h where
  step_start: "planAttemptStart h st a = Inr (plan, a') \<Longrightarrow> ledger_step h st (ledger_of plan)"
| step_complete: "planAttemptCompletion h st c = Inr (plan, a') \<Longrightarrow> ledger_step h st (ledger_of plan)"
| step_event: "planProviderEvent h st e = Inr (plan, e') \<Longrightarrow> ledger_step h st (ledger_of plan)"
| step_local: "planLocalRecipientState h st s u = Inr plan \<Longrightarrow> ledger_step h st (ledger_of plan)"

inductive_cases ledger_stepE: "ledger_step h st st'"

text \<open>A new delivery has no attempts, and its recipients are all queued or all suppressed.\<close>

definition ledger_initial :: "host \<Rightarrow> delivery_ledger_state \<Rightarrow> bool" where
  "ledger_initial h st \<longleftrightarrow> ledger_wf h st \<and> dl_attempts st = []
     \<and> list_all (\<lambda>r. rc_status r \<in> {Rc_queued, Rc_suppressed}) (dl_recipients st)"

inductive ledger_reachable :: "host \<Rightarrow> delivery_ledger_state \<Rightarrow> bool" for h where
  reach_init: "ledger_initial h st \<Longrightarrow> ledger_reachable h st"
| reach_step: "ledger_reachable h st \<Longrightarrow> ledger_step h st st' \<Longrightarrow> ledger_reachable h st'"

datatype ledger_phase = Phase_open | Phase_submitting attempt_record | Phase_settled attempt_record

definition phase_of :: "delivery_ledger_state \<Rightarrow> ledger_phase" where
  "phase_of st = (case rev (dl_attempts st) of [] \<Rightarrow> Phase_open
     | a # _ \<Rightarrow> (case at_status a of At_retryable_failed \<Rightarrow> Phase_open
         | At_submitting \<Rightarrow> Phase_submitting a | _ \<Rightarrow> Phase_settled a))"

fun phase_recipient_ok :: "ledger_phase \<Rightarrow> recipient_record \<Rightarrow> bool" where
  "phase_recipient_ok Phase_open r \<longleftrightarrow> rc_status r \<in> {Rc_queued, Rc_canceled, Rc_suppressed}"
| "phase_recipient_ok (Phase_submitting a) r \<longleftrightarrow> rc_status r = Rc_sending \<and> rc_latest_attempt_id r = Some (at_id a)"
| "phase_recipient_ok (Phase_settled a) r \<longleftrightarrow> rc_status r \<notin> {Rc_queued, Rc_sending}"

definition attempts_in_order :: "delivery_ledger_state \<Rightarrow> bool" where
  "attempts_in_order st \<longleftrightarrow>
     map at_sequence (dl_attempts st) = [1..int (length (dl_attempts st))]
   \<and> list_all (\<lambda>a. at_status a = At_retryable_failed) (butlast (dl_attempts st))
   \<and> list_all (\<lambda>a. at_status a \<in> {At_submitting, At_accepted, At_retryable_failed, At_permanent_failed}
        \<and> set (at_recipient_ids a) = set (msg_recipient_ids (dl_message st))) (dl_attempts st)"

definition ledger_inv :: "host \<Rightarrow> delivery_ledger_state \<Rightarrow> bool" where
  "ledger_inv h st \<longleftrightarrow> ledger_wf h st \<and> attempts_in_order st
     \<and> list_all (phase_recipient_ok (phase_of st)) (dl_recipients st)"

lemma assert_of_wf: "ledger_wf h st \<Longrightarrow> assertLedgerState h st = Inr st' \<Longrightarrow> st' = st"
  by (simp add: wf_assert)

lemma phase_snoc: "phase_of (st\<lparr>dl_attempts := as @ [a]\<rparr>) =
    (case at_status a of At_retryable_failed \<Rightarrow> Phase_open | At_submitting \<Rightarrow> Phase_submitting a | _ \<Rightarrow> Phase_settled a)"
  by (simp add: phase_of_def)

lemma phase_of_attempts: "dl_attempts st = dl_attempts st' \<Longrightarrow> phase_of st = phase_of st'"
  by (simp add: phase_of_def)

lemma max_sequence_upto: "map at_sequence as = [1..int (length as)] \<Longrightarrow> max_sequence as = int (length as)"
proof (induction as rule: rev_induct)
  case (snoc a as)
  have u: "[1..int (length (as @ [a]))] = [1..int (length as)] @ [int (length (as @ [a]))]"
    by (simp add: upto_rec2)
  with snoc have "map at_sequence as = [1..int (length as)]" "at_sequence a = int (length (as @ [a]))" by simp_all
  then have a: "at_sequence a = int (length as) + 1" "max_sequence as = int (length as)"
    using snoc.IH by simp_all
  have "max_sequence (as @ [a]) = max (at_sequence a) (max_sequence as)"
    by (simp add: max_sequence_def foldr_max_init)
  then show ?case using a by simp
qed (simp add: max_sequence_def)

lemma ledger_initial_inv: "ledger_initial h st \<Longrightarrow> ledger_inv h st"
  by (auto simp: ledger_initial_def ledger_inv_def attempts_in_order_def phase_of_def list_all_iff)

lemma start_inv:
  assumes inv: "ledger_inv h st" and p: "planAttemptStart h st a = Inr (plan, a')"
  shows "ledger_inv h (ledger_of plan) \<and> phase_of st = Phase_open"
proof -
  from p obtain st' where q: "assertLedgerState h st = Inr st'" "attempt_ok h a" "attempt_starts st' a"
      "\<forall>r \<in> set (dl_recipients st'). rc_status r = Rc_queued"
      "dl_recipients plan = map (started_recipient a) (dl_recipients st')" "dl_attempts plan = dl_attempts st' @ [a]"
      "dl_message plan = (dl_message st')\<lparr>msg_status := Msg_sending, msg_updated_at := at_started_at a\<rparr>"
      "ledger_wf h (ledger_of plan)"
    by (rule start_Inr)
  have st: "st' = st" using assert_of_wf[OF _ q(1)] inv by (simp add: ledger_inv_def)
  have w: "ledger_wf h st" "attempts_in_order st" "list_all (phase_recipient_ok (phase_of st)) (dl_recipients st)"
    using inv by (simp_all add: ledger_inv_def)
  then have "message_ok h (dl_message st)" "dl_recipients st \<noteq> []"
    by (auto simp: ledger_wf_def message_ok_def)
  note ids = attempt_starts_ids[OF this(1) q(2) q(3)[unfolded st]]
  have ph: "phase_of st = Phase_open"
    using w(3) q(4) \<open>dl_recipients st \<noteq> []\<close> by (cases "phase_of st"; cases "dl_recipients st") (auto simp: st)
  then have "list_all (\<lambda>b. at_status b = At_retryable_failed) (dl_attempts st)"
    using w(2) by (cases "dl_attempts st" rule: rev_cases)
      (auto simp: phase_of_def attempts_in_order_def split: attempt_status.splits)
  moreover have "at_sequence a = int (length (dl_attempts st)) + 1"
    using ids(5) max_sequence_upto w(2) by (simp add: attempts_in_order_def)
  ultimately have "attempts_in_order (ledger_of plan)"
    using w(2) ids(1,4) by (simp add: attempts_in_order_def q st upto_rec2 add.commute)
  moreover have "phase_of (ledger_of plan) = Phase_submitting a"
    using ids(4) by (simp add: phase_of_def q(6))
  ultimately show ?thesis
    using q(8) ph by (auto simp: ledger_inv_def q(5) list_all_iff started_recipient_def)
qed

lemma submitting_is_last:
  assumes "attempts_in_order st" "i < length (dl_attempts st)" "at_status (dl_attempts st ! i) = At_submitting"
  obtains as where "dl_attempts st = as @ [dl_attempts st ! i]" "i = length as"
proof (cases "dl_attempts st" rule: rev_cases)
  case Nil
  then show ?thesis using assms by simp
next
  case (snoc as b)
  have "i = length as"
  proof (rule ccontr)
    assume "i \<noteq> length as"
    then have "i < length as" "dl_attempts st ! i \<in> set as" using assms(2) snoc by (auto simp: nth_append)
    then show False using assms(1,3) snoc by (auto simp: attempts_in_order_def list_all_iff)
  qed
  then show ?thesis using that snoc by simp
qed

lemma completion_status_settles:
  "at_status (complete_attempt a c t) = At_retryable_failed \<longleftrightarrow> cp_status c = Completed_retryable_failed"
  "at_status (complete_attempt a c t) \<in> {At_accepted, At_retryable_failed, At_permanent_failed}"
  "completion_recipient_status (cp_status c) d = Rc_queued \<longleftrightarrow> cp_status c = Completed_retryable_failed"
  "completion_recipient_status (cp_status c) d \<notin> {Rc_sending}"
  by (cases "cp_status c"; auto simp: completion_recipient_status_def Let_def)+

lemma completion_inv:
  assumes inv: "ledger_inv h st" and p: "planAttemptCompletion h st c = Inr (plan, a')"
  shows "ledger_inv h (ledger_of plan)"
proof -
  let ?s = "completion_recipient_status (cp_status c) (cp_diagnostic_category c)"
  from p obtain st' i a t where q: "assertLedgerState h st = Inr st'" "i < length (dl_attempts st')"
      "dl_attempts st' ! i = a" "at_status a = At_submitting"
      "\<forall>r \<in> set (dl_recipients st'). rc_id r \<in> set (at_recipient_ids a) \<longrightarrow>
         rc_status r = Rc_sending \<and> rc_latest_attempt_id r = Some (at_id a)"
      "a' = complete_attempt a c t"
      "dl_recipients plan = map (completed_recipient a ?s t) (dl_recipients st')"
      "dl_attempts plan = (dl_attempts st')[i := a']"
      "updateMessage h (dl_message st') (dl_recipients plan) t = Inr (dl_message plan)"
      "ledger_wf h (ledger_of plan)"
    by (rule completion_Inr)
  have st: "st' = st" using assert_of_wf[OF _ q(1)] inv by (simp add: ledger_inv_def)
  have w: "ledger_wf h st" "attempts_in_order st" using inv by (simp_all add: ledger_inv_def)
  obtain as where as: "dl_attempts st = as @ [a]" "i = length as"
    using submitting_is_last[OF w(2)] q(2-4) st by metis
  have m: "msg_recipient_ids (dl_message plan) = msg_recipient_ids (dl_message st)"
    using q(9) by (auto simp: updateMessage_Inr st)
  have own: "attempt_owns a r" if "r \<in> set (dl_recipients st)" for r
  proof -
    have "rc_id r \<in> set (msg_recipient_ids (dl_message st))"
      using w(1) that by (metis image_eqI ledger_wf_def list.set_map)
    then show ?thesis using w(2) as q(5) that by (auto simp: attempt_owns_def attempts_in_order_def st)
  qed
  have at: "dl_attempts plan = as @ [a']" using as by (simp add: q(8) st)
  have "attempts_in_order (ledger_of plan)"
    using w(2) completion_status_settles(2)[of a c t] by (simp add: attempts_in_order_def at as m q(6))
  moreover have "phase_of (ledger_of plan) =
      (if cp_status c = Completed_retryable_failed then Phase_open else Phase_settled a')"
    by (cases "cp_status c") (simp_all add: phase_of_def at q(6))
  ultimately show ?thesis
    using q(10) own completion_status_settles(3,4)[of c "cp_diagnostic_category c"]
    by (auto simp: ledger_inv_def q(7) st list_all_iff completed_recipient_def)
qed

lemma correlates_accepted:
  "event_correlates st e \<Longrightarrow> \<exists>a \<in> set (dl_attempts st). at_status a = At_accepted"
  unfolding event_correlates_def Let_def by (auto split: option.splits dest!: find_SomeD)

lemma accepted_settles:
  assumes "attempts_in_order st" "a \<in> set (dl_attempts st)" "at_status a \<in> {At_accepted, At_permanent_failed}"
  shows "phase_of st = Phase_settled a"
proof (cases "dl_attempts st" rule: rev_cases)
  case (snoc as b)
  then have "a = b" using assms by (auto simp: attempts_in_order_def list_all_iff)
  then show ?thesis using snoc assms(3) by (auto simp: phase_of_def)
qed (use assms in simp)

lemma transition_not_unsent:
  "s \<notin> {Rc_queued, Rc_sending} \<Longrightarrow> transitionRecipientStatus s e \<notin> {Rc_queued, Rc_sending}"
  by (cases s; cases e) (simp_all add: transitionRecipientStatus_def)

lemma event_inv:
  assumes inv: "ledger_inv h st" and p: "planProviderEvent h st e = Inr (plan, e')"
  shows "ledger_inv h (ledger_of plan)"
proof -
  from p obtain st' t where q: "assertLedgerState h st = Inr st'" "event_correlates st' e"
      "dl_recipients plan = map (evented_recipient e t) (dl_recipients st')"
      "dl_attempts plan = dl_attempts st'"
      "updateMessage h (dl_message st') (dl_recipients plan) t = Inr (dl_message plan)"
      "ledger_wf h (ledger_of plan)"
    by (rule event_Inr)
  have st: "st' = st" using assert_of_wf[OF _ q(1)] inv by (simp add: ledger_inv_def)
  have w: "attempts_in_order st" "list_all (phase_recipient_ok (phase_of st)) (dl_recipients st)"
    using inv by (simp_all add: ledger_inv_def)
  obtain a where a: "phase_of st = Phase_settled a"
    using correlates_accepted[OF q(2)] accepted_settles[OF w(1)] st by auto
  have "phase_of (ledger_of plan) = Phase_settled a"
    using a phase_of_attempts[of "ledger_of plan" st] by (simp add: q(4) st)
  moreover have "attempts_in_order (ledger_of plan)"
    using w(1) q(4,5) by (auto simp: attempts_in_order_def updateMessage_Inr st)
  ultimately show ?thesis
    using q(6) w(2) a transition_not_unsent[of _ "ev_type e"]
    by (auto simp: ledger_inv_def q(3) st list_all_iff evented_recipient_def)
qed

lemma local_inv:
  assumes inv: "ledger_inv h st" and p: "planLocalRecipientState h st s u = Inr plan"
  shows "ledger_inv h (ledger_of plan)"
proof -
  from p obtain st' t where q: "assertLedgerState h st = Inr st'"
      "\<forall>a \<in> set (dl_attempts st'). at_status a \<noteq> At_submitting"
      "dl_recipients plan = map (local_recipient s t) (dl_recipients st')"
      "dl_attempts plan = dl_attempts st'"
      "updateMessage h (dl_message st') (dl_recipients plan) t = Inr (dl_message plan)"
      "ledger_wf h (ledger_of plan)"
    by (rule local_Inr)
  have st: "st' = st" using assert_of_wf[OF _ q(1)] inv by (simp add: ledger_inv_def)
  have w: "attempts_in_order st" "list_all (phase_recipient_ok (phase_of st)) (dl_recipients st)"
    using inv by (simp_all add: ledger_inv_def)
  have ph: "phase_of (ledger_of plan) = phase_of st"
    using phase_of_attempts[of "ledger_of plan" st] by (simp add: q(4) st)
  have "phase_of st \<noteq> Phase_submitting a" for a
    using q(2) by (cases "dl_attempts st" rule: rev_cases) (auto simp: phase_of_def st split: attempt_status.splits)
  then have "list_all (phase_recipient_ok (phase_of st)) (dl_recipients plan)"
    using w(2) by (cases "phase_of st"; cases s) (auto simp: q(3) st list_all_iff local_recipient_def)
  moreover have "attempts_in_order (ledger_of plan)"
    using w(1) q(4,5) by (auto simp: attempts_in_order_def updateMessage_Inr st)
  ultimately show ?thesis using q(6) ph by (simp add: ledger_inv_def)
qed

lemma ledger_step_inv: "ledger_step h st st' \<Longrightarrow> ledger_inv h st \<Longrightarrow> ledger_inv h st'"
  by (erule ledger_stepE) (auto dest: start_inv completion_inv event_inv local_inv)

lemma ledger_reachable_inv: "ledger_reachable h st \<Longrightarrow> ledger_inv h st"
  by (induction rule: ledger_reachable.induct) (auto intro: ledger_initial_inv ledger_step_inv)

section \<open>What the invariant of a ledger says\<close>

lemma ledger_inv_protocol:
  assumes "ledger_inv h st"
  shows "assertLedgerState h st = Inr st
    \<and> map at_sequence (dl_attempts st) = [1..int (length (dl_attempts st))]
    \<and> list_all (\<lambda>a. at_status a = At_retryable_failed) (butlast (dl_attempts st))
    \<and> length (filter (\<lambda>a. at_status a = At_accepted) (dl_attempts st)) \<le> 1"
proof -
  have w: "ledger_wf h st" "attempts_in_order st"
    using assms by (simp_all add: ledger_inv_def)
  have "length (filter (\<lambda>a. at_status a = At_accepted) (dl_attempts st)) \<le> 1"
  proof (cases "dl_attempts st" rule: rev_cases)
    case (snoc as a)
    then have "filter (\<lambda>a. at_status a = At_accepted) as = []"
      using w(2) by (auto simp: attempts_in_order_def filter_empty_conv list_all_iff)
    then show ?thesis by (simp add: snoc)
  qed simp
  then show ?thesis
    using w wf_assert by (auto simp: attempts_in_order_def)
qed

lemma settled_no_start:
  assumes inv: "ledger_inv h st" and "a \<in> set (dl_attempts st)"
    and "at_status a \<in> {At_submitting, At_accepted, At_permanent_failed}"
  shows "isl (planAttemptStart h st b)"
proof (cases "planAttemptStart h st b")
  case (Inr r)
  obtain plan b' where "planAttemptStart h st b = Inr (plan, b')" using Inr by (cases r) auto
  then have "phase_of st = Phase_open" using start_inv[OF inv] by blast
  moreover have "a = last (dl_attempts st)" "dl_attempts st \<noteq> []"
    using assms(2,3) inv by (cases "dl_attempts st" rule: rev_cases;
      auto simp: ledger_inv_def attempts_in_order_def list_all_iff)+
  ultimately show ?thesis
    using assms(3) by (cases "dl_attempts st" rule: rev_cases) (auto simp: phase_of_def)
qed simp

end
