(* ===== verification/Delivery_Store_Facts.thy ===== *)
theory Delivery_Store_Facts
  imports Delivery_Store Ledger_Facts
begin

text \<open>
  Lemmas on the delivery operations of the store: what a fault of the hook can leave behind,
  the well-formedness of the delivery maps, and the effect of each operation on them.
\<close>

section \<open>The log of the hook\<close>

lemma hook_unlogged: "afterDeliveryMutation hook m s = (r, t) \<Longrightarrow> unlogged t = unlogged s"
  by (rule hook_cases[of hook m s]) auto

lemma hook_log: "afterDeliveryMutation hook m s = (r, t) \<Longrightarrow> m_mutations t = m_mutations s @ [m]"
  by (rule hook_cases[of hook m s]) auto

lemma unlogged_eqD:
  assumes "unlogged t = unlogged s"
  shows "m_emails t = m_emails s" "m_idempotency t = m_idempotency s" "m_messages t = m_messages s"
    "m_recipients t = m_recipients s" "m_attempts t = m_attempts s" "m_events t = m_events s"
    "m_outbox t = m_outbox s" "m_outbox_by_message t = m_outbox_by_message s" "m_publish_failures t = m_publish_failures s"
    "delivery_view t = delivery_view s"
  using assms by (auto simp: delivery_view_def dest: arg_cong[where f = m_emails] arg_cong[where f = m_idempotency]
    arg_cong[where f = m_messages] arg_cong[where f = m_recipients] arg_cong[where f = m_attempts]
    arg_cong[where f = m_events] arg_cong[where f = m_outbox] arg_cong[where f = m_outbox_by_message]
    arg_cong[where f = m_publish_failures])

lemma thenS_cases:
  assumes "thenS m k s = (r, t)"
  obtains (throw) e where "m s = (Inl e, t)" "r = Inl e"
  | (run) x s' where "m s = (Inr x, s')" "k s' = (r, t)"
  using assms by (cases "m s") (auto simp: thenS_def bindS_def split: sum.splits)

lemma bindS_cases:
  assumes "bindS m f s = (r, t)"
  obtains (throw) e where "m s = (Inl e, t)" "r = Inl e"
  | (run) x s' where "m s = (Inr x, s')" "f x s' = (r, t)"
  using assms by (cases "m s") (auto simp: bindS_def split: sum.splits)

lemma keepsS_thenS [intro]: "keepsS p m \<Longrightarrow> keepsS p k \<Longrightarrow> keepsS p (thenS m k)"
  by (simp add: thenS_def keepsS_bindS)

lemma keepsS_basic [intro!]: "keepsS p (returnS x)" "keepsS p (throwS e)" "keepsS p (getS f)" "keepsS p (liftS r)"
  by (simp_all add: keepsS_def returnS_def throwS_def getS_def liftS_def)

lemma keepsS_if [intro]: "keepsS p m \<Longrightarrow> keepsS p m' \<Longrightarrow> keepsS p (if b then m else m')"
  by simp

lemma stage_keeps [intro!]: "keepsS unlogged (stage_recipients hook i rs m)"
  by (induction hook i rs m rule: stage_recipients.induct) (auto simp del: fun_upd_apply)

lemma announce_keeps [intro!]: "keepsS unlogged (announce_recipients hook i rs)"
  by (induction hook i rs rule: announce_recipients.induct) auto

lemma put_all_simps [simp]:
  "put_all key [] m = m" "put_all key (x # xs) m = put_all key xs (map_set (key x) x m)"
  by (simp_all add: put_all_def)

lemma stage_Inr:
  "stage_recipients hook i rs m s = (Inr m', t) \<Longrightarrow>
     m' = put_all rc_id rs m \<and> distinct (map rc_id rs) \<and> (\<forall>r \<in> set rs. \<not> map_has m (rc_id r))"
  by (induction hook i rs m arbitrary: s m' t rule: stage_recipients.induct)
    (fastforce simp: returnS_def throwS_def elim!: thenS_cases split: if_splits)+

section \<open>The commit is atomic\<close>

definition committed :: "delivery_commit \<Rightarrow> mem \<Rightarrow> mem" where
  "committed c s = s\<lparr>
     m_emails := map_set (em_id (dc_email c)) (dc_email c) (m_emails s),
     m_idempotency := put_claim (dc_idempotency c) (em_id (dc_email c)) (m_idempotency s),
     m_messages := map_set (msg_id (dc_message c)) (dc_message c) (m_messages s),
     m_recipients := put_all rc_id (dc_recipients c) (m_recipients s),
     m_outbox := map_set (ob_id (dc_outbox c)) (dc_outbox c) (m_outbox s),
     m_outbox_by_message := map_set (msg_id (dc_message c)) (ob_id (dc_outbox c)) (m_outbox_by_message s)\<rparr>"

lemma stage_commit_keeps [intro!]: "keepsS unlogged (stage_commit hook c)"
  unfolding stage_commit_def by (intro keepsS_bindS keepsS_thenS) auto

lemma stage_commit_Inr:
  assumes "stage_commit hook c s = (Inr nr, t)"
  shows "nr = put_all rc_id (dc_recipients c) (m_recipients s) \<and> distinct (map rc_id (dc_recipients c))
    \<and> (\<forall>r \<in> set (dc_recipients c). \<not> map_has (m_recipients s) (rc_id r))"
proof -
  from assms obtain s1 s2 where "stage_recipients hook 0 (dc_recipients c) (m_recipients s) s1 = (Inr nr, s2)"
    unfolding stage_commit_def by (auto simp: getS_def returnS_def elim!: bindS_cases thenS_cases)
  then show ?thesis by (rule stage_Inr)
qed

lemma commit_writes_cases:
  assumes run: "commit_delivery_writes hook c s = (r, t)"
  obtains (rolled_back) "isl r" "unlogged t = unlogged s"
  | (visible) "unlogged t = unlogged (committed c s)" "last (m_mutations t) = Mut_commit_swap"
      "distinct (map rc_id (dc_recipients c))" "\<forall>x \<in> set (dc_recipients c). \<not> map_has (m_recipients s) (rc_id x)"
      "\<And>x. r = Inr x \<Longrightarrow> x = delivery_commit.extend c \<lparr>dcr_replayed = False\<rparr>"
proof (cases "stage_commit hook c s")
  case (Pair r' u)
  then have u: "unlogged u = unlogged s" by (rule keepsS_D[OF stage_commit_keeps])
  show thesis
  proof (cases r')
    case (Inl e)
    then have "r = Inl e" "t = u"
      using run Pair by (simp_all add: commit_delivery_writes_def Let_def bindS_def getS_def)
    then show thesis using rolled_back u by simp
  next
    case (Inr nr)
    then have "stage_commit hook c s = (Inr nr, u)" using Pair by simp
    note st = stage_commit_Inr[OF this]
    define v where "v = u\<lparr>
       m_emails := map_set (em_id (dc_email c)) (dc_email c) (m_emails s),
       m_idempotency := put_claim (dc_idempotency c) (em_id (dc_email c)) (m_idempotency s),
       m_messages := map_set (msg_id (dc_message c)) (dc_message c) (m_messages s),
       m_recipients := nr,
       m_outbox := map_set (ob_id (dc_outbox c)) (dc_outbox c) (m_outbox s),
       m_outbox_by_message := map_set (msg_id (dc_message c)) (ob_id (dc_outbox c)) (m_outbox_by_message s)\<rparr>"
    have swap: "thenS (afterDeliveryMutation hook Mut_commit_swap)
        (returnS (delivery_commit.extend c \<lparr>dcr_replayed = False\<rparr>)) v = (r, t)"
      using run Pair Inr by (simp add: commit_delivery_writes_def Let_def bindS_def thenS_def getS_def modifyS_def v_def)
    have v: "unlogged v = unlogged (committed c s)"
      using u st by (cases u; cases s) (simp add: v_def committed_def)
    from swap obtain r1 where h: "afterDeliveryMutation hook Mut_commit_swap v = (r1, t)"
      and "\<And>x. r = Inr x \<Longrightarrow> x = delivery_commit.extend c \<lparr>dcr_replayed = False\<rparr>"
      by (auto simp: returnS_def elim!: thenS_cases)
    then show thesis
      using visible hook_unlogged[OF h] hook_log[OF h] v st by simp
  qed
qed

lemma commitLedgerPlan_cases:
  assumes run: "commitLedgerPlan hook plan attempt event s = (r, t)"
  obtains (rolled_back) "isl r" "unlogged t = unlogged s"
  | (visible) "r = Inr ()" "unlogged t = unlogged (s\<lparr>
       m_emails := map_set (em_id (dl_email plan)) (dl_email plan) (m_emails s),
       m_messages := map_set (msg_id (dl_message plan)) (dl_message plan) (m_messages s),
       m_recipients := put_all rc_id (dl_recipients plan) (m_recipients s),
       m_attempts := put_all at_id (case attempt of None \<Rightarrow> [] | Some a \<Rightarrow> [a]) (m_attempts s),
       m_events := put_all ev_id (case event of None \<Rightarrow> [] | Some e \<Rightarrow> [e]) (m_events s)\<rparr>)"
proof -
  have keeps: "keepsS unlogged (announce_plan hook plan attempt event)"
    unfolding announce_plan_def by (intro keepsS_thenS) auto
  show thesis
  proof (cases "announce_plan hook plan attempt event s")
    case (Pair r' u)
    then have u: "unlogged u = unlogged s" by (rule keepsS_D[OF keeps])
    show thesis
    proof (cases r')
      case (Inl e)
      then show thesis
        using run Pair rolled_back u by (auto simp: commitLedgerPlan_def thenS_def bindS_def getS_def)
    next
      case (Inr x)
      then show thesis
        using run Pair visible u
        by (cases u; cases s) (auto simp: commitLedgerPlan_def thenS_def bindS_def getS_def modifyS_def)
    qed
  qed
qed

section \<open>Keyed maps\<close>

definition keyed :: "('a \<Rightarrow> string) \<Rightarrow> 'a jsmap \<Rightarrow> bool" where
  "keyed key m \<longleftrightarrow> map_ok m \<and> (\<forall>k v. map_get m k = Some v \<longrightarrow> key v = k)"

lemma keyed_empty [simp, intro!]: "keyed key []"
  by (simp add: keyed_def)

lemma keyed_set [intro]: "keyed key m \<Longrightarrow> key v = k \<Longrightarrow> keyed key (map_set k v m)"
  by (auto simp: keyed_def)

lemma keyed_put_all [intro]: "keyed key m \<Longrightarrow> keyed key (put_all key xs m)"
  by (induction xs arbitrary: m) auto

lemma keyedD: "keyed key m \<Longrightarrow> map_get m k = Some v \<Longrightarrow> key v = k"
  by (simp add: keyed_def)

lemma keyed_values: "keyed key m \<Longrightarrow> v \<in> set (map_values m) \<longleftrightarrow> map_get m (key v) = Some v"
  by (auto simp: keyed_def map_values_get)

lemma keyed_values_distinct: "keyed key m \<Longrightarrow> distinct (map key (map_values m))"
proof -
  assume k: "keyed key m"
  have "map key (map_values m) = map fst m"
    unfolding map_values_def using k by (auto simp: keyed_def map_ok_get_iff[symmetric] comp_def)
  then show ?thesis using k by (simp add: keyed_def map_ok_def)
qed

lemma put_all_other: "k \<notin> set (map key xs) \<Longrightarrow> map_get (put_all key xs m) k = map_get m k"
  by (induction xs arbitrary: m) auto

lemma put_all_get: "distinct (map key xs) \<Longrightarrow> x \<in> set xs \<Longrightarrow> map_get (put_all key xs m) (key x) = Some x"
  by (induction xs arbitrary: m) (auto simp: put_all_other)

lemma those_map_Some: "(\<And>x. x \<in> set xs \<Longrightarrow> f x = Some (g x)) \<Longrightarrow> those (map f xs) = Some (map g xs)"
  by (induction xs) auto

lemma those_Some_iff: "those ys = Some xs \<longleftrightarrow> ys = map Some xs"
  by (induction ys arbitrary: xs) (auto split: option.splits)

lemma those_put_all:
  "distinct (map key xs) \<Longrightarrow> those (map (map_get (put_all key xs m)) (map key xs)) = Some xs"
  by (auto simp: those_Some_iff put_all_get)

text \<open>Setting an entry that a filter does not see, before or after, leaves the filtered values alone.\<close>

lemma filter_values_set_other:
  assumes "\<not> P v" "\<And>w. map_get m k = Some w \<Longrightarrow> \<not> P w" "map_ok m"
  shows "filter P (map_values (map_set k v m)) = filter P (map_values m)"
  using assms by (induction m) (auto simp: map_values_def map_ok_def split: if_splits)

section \<open>Sorting the attempts\<close>

lemma sorted_insert_attempt:
  assumes "sorted_wrt (<) (map at_sequence as)" "at_sequence a \<notin> set (map at_sequence as)"
  shows "sorted_wrt (<) (map at_sequence (insert_by (attempt_order h) a as))"
  using assms
proof (induction as)
  case (Cons b as)
  have "set (insert_by (attempt_order h) a as) = insert a (set as)"
    by (metis mset_insert_by set_mset_mset set_mset_add_mset_insert)
  moreover have "attempt_order h a b \<le> 0 \<longleftrightarrow> at_sequence a < at_sequence b"
    using Cons.prems(2) by (auto simp: attempt_order_def cmp_or_def)
  ultimately show ?case using Cons by auto
qed simp

lemma sorted_attempts:
  "distinct (map at_sequence as) \<Longrightarrow> sorted_wrt (<) (map at_sequence (js_sort (attempt_order h) as))"
  by (induction as) (simp_all add: sorted_insert_attempt)

lemma attempts_unique:
  assumes "sorted_wrt (<) (map at_sequence xs)" "sorted_wrt (<) (map at_sequence ys)" "set xs = set ys"
  shows "xs = ys"
proof (rule map_inj_on)
  show "map at_sequence xs = map at_sequence ys"
    using assms by (intro strict_sorted_equal) (simp_all add: strict_sorted_iff)
  have "distinct (map at_sequence xs)" using assms(1) by (simp add: strict_sorted_iff)
  then show "inj_on at_sequence (set xs \<union> set ys)" using assms(3) by (simp add: distinct_map)
qed

lemma sort_attempts_eq:
  assumes "distinct as" "set as = set bs" "sorted_wrt (<) (map at_sequence bs)"
  shows "js_sort (attempt_order h) as = bs"
proof (rule attempts_unique[OF _ assms(3)])
  have "distinct (map at_sequence bs)" using assms(3) by (simp add: strict_sorted_iff)
  then have "inj_on at_sequence (set as)" using assms(2) by (simp add: distinct_map)
  then have "distinct (map at_sequence as)" using assms(1) by (simp add: distinct_map)
  then show "sorted_wrt (<) (map at_sequence (js_sort (attempt_order h) as))" by (rule sorted_attempts)
qed (simp add: assms(2))

section \<open>Store invariant\<close>

text \<open>
  Every map is keyed by the identity of its records; every message has its email and all
  of its recipients, which belong to it alone; attempts, events and idempotency claims
  refer to messages and emails that exist; and the ledger of every message satisfies the
  ledger invariant.
\<close>

definition maps_keyed :: "mem \<Rightarrow> bool" where
  "maps_keyed s \<longleftrightarrow> keyed em_id (m_emails s) \<and> keyed msg_id (m_messages s) \<and> keyed rc_id (m_recipients s)
     \<and> keyed at_id (m_attempts s) \<and> keyed ev_id (m_events s) \<and> keyed ob_id (m_outbox s)
     \<and> keyed ic_key_hash (m_idempotency s)"

definition message_complete :: "mem \<Rightarrow> message_record \<Rightarrow> bool" where
  "message_complete s m \<longleftrightarrow> map_has (m_emails s) (msg_id m)
     \<and> (\<forall>id \<in> set (msg_recipient_ids m). \<exists>r. map_get (m_recipients s) id = Some r \<and> rc_message_id r = msg_id m)"

definition references_ok :: "mem \<Rightarrow> bool" where
  "references_ok s \<longleftrightarrow>
     (\<forall>k a. map_get (m_attempts s) k = Some a \<longrightarrow> map_has (m_messages s) (at_message_id a))
   \<and> (\<forall>k e. map_get (m_events s) k = Some e \<longrightarrow> map_has (m_messages s) (ev_message_id e))"

definition store_inv :: "host \<Rightarrow> mem \<Rightarrow> bool" where
  "store_inv h s \<longleftrightarrow> maps_keyed s \<and> references_ok s
     \<and> (\<forall>k m. map_get (m_messages s) k = Some m \<longrightarrow> message_complete s m)
     \<and> (\<forall>k L. deliveryLedger h s k = Some L \<longrightarrow> ledger_inv h (ledger_of L))"

lemma store_inv_empty: "store_inv h empty_store"
  by (auto simp: store_inv_def maps_keyed_def references_ok_def deliveryLedger_def empty_store_def)

lemma ledger_snapshot_fields [simp]:
  "dl_email (delivery_ledger_snapshot.extend L x) = dl_email L"
  "dl_message (delivery_ledger_snapshot.extend L x) = dl_message L"
  "dl_recipients (delivery_ledger_snapshot.extend L x) = dl_recipients L"
  "dl_attempts (delivery_ledger_snapshot.extend L x) = dl_attempts L"
  "dls_events (delivery_ledger_snapshot.extend L x) = dls_events L"
  by (simp_all add: delivery_ledger_snapshot.extend_def)

lemma deliveryLedger_Some:
  "deliveryLedger h s k = Some L \<longleftrightarrow>
     map_get (m_emails s) k = Some (dl_email L) \<and> map_get (m_messages s) k = Some (dl_message L)
   \<and> those (map (map_get (m_recipients s)) (msg_recipient_ids (dl_message L))) = Some (dl_recipients L)
   \<and> dl_attempts L = js_sort (attempt_order h) (filter (\<lambda>a. at_message_id a = k) (map_values (m_attempts s)))
   \<and> dls_events L = js_sort (event_order h) (filter (\<lambda>e. ev_message_id e = k) (map_values (m_events s)))"
  by (cases L) (auto simp: deliveryLedger_def split: option.splits)

lemma ledger_attempts_set:
  assumes "maps_keyed s" "deliveryLedger h s k = Some L"
  shows "set (dl_attempts L) = {a. map_get (m_attempts s) (at_id a) = Some a \<and> at_message_id a = k}"
  using assms by (auto simp: deliveryLedger_Some maps_keyed_def keyed_values)

lemma ledger_exists:
  assumes "store_inv h s" "map_has (m_messages s) k"
  obtains L where "deliveryLedger h s k = Some L" "msg_id (dl_message L) = k"
proof -
  obtain m where m: "map_get (m_messages s) k = Some m" using assms(2) by (auto simp: map_has_def)
  have id: "msg_id m = k" using assms(1) m by (auto simp: store_inv_def maps_keyed_def dest: keyedD)
  have c: "message_complete s m" using assms(1) m by (auto simp: store_inv_def)
  then obtain e where "map_get (m_emails s) k = Some e" using id by (auto simp: message_complete_def map_has_def)
  moreover have "those (map (map_get (m_recipients s)) (msg_recipient_ids m))
      = Some (map (\<lambda>i. the (map_get (m_recipients s) i)) (msg_recipient_ids m))"
    using c by (intro those_map_Some) (auto simp: message_complete_def)
  ultimately show thesis using that id m by (auto simp: deliveryLedger_def)
qed

lemma ledger_recipients_belong:
  assumes "store_inv h s" "deliveryLedger h s k = Some L" "i \<in> set (msg_recipient_ids (dl_message L))"
  shows "\<exists>r. map_get (m_recipients s) i = Some r \<and> rc_message_id r = k"
proof -
  have m: "map_get (m_messages s) k = Some (dl_message L)" using assms(2) by (simp add: deliveryLedger_Some)
  then have "msg_id (dl_message L) = k" using assms(1) by (auto simp: store_inv_def maps_keyed_def dest: keyedD)
  moreover have "message_complete s (dl_message L)" using assms(1) m by (auto simp: store_inv_def)
  ultimately show ?thesis using assms(3) by (auto simp: message_complete_def)
qed

section \<open>A ledger plan in the store\<close>

definition apply_plan ::
  "('a) delivery_ledger_state_scheme \<Rightarrow> attempt_record option \<Rightarrow> event_record option \<Rightarrow> mem \<Rightarrow> mem" where
  "apply_plan plan attempt event s = s\<lparr>
       m_emails := map_set (em_id (dl_email plan)) (dl_email plan) (m_emails s),
       m_messages := map_set (msg_id (dl_message plan)) (dl_message plan) (m_messages s),
       m_recipients := put_all rc_id (dl_recipients plan) (m_recipients s),
       m_attempts := put_all at_id (case attempt of None \<Rightarrow> [] | Some a \<Rightarrow> [a]) (m_attempts s),
       m_events := put_all ev_id (case event of None \<Rightarrow> [] | Some e \<Rightarrow> [e]) (m_events s)\<rparr>"

text \<open>A plan that fits the ledger of message \<open>k\<close> in the store, with what it adds.\<close>

definition plan_fits ::
  "host \<Rightarrow> mem \<Rightarrow> string \<Rightarrow> ('a) delivery_ledger_state_scheme \<Rightarrow> attempt_record option \<Rightarrow> event_record option \<Rightarrow> bool" where
  "plan_fits h s k plan attempt event \<longleftrightarrow>
     ledger_inv h (ledger_of plan) \<and> msg_id (dl_message plan) = k
   \<and> (\<exists>L. deliveryLedger h s k = Some L
       \<and> msg_recipient_ids (dl_message plan) = msg_recipient_ids (dl_message L)
       \<and> set (dl_attempts plan) = (case attempt of None \<Rightarrow> set (dl_attempts L)
           | Some a \<Rightarrow> insert a {b \<in> set (dl_attempts L). at_id b \<noteq> at_id a}))
   \<and> (\<forall>a. attempt = Some a \<longrightarrow> at_message_id a = k
       \<and> (\<forall>b. map_get (m_attempts s) (at_id a) = Some b \<longrightarrow> at_message_id b = k))
   \<and> (\<forall>e. event = Some e \<longrightarrow> ev_message_id e = k \<and> \<not> map_has (m_events s) (ev_id e))"

lemma plan_fits_wf:
  assumes "plan_fits h s k plan a e"
  shows "em_id (dl_email plan) = k" "map rc_id (dl_recipients plan) = msg_recipient_ids (dl_message plan)"
    "\<forall>r \<in> set (dl_recipients plan). rc_message_id r = k" "distinct (map rc_id (dl_recipients plan))"
    "sorted_wrt (<) (map at_sequence (dl_attempts plan))"
  using assms
  by (auto simp: plan_fits_def ledger_inv_def ledger_wf_def list_all_iff attempts_in_order_def
    message_ok_def unique_values_def strict_sorted_iff)

lemma apply_plan_own:
  assumes inv: "store_inv h s" and fits: "plan_fits h s k plan a e"
  obtains L where "deliveryLedger h (apply_plan plan a e s) k = Some L" "ledger_of L = ledger_of plan"
proof -
  let ?t = "apply_plan plan a e s"
  note wf = plan_fits_wf[OF fits]
  from fits obtain L0 where L0: "deliveryLedger h s k = Some L0" and k: "msg_id (dl_message plan) = k"
    and as: "set (dl_attempts plan) = (case a of None \<Rightarrow> set (dl_attempts L0)
           | Some x \<Rightarrow> insert x {b \<in> set (dl_attempts L0). at_id b \<noteq> at_id x})"
    and a: "\<And>x. a = Some x \<Longrightarrow> at_message_id x = k"
    by (auto simp: plan_fits_def)
  have keyed: "keyed at_id (m_attempts s)" "keyed at_id (m_attempts ?t)" and mk: "maps_keyed s"
    using inv by (auto simp: store_inv_def maps_keyed_def apply_plan_def)
  have "those (map (map_get (m_recipients ?t)) (msg_recipient_ids (dl_message plan))) = Some (dl_recipients plan)"
    using those_put_all[OF wf(4)] by (simp add: apply_plan_def wf(2)[symmetric])
  moreover have "map_get (m_emails ?t) k = Some (dl_email plan)" "map_get (m_messages ?t) k = Some (dl_message plan)"
    using wf(1) k by (simp_all add: apply_plan_def)
  moreover have "js_sort (attempt_order h) (filter (\<lambda>x. at_message_id x = k) (map_values (m_attempts ?t))) = dl_attempts plan"
  proof (rule sort_attempts_eq[OF _ _ wf(5)])
    show "distinct (filter (\<lambda>x. at_message_id x = k) (map_values (m_attempts ?t)))"
      using keyed_values_distinct[OF keyed(2)] by (simp add: distinct_map)
    show "set (filter (\<lambda>x. at_message_id x = k) (map_values (m_attempts ?t))) = set (dl_attempts plan)"
      using keyed a unfolding as ledger_attempts_set[OF mk L0]
      by (auto simp: keyed_values apply_plan_def split: option.splits if_splits)
  qed
  ultimately show thesis
    using that[of "\<lparr>dl_email = dl_email plan, dl_message = dl_message plan, dl_recipients = dl_recipients plan,
      dl_attempts = dl_attempts plan,
      dls_events = js_sort (event_order h) (filter (\<lambda>e. ev_message_id e = k) (map_values (m_events ?t)))\<rparr>"]
    by (simp add: deliveryLedger_Some delivery_ledger_state.truncate_def)
qed

lemma apply_plan_other:
  assumes inv: "store_inv h s" and fits: "plan_fits h s k plan a e" and other: "k' \<noteq> k"
  shows "deliveryLedger h (apply_plan plan a e s) k' = deliveryLedger h s k'"
proof -
  let ?t = "apply_plan plan a e s"
  note wf = plan_fits_wf[OF fits]
  have keyed: "keyed at_id (m_attempts s)" "keyed ev_id (m_events s)"
    using inv by (simp_all add: store_inv_def maps_keyed_def)
  have e_m: "map_get (m_emails ?t) k' = map_get (m_emails s) k'" "map_get (m_messages ?t) k' = map_get (m_messages s) k'"
    using other wf(1) fits by (simp_all add: apply_plan_def plan_fits_def)
  have recs: "map (map_get (m_recipients ?t)) (msg_recipient_ids m) = map (map_get (m_recipients s)) (msg_recipient_ids m)"
    if m: "map_get (m_messages s) k' = Some m" for m
  proof (rule map_cong[OF refl])
    fix i assume i: "i \<in> set (msg_recipient_ids m)"
    have "message_complete s m" "msg_id m = k'"
      using inv m by (auto simp: store_inv_def maps_keyed_def dest: keyedD)
    then obtain r where "map_get (m_recipients s) i = Some r" "rc_message_id r = k'"
      using i by (auto simp: message_complete_def)
    moreover have "\<exists>r. map_get (m_recipients s) i = Some r \<and> rc_message_id r = k" if "i \<in> set (map rc_id (dl_recipients plan))"
      using ledger_recipients_belong[OF inv] fits that wf(2) unfolding plan_fits_def by metis
    ultimately have "i \<notin> set (map rc_id (dl_recipients plan))" using other by auto
    then show "map_get (m_recipients ?t) i = map_get (m_recipients s) i"
      by (simp add: apply_plan_def put_all_other del: set_map)
  qed
  have as: "filter (\<lambda>x. at_message_id x = k') (map_values (m_attempts ?t)) = filter (\<lambda>x. at_message_id x = k') (map_values (m_attempts s))"
    using fits other keyed(1)
    by (auto simp: apply_plan_def plan_fits_def keyed_def intro!: filter_values_set_other split: option.split)
  have es: "filter (\<lambda>x. ev_message_id x = k') (map_values (m_events ?t)) = filter (\<lambda>x. ev_message_id x = k') (map_values (m_events s))"
    using fits other keyed(2)
    by (auto simp: apply_plan_def plan_fits_def keyed_def map_has_def intro!: filter_values_set_other split: option.split)
  show ?thesis
    unfolding deliveryLedger_def e_m as es by (auto split: option.split simp: recs)
qed

lemma apply_plan_inv:
  assumes inv: "store_inv h s" and fits: "plan_fits h s k plan a e"
  shows "store_inv h (apply_plan plan a e s)"
proof -
  let ?t = "apply_plan plan a e s"
  note wf = plan_fits_wf[OF fits]
  have mid: "msg_id (dl_message plan) = k" using fits by (simp add: plan_fits_def)
  have mk: "maps_keyed ?t"
    using inv wf(1) mid by (auto simp: store_inv_def maps_keyed_def apply_plan_def)
  moreover have "references_ok ?t"
    using inv fits
    by (auto simp: store_inv_def references_ok_def apply_plan_def plan_fits_def split: option.splits if_splits)
  moreover have "message_complete ?t m" if m: "map_get (m_messages ?t) k' = Some m" for k' m
  proof (cases "k' = k")
    case True
    then have "m = dl_message plan" using m mid by (simp add: apply_plan_def)
    then show ?thesis
      using wf mid unfolding message_complete_def
      by (auto simp: apply_plan_def simp flip: wf(2) intro!: exI put_all_get)
  next
    case False
    then have m0: "map_get (m_messages s) k' = Some m" using m mid by (simp add: apply_plan_def)
    then have c: "message_complete s m" "msg_id m = k'"
      using inv by (auto simp: store_inv_def maps_keyed_def dest: keyedD)
    have "map_get (m_recipients ?t) i = map_get (m_recipients s) i" if "i \<in> set (msg_recipient_ids m)" for i
    proof -
      have "i \<notin> set (map rc_id (dl_recipients plan))"
      proof
        assume "i \<in> set (map rc_id (dl_recipients plan))"
        then have "\<exists>r. map_get (m_recipients s) i = Some r \<and> rc_message_id r = k"
          using ledger_recipients_belong[OF inv] fits wf(2) unfolding plan_fits_def by metis
        then show False using c that False by (auto simp: message_complete_def)
      qed
      then show ?thesis by (simp add: apply_plan_def put_all_other del: set_map)
    qed
    then show ?thesis using c by (auto simp: message_complete_def apply_plan_def)
  qed
  moreover have "ledger_inv h (ledger_of L)" if L: "deliveryLedger h ?t k' = Some L" for k' L
  proof (cases "k' = k")
    case True
    then show ?thesis using apply_plan_own[OF inv fits] L fits by (metis option.inject plan_fits_def)
  next
    case False
    then show ?thesis using apply_plan_other[OF inv fits False] L inv by (simp add: store_inv_def)
  qed
  ultimately show ?thesis by (simp add: store_inv_def)
qed

section \<open>The ledger operations\<close>

lemma start_plan_truncate: "planAttemptStart h (ledger_of L) a = planAttemptStart h L a"
  by (simp add: planAttemptStart_def)

lemma completion_plan_truncate: "planAttemptCompletion h (ledger_of L) c = planAttemptCompletion h L c"
  by (simp add: planAttemptCompletion_def)

lemma event_plan_truncate: "planProviderEvent h (ledger_of L) e = planProviderEvent h L e"
  by (simp add: planProviderEvent_def)

lemma local_plan_truncate: "planLocalRecipientState h (ledger_of L) x u = planLocalRecipientState h L x u"
  by (simp add: planLocalRecipientState_def)

lemmas plan_truncate = start_plan_truncate completion_plan_truncate event_plan_truncate local_plan_truncate

text \<open>The attempt, if its ID is taken at all, belongs to its own message.\<close>

definition attempt_id_free :: "mem \<Rightarrow> attempt_record \<Rightarrow> bool" where
  "attempt_id_free s a \<longleftrightarrow> opt_ok (\<lambda>b. at_message_id b = at_message_id a) (map_get (m_attempts s) (at_id a))"

lemma ledger_inv_of: "store_inv h s \<Longrightarrow> deliveryLedger h s k = Some L \<Longrightarrow> ledger_inv h (ledger_of L)"
  by (simp add: store_inv_def)

lemma ledger_key: "store_inv h s \<Longrightarrow> deliveryLedger h s k = Some L \<Longrightarrow> msg_id (dl_message L) = k"
  by (auto simp: store_inv_def maps_keyed_def deliveryLedger_Some dest: keyedD)

lemma assert_ledger:
  "store_inv h s \<Longrightarrow> deliveryLedger h s k = Some L \<Longrightarrow> assertLedgerState h (ledger_of L) = Inr st' \<Longrightarrow> st' = ledger_of L"
  using ledger_inv_of assert_of_wf by (fastforce simp: ledger_inv_def)

lemma start_fits:
  assumes "store_inv h s" "deliveryLedger h s (at_message_id a) = Some L" "planAttemptStart h L a = Inr (plan, a')"
    "attempt_id_free s a"
  shows "plan_fits h s (at_message_id a) plan (Some a) None" "a' = a"
proof -
  have p: "planAttemptStart h (ledger_of L) a = Inr (plan, a')" using assms(3) by (simp add: plan_truncate)
  from p obtain st' where q: "assertLedgerState h (ledger_of L) = Inr st'" "a' = a" "attempt_starts st' a"
      "dl_attempts plan = dl_attempts st' @ [a]"
      "dl_message plan = (dl_message st')\<lparr>msg_status := Msg_sending, msg_updated_at := at_started_at a\<rparr>"
    by (rule start_Inr)
  have st: "st' = ledger_of L" using assert_ledger[OF assms(1,2) q(1)] .
  have "at_id b \<noteq> at_id a" if "b \<in> set (dl_attempts L)" for b
    using q(3) that by (auto simp: attempt_starts_def st list_ex_iff)
  then show "plan_fits h s (at_message_id a) plan (Some a) None" "a' = a"
    using start_inv[OF ledger_inv_of[OF assms(1,2)] p] assms(2,4) ledger_key[OF assms(1,2)] q(2)
    by (auto simp: plan_fits_def q(4,5) st attempt_id_free_def opt_ok_def split: option.splits)
qed

lemma completion_fits:
  assumes "store_inv h s" "deliveryLedger h s (cp_message_id c) = Some L" "planAttemptCompletion h L c = Inr (plan, a')"
  shows "plan_fits h s (cp_message_id c) plan (Some a') None"
proof -
  have p: "planAttemptCompletion h (ledger_of L) c = Inr (plan, a')" using assms(3) by (simp add: plan_truncate)
  from p obtain st' i a t where q: "assertLedgerState h (ledger_of L) = Inr st'" "i < length (dl_attempts st')"
      "dl_attempts st' ! i = a" "at_id a = cp_attempt_id c" "at_message_id a = cp_message_id c"
      "a' = complete_attempt a c t" "dl_attempts plan = (dl_attempts st')[i := a']"
      "updateMessage h (dl_message st') (dl_recipients plan) t = Inr (dl_message plan)"
    by (rule completion_Inr)
  have st: "st' = ledger_of L" using assert_ledger[OF assms(1,2) q(1)] .
  have inv: "ledger_inv h (ledger_of L)" by (rule ledger_inv_of[OF assms(1,2)])
  then have dist: "distinct (map at_id (dl_attempts L))" by (simp add: ledger_inv_def ledger_wf_def)
  have i: "i < length (dl_attempts L)" "dl_attempts L ! i = a" using q(2,3) by (simp_all add: st)
  have a: "map_get (m_attempts s) (at_id a) = Some a" "at_message_id a = cp_message_id c"
    using ledger_attempts_set[OF _ assms(2)] i nth_mem[OF i(1)] assms(1) by (auto simp: store_inv_def)
  have set: "set ((dl_attempts L)[i := a']) = insert a' {b \<in> set (dl_attempts L). at_id b \<noteq> at_id a'}"
  proof -
    have "b = a" if "b \<in> set (dl_attempts L)" "at_id b = at_id a" for b
      using that dist i by (metis distinct_map inj_onD nth_mem)
    moreover have "at_id a' = at_id a" by (simp add: q(6))
    ultimately show ?thesis
      using i dist by (auto simp: set_update_distinct distinct_map)
  qed
  show ?thesis
    using completion_inv[OF inv p] assms(2) ledger_key[OF assms(1,2)] a set q(8)
    by (auto simp: plan_fits_def q(7) st q(6) updateMessage_Inr)
qed

lemma event_fits:
  assumes "store_inv h s" "deliveryLedger h s (ev_message_id e) = Some L" "planProviderEvent h L e = Inr (plan, e')"
    "\<not> map_has (m_events s) (ev_id e)"
  shows "plan_fits h s (ev_message_id e) plan None (Some e)" "e' = e"
proof -
  have p: "planProviderEvent h (ledger_of L) e = Inr (plan, e')" using assms(3) by (simp add: plan_truncate)
  from p obtain st' t where q: "assertLedgerState h (ledger_of L) = Inr st'" "e' = e"
      "dl_attempts plan = dl_attempts st'"
      "updateMessage h (dl_message st') (dl_recipients plan) t = Inr (dl_message plan)"
    by (rule event_Inr)
  have st: "st' = ledger_of L" using assert_ledger[OF assms(1,2) q(1)] .
  show "plan_fits h s (ev_message_id e) plan None (Some e)" "e' = e"
    using event_inv[OF ledger_inv_of[OF assms(1,2)] p] assms(2,4) ledger_key[OF assms(1,2)] q
    by (auto simp: plan_fits_def st updateMessage_Inr)
qed

lemma local_fits:
  assumes "store_inv h s" "deliveryLedger h s k = Some L" "planLocalRecipientState h L x u = Inr plan"
  shows "plan_fits h s k plan None None"
proof -
  have p: "planLocalRecipientState h (ledger_of L) x u = Inr plan" using assms(3) by (simp add: plan_truncate)
  from p obtain st' t where q: "assertLedgerState h (ledger_of L) = Inr st'" "dl_attempts plan = dl_attempts st'"
      "updateMessage h (dl_message st') (dl_recipients plan) t = Inr (dl_message plan)"
    by (rule local_Inr)
  have st: "st' = ledger_of L" using assert_ledger[OF assms(1,2) q(1)] .
  show ?thesis
    using local_inv[OF ledger_inv_of[OF assms(1,2)] p] assms(2) ledger_key[OF assms(1,2)] q
    by (auto simp: plan_fits_def st updateMessage_Inr)
qed

lemma commit_plan_cases:
  assumes "commitLedgerPlan hook plan attempt event s = (r, t)"
  shows "(isl r \<and> unlogged t = unlogged s) \<or> (r = Inr () \<and> unlogged t = unlogged (apply_plan plan attempt event s))"
  using commitLedgerPlan_cases[OF assms] by (auto simp: apply_plan_def)

text \<open>An operation either leaves the maps alone or applies one plan; it applies it whenever it returns a fresh result.\<close>

definition plan_outcome ::
  "host \<Rightarrow> mem \<Rightarrow> string \<Rightarrow> (delivery_ledger_plan \<Rightarrow> attempt_record option \<Rightarrow> event_record option \<Rightarrow> delivery_ledger_snapshot \<Rightarrow> bool)
     \<Rightarrow> ledger_mutation_result option result \<times> mem \<Rightarrow> bool" where
  "plan_outcome h s k planned = (\<lambda>(r, t).
     (unlogged t = unlogged s \<and> (\<forall>x. r = Inr (Some x) \<longrightarrow> lmr_replayed x))
   \<or> (\<exists>L plan attempt event. deliveryLedger h s k = Some L \<and> planned plan attempt event L
        \<and> r = Inr (deliveryLedgerResult h t k False (dl_changed_recipient_ids plan) attempt event)
        \<and> unlogged t = unlogged (apply_plan plan attempt event s)))"

lemma replayed_result [simp]:
  "deliveryLedgerResult h s k b cs a e = Some x \<Longrightarrow> lmr_replayed x = b"
  by (auto simp: deliveryLedgerResult_def delivery_ledger_snapshot.extend_def)

lemma begin_outcome:
  "plan_outcome h s (at_message_id a)
     (\<lambda>plan attempt event L. planAttemptStart h L a = Inr (plan, a) \<and> attempt = Some a \<and> event = None)
     (beginDeliveryAttempt h hook a s)"
proof (cases "parse_attempt h a")
  case (Inl e)
  then show ?thesis by (simp add: plan_outcome_def beginDeliveryAttempt_def liftS_def bindS_def)
next
  case (Inr a0)
  then have a0: "a0 = a" by (simp add: parse_attempt_def)
  show ?thesis
  proof (cases "deliveryLedger h s (at_message_id a)")
    case None
    then show ?thesis using Inr a0 by (simp add: plan_outcome_def beginDeliveryAttempt_def sx_simps)
  next
    case (Some L)
    show ?thesis
    proof (cases "find (\<lambda>b. at_id b = at_id a \<or> at_sequence b = at_sequence a) (dl_attempts L)")
      case (Some existing)
      with \<open>deliveryLedger h s (at_message_id a) = Some L\<close> show ?thesis
        using Inr a0 by (auto simp: plan_outcome_def beginDeliveryAttempt_def sx_simps)
    next
      case None
      show ?thesis
      proof (cases "planAttemptStart h L a")
        case (Inl e)
        with None Some show ?thesis
          using Inr a0 by (simp add: plan_outcome_def beginDeliveryAttempt_def sx_simps)
      next
        case (Inr p)
        then obtain plan where p: "planAttemptStart h L a = Inr (plan, a)"
          by (cases p) (metis start_Inr)
        obtain r t where c: "commitLedgerPlan hook plan (Some a) None s = (r, t)" by fastforce
        have run: "beginDeliveryAttempt h hook a s = (case r of Inl e \<Rightarrow> (Inl e, t)
            | Inr _ \<Rightarrow> (Inr (deliveryLedgerResult h t (at_message_id a) False (dl_changed_recipient_ids plan) (Some a) None), t))"
          using \<open>parse_attempt h a = Inr a0\<close> a0 None Some p c
          by (simp add: beginDeliveryAttempt_def sx_simps bindS_def split: sum.split)
        show ?thesis
          using commit_plan_cases[OF c] Some p unfolding run plan_outcome_def
          by (cases r) auto
      qed
    qed
  qed
qed

lemma commit_then_result:
  assumes "commitLedgerPlan hook plan attempt event s = (r, t)"
  shows "thenS (commitLedgerPlan hook plan attempt event) (getS f) s
    = (case r of Inl e \<Rightarrow> (Inl e, t) | Inr _ \<Rightarrow> (Inr (f t), t))"
  using assms by (simp add: thenS_def bindS_def getS_def split: sum.split)

lemma complete_outcome:
  "plan_outcome h s (cp_message_id c)
     (\<lambda>plan attempt event L. \<exists>a. planAttemptCompletion h L c = Inr (plan, a) \<and> attempt = Some a \<and> event = None)
     (completeDeliveryAttempt h hook c s)"
proof (cases "deliveryLedger h s (cp_message_id c)")
  case None
  then show ?thesis by (simp add: plan_outcome_def completeDeliveryAttempt_def sx_simps)
next
  case L: (Some L)
  show ?thesis
  proof (cases "find (\<lambda>b. at_id b = cp_attempt_id c) (dl_attempts L)")
    case None
    with L show ?thesis by (simp add: plan_outcome_def completeDeliveryAttempt_def sx_simps)
  next
    case (Some existing)
    show ?thesis
    proof (cases "at_status existing = At_submitting")
      case False
      with L Some show ?thesis
        by (cases "to_iso_of_string h (cp_completed_at c)") (auto simp: plan_outcome_def completeDeliveryAttempt_def sx_simps)
    next
      case True
      show ?thesis
      proof (cases "planAttemptCompletion h L c")
        case (Inl e)
        with L Some True show ?thesis by (simp add: plan_outcome_def completeDeliveryAttempt_def sx_simps)
      next
        case (Inr p)
        obtain plan a where p: "planAttemptCompletion h L c = Inr (plan, a)" using Inr by (cases p) auto
        obtain r t where r: "commitLedgerPlan hook plan (Some a) None s = (r, t)" by fastforce
        have run: "completeDeliveryAttempt h hook c s = (case r of Inl e \<Rightarrow> (Inl e, t)
            | Inr _ \<Rightarrow> (Inr (deliveryLedgerResult h t (cp_message_id c) False (dl_changed_recipient_ids plan) (Some a) None), t))"
          using L Some True p commit_then_result[OF r] by (simp add: completeDeliveryAttempt_def sx_simps)
        show ?thesis
          using commit_plan_cases[OF r] L p unfolding run plan_outcome_def by (cases r) auto
      qed
    qed
  qed
qed

lemma append_outcome:
  "plan_outcome h s (ev_message_id e)
     (\<lambda>plan attempt event L. planProviderEvent h L e = Inr (plan, e) \<and> attempt = None \<and> event = Some e
        \<and> \<not> map_has (m_events s) (ev_id e))
     (appendProviderEvent h hook e s)"
proof (cases "parse_event h e")
  case (Inl x)
  then show ?thesis by (simp add: plan_outcome_def appendProviderEvent_def sx_simps liftS_def bindS_def)
next
  case (Inr e0)
  then have e0: "parse_event h e = Inr e" by (simp add: parse_event_def)
  show ?thesis
  proof (cases "map_get (m_events s) (ev_id e)")
    case (Some existing)
    with e0 show ?thesis
      by (cases "isEquivalentProviderEventReplay h existing e")
        (auto simp: plan_outcome_def appendProviderEvent_def sx_simps)
  next
    case fresh: None
    show ?thesis
    proof (cases "deliveryLedger h s (ev_message_id e)")
      case None
      with e0 fresh show ?thesis by (simp add: plan_outcome_def appendProviderEvent_def sx_simps)
    next
      case L: (Some L)
      show ?thesis
      proof (cases "planProviderEvent h L e")
        case (Inl x)
        with e0 fresh L show ?thesis by (simp add: plan_outcome_def appendProviderEvent_def sx_simps)
      next
        case (Inr p)
        then obtain plan where p: "planProviderEvent h L e = Inr (plan, e)" by (cases p) (metis event_Inr)
        obtain r t where r: "commitLedgerPlan hook plan None (Some e) s = (r, t)" by fastforce
        have run: "appendProviderEvent h hook e s = (case r of Inl x \<Rightarrow> (Inl x, t)
            | Inr _ \<Rightarrow> (Inr (deliveryLedgerResult h t (ev_message_id e) False (dl_changed_recipient_ids plan) None (Some e)), t))"
          using e0 fresh L p commit_then_result[OF r] by (simp add: appendProviderEvent_def sx_simps)
        show ?thesis
          using commit_plan_cases[OF r] L p fresh unfolding run plan_outcome_def by (cases r) (auto simp: map_has_def)
      qed
    qed
  qed
qed

lemma local_outcome:
  "plan_outcome h s k
     (\<lambda>plan attempt event L. planLocalRecipientState h L x u = Inr plan \<and> attempt = None \<and> event = None)
     (applyLocalDeliveryState h hook k x u s)"
proof (cases "deliveryLedger h s k")
  case None
  then show ?thesis by (simp add: plan_outcome_def applyLocalDeliveryState_def sx_simps)
next
  case L: (Some L)
  show ?thesis
  proof (cases "planLocalRecipientState h L x u")
    case (Inl e)
    with L show ?thesis by (simp add: plan_outcome_def applyLocalDeliveryState_def sx_simps)
  next
    case (Inr plan)
    obtain r t where r: "commitLedgerPlan hook plan None None s = (r, t)" by fastforce
    have run: "applyLocalDeliveryState h hook k x u s = (case r of Inl e \<Rightarrow> (Inl e, t)
        | Inr _ \<Rightarrow> (Inr (deliveryLedgerResult h t k False (dl_changed_recipient_ids plan) None None), t))"
      using L Inr commit_then_result[OF r] by (simp add: applyLocalDeliveryState_def sx_simps)
    show ?thesis
      using commit_plan_cases[OF r] L Inr unfolding run plan_outcome_def by (cases r) auto
  qed
qed

text \<open>The invariant does not see the log of the hook.\<close>

lemma deliveryLedger_unlogged:
  assumes "unlogged t = unlogged s"
  shows "deliveryLedger h t k = deliveryLedger h s k"
  by (simp only: deliveryLedger_def unlogged_eqD[OF assms])

lemma store_inv_unlogged:
  assumes "unlogged t = unlogged s"
  shows "store_inv h t \<longleftrightarrow> store_inv h s"
  by (simp only: store_inv_def maps_keyed_def references_ok_def message_complete_def
    deliveryLedger_unlogged[OF assms] unlogged_eqD[OF assms])

lemma plan_outcome_inv:
  assumes inv: "store_inv h s" and out: "plan_outcome h s k planned (r, t)"
    and fits: "\<And>plan a e L. deliveryLedger h s k = Some L \<Longrightarrow> planned plan a e L \<Longrightarrow> plan_fits h s k plan a e"
  shows "store_inv h t"
proof -
  consider (same) "unlogged t = unlogged s"
    | (plan) L plan a e where "deliveryLedger h s k = Some L" "planned plan a e L" "unlogged t = unlogged (apply_plan plan a e s)"
    using out by (auto simp: plan_outcome_def)
  then show ?thesis
  proof cases
    case same
    then show ?thesis using inv store_inv_unlogged by blast
  next
    case plan
    show ?thesis using apply_plan_inv[OF inv fits[OF plan(1,2)]] store_inv_unlogged[OF plan(3)] by blast
  qed
qed

lemma begin_inv:
  assumes "store_inv h s" "attempt_id_free s a" "beginDeliveryAttempt h hook a s = (r, t)"
  shows "store_inv h t"
  by (rule plan_outcome_inv[OF assms(1) begin_outcome[of h s a hook, unfolded assms(3)]])
    (auto intro: start_fits(1)[OF assms(1) _ _ assms(2)])

lemma complete_inv:
  assumes "store_inv h s" "completeDeliveryAttempt h hook c s = (r, t)"
  shows "store_inv h t"
  by (rule plan_outcome_inv[OF assms(1) complete_outcome[of h s c hook, unfolded assms(2)]])
    (auto intro: completion_fits[OF assms(1)])

lemma append_inv:
  assumes "store_inv h s" "appendProviderEvent h hook e s = (r, t)"
  shows "store_inv h t"
  by (rule plan_outcome_inv[OF assms(1) append_outcome[of h s e hook, unfolded assms(2)]])
    (auto intro: event_fits(1)[OF assms(1)])

lemma apply_local_inv:
  assumes "store_inv h s" "applyLocalDeliveryState h hook k x u s = (r, t)"
  shows "store_inv h t"
  by (rule plan_outcome_inv[OF assms(1) local_outcome[of h s k x u hook, unfolded assms(2)]])
    (auto intro: local_fits[OF assms(1)])

section \<open>The commit\<close>

lemma commitDelivery_cases:
  assumes run: "commitDelivery h hook c now s = (r, t)"
  obtains (unchanged) "unlogged t = unlogged s" "\<And>x. r = Inr x \<Longrightarrow> dcr_replayed x"
  | (visible) "validateDeliveryCommit h c now = Inr c" "live_claim s (dc_idempotency c) now = None"
      "\<not> map_has (m_emails s) (em_id (dc_email c))" "\<not> map_has (m_messages s) (msg_id (dc_message c))"
      "\<not> map_has (m_outbox s) (ob_id (dc_outbox c))"
      "unlogged t = unlogged (committed c s)" "last (m_mutations t) = Mut_commit_swap"
      "distinct (map rc_id (dc_recipients c))" "\<forall>x \<in> set (dc_recipients c). \<not> map_has (m_recipients s) (rc_id x)"
      "\<And>x. r = Inr x \<Longrightarrow> x = delivery_commit.extend c \<lparr>dcr_replayed = False\<rparr>"
proof (cases "validateDeliveryCommit h c now")
  case (Inl e)
  then show thesis using run unchanged by (auto simp: commitDelivery_def liftS_def bindS_def)
next
  case (Inr c')
  then have v: "validateDeliveryCommit h c now = Inr c" using validate_D(1) by metis
  show thesis
  proof (cases "live_claim s (dc_idempotency c) now")
    case (Some entry)
    then show thesis
      using run v unchanged
      by (auto simp: commitDelivery_def sx_simps deliveryResult_def split: if_splits option.splits)
  next
    case None
    show thesis
    proof (cases "map_has (m_emails s) (em_id (dc_email c)) \<or> map_has (m_messages s) (msg_id (dc_message c))
            \<or> map_has (m_outbox s) (ob_id (dc_outbox c))")
      case True
      then have "r = Inl (ConflictError ''Delivery identity is already in use.'')" "t = s"
        using run v None by (simp_all add: commitDelivery_def sx_simps)
      then show thesis using unchanged by simp
    next
      case False
      then have w: "commit_delivery_writes hook c s = (r, t)"
        using run v None by (simp add: commitDelivery_def sx_simps)
      then show thesis
        by (cases rule: commit_writes_cases) (use unchanged visible False v None in \<open>auto simp: isl_def\<close>)
    qed
  qed
qed

lemma committed_new_ledger:
  assumes inv: "store_inv h s" and v: "validateDeliveryCommit h c now = Inr c"
    and fresh: "\<not> map_has (m_messages s) (msg_id (dc_message c))"
    and L: "deliveryLedger h (committed c s) (msg_id (dc_message c)) = Some L"
  shows "ledger_initial h (ledger_of L)" "message_complete (committed c s) (dc_message c)"
    "set (dl_recipients L) = set (dc_recipients c)"
proof -
  let ?m = "dc_message c" and ?t = "committed c s" and ?rs = "dc_recipients c"
  note V = validate_D[OF v]
  have em: "em_id (dc_email c) = msg_id ?m" using V(5) by (simp add: commit_records_match_def)
  note perm = commit_recipients_perm[OF V(2,6)]
  have ids: "set (map rc_id ?rs) = set (msg_recipient_ids ?m)" using perm(1) by (metis mset_eq_setD)
  have rs: "rc_message_id r = msg_id ?m" "rc_status r \<in> {Rc_queued, Rc_suppressed}" "recipient_ok h r" if "r \<in> set ?rs" for r
    using V(3,6) that by (auto simp: commit_recipients_match_def Let_def list_all_iff)
  have get: "map_get (m_recipients ?t) (rc_id r) = Some r" if "r \<in> set ?rs" for r
    using put_all_get[OF perm(2) that] by (simp add: committed_def)
  have look: "\<exists>r \<in> set ?rs. map_get (m_recipients ?t) i = Some r \<and> rc_id r = i" if "i \<in> set (msg_recipient_ids ?m)" for i
    using that get unfolding ids[symmetric] by auto
  have Lm: "dl_message L = ?m" "dl_email L = dc_email c" using L by (auto simp: deliveryLedger_Some committed_def em)
  have recs: "map (map_get (m_recipients ?t)) (msg_recipient_ids ?m) = map Some (dl_recipients L)"
    using L Lm by (simp add: deliveryLedger_Some those_Some_iff)
  have map_ids: "map rc_id (dl_recipients L) = msg_recipient_ids ?m"
  proof (rule nth_equalityI)
    show len: "length (map rc_id (dl_recipients L)) = length (msg_recipient_ids ?m)"
      using recs by (metis length_map)
    fix i assume "i < length (map rc_id (dl_recipients L))"
    then have i: "i < length (msg_recipient_ids ?m)" "i < length (dl_recipients L)" using len by simp_all
    then have "map_get (m_recipients ?t) (msg_recipient_ids ?m ! i) = Some (dl_recipients L ! i)"
      using recs by (metis nth_map)
    then show "map rc_id (dl_recipients L) ! i = msg_recipient_ids ?m ! i"
      using look[of "msg_recipient_ids ?m ! i"] i by auto
  qed
  show set_rs: "set (dl_recipients L) = set ?rs"
  proof
    show "set (dl_recipients L) \<subseteq> set ?rs"
    proof
      fix r assume "r \<in> set (dl_recipients L)"
      then have "Some r \<in> set (map (map_get (m_recipients ?t)) (msg_recipient_ids ?m))" by (simp add: recs)
      then show "r \<in> set ?rs" using look by fastforce
    qed
    show "set ?rs \<subseteq> set (dl_recipients L)"
    proof
      fix r assume r: "r \<in> set ?rs"
      then have "rc_id r \<in> set (msg_recipient_ids ?m)" using ids by auto
      then have "Some r \<in> set (map (map_get (m_recipients ?t)) (msg_recipient_ids ?m))"
        using get[OF r] by (metis image_eqI list.set_map)
      then show "r \<in> set (dl_recipients L)" by (simp add: recs image_iff)
    qed
  qed
  have "filter (\<lambda>a. at_message_id a = msg_id ?m) (map_values (m_attempts ?t)) = []"
    using inv fresh by (auto simp: filter_empty_conv committed_def store_inv_def references_ok_def maps_keyed_def
      keyed_values map_has_def) (metis option.distinct(1))
  then have "dl_attempts L = []" using L by (simp add: deliveryLedger_Some)
  then show "ledger_initial h (ledger_of L)"
    using V(2) rs map_ids em
    by (auto simp: ledger_initial_def ledger_wf_def Lm list_all_iff set_rs)
  show "message_complete ?t ?m"
    using look rs(1) by (auto simp: message_complete_def) (simp add: committed_def em)
qed

lemma committed_other_ledger:
  assumes inv: "store_inv h s" and v: "validateDeliveryCommit h c now = Inr c"
    and fresh: "\<forall>x \<in> set (dc_recipients c). \<not> map_has (m_recipients s) (rc_id x)" and other: "k \<noteq> msg_id (dc_message c)"
  shows "deliveryLedger h (committed c s) k = deliveryLedger h s k"
    "map_get (m_messages s) k = Some m \<Longrightarrow> message_complete (committed c s) m"
proof -
  let ?t = "committed c s"
  have em: "em_id (dc_email c) = msg_id (dc_message c)" using validate_D(5)[OF v] by (simp add: commit_records_match_def)
  have recs: "map_get (m_recipients ?t) i = map_get (m_recipients s) i"
    if "map_get (m_messages s) k = Some m" "i \<in> set (msg_recipient_ids m)" for m i
  proof -
    have "message_complete s m" using inv that(1) by (auto simp: store_inv_def)
    then have "map_has (m_recipients s) i" using that(2) by (auto simp: message_complete_def map_has_def)
    then have "i \<notin> set (map rc_id (dc_recipients c))" using fresh by auto
    then show ?thesis by (simp add: committed_def put_all_other del: set_map)
  qed
  have parts: "map_get (m_emails ?t) k = map_get (m_emails s) k" "map_get (m_messages ?t) k = map_get (m_messages s) k"
    "m_attempts ?t = m_attempts s" "m_events ?t = m_events s"
    using other by (simp_all add: committed_def em)
  show "deliveryLedger h ?t k = deliveryLedger h s k"
    unfolding deliveryLedger_def parts by (auto split: option.split simp: recs cong: map_cong)
  assume m: "map_get (m_messages s) k = Some m"
  then have "message_complete s m" using inv by (auto simp: store_inv_def)
  then show "message_complete ?t m"
    using recs[OF m] by (auto simp: message_complete_def) (simp add: committed_def)
qed

lemma committed_inv:
  assumes inv: "store_inv h s" and v: "validateDeliveryCommit h c now = Inr c"
    and fresh: "\<not> map_has (m_messages s) (msg_id (dc_message c))"
      "\<forall>x \<in> set (dc_recipients c). \<not> map_has (m_recipients s) (rc_id x)"
  shows "store_inv h (committed c s)"
proof -
  let ?t = "committed c s" and ?k = "msg_id (dc_message c)"
  note V = validate_D[OF v]
  have "maps_keyed ?t"
    using inv by (auto simp: store_inv_def maps_keyed_def committed_def put_claim_def split: option.split)
  moreover have "references_ok ?t"
    using inv by (auto simp: store_inv_def references_ok_def committed_def)
  moreover have "message_complete ?t m" if m: "map_get (m_messages ?t) k = Some m" for k m
  proof (cases "k = ?k")
    case True
    then have "m = dc_message c" using m by (simp add: committed_def)
    moreover have "map_has (m_emails ?t) ?k"
      using V(5) by (simp add: committed_def commit_records_match_def)
    moreover obtain L where "deliveryLedger h ?t ?k = Some L"
    proof -
      have "map_get (m_recipients ?t) i \<noteq> None" if "i \<in> set (msg_recipient_ids (dc_message c))" for i
      proof -
        note perm = commit_recipients_perm[OF V(2,6)]
        have "i \<in> set (map rc_id (dc_recipients c))" using that perm(1) by (metis mset_eq_setD)
        then show ?thesis using put_all_get[OF perm(2)] by (auto simp: committed_def)
      qed
      then have "those (map (map_get (m_recipients ?t)) (msg_recipient_ids (dc_message c)))
          = Some (map (\<lambda>i. the (map_get (m_recipients ?t) i)) (msg_recipient_ids (dc_message c)))"
        by (intro those_map_Some) auto
      then show thesis
        using that V(5) by (auto simp: deliveryLedger_def committed_def commit_records_match_def)
    qed
    ultimately show ?thesis using committed_new_ledger(2)[OF inv v fresh(1)] by blast
  next
    case False
    then have "map_get (m_messages s) k = Some m" using m by (simp add: committed_def)
    then show ?thesis using committed_other_ledger(2)[OF inv v fresh(2) False] by blast
  qed
  moreover have "ledger_inv h (ledger_of L)" if L: "deliveryLedger h ?t k = Some L" for k L
  proof (cases "k = ?k")
    case True
    then show ?thesis using committed_new_ledger(1)[OF inv v fresh(1)] L ledger_initial_inv by blast
  next
    case False
    then show ?thesis using committed_other_ledger(1)[OF inv v fresh(2) False] L inv by (simp add: store_inv_def)
  qed
  ultimately show ?thesis by (simp add: store_inv_def)
qed

lemma commit_inv:
  assumes "store_inv h s" "commitDelivery h hook c now s = (r, t)"
  shows "store_inv h t"
  using assms(2)
proof (cases rule: commitDelivery_cases)
  case unchanged
  then show ?thesis using assms(1) store_inv_unlogged by blast
next
  case visible
  then show ?thesis using committed_inv[OF assms(1)] store_inv_unlogged by blast
qed

end
