(* ===== verification/Outbox_Facts.thy ===== *)
theory Outbox_Facts
  imports Delivery_Store_Facts
begin

text \<open>
  Lemmas on the transactional outbox of the store: what a lease takes and leaves, who can
  acknowledge or fail an item, and the step relation of the whole delivery store with the
  invariant of its reachable states.
\<close>

section \<open>Leasing\<close>

lemma leased_item_simps [simp]:
  "ob_id (leased_item i w e n) = ob_id i" "ob_lease_owner (leased_item i w e n) = Some w"
  "ob_lease_expires_at (leased_item i w e n) = Some e" "ob_dispatched_at (leased_item i w e n) = ob_dispatched_at i"
  "ob_due_at (leased_item i w e n) = ob_due_at i" "ob_attempts (leased_item i w e n) = ob_attempts i + 1"
  "ob_message_id (leased_item i w e n) = ob_message_id i"
  by (simp_all add: leased_item_def)

definition with_outbox :: "outbox_record jsmap \<Rightarrow> mem \<Rightarrow> mem" where
  "with_outbox m s = s\<lparr>m_outbox := m\<rparr>"

lemma with_outbox_simps [simp]:
  "m_outbox (with_outbox m s) = m" "with_outbox m (with_outbox m' s) = with_outbox m s"
  "unlogged (with_outbox m s) = with_outbox m (unlogged s)" "with_outbox (m_outbox s) s = s"
  "m_emails (with_outbox m s) = m_emails s" "m_messages (with_outbox m s) = m_messages s"
  "m_recipients (with_outbox m s) = m_recipients s" "m_attempts (with_outbox m s) = m_attempts s"
  "m_events (with_outbox m s) = m_events s" "m_idempotency (with_outbox m s) = m_idempotency s"
  by (simp_all add: with_outbox_def)

lemma lease_each_outcome:
  "lease_each h hook w e n items s = (r, t) \<Longrightarrow>
     \<exists>k \<le> length items. unlogged t = with_outbox (put_all ob_id (map (\<lambda>i. leased_item i w e n) (take k items)) (m_outbox s)) (unlogged s)
       \<and> (\<forall>leased. r = Inr leased \<longrightarrow> k = length items \<and> leased = map (\<lambda>i. leased_item i w e n) items)
       \<and> list_all (\<lambda>i. outbox_ok h (leased_item i w e n)) (take k items)"
proof (induction items arbitrary: r s t)
  case Nil
  then show ?case by (auto simp: returnS_def with_outbox_def)
next
  case (Cons i items)
  let ?u = "leased_item i w e n"
  show ?case
  proof (cases "outbox_ok h ?u")
    case False
    then have "r = Inl ZodError \<and> t = s"
      using Cons.prems by (simp add: parse_outbox_def checkE_def sx_simps)
    then show ?thesis by (intro exI[of _ 0]) (simp add: with_outbox_def)
  next
    case True
    define s1 where "s1 = s\<lparr>m_outbox := map_set (ob_id i) ?u (m_outbox s)\<rparr>"
    obtain r2 s2 where hk: "afterDeliveryMutation hook Mut_lease s1 = (r2, s2)" by fastforce
    have s2: "unlogged s2 = with_outbox (map_set (ob_id i) ?u (m_outbox s)) (unlogged s)"
      using hook_unlogged[OF hk] by (simp add: s1_def with_outbox_def)
    from arg_cong[where f = m_outbox, OF s2] have s2o: "m_outbox s2 = map_set (ob_id i) ?u (m_outbox s)" by simp
    have run: "lease_each h hook w e n (i # items) s
        = (case r2 of Inl x \<Rightarrow> (Inl x, s2) | Inr _ \<Rightarrow> bindS (lease_each h hook w e n items) (\<lambda>l. returnS (?u # l)) s2)"
      using True hk by (simp add: parse_outbox_def checkE_def sx_simps bindS_def s1_def split: sum.split)
    show ?thesis
    proof (cases r2)
      case (Inl x)
      then show ?thesis
        using Cons.prems run s2 True by (intro exI[of _ 1]) simp
    next
      case (Inr x)
      obtain r3 t3 where rest: "lease_each h hook w e n items s2 = (r3, t3)" by fastforce
      from Cons.IH[OF rest] obtain k where k: "k \<le> length items"
          "unlogged t3 = with_outbox (put_all ob_id (map (\<lambda>i. leased_item i w e n) (take k items)) (m_outbox s2)) (unlogged s2)"
          "\<forall>leased. r3 = Inr leased \<longrightarrow> k = length items \<and> leased = map (\<lambda>i. leased_item i w e n) items"
          "list_all (\<lambda>i. outbox_ok h (leased_item i w e n)) (take k items)"
        by (elim exE conjE) (rule that)
      have "t = t3" "\<forall>l. r = Inr l \<longrightarrow> (\<exists>l'. r3 = Inr l' \<and> l = ?u # l')"
        using Cons.prems run Inr rest by (auto simp: bindS_def returnS_def split: sum.splits)
      moreover have "unlogged t3 = with_outbox (put_all ob_id (map (\<lambda>i. leased_item i w e n) (take (Suc k) (i # items)))
          (m_outbox s)) (unlogged s)"
        unfolding k(2) s2 s2o by simp
      moreover have "list_all (\<lambda>i. outbox_ok h (leased_item i w e n)) (take (Suc k) (i # items))"
        using True k(4) by simp
      moreover have "\<forall>l. r = Inr l \<longrightarrow> Suc k = length (i # items) \<and> l = map (\<lambda>i. leased_item i w e n) (i # items)"
        using calculation(2) k(3) by fastforce
      ultimately show ?thesis
        using k(1) by (intro exI[of _ "Suc k"] conjI) simp_all
    qed
  qed
qed

lemma put_leased_other:
  "i \<notin> set (map ob_id xs) \<Longrightarrow>
     map_get (put_all ob_id (map (\<lambda>i. leased_item i w e n) xs) m) i = map_get m i"
  by (rule put_all_other) (simp add: comp_def)

lemma lease_run:
  assumes "is_lease_owner (lo_owner input)" "js_integer (lo_lease_seconds input) = Some secs" "0 < secs"
    "js_integer (lo_limit input) = Some n" "0 < n" "n \<le> 1000"
  shows "leaseDueOutbox h hook input s = (if valid_time (lo_now input + secs * 1000)
    then lease_each h hook (lo_owner input) (to_iso (lo_now input + secs * 1000)) (to_iso (lo_now input))
           (take (nat n) (due_outbox h (lo_now input) s)) s
    else (Inl RangeError, s))"
  using assms by (simp add: leaseDueOutbox_def sx_simps date_to_iso_def make_date_def)

lemma lease_throws:
  assumes "\<not> (is_lease_owner (lo_owner input) \<and> (\<exists>secs n. js_integer (lo_lease_seconds input) = Some secs \<and> 0 < secs
      \<and> js_integer (lo_limit input) = Some n \<and> 0 < n \<and> n \<le> 1000))"
  shows "\<exists>x. leaseDueOutbox h hook input s = (Inl x, s)"
proof (cases "js_integer (lo_lease_seconds input)")
  case None
  then show ?thesis by (simp add: leaseDueOutbox_def throwS_def)
next
  case (Some secs)
  then show ?thesis
    using assms by (cases "js_integer (lo_limit input)") (auto simp: leaseDueOutbox_def throwS_def not_less not_le)
qed

lemma lease_outcome:
  assumes run: "leaseDueOutbox h hook input s = (r, t)"
  obtains (unchanged) "isl r" "t = s"
  | (leasing) secs n e k where "js_integer (lo_lease_seconds input) = Some secs" "0 < secs"
      "js_integer (lo_limit input) = Some n" "0 < n" "n \<le> 1000" "is_lease_owner (lo_owner input)"
      "e = to_iso (lo_now input + secs * 1000)" "valid_time (lo_now input + secs * 1000)"
      "k \<le> length (take (nat n) (due_outbox h (lo_now input) s))"
      "unlogged t = with_outbox (put_all ob_id (map (\<lambda>i. leased_item i (lo_owner input) e (to_iso (lo_now input)))
         (take k (take (nat n) (due_outbox h (lo_now input) s)))) (m_outbox s)) (unlogged s)"
      "list_all (\<lambda>i. outbox_ok h (leased_item i (lo_owner input) e (to_iso (lo_now input))))
         (take k (take (nat n) (due_outbox h (lo_now input) s)))"
      "\<And>leased. r = Inr leased \<Longrightarrow> k = length (take (nat n) (due_outbox h (lo_now input) s))
         \<and> leased = map (\<lambda>i. leased_item i (lo_owner input) e (to_iso (lo_now input))) (take (nat n) (due_outbox h (lo_now input) s))"
proof -
  consider (throw) x where "leaseDueOutbox h hook input s = (Inl x, s)"
    | (go) secs n e where "js_integer (lo_lease_seconds input) = Some secs" "0 < secs"
      "js_integer (lo_limit input) = Some n" "0 < n" "n \<le> 1000" "is_lease_owner (lo_owner input)"
      "e = to_iso (lo_now input + secs * 1000)" "valid_time (lo_now input + secs * 1000)"
      "leaseDueOutbox h hook input s = lease_each h hook (lo_owner input) e (to_iso (lo_now input))
         (take (nat n) (due_outbox h (lo_now input) s)) s"
    using lease_throws[of input h hook s] lease_run[of input _ _ h hook s] by meson
  then show thesis
  proof cases
    case throw
    then show thesis using unchanged run by auto
  next
    case go
    then have each: "lease_each h hook (lo_owner input) e (to_iso (lo_now input))
         (take (nat n) (due_outbox h (lo_now input) s)) s = (r, t)" using run by simp
    from lease_each_outcome[OF each] obtain k where
      "k \<le> length (take (nat n) (due_outbox h (lo_now input) s))"
      "unlogged t = with_outbox (put_all ob_id (map (\<lambda>i. leased_item i (lo_owner input) e (to_iso (lo_now input)))
         (take k (take (nat n) (due_outbox h (lo_now input) s)))) (m_outbox s)) (unlogged s)"
      "\<forall>leased. r = Inr leased \<longrightarrow> k = length (take (nat n) (due_outbox h (lo_now input) s))
         \<and> leased = map (\<lambda>i. leased_item i (lo_owner input) e (to_iso (lo_now input))) (take (nat n) (due_outbox h (lo_now input) s))"
      "list_all (\<lambda>i. outbox_ok h (leased_item i (lo_owner input) e (to_iso (lo_now input))))
         (take k (take (nat n) (due_outbox h (lo_now input) s)))"
      by blast
    then show thesis using leasing[OF go(1-8)] by blast
  qed
qed

lemma due_outbox_mem:
  assumes "keyed ob_id (m_outbox s)"
  shows "x \<in> set (due_outbox h now s) \<longleftrightarrow> map_get (m_outbox s) (ob_id x) = Some x \<and> outbox_is_due h now x"
  using assms by (auto simp: due_outbox_def keyed_values)

lemma due_outbox_distinct:
  assumes "keyed ob_id (m_outbox s)"
  shows "distinct (map ob_id (due_outbox h now s))"
proof -
  have "distinct (map ob_id (filter (outbox_is_due h now) (map_values (m_outbox s))))"
    using keyed_values_distinct[OF assms] by (simp add: distinct_map_filter)
  moreover have "mset (map ob_id (due_outbox h now s))
      = mset (map ob_id (filter (outbox_is_due h now) (map_values (m_outbox s))))"
    by (simp add: due_outbox_def)
  ultimately show ?thesis by (metis mset_eq_imp_distinct_iff)
qed

text \<open>An item that is not due, for its lease or its date or because it was dispatched, is not touched.\<close>

lemma lease_keeps_undue:
  assumes run: "leaseDueOutbox h hook input s = (r, t)" and key: "keyed ob_id (m_outbox s)"
    and x: "map_get (m_outbox s) i = Some x" and not_due: "\<not> outbox_is_due h (lo_now input) x"
  shows "map_get (m_outbox t) i = Some x" "r = Inr leased \<Longrightarrow> i \<notin> set (map ob_id leased)"
proof -
  have "i \<notin> set (map ob_id (due_outbox h (lo_now input) s))"
    using due_outbox_mem[OF key] x not_due by auto
  then have i: "i \<notin> set (map ob_id (take k (due_outbox h (lo_now input) s)))" for k
    by (auto dest: in_set_takeD)
  have "map_get (m_outbox t) i = Some x \<and> (r = Inr leased \<longrightarrow> i \<notin> set (map ob_id leased))" for leased
    using run
  proof (cases rule: lease_outcome)
    case unchanged
    then show ?thesis using x by auto
  next
    case (leasing secs n e k)
    have "m_outbox t = put_all ob_id (map (\<lambda>i. leased_item i (lo_owner input) e (to_iso (lo_now input)))
         (take (min k (nat n)) (due_outbox h (lo_now input) s))) (m_outbox s)"
      using arg_cong[where f = m_outbox, OF leasing(10)] by (simp add: take_take)
    then have "map_get (m_outbox t) i = Some x" using put_leased_other[OF i] x by metis
    moreover have "i \<notin> set (map ob_id leased)" if "r = Inr leased"
      using leasing(12)[OF that] i[of "nat n"] by (simp add: comp_def)
    ultimately show ?thesis by blast
  qed
  then show "map_get (m_outbox t) i = Some x" "r = Inr leased \<Longrightarrow> i \<notin> set (map ob_id leased)" by blast+
qed

section \<open>Acknowledging and failing\<close>

definition settle_outcome :: "mem \<Rightarrow> string \<Rightarrow> string \<Rightarrow> (outbox_record \<Rightarrow> outbox_record) \<Rightarrow> (outbox_record \<Rightarrow> bool) \<Rightarrow>
    bool result \<times> mem \<Rightarrow> bool" where
  "settle_outcome s i owner f ok = (\<lambda>(r, t).
     (unlogged t = unlogged s \<and> r \<noteq> Inr True
        \<and> (r = Inr False \<longrightarrow> \<not> (\<exists>x. map_get (m_outbox s) i = Some x \<and> owns_lease owner x)))
   \<or> (\<exists>x p. map_get (m_outbox s) i = Some x \<and> owns_lease owner x \<and> ok (f x) \<and> r \<noteq> Inr False
        \<and> unlogged t = (with_outbox (map_set i (f x) (m_outbox s)) (unlogged s))\<lparr>m_publish_failures := p\<rparr>))"

lemma acknowledge_outcome:
  "settle_outcome s i owner (\<lambda>x. x\<lparr>ob_lease_owner := None, ob_lease_expires_at := None,
       ob_dispatched_at := Some (to_iso now), ob_updated_at := to_iso now\<rparr>) (outbox_ok h)
     (acknowledgeOutbox h hook i owner now s)"
proof (cases "map_get (m_outbox s) i")
  case None
  then show ?thesis by (simp add: settle_outcome_def acknowledgeOutbox_def getOutboxItem_def sx_simps)
next
  case (Some x)
  let ?x = "x\<lparr>ob_lease_owner := None, ob_lease_expires_at := None, ob_dispatched_at := Some (to_iso now), ob_updated_at := to_iso now\<rparr>"
  define u where "u = s\<lparr>m_outbox := map_set i ?x (m_outbox s)\<rparr>"
  show ?thesis
  proof (cases "owns_lease owner x \<and> outbox_ok h ?x")
    case False
    with Some show ?thesis
      by (auto simp: settle_outcome_def acknowledgeOutbox_def getOutboxItem_def sx_simps parse_outbox_def checkE_def)
  next
    case True
    obtain r t where hk: "afterDeliveryMutation hook Mut_acknowledge u = (r, t)" by fastforce
    have "acknowledgeOutbox h hook i owner now s = (case r of Inl e \<Rightarrow> (Inl e, t) | Inr _ \<Rightarrow> (Inr True, t))"
      using Some True hk
      by (simp add: acknowledgeOutbox_def getOutboxItem_def sx_simps parse_outbox_def checkE_def bindS_def u_def split: sum.split)
    moreover have "unlogged t = (with_outbox (map_set i ?x (m_outbox s)) (unlogged s))\<lparr>m_publish_failures := m_publish_failures s\<rparr>"
      using hook_unlogged[OF hk] by (simp add: u_def with_outbox_def)
    ultimately show ?thesis using Some True by (cases r) (auto simp: settle_outcome_def)
  qed
qed

lemma failure_outcome:
  "settle_outcome s i owner (\<lambda>x. x\<lparr>ob_lease_owner := None, ob_lease_expires_at := None,
       ob_last_diagnostic_category := Some category, ob_updated_at := to_iso now\<rparr>) (outbox_ok h)
     (recordOutboxFailure h hook i owner category now s)"
proof (cases "map_get (m_outbox s) i")
  case None
  then show ?thesis by (simp add: settle_outcome_def recordOutboxFailure_def getOutboxItem_def sx_simps)
next
  case (Some x)
  let ?x = "x\<lparr>ob_lease_owner := None, ob_lease_expires_at := None, ob_last_diagnostic_category := Some category, ob_updated_at := to_iso now\<rparr>"
  define u where "u = s\<lparr>m_outbox := map_set i ?x (m_outbox s), m_publish_failures := m_publish_failures s + 1\<rparr>"
  show ?thesis
  proof (cases "owns_lease owner x \<and> outbox_ok h ?x")
    case False
    with Some show ?thesis
      by (auto simp: settle_outcome_def recordOutboxFailure_def getOutboxItem_def sx_simps parse_outbox_def checkE_def)
  next
    case True
    obtain r t where hk: "afterDeliveryMutation hook Mut_failure u = (r, t)" by fastforce
    have "recordOutboxFailure h hook i owner category now s = (case r of Inl e \<Rightarrow> (Inl e, t) | Inr _ \<Rightarrow> (Inr True, t))"
      using Some True hk
      by (simp add: recordOutboxFailure_def getOutboxItem_def sx_simps parse_outbox_def checkE_def bindS_def u_def split: sum.split)
    moreover have "unlogged t = (with_outbox (map_set i ?x (m_outbox s)) (unlogged s))\<lparr>m_publish_failures := m_publish_failures s + 1\<rparr>"
      using hook_unlogged[OF hk] by (simp add: u_def with_outbox_def)
    ultimately show ?thesis using Some True by (cases r) (auto simp: settle_outcome_def)
  qed
qed

end
