(* ===== verification/Delivery_Protocol.thy ===== *)
theory Delivery_Protocol
  imports Outbox_Facts
begin

text \<open>
  The step relation of the delivery store: any interleaving of its operations, each with
  any fault hook and any clock, and the invariant of the states they reach.
\<close>

section \<open>Steps\<close>

text \<open>
  Two operations carry side conditions their callers discharge: the ID of a new attempt is
  not one of another message's attempts, and a schedule leaves the message record valid.
\<close>

definition reschedule_ok :: "host \<Rightarrow> mem \<Rightarrow> string \<Rightarrow> string \<Rightarrow> int \<Rightarrow> bool" where
  "reschedule_ok h s i scheduledAt now \<longleftrightarrow>
     opt_ok (\<lambda>m. message_ok h (m\<lparr>msg_scheduled_at := Some scheduledAt, msg_status := Msg_scheduled,
       msg_updated_at := to_iso now\<rparr>)) (map_get (m_messages s) i)"

text \<open>Every operation but those on the leases of the outbox.\<close>

inductive quiet_step :: "host \<Rightarrow> mem \<Rightarrow> mem \<Rightarrow> bool" for h where
  step_commit: "commitDelivery h hook c now s = (r, t) \<Longrightarrow> quiet_step h s t"
| step_begin: "attempt_id_free s a \<Longrightarrow> beginDeliveryAttempt h hook a s = (r', t) \<Longrightarrow> quiet_step h s t"
| step_completion: "completeDeliveryAttempt h hook cp s = (r', t) \<Longrightarrow> quiet_step h s t"
| step_append: "appendProviderEvent h hook e s = (r', t) \<Longrightarrow> quiet_step h s t"
| step_local_state: "applyLocalDeliveryState h hook k x u s = (r', t) \<Longrightarrow> quiet_step h s t"
| step_create: "createEmail now record claim s = (rc, t) \<Longrightarrow> quiet_step h s t"
| step_claim: "claimEmailForSend k attempt now s = (re, t) \<Longrightarrow> quiet_step h s t"
| step_update: "(\<And>e. em_id (updates e) = em_id e) \<Longrightarrow> updateEmail k updates from_statuses s = (re, t) \<Longrightarrow> quiet_step h s t"
| step_reschedule: "reschedule_ok h s k scheduledAt now \<Longrightarrow> rescheduleEmailAndOutbox k scheduledAt now s = (re, t) \<Longrightarrow> quiet_step h s t"

inductive_cases quiet_stepE: "quiet_step h s t"

inductive store_step :: "host \<Rightarrow> mem \<Rightarrow> mem \<Rightarrow> bool" for h where
  step_quiet: "quiet_step h s t \<Longrightarrow> store_step h s t"
| step_lease: "leaseDueOutbox h hook input s = (rl, t) \<Longrightarrow> store_step h s t"
| step_acknowledge: "acknowledgeOutbox h hook k owner now s = (rb, t) \<Longrightarrow> store_step h s t"
| step_failure: "recordOutboxFailure h hook k owner category now s = (rb, t) \<Longrightarrow> store_step h s t"

inductive_cases store_stepE: "store_step h s t"

text \<open>
  Steps of everyone but the holder of the lease on item \<open>i\<close>, before it expires at \<open>e\<close>: the
  clock of a lease is before \<open>e\<close>, and nobody else settles under the holder's name.
\<close>

inductive others_step :: "host \<Rightarrow> string \<Rightarrow> string \<Rightarrow> int \<Rightarrow> mem \<Rightarrow> mem \<Rightarrow> bool" for h i owner e where
  others_quiet: "quiet_step h s t \<Longrightarrow> others_step h i owner e s t"
| others_lease: "lo_now input < e \<Longrightarrow> leaseDueOutbox h hook input s = (rl, t) \<Longrightarrow> others_step h i owner e s t"
| others_acknowledge: "k \<noteq> i \<or> owner' \<noteq> owner \<Longrightarrow> acknowledgeOutbox h hook k owner' now s = (rb, t) \<Longrightarrow> others_step h i owner e s t"
| others_failure: "k \<noteq> i \<or> owner' \<noteq> owner \<Longrightarrow> recordOutboxFailure h hook k owner' category now s = (rb, t) \<Longrightarrow> others_step h i owner e s t"

inductive_cases others_stepE: "others_step h i owner e s t"

lemma others_store_step: "others_step h i owner e s t \<Longrightarrow> store_step h s t"
  by (erule others_stepE) (auto intro: store_step.intros)

inductive store_reachable :: "host \<Rightarrow> mem \<Rightarrow> bool" for h where
  store_init: "store_reachable h empty_store"
| store_next: "store_reachable h s \<Longrightarrow> store_step h s t \<Longrightarrow> store_reachable h t"

section \<open>The invariant is kept\<close>

lemma ledger_inv_email:
  "ledger_inv h st \<Longrightarrow> em_id e = em_id (dl_email st) \<Longrightarrow> ledger_inv h (st\<lparr>dl_email := e\<rparr>)"
  by (simp add: ledger_inv_def ledger_wf_def attempts_in_order_def phase_of_def)

lemma ledger_inv_message:
  assumes "ledger_inv h st" "message_ok h m" "msg_id m = msg_id (dl_message st)"
    "msg_provider m = msg_provider (dl_message st)" "msg_recipient_ids m = msg_recipient_ids (dl_message st)"
  shows "ledger_inv h (st\<lparr>dl_message := m\<rparr>)"
proof -
  have "attempt_in m = attempt_in (dl_message st)" using assms by (simp add: attempt_in_def fun_eq_iff)
  then show ?thesis
    using assms by (simp add: ledger_inv_def ledger_wf_def attempts_in_order_def phase_of_def)
qed

lemma ledger_of_update [simp]: "ledger_of (L\<lparr>dl_email := e\<rparr>) = (ledger_of L)\<lparr>dl_email := e\<rparr>"
  "ledger_of (L\<lparr>dl_message := m\<rparr>) = (ledger_of L)\<lparr>dl_message := m\<rparr>"
  by (simp_all add: delivery_ledger_state.truncate_def)

lemma put_email_inv:
  assumes inv: "store_inv h s" and e: "em_id e = k" and idem: "keyed ic_key_hash idem"
  shows "store_inv h (s\<lparr>m_emails := map_set k e (m_emails s), m_idempotency := idem\<rparr>)" (is "store_inv h ?t")
proof -
  have "maps_keyed ?t" using inv e idem by (auto simp: store_inv_def maps_keyed_def)
  moreover have "references_ok ?t" using inv by (auto simp: store_inv_def references_ok_def)
  moreover have "message_complete ?t m" if "map_get (m_messages ?t) k' = Some m" for k' m
    using inv that by (auto simp: store_inv_def message_complete_def)
  moreover have "ledger_inv h (ledger_of L)" if L: "deliveryLedger h ?t k' = Some L" for k' L
  proof (cases "k' = k")
    case False
    then have "deliveryLedger h s k' = Some L" using L by (simp add: deliveryLedger_Some)
    then show ?thesis using inv by (simp add: store_inv_def)
  next
    case True
    then have "map_has (m_messages s) k" using L by (auto simp: deliveryLedger_Some map_has_def)
    then obtain L0 where L0: "deliveryLedger h s k = Some L0" "msg_id (dl_message L0) = k"
      using ledger_exists[OF inv] by metis
    then have "L = L0\<lparr>dl_email := e\<rparr>"
      using L True by (cases L; cases L0) (auto simp: deliveryLedger_Some)
    moreover have "ledger_inv h (ledger_of L0)" using inv L0(1) by (simp add: store_inv_def)
    ultimately show ?thesis
      using ledger_inv_email[of h "ledger_of L0" e] e L0(2) by (auto simp: ledger_inv_def ledger_wf_def)
  qed
  ultimately show ?thesis by (simp add: store_inv_def)
qed

lemma put_email_inv2:
  assumes "store_inv h s" "em_id e = k"
  shows "store_inv h (s\<lparr>m_emails := map_set k e (m_emails s)\<rparr>)"
  using put_email_inv[OF assms, of "m_idempotency s"] assms(1) by (simp add: store_inv_def maps_keyed_def)

lemma with_outbox_inv:
  assumes "store_inv h s" "keyed ob_id m"
  shows "store_inv h (with_outbox m s)"
proof -
  have "deliveryLedger h (with_outbox m s) k = deliveryLedger h s k" for k
    unfolding deliveryLedger_def with_outbox_simps ..
  then show ?thesis
    using assms by (simp add: store_inv_def maps_keyed_def references_ok_def message_complete_def)
qed

lemma reschedule_inv:
  assumes inv: "store_inv h s" and ok: "reschedule_ok h s k due now"
    and run: "rescheduleEmailAndOutbox k due now s = (r, t)"
  shows "store_inv h t"
proof (cases "t = s")
  case True
  then show ?thesis using inv by simp
next
  case False
  then obtain e m b where got: "map_get (m_emails s) k = Some e" "map_get (m_messages s) k = Some m"
      "outbox_of_message s k = Some b"
    and t: "t = s\<lparr>m_emails := map_set k (e\<lparr>em_scheduled_at := Some due, em_status := Em_scheduled,
          em_last_event := ''scheduled'', em_updated_at := to_iso now\<rparr>) (m_emails s),
        m_messages := map_set k (m\<lparr>msg_scheduled_at := Some due, msg_status := Msg_scheduled,
          msg_updated_at := to_iso now\<rparr>) (m_messages s),
        m_outbox := map_set (ob_id b) (b\<lparr>ob_due_at := due, ob_updated_at := to_iso now\<rparr>) (m_outbox s)\<rparr>"
    using run by (auto simp: rescheduleEmailAndOutbox_def Let_def split: option.splits if_splits)
  let ?m = "m\<lparr>msg_scheduled_at := Some due, msg_status := Msg_scheduled, msg_updated_at := to_iso now\<rparr>"
  let ?e = "e\<lparr>em_scheduled_at := Some due, em_status := Em_scheduled, em_last_event := ''scheduled'', em_updated_at := to_iso now\<rparr>"
  have keys: "em_id e = k" "msg_id m = k"
    using inv got by (auto simp: store_inv_def maps_keyed_def dest: keyedD)
  have "maps_keyed t" using inv keys by (auto simp: store_inv_def maps_keyed_def t)
  moreover have "references_ok t" using inv by (auto simp: store_inv_def references_ok_def t)
  moreover have "message_complete t m'" if "map_get (m_messages t) k' = Some m'" for k' m'
  proof -
    have "message_complete s m" "\<And>k m. map_get (m_messages s) k = Some m \<Longrightarrow> message_complete s m"
      using inv got(2) by (auto simp: store_inv_def)
    then show ?thesis using that by (auto simp: message_complete_def t split: if_splits)
  qed
  moreover have "ledger_inv h (ledger_of L)" if L: "deliveryLedger h t k' = Some L" for k' L
  proof (cases "k' = k")
    case False
    then have "deliveryLedger h s k' = Some L" using L by (simp add: deliveryLedger_Some t)
    then show ?thesis using inv by (simp add: store_inv_def)
  next
    case True
    obtain L0 where L0: "deliveryLedger h s k = Some L0" "msg_id (dl_message L0) = k"
      using ledger_exists[OF inv] got(2) by (auto simp: map_has_def)
    then have "L = L0\<lparr>dl_email := ?e, dl_message := ?m\<rparr>" and m: "dl_message L0 = m" "dl_email L0 = e"
      using L True got by (cases L; cases L0; auto simp: deliveryLedger_Some t)+
    moreover have "ledger_inv h (ledger_of L0)" using inv L0(1) by (simp add: store_inv_def)
    then have "ledger_inv h ((ledger_of L0)\<lparr>dl_message := ?m\<rparr>)"
      using ok got(2) m by (intro ledger_inv_message) (simp_all add: reschedule_ok_def)
    then have "ledger_inv h ((ledger_of L0)\<lparr>dl_message := ?m, dl_email := ?e\<rparr>)"
      by (rule ledger_inv_email) (simp add: m)
    ultimately show ?thesis by (simp add: delivery_ledger_state.truncate_def)
  qed
  ultimately show ?thesis by (simp add: store_inv_def)
qed

lemma lease_inv:
  assumes inv: "store_inv h s" and run: "leaseDueOutbox h hook input s = (r, t)"
  shows "store_inv h t"
  using run
proof (cases rule: lease_outcome)
  case unchanged
  then show ?thesis using inv by simp
next
  case (leasing secs n e k)
  have "keyed ob_id (m_outbox s)" using inv by (simp add: store_inv_def maps_keyed_def)
  then have "store_inv h (with_outbox (put_all ob_id (map (\<lambda>i. leased_item i (lo_owner input) e (to_iso (lo_now input)))
         (take k (take (nat n) (due_outbox h (lo_now input) s)))) (m_outbox s)) s)"
    by (intro with_outbox_inv inv) auto
  then show ?thesis using store_inv_unlogged[of t] leasing(10) by (metis with_outbox_simps(3))
qed

lemma failures_inv: "store_inv h (s\<lparr>m_publish_failures := p\<rparr>) = store_inv h s"
proof -
  have "deliveryLedger h (s\<lparr>m_publish_failures := p\<rparr>) k = deliveryLedger h s k" for k
    by (simp add: deliveryLedger_def cong: option.case_cong)
  then show ?thesis
    by (simp add: store_inv_def maps_keyed_def references_ok_def message_complete_def)
qed

lemma settle_inv:
  assumes inv: "store_inv h s" and out: "settle_outcome s i owner f ok (r, t)" and f: "\<And>x. ob_id (f x) = ob_id x"
  shows "store_inv h t"
proof -
  have key: "keyed ob_id (m_outbox s)" using inv by (simp add: store_inv_def maps_keyed_def)
  consider "unlogged t = unlogged s"
    | x p where "map_get (m_outbox s) i = Some x"
        "unlogged t = (with_outbox (map_set i (f x) (m_outbox s)) (unlogged s))\<lparr>m_publish_failures := p\<rparr>"
    using out by (auto simp: settle_outcome_def)
  then show ?thesis
  proof cases
    case 1
    then show ?thesis using inv store_inv_unlogged by blast
  next
    case (2 x p)
    have "ob_id (f x) = i" using key 2(1) f by (auto dest: keyedD)
    then have "store_inv h (with_outbox (map_set i (f x) (m_outbox s)) s)"
      using inv key by (intro with_outbox_inv) auto
    then have "store_inv h ((with_outbox (map_set i (f x) (m_outbox s)) s)\<lparr>m_publish_failures := p\<rparr>)"
      by (simp only: failures_inv)
    moreover have "unlogged t = unlogged ((with_outbox (map_set i (f x) (m_outbox s)) s)\<lparr>m_publish_failures := p\<rparr>)"
      using 2(2) by (simp add: with_outbox_def)
    ultimately show ?thesis using store_inv_unlogged by blast
  qed
qed

lemma create_inv:
  assumes "store_inv h s" "createEmail now e claim s = (r, t)"
  shows "store_inv h t"
proof (cases "t = s")
  case False
  then have "t = s\<lparr>m_emails := map_set (em_id e) e (m_emails s), m_idempotency := put_claim claim (em_id e) (m_idempotency s)\<rparr>"
    using assms(2) by (auto simp: createEmail_def split: option.splits if_splits)
  moreover have "keyed ic_key_hash (put_claim claim (em_id e) (m_idempotency s))"
    using assms(1) by (auto simp: store_inv_def maps_keyed_def put_claim_def split: option.split)
  ultimately show ?thesis using put_email_inv[OF assms(1)] by simp
qed (use assms in simp)

lemma claim_inv:
  assumes "store_inv h s" "claimEmailForSend k n now s = (r, t)"
  shows "store_inv h t"
proof (cases "t = s")
  case False
  then obtain e where e: "map_get (m_emails s) k = Some e"
    and t: "t = s\<lparr>m_emails := map_set k (e\<lparr>em_status := Em_sending, em_last_event := ''sending'',
      em_attempts := max (em_attempts e + 1) n, em_updated_at := to_iso now,
      em_send_lease_until := Some (now div 1000 + 120), em_error := None\<rparr>) (m_emails s)\<rparr>"
    using assms(2) by (auto simp: claimEmailForSend_def Let_def split: option.splits if_splits)
  have "em_id e = k" using assms(1) e by (auto simp: store_inv_def maps_keyed_def dest: keyedD)
  then show ?thesis unfolding t by (intro put_email_inv2[OF assms(1)]) simp
qed (use assms in simp)

lemma update_inv:
  assumes "store_inv h s" "\<And>e. em_id (updates e) = em_id e" "updateEmail k updates fs s = (r, t)"
  shows "store_inv h t"
proof (cases "t = s")
  case False
  then obtain e where e: "map_get (m_emails s) k = Some e" and t: "t = s\<lparr>m_emails := map_set k (updates e) (m_emails s)\<rparr>"
    using assms(3) by (auto simp: updateEmail_def split: option.splits if_splits)
  have "em_id (updates e) = k" using assms(1,2) e by (auto simp: store_inv_def maps_keyed_def dest: keyedD)
  then show ?thesis unfolding t by (intro put_email_inv2[OF assms(1)])
qed (use assms in simp)

lemma quiet_step_inv: "quiet_step h s t \<Longrightarrow> store_inv h s \<Longrightarrow> store_inv h t"
  by (erule quiet_stepE) (auto intro: commit_inv begin_inv complete_inv append_inv apply_local_inv create_inv claim_inv
    update_inv reschedule_inv)

lemma acknowledge_inv:
  assumes "acknowledgeOutbox h hook k owner now s = (r, t)" "store_inv h s"
  shows "store_inv h t"
  using acknowledge_outcome[of s k owner now h hook, unfolded assms(1)] by (rule settle_inv[OF assms(2)]) simp

lemma failure_inv:
  assumes "recordOutboxFailure h hook k owner category now s = (r, t)" "store_inv h s"
  shows "store_inv h t"
  using failure_outcome[of s k owner now category h hook, unfolded assms(1)] by (rule settle_inv[OF assms(2)]) simp

lemma store_step_inv: "store_step h s t \<Longrightarrow> store_inv h s \<Longrightarrow> store_inv h t"
  by (erule store_stepE) (auto intro: quiet_step_inv lease_inv acknowledge_inv failure_inv)

lemma store_reachable_inv: "store_reachable h s \<Longrightarrow> store_inv h s"
  by (induction rule: store_reachable.induct) (auto intro: store_inv_empty store_step_inv)

lemma store_steps_inv: "(store_step h)\<^sup>*\<^sup>* s t \<Longrightarrow> store_inv h s \<Longrightarrow> store_inv h t"
  by (induction rule: rtranclp_induct) (auto intro: store_step_inv)

section \<open>What happens to one outbox item\<close>

lemma plan_outcome_outbox:
  assumes "plan_outcome h s k planned (r, t)"
  shows "m_outbox t = m_outbox s"
proof -
  consider "unlogged t = unlogged s" | plan :: delivery_ledger_plan and a e where "unlogged t = unlogged (apply_plan plan a e s)"
    using assms unfolding plan_outcome_def prod.case by blast
  then show ?thesis
  proof cases
    case 1
    then show ?thesis by (rule unlogged_eqD(7))
  next
    case 2
    then show ?thesis using unlogged_eqD(7)[OF 2] by (simp add: apply_plan_def)
  qed
qed

lemma quiet_step_item:
  assumes step: "quiet_step h s t" and inv: "store_inv h s" and x: "map_get (m_outbox s) i = Some x"
    and held: "ob_lease_owner x \<noteq> None \<or> ob_dispatched_at x \<noteq> None"
  shows "map_get (m_outbox t) i = Some x"
  using step
proof (cases rule: quiet_step.cases)
  case (step_commit hook c now r)
  from step_commit show ?thesis
  proof (cases rule: commitDelivery_cases)
    case unchanged
    then show ?thesis using x unlogged_eqD(7)[OF unchanged(1)] by simp
  next
    case visible
    have "m_outbox t = map_set (ob_id (dc_outbox c)) (dc_outbox c) (m_outbox s)"
      using unlogged_eqD(7)[OF visible(6)] by (simp add: committed_def)
    then show ?thesis using x visible(5) by (auto simp: map_has_def)
  qed
next
  case (step_begin a hook r)
  then show ?thesis using plan_outcome_outbox[OF begin_outcome[of h s a hook, unfolded step_begin(2)]] x by simp
next
  case (step_completion hook cp r)
  then show ?thesis using plan_outcome_outbox[OF complete_outcome[of h s cp hook, unfolded step_completion]] x by simp
next
  case (step_append hook e r)
  then show ?thesis using plan_outcome_outbox[OF append_outcome[of h s e hook, unfolded step_append]] x by simp
next
  case (step_local_state hook k y u r)
  then show ?thesis using plan_outcome_outbox[OF local_outcome[of h s k y u hook, unfolded step_local_state]] x by simp
next
  case (step_create now em claim rc)
  then have "m_outbox t = m_outbox s" by (auto simp: createEmail_def split: option.splits if_splits)
  then show ?thesis using x by simp
next
  case (step_claim k attempt now re)
  then have "m_outbox t = m_outbox s" by (auto simp: claimEmailForSend_def Let_def split: option.splits if_splits)
  then show ?thesis using x by simp
next
  case (step_update updates k fs re)
  then have "m_outbox t = m_outbox s" by (auto simp: updateEmail_def split: option.splits if_splits)
  then show ?thesis using x by simp
next
  case (step_reschedule k due now re)
  have key: "keyed ob_id (m_outbox s)" using inv by (simp add: store_inv_def maps_keyed_def)
  show ?thesis
  proof (cases "t = s")
    case False
    then obtain b where b: "outbox_of_message s k = Some b" "ob_dispatched_at b = None" "ob_lease_owner b = None"
        "m_outbox t = map_set (ob_id b) (b\<lparr>ob_due_at := due, ob_updated_at := to_iso now\<rparr>) (m_outbox s)"
      using step_reschedule(2) by (auto simp: rescheduleEmailAndOutbox_def Let_def split: option.splits if_splits)
    then have "map_get (m_outbox s) (ob_id b) = Some b"
      using key by (auto simp: outbox_of_message_def Let_def dest: keyedD split: if_splits)
    then have "ob_id b \<noteq> i" using x held b(2,3) by auto
    then show ?thesis using x b(4) by simp
  qed (use x in simp)
qed

lemma settle_other_item:
  assumes out: "settle_outcome s k owner f ok (r, t)" and x: "map_get (m_outbox s) i = Some x"
    and other: "k \<noteq> i \<or> \<not> owns_lease owner x"
  shows "map_get (m_outbox t) i = Some x"
proof -
  consider "unlogged t = unlogged s"
    | y p where "map_get (m_outbox s) k = Some y" "owns_lease owner y"
        "unlogged t = (with_outbox (map_set k (f y) (m_outbox s)) (unlogged s))\<lparr>m_publish_failures := p\<rparr>"
    using out unfolding settle_outcome_def prod.case by blast
  then show ?thesis
  proof cases
    case 1
    then show ?thesis using x unlogged_eqD(7)[OF 1] by simp
  next
    case (2 y p)
    have "m_outbox t = map_set k (f y) (m_outbox s)" using arg_cong[where f = m_outbox, OF 2(3)] by simp
    then show ?thesis using x other 2(1,2) by auto
  qed
qed

end
