(* ===== verification/Demo_Delivery.thy ===== *)
theory Demo_Delivery
  imports Recipient_Ledger
begin

text \<open>
  A concrete host and a concrete delivery, with a second recipient. The witnesses of the
  properties evaluate the model on them.
\<close>

definition demo_host :: host where
  "demo_host = \<lparr>h_lower = id, h_upper = id, h_number_text = (\<lambda>q. int_dec (fst (quotient_of q)) @ ''/'' @ int_dec (snd (quotient_of q))),
     h_date_fallback = (\<lambda>s. None), h_collate = code_unit_compare,
     h_email = (\<lambda>s. CHR ''@'' \<in> set s), h_datetime = (\<lambda>s. parse_iso s \<noteq> None),
     h_sha256 = (\<lambda>s. pad_dec 64 (foldl (\<lambda>a c. (31 * a + code c) mod 1000003) 7 s)),
     h_hmac_sha256 = (\<lambda>k s. map (\<lambda>c. word_of_nat (code c) + sum_list k) s),
     h_url = starts_with ''https://'',
     h_html_to_text = (\<lambda>s n. take n (filter (\<lambda>c. c \<noteq> CHR ''<'' \<and> c \<noteq> CHR ''>'') s))\<rparr>"

text \<open>Instants of the first minutes of 2026, in seconds after midnight.\<close>

definition demo_now :: int where "demo_now = 1767225600000"

definition demo_time :: "int \<Rightarrow> string" where "demo_time n = to_iso (demo_now + 1000 * n)"

definition demo_id :: string where "demo_id = ''email_0123456789abcdef''"
definition demo_rc1 :: string where "demo_rc1 = ''rcpt_aaaaaaaaaaaaaaaaaaaaaa''"
definition demo_rc2 :: string where "demo_rc2 = ''rcpt_bbbbbbbbbbbbbbbbbbbbbb''"
definition demo_at1 :: string where "demo_at1 = ''attempt_aaaaaaaaaaaaaaaaaaaaaa''"
definition demo_at2 :: string where "demo_at2 = ''attempt_bbbbbbbbbbbbbbbbbbbbbb''"
definition demo_hash :: string where "demo_hash = replicate 64 CHR ''a''"

definition demo_provider :: provider_reference where
  "demo_provider = \<lparr>pr_name = ''aws-ses'', pr_adapter_version = ''1.0.0'', pr_capability_version = ''1.0.0''\<rparr>"

definition demo_email :: email_record where
  "demo_email = \<lparr>em_to = [''a@example.com'', ''b@example.com''], em_html = None, em_text = Some ''hi'',
     em_cc = None, em_bcc = None, em_reply_to = None, em_headers = None, em_tags = None, em_scheduled_at = None,
     em_from = ''s@example.com'', em_subject = ''hello'', em_attachments = None, em_id = demo_id,
     em_status = Em_queued, em_last_event = ''queued'', em_created_at = demo_time 0, em_updated_at = demo_time 0,
     em_provider_id = None, em_request_hash = demo_hash, em_attempts = 0, em_error = None,
     em_send_lease_until = None, em_payload_ref = None\<rparr>"

definition demo_message :: message_record where
  "demo_message = \<lparr>msg_id = demo_id, msg_provider = demo_provider, msg_intent_digest = demo_hash,
     msg_recipient_ids = [demo_rc1, demo_rc2], msg_status = Msg_queued, msg_created_at = demo_time 0,
     msg_updated_at = demo_time 0, msg_scheduled_at = None\<rparr>"

definition demo_recipient :: "string \<Rightarrow> string \<Rightarrow> int \<Rightarrow> recipient_record" where
  "demo_recipient i address n = \<lparr>rc_id = i, rc_message_id = demo_id, rc_role = Role_to, rc_ordinal = n,
     rc_address = address, rc_status = Rc_queued, rc_latest_attempt_id = None,
     rc_created_at = demo_time 0, rc_updated_at = demo_time 0\<rparr>"

definition demo_recipients :: "recipient_record list" where
  "demo_recipients = [demo_recipient demo_rc1 ''a@example.com'' 0, demo_recipient demo_rc2 ''b@example.com'' 1]"

definition demo_outbox :: outbox_record where
  "demo_outbox = \<lparr>ob_id = ''outbox:v1:email_0123456789abcdef:dispatch-message:0'', ob_message_id = demo_id,
     ob_job_type = Dispatch_message, ob_generation = 0, ob_due_at = demo_time 0, ob_attempts = 0,
     ob_lease_owner = None, ob_lease_expires_at = None, ob_dispatched_at = None,
     ob_last_diagnostic_category = None, ob_created_at = demo_time 0, ob_updated_at = demo_time 0\<rparr>"

definition demo_claim :: idempotency_claim where
  "demo_claim = \<lparr>ic_key_hash = ''key'', ic_request_hash = demo_hash, ic_expires_at = demo_now + 86400000\<rparr>"

definition demo_commit :: delivery_commit where
  "demo_commit = \<lparr>dc_email = demo_email, dc_message = demo_message, dc_recipients = demo_recipients,
     dc_outbox = demo_outbox, dc_idempotency = Some demo_claim\<rparr>"

definition demo_ledger :: delivery_ledger_state where
  "demo_ledger = \<lparr>dl_email = demo_email, dl_message = demo_message, dl_recipients = demo_recipients, dl_attempts = []\<rparr>"

definition demo_attempt :: "string \<Rightarrow> int \<Rightarrow> string \<Rightarrow> attempt_record" where
  "demo_attempt i n started = \<lparr>at_id = i, at_message_id = demo_id, at_recipient_ids = [demo_rc1, demo_rc2],
     at_sequence = n, at_provider = demo_provider, at_status = At_submitting, at_provider_message_id = None,
     at_diagnostic_category = None, at_started_at = started, at_completed_at = None\<rparr>"

definition demo_completion :: "string \<Rightarrow> completion_status \<Rightarrow> diagnostic_category option \<Rightarrow> string \<Rightarrow> attempt_completion" where
  "demo_completion i s category completed = \<lparr>cp_message_id = demo_id, cp_attempt_id = i, cp_status = s,
     cp_completed_at = completed, cp_provider_message_id = (if s = Completed_accepted then Some ''p-1'' else None),
     cp_diagnostic_category = category, cp_public_error = None\<rparr>"

definition demo_event :: "provider_event_type \<Rightarrow> string \<Rightarrow> event_record" where
  "demo_event kind received = \<lparr>ev_id = ''provider-event:v1:aws-ses:id:e1'', ev_provider = demo_provider,
     ev_source = Provider_event_id ''e1'', ev_message_id = demo_id, ev_attempt_id = Some demo_at1,
     ev_recipient_ids = [demo_rc1], ev_provider_message_id = Some ''p-1'', ev_type = kind,
     ev_provider_at = received, ev_received_at = received, ev_terminal = False, ev_diagnostic_category = None\<rparr>"

section \<open>Facts\<close>

lemma demo_time_valid: "0 \<le> n \<Longrightarrow> n \<le> 1000000 \<Longrightarrow> valid_time (demo_now + 1000 * n)"
  by (simp add: valid_time_def max_time_def demo_now_def)

lemma demo_time_parse [simp]:
  "0 \<le> n \<Longrightarrow> n \<le> 1000000 \<Longrightarrow> date_parse demo_host (demo_time n) = Some (demo_now + 1000 * n)"
  "0 \<le> n \<Longrightarrow> n \<le> 1000000 \<Longrightarrow> h_datetime demo_host (demo_time n)"
  "0 \<le> n \<Longrightarrow> n \<le> 1000000 \<Longrightarrow> to_iso_of_string demo_host (demo_time n) = Inr (demo_time n)"
  by (simp_all add: demo_time_def demo_time_valid) (simp add: demo_host_def parse_iso_to_iso demo_time_valid)

lemma demo_time_inject: "0 \<le> n \<Longrightarrow> n \<le> 1000000 \<Longrightarrow> 0 \<le> m \<Longrightarrow> m \<le> 1000000 \<Longrightarrow> demo_time n = demo_time m \<longleftrightarrow> n = m"
  by (auto simp: demo_time_def to_iso_inject demo_time_valid)

lemma demo_id_ok [simp]: "is_message_id demo_id" by code_simp
lemma demo_rc1_ok [simp]: "is_recipient_id demo_rc1" by code_simp
lemma demo_rc2_ok [simp]: "is_recipient_id demo_rc2" by code_simp
lemma demo_at1_ok [simp]: "is_attempt_id demo_at1" by code_simp
lemma demo_at2_ok [simp]: "is_attempt_id demo_at2" by code_simp
lemma demo_hash_ok [simp]: "is_sha256_hex demo_hash" by code_simp
lemma demo_pm_ok [simp]: "is_provider_message_id ''p-1''" by code_simp
lemma demo_provider_ok [simp]: "provider_reference_ok demo_provider" by code_simp

lemma demo_distinct [simp]:
  "demo_rc1 \<noteq> demo_rc2" "demo_rc2 \<noteq> demo_rc1" "demo_at1 \<noteq> demo_at2" "demo_at2 \<noteq> demo_at1"
  by (simp_all add: demo_rc1_def demo_rc2_def demo_at1_def demo_at2_def)

lemma demo_message_ok [simp]:
  assumes "0 \<le> n" "n \<le> 1000000"
  shows "message_ok demo_host (demo_message\<lparr>msg_status := s, msg_updated_at := demo_time n\<rparr>)"
  using assms by (simp add: message_ok_def demo_message_def updated_at_ok_def unique_values_def)

lemma demo_address_ok: "h_email demo_host ''a@example.com'' \<and> js_length ''a@example.com'' \<le> 320
    \<and> h_email demo_host ''b@example.com'' \<and> js_length ''b@example.com'' \<le> 320"
  by (simp add: js_length_ascii demo_host_def)

lemma demo_recipient_ok:
  assumes "r \<in> set demo_recipients" "0 \<le> n" "n \<le> 1000000" "opt_ok is_attempt_id a"
  shows "recipient_ok demo_host (r\<lparr>rc_status := s, rc_latest_attempt_id := a, rc_updated_at := demo_time n\<rparr>)"
  using assms demo_address_ok
  by (auto simp: demo_recipients_def demo_recipient_def recipient_ok_def updated_at_ok_def is_safe_int_def)

lemma demo_recipient_ok2:
  assumes "r \<in> set demo_recipients" "0 \<le> n" "n \<le> 1000000" "opt_ok is_attempt_id a"
  shows "recipient_ok demo_host (r\<lparr>rc_latest_attempt_id := a, rc_status := s, rc_updated_at := demo_time n\<rparr>)"
  using demo_recipient_ok[OF assms] by (simp add: recipient_ok_def)

end
