(* ===== verification/Ledger_Properties.thy ===== *)
theory Ledger_Properties
  imports Ledger_Facts Demo_Delivery
begin

text \<open>
  The properties of the recipient ledger, each with a witness on a delivery to two
  recipients that is started, accepted by the provider and delivered to one of them.
\<close>

section \<open>A delivery in three steps\<close>

lemma demo_recipient_id: "r \<in> set demo_recipients \<Longrightarrow> rc_id r \<in> {demo_rc1, demo_rc2}"
  by (auto simp: demo_recipients_def demo_recipient_def)

lemma demo_recipients_keep:
  "r \<in> set demo_recipients \<Longrightarrow> r\<lparr>rc_status := Rc_queued, rc_latest_attempt_id := None, rc_updated_at := demo_time 0\<rparr> = r"
  by (auto simp: demo_recipients_def demo_recipient_def)

lemma demo_fields [simp]:
  "em_id demo_email = demo_id" "em_updated_at demo_email = demo_time 0" "msg_id demo_message = demo_id"
  "msg_recipient_ids demo_message = [demo_rc1, demo_rc2]" "map rc_id demo_recipients = [demo_rc1, demo_rc2]"
  "msg_provider demo_message = demo_provider" "msg_updated_at demo_message = demo_time 0"
  "dl_email demo_ledger = demo_email" "dl_message demo_ledger = demo_message"
  "dl_recipients demo_ledger = demo_recipients" "dl_attempts demo_ledger = []"
  "at_id (demo_attempt i k s) = i" "at_started_at (demo_attempt i k s) = s" "at_status (demo_attempt i k s) = At_submitting"
  "at_recipient_ids (demo_attempt i k s) = [demo_rc1, demo_rc2]" "at_message_id (demo_attempt i k s) = demo_id"
  "at_provider (demo_attempt i k s) = demo_provider" "at_sequence (demo_attempt i k s) = k"
  "at_completed_at (demo_attempt i k s) = None"
  by (simp_all add: demo_email_def demo_message_def demo_recipients_def demo_recipient_def demo_ledger_def demo_attempt_def)

lemma demo_recipient_queued: "r \<in> set demo_recipients \<Longrightarrow> rc_status r = Rc_queued \<and> rc_message_id r = demo_id"
  by (auto simp: demo_recipients_def demo_recipient_def)

lemma demo_ledger_wf: "ledger_wf demo_host demo_ledger"
proof -
  have "demo_message\<lparr>msg_status := Msg_queued, msg_updated_at := demo_time 0\<rparr> = demo_message"
    by (simp add: demo_message_def)
  then have "message_ok demo_host demo_message" using demo_message_ok[of 0 Msg_queued] by simp
  moreover have "recipient_ok demo_host r" if "r \<in> set demo_recipients" for r
    using demo_recipient_ok[OF that, of 0 None Rc_queued] demo_recipients_keep[OF that] by simp
  ultimately show ?thesis
    by (simp add: ledger_wf_def list_all_iff demo_recipient_queued)
qed

lemma demo_ledger_initial: "ledger_initial demo_host demo_ledger"
  by (simp add: ledger_initial_def demo_ledger_wf list_all_iff demo_recipient_queued)

lemma demo_attempt_ok [simp]:
  assumes "is_attempt_id i" "0 < k" "is_safe_int k" "0 \<le> n" "n \<le> 1000000"
  shows "attempt_ok demo_host (demo_attempt i k (demo_time n))"
  using assms by (simp add: attempt_ok_def demo_attempt_def unique_values_def)

abbreviation demo_submitting :: attempt_record where
  "demo_submitting \<equiv> demo_attempt demo_at1 1 (demo_time 10)"

definition demo_started :: delivery_ledger_plan where
  "demo_started = plan_of (demo_email\<lparr>em_status := Em_sending, em_last_event := ''sending'', em_updated_at := demo_time 10\<rparr>)
     (demo_message\<lparr>msg_status := Msg_sending, msg_updated_at := demo_time 10\<rparr>)
     (map (started_recipient demo_submitting) demo_recipients) [demo_submitting] [demo_rc1, demo_rc2]"

lemma demo_derive_started:
  "deriveDeliveryMessageStatus (map (started_recipient demo_submitting) demo_recipients) = Inr Msg_sending"
proof -
  have "set (map rc_status (map (started_recipient demo_submitting) demo_recipients)) = {Rc_sending}"
    "map (started_recipient demo_submitting) demo_recipients \<noteq> []"
    by (simp_all add: demo_recipients_def started_recipient_def)
  then show ?thesis unfolding derive_status_set Let_def by simp
qed

lemma demo_start: "planAttemptStart demo_host demo_ledger demo_submitting = Inr (demo_started, demo_submitting)"
proof -
  have "attempt_starts demo_ledger demo_submitting"
    by (simp add: attempt_starts_def max_sequence_def)
  moreover have "updateMessage demo_host demo_message (map (started_recipient demo_submitting) demo_recipients) (demo_time 10)
      = Inr (demo_message\<lparr>msg_status := Msg_sending, msg_updated_at := demo_time 10\<rparr>)"
    by (intro updateMessage_eq demo_derive_started) simp
  moreover have "attempt_ok demo_host demo_submitting" by (simp add: is_safe_int_def)
  ultimately show ?thesis
    using planAttemptStart_eq[OF demo_ledger_wf, of demo_submitting]
    by (simp add: demo_started_def started_recipient_def demo_recipient_queued demo_recipient_ok)
qed

lemma demo_started_wf: "ledger_wf demo_host (ledger_of demo_started)"
  using start_Inr[OF demo_start] by metis

definition demo_recipients_after :: "recipient_status \<Rightarrow> int \<Rightarrow> recipient_record list" where
  "demo_recipients_after s n = map (\<lambda>r. r\<lparr>rc_status := s, rc_latest_attempt_id := Some demo_at1,
     rc_updated_at := demo_time n\<rparr>) demo_recipients"

lemma demo_started_recipients: "map (started_recipient demo_submitting) demo_recipients = demo_recipients_after Rc_sending 10"
  by (simp add: demo_recipients_after_def started_recipient_def)

lemma demo_started_fields:
  "dl_email demo_started = demo_email\<lparr>em_status := Em_sending, em_last_event := ''sending'', em_updated_at := demo_time 10\<rparr>"
  "dl_message demo_started = demo_message\<lparr>msg_status := Msg_sending, msg_updated_at := demo_time 10\<rparr>"
  "dl_recipients demo_started = demo_recipients_after Rc_sending 10" "dl_attempts demo_started = [demo_submitting]"
  by (simp_all add: demo_started_def demo_started_recipients)

lemma demo_derive_after:
  "deriveDeliveryMessageStatus (demo_recipients_after s n) = deriveDeliveryMessageStatus [(hd demo_recipients)\<lparr>rc_status := s\<rparr>]"
  by (rule derive_status_order) (auto simp: demo_recipients_after_def demo_recipients_def)

definition demo_accepting :: attempt_completion where
  "demo_accepting = demo_completion demo_at1 Completed_accepted None (demo_time 20)"

definition demo_accepted_attempt :: attempt_record where
  "demo_accepted_attempt = demo_submitting\<lparr>at_status := At_accepted, at_completed_at := Some (demo_time 20),
     at_provider_message_id := Some ''p-1''\<rparr>"

definition demo_accepted :: delivery_ledger_plan where
  "demo_accepted = plan_of (demo_email\<lparr>em_status := Em_sent, em_last_event := ''sent'', em_updated_at := demo_time 20,
       em_provider_id := Some ''p-1''\<rparr>)
     (demo_message\<lparr>msg_status := Msg_accepted, msg_updated_at := demo_time 20\<rparr>)
     (demo_recipients_after Rc_accepted 20) [demo_accepted_attempt] [demo_rc1, demo_rc2]"

lemma demo_complete_attempt: "complete_attempt demo_submitting demo_accepting (demo_time 20) = demo_accepted_attempt"
  by (simp add: complete_attempt_def demo_accepting_def demo_completion_def demo_accepted_attempt_def truthy_def demo_attempt_def)

lemma demo_accepted_attempt_ok [simp]: "attempt_ok demo_host demo_accepted_attempt"
  by (simp add: attempt_ok_def demo_accepted_attempt_def demo_attempt_def unique_values_def is_safe_int_def)

lemma demo_completed_recipients:
  "map (completed_recipient demo_submitting Rc_accepted (demo_time 20)) (demo_recipients_after Rc_sending 10)
     = demo_recipients_after Rc_accepted 20"
  using demo_recipient_id by (auto simp: demo_recipients_after_def completed_recipient_def attempt_owns_def)

lemma demo_complete:
  "planAttemptCompletion demo_host (ledger_of demo_started) demo_accepting = Inr (demo_accepted, demo_accepted_attempt)"
proof -
  let ?rs = "demo_recipients_after Rc_accepted 20" and ?c = demo_accepting
  let ?m = "demo_message\<lparr>msg_status := Msg_accepted, msg_updated_at := demo_time 20\<rparr>"
  have c: "cp_status ?c = Completed_accepted" "cp_diagnostic_category ?c = None" "cp_attempt_id ?c = demo_at1"
    "cp_message_id ?c = demo_id" "cp_completed_at ?c = demo_time 20" "cp_provider_message_id ?c = Some ''p-1''"
    by (simp_all add: demo_accepting_def demo_completion_def)
  have d: "deriveDeliveryMessageStatus ?rs = Inr Msg_accepted"
    unfolding demo_derive_after by (simp add: deriveDeliveryMessageStatus_def Let_def delivery_negative_def)
  have ok: "\<forall>r \<in> set ?rs. recipient_ok demo_host r"
    by (auto simp: demo_recipients_after_def demo_recipient_ok)
  have upd: "updateMessage demo_host (dl_message (ledger_of demo_started)) ?rs (demo_time 20) = Inr ?m"
    using updateMessage_eq[OF d, where h = demo_host and m = "dl_message (ledger_of demo_started)" and t = "demo_time 20"]
    by (simp add: demo_started_fields)
  have own: "\<forall>r \<in> set (demo_recipients_after Rc_sending 10). rc_status r = Rc_sending
      \<and> rc_latest_attempt_id r = Some demo_at1 \<and> attempt_owns demo_submitting r"
    using demo_recipient_id by (auto simp: demo_recipients_after_def attempt_owns_def)
  then have ch: "map rc_id (filter (attempt_owns demo_submitting) (demo_recipients_after Rc_sending 10)) = [demo_rc1, demo_rc2]"
    by (simp add: filter_True) (simp add: demo_recipients_after_def comp_def)
  have em: "complete_email (updateEmailForRecipients (dl_email (ledger_of demo_started)) ?m ?rs (demo_time 20) None) ?c
      = dl_email demo_accepted"
    by (simp add: complete_email_def c truthy_def updateEmailForRecipients_def Let_def derivePublicEmailStatus_def
      demo_started_fields demo_accepted_def demo_email_def)
  have all: "\<forall>r \<in> set (demo_recipients_after Rc_sending 10).
      recipient_ok demo_host (completed_recipient demo_submitting Rc_accepted (demo_time 20) r)"
    using ok unfolding demo_completed_recipients[symmetric] by simp
  have "planAttemptCompletion demo_host (ledger_of demo_started) ?c
    = Inr (plan_of (complete_email (updateEmailForRecipients (dl_email (ledger_of demo_started)) ?m ?rs (demo_time 20)
         (if cp_status ?c = Completed_accepted then None else cp_public_error ?c)) ?c)
      ?m ?rs ((dl_attempts (ledger_of demo_started))[0 := complete_attempt demo_submitting ?c (demo_time 20)])
      (map rc_id (filter (attempt_owns demo_submitting) (dl_recipients (ledger_of demo_started)))),
      complete_attempt demo_submitting ?c (demo_time 20))"
    by (rule planAttemptCompletion_eq[OF demo_started_wf])
      (use own all upd in \<open>simp_all add: c completion_recipient_status_def demo_complete_attempt
        demo_completed_recipients demo_started_fields\<close>)
  moreover have "dl_attempts (ledger_of demo_started) = [demo_submitting]"
    "dl_recipients (ledger_of demo_started) = demo_recipients_after Rc_sending 10"
    by (simp_all add: demo_started_fields)
  ultimately show ?thesis
    using em ch by (simp only: demo_complete_attempt c) (simp add: demo_accepted_def)
qed

lemma demo_accepted_wf: "ledger_wf demo_host (ledger_of demo_accepted)"
  using completion_Inr[OF demo_complete] by metis

definition demo_delivered_recipients :: "recipient_record list" where
  "demo_delivered_recipients = map (evented_recipient (demo_event Ev_delivered (demo_time 30)) (demo_time 30))
     (demo_recipients_after Rc_accepted 20)"

definition demo_delivered :: delivery_ledger_plan where
  "demo_delivered = plan_of (demo_email\<lparr>em_status := Em_delivered, em_last_event := ''delivered'',
       em_updated_at := demo_time 30, em_provider_id := Some ''p-1''\<rparr>)
     (demo_message\<lparr>msg_status := Msg_partially_delivered, msg_updated_at := demo_time 30\<rparr>)
     demo_delivered_recipients [demo_accepted_attempt] [demo_rc1]"

lemma demo_delivered_statuses: "map rc_status demo_delivered_recipients = [Rc_delivered, Rc_accepted]"
  by (simp add: demo_delivered_recipients_def demo_recipients_after_def demo_recipients_def demo_recipient_def
    evented_recipient_def event_changes_def demo_event_def transitionRecipientStatus_def)

lemma demo_event_ok: "event_ok demo_host (demo_event Ev_delivered (demo_time 30))"
proof -
  have "is_provider_event_identity ''provider-event:v1:aws-ses:id:e1''"
    "createProviderEventIdentity ''aws-ses'' (Provider_event_id ''e1'') = Inr ''provider-event:v1:aws-ses:id:e1''"
    "is_provider_opaque_id ''e1''" by code_simp+
  then show ?thesis by (simp add: event_ok_def demo_event_def unique_values_def demo_provider_def[THEN arg_cong[where f = pr_name]])
qed

lemma demo_deliver:
  "planProviderEvent demo_host (ledger_of demo_accepted) (demo_event Ev_delivered (demo_time 30))
     = Inr (demo_delivered, demo_event Ev_delivered (demo_time 30))"
proof -
  let ?e = "demo_event Ev_delivered (demo_time 30)" and ?rs = "demo_recipients_after Rc_accepted 20"
  let ?m = "demo_message\<lparr>msg_status := Msg_partially_delivered, msg_updated_at := demo_time 30\<rparr>"
  have l: "dl_recipients (ledger_of demo_accepted) = ?rs" "dl_attempts (ledger_of demo_accepted) = [demo_accepted_attempt]"
    "map (evented_recipient ?e (demo_time 30)) ?rs = demo_delivered_recipients"
    by (simp_all add: demo_accepted_def demo_delivered_recipients_def)
  have d: "deriveDeliveryMessageStatus demo_delivered_recipients = Inr Msg_partially_delivered"
  proof -
    have "demo_delivered_recipients \<noteq> []" using demo_delivered_statuses by auto
    then show ?thesis unfolding deriveDeliveryMessageStatus_def Let_def demo_delivered_statuses by simp
  qed
  have a: "at_status demo_accepted_attempt = At_accepted" "at_provider_message_id demo_accepted_attempt = Some ''p-1''"
    "at_id demo_accepted_attempt = demo_at1" "at_recipient_ids demo_accepted_attempt = [demo_rc1, demo_rc2]"
    "at_provider demo_accepted_attempt = demo_provider"
    by (simp_all add: demo_accepted_attempt_def)
  have "event_correlates (ledger_of demo_accepted) ?e"
    by (simp add: event_correlates_def Let_def l a demo_event_def)
      (simp add: a demo_accepted_def demo_recipients_after_def demo_recipients_def demo_recipient_def)
  moreover have "latestTimestamp demo_host [em_updated_at (dl_email (ledger_of demo_accepted)),
      msg_updated_at (dl_message (ledger_of demo_accepted)), ev_received_at ?e] = Inr (demo_time 30)"
    using demo_time_valid[of 20] demo_time_valid[of 30]
    by (simp add: latestTimestamp_def demo_accepted_def demo_event_def date_to_iso_def make_date_def demo_time_def)
  moreover have "recipient_ok demo_host (evented_recipient ?e (demo_time 30) r)" if "r \<in> set ?rs" for r
    using that by (auto simp: demo_recipients_after_def evented_recipient_def demo_recipient_ok demo_recipient_ok2)
  moreover have "updateMessage demo_host (dl_message (ledger_of demo_accepted)) demo_delivered_recipients (demo_time 30) = Inr ?m"
    using updateMessage_eq[OF d, where h = demo_host and m = "dl_message (ledger_of demo_accepted)" and t = "demo_time 30"] by (simp add: demo_accepted_def)
  moreover have "updateEmailForRecipients (dl_email (ledger_of demo_accepted)) ?m demo_delivered_recipients (demo_time 30) None
      = dl_email demo_delivered"
  proof -
    have "rc_status ` set demo_delivered_recipients = {Rc_delivered, Rc_accepted}"
      by (metis demo_delivered_statuses list.set_map list.simps(15) empty_set)
    then have "\<forall>r \<in> set demo_delivered_recipients. rc_status r \<in> {Rc_delivered, Rc_accepted}" by blast
    then have "\<not> list_ex (\<lambda>r. rc_status r = Rc_bounced) demo_delivered_recipients"
      "\<not> list_ex (\<lambda>r. rc_status r \<in> {Rc_rejected, Rc_failed}) demo_delivered_recipients"
      by (auto simp: list_ex_iff)
    then show ?thesis
      by (simp add: updateEmailForRecipients_def Let_def derivePublicEmailStatus_def
        demo_accepted_def demo_delivered_def demo_email_def)
  qed
  moreover have "map rc_id (filter (event_changes ?e) ?rs) = [demo_rc1]"
    by (simp add: demo_recipients_after_def demo_recipients_def demo_recipient_def event_changes_def
      demo_event_def transitionRecipientStatus_def)
  ultimately have "planProviderEvent demo_host (ledger_of demo_accepted) ?e = Inr (plan_of (dl_email demo_delivered)
      ?m demo_delivered_recipients [demo_accepted_attempt] [demo_rc1], ?e)"
    using planProviderEvent_eq[OF demo_accepted_wf demo_event_ok, of "demo_time 30" ?m] unfolding l by simp
  then show ?thesis by (simp add: demo_delivered_def)
qed

section \<open>Properties\<close>

text \<open>
  C37. Starting an attempt takes the whole message: it returns only when every recipient is
  queued and the attempt covers exactly the message's recipients with the next sequence
  number; afterwards every recipient is sending under this attempt, all of them are
  reported as changed, the attempt is appended, the message and the public email are
  sending, and the new ledger passes the ledger check unchanged.
\<close>

theorem attempt_start_spec:
  assumes "assertLedgerState h st = Inr st" and "planAttemptStart h st a = Inr (plan, a')"
  shows "a' = a \<and> list_all (\<lambda>r. rc_status r = Rc_queued) (dl_recipients st)
    \<and> set (at_recipient_ids a) = set (msg_recipient_ids (dl_message st))
    \<and> at_sequence a = max_sequence (dl_attempts st) + 1
    \<and> dl_recipients plan = map (\<lambda>r. r\<lparr>rc_status := Rc_sending, rc_latest_attempt_id := Some (at_id a),
         rc_updated_at := at_started_at a\<rparr>) (dl_recipients st)
    \<and> dl_changed_recipient_ids plan = map rc_id (dl_recipients st)
    \<and> dl_attempts plan = dl_attempts st @ [a]
    \<and> dl_message plan = (dl_message st)\<lparr>msg_status := Msg_sending, msg_updated_at := at_started_at a\<rparr>
    \<and> em_status (dl_email plan) = Em_sending
    \<and> assertLedgerState h plan = Inr (ledger_of plan)"
proof -
  from assms(2) obtain st' where q: "assertLedgerState h st = Inr st'" "ledger_wf h st'" "a' = a" "attempt_ok h a"
    "attempt_starts st' a" "\<forall>r \<in> set (dl_recipients st'). rc_status r = Rc_queued"
    "dl_recipients plan = map (started_recipient a) (dl_recipients st')" "dl_attempts plan = dl_attempts st' @ [a]"
    "dl_changed_recipient_ids plan = map rc_id (dl_recipients st')"
    "dl_email plan = (dl_email st')\<lparr>em_status := Em_sending, em_last_event := ''sending'', em_updated_at := at_started_at a\<rparr>"
    "dl_message plan = (dl_message st')\<lparr>msg_status := Msg_sending, msg_updated_at := at_started_at a\<rparr>"
    "ledger_wf h (ledger_of plan)"
    by (rule start_Inr)
  have st: "st' = st" using assms(1) q(1) by simp
  have "message_ok h (dl_message st)" using q(2) by (simp add: ledger_wf_def st)
  note ids = attempt_starts_ids[OF this q(4) q(5)[unfolded st]]
  show ?thesis
    using q ids(1,5) wf_assert[OF q(12)] by (simp add: st list_all_iff started_recipient_def)
qed

theorem attempt_start_spec_witness:
  "assertLedgerState demo_host demo_ledger = Inr demo_ledger
   \<and> planAttemptStart demo_host demo_ledger demo_submitting = Inr (demo_started, demo_submitting)
   \<and> dl_changed_recipient_ids demo_started = [demo_rc1, demo_rc2]
   \<and> msg_status (dl_message demo_started) = Msg_sending
   \<and> assertLedgerState demo_host demo_started = Inr (ledger_of demo_started)"
  using attempt_start_spec[OF wf_assert[OF demo_ledger_wf] demo_start] wf_assert[OF demo_ledger_wf] demo_start by simp

text \<open>
  Completing an attempt settles exactly that attempt and exactly its recipients: it
  returns only for an attempt that is submitting and owns every recipient it covers; these
  become accepted, queued again after a retryable failure, or rejected or failed by the
  diagnostic category after a permanent one; every other recipient and attempt is as it
  was, and the new ledger passes the ledger check unchanged.
\<close>

theorem attempt_completion_spec:
  assumes "assertLedgerState h st = Inr st" and "planAttemptCompletion h st c = Inr (plan, a')"
  shows "\<exists>i t. i < length (dl_attempts st) \<and> to_iso_of_string h (cp_completed_at c) = Inr t
    \<and> at_id (dl_attempts st ! i) = cp_attempt_id c \<and> at_status (dl_attempts st ! i) = At_submitting
    \<and> dl_attempts plan = (dl_attempts st)[i := a']
    \<and> at_id a' = cp_attempt_id c \<and> at_status a' = completion_attempt_status (cp_status c)
    \<and> dl_recipients plan = map (\<lambda>r. if rc_id r \<in> set (at_recipient_ids (dl_attempts st ! i))
         then r\<lparr>rc_status := completion_recipient_status (cp_status c) (cp_diagnostic_category c), rc_updated_at := t\<rparr>
         else r) (dl_recipients st)
    \<and> dl_changed_recipient_ids plan
        = filter (\<lambda>id. id \<in> set (at_recipient_ids (dl_attempts st ! i))) (map rc_id (dl_recipients st))
    \<and> deriveDeliveryMessageStatus (dl_recipients plan) = Inr (msg_status (dl_message plan))
    \<and> em_status (dl_email plan) = derivePublicEmailStatus (msg_status (dl_message plan)) (dl_recipients plan)
    \<and> assertLedgerState h plan = Inr (ledger_of plan)"
proof -
  let ?s = "completion_recipient_status (cp_status c) (cp_diagnostic_category c)"
  from assms(2) obtain st' i a t where q: "assertLedgerState h st = Inr st'" "i < length (dl_attempts st')"
      "dl_attempts st' ! i = a" "at_id a = cp_attempt_id c" "at_status a = At_submitting"
      "\<forall>r \<in> set (dl_recipients st'). rc_id r \<in> set (at_recipient_ids a) \<longrightarrow>
         rc_status r = Rc_sending \<and> rc_latest_attempt_id r = Some (at_id a)"
      "to_iso_of_string h (cp_completed_at c) = Inr t" "a' = complete_attempt a c t"
      "dl_recipients plan = map (completed_recipient a ?s t) (dl_recipients st')"
      "dl_attempts plan = (dl_attempts st')[i := a']"
      "dl_changed_recipient_ids plan = map rc_id (filter (attempt_owns a) (dl_recipients st'))"
      "updateMessage h (dl_message st') (dl_recipients plan) t = Inr (dl_message plan)"
      "dl_email plan = complete_email (updateEmailForRecipients (dl_email st') (dl_message plan) (dl_recipients plan) t
         (if cp_status c = Completed_accepted then None else cp_public_error c)) c"
      "ledger_wf h (ledger_of plan)"
    by (rule completion_Inr)
  have st: "st' = st" using assms(1) q(1) by simp
  have owns: "attempt_owns a r \<longleftrightarrow> rc_id r \<in> set (at_recipient_ids a)" if "r \<in> set (dl_recipients st)" for r
    using q(6) that by (auto simp: attempt_owns_def st)
  have recs: "dl_recipients plan = map (\<lambda>r. if rc_id r \<in> set (at_recipient_ids a)
      then r\<lparr>rc_status := ?s, rc_updated_at := t\<rparr> else r) (dl_recipients st)"
    using owns by (simp add: q(9) st completed_recipient_def)
  have ids: "dl_changed_recipient_ids plan = filter (\<lambda>id. id \<in> set (at_recipient_ids a)) (map rc_id (dl_recipients st))"
    using owns by (simp add: q(11) st filter_map comp_def cong: filter_cong)
  have "em_status (dl_email plan) = derivePublicEmailStatus (msg_status (dl_message plan)) (dl_recipients plan)"
    by (simp add: q(13) complete_email_def updateEmailForRecipients_def Let_def)
  moreover have "deriveDeliveryMessageStatus (dl_recipients plan) = Inr (msg_status (dl_message plan))"
    using q(12) by (auto simp: updateMessage_Inr)
  ultimately show ?thesis
    using q(2-5,7,8,10) recs ids wf_assert[OF q(14)] by (intro exI[of _ i] exI[of _ t]) (simp add: st)
qed

theorem attempt_completion_spec_witness:
  "assertLedgerState demo_host (ledger_of demo_started) = Inr (ledger_of demo_started)
   \<and> planAttemptCompletion demo_host (ledger_of demo_started) demo_accepting = Inr (demo_accepted, demo_accepted_attempt)
   \<and> deriveDeliveryMessageStatus (dl_recipients demo_accepted) = Inr (msg_status (dl_message demo_accepted))
   \<and> assertLedgerState demo_host demo_accepted = Inr (ledger_of demo_accepted)"
  using attempt_completion_spec[OF wf_assert[OF demo_started_wf] demo_complete] wf_assert[OF demo_started_wf] demo_complete
  by blast

text \<open>
  A provider event changes nothing but the statuses of the recipients it names: it is
  applied only to a message with an accepted attempt, each named recipient makes the
  transition of its status, exactly those whose status differs are reported as changed and
  re-dated, attempts are untouched, the aggregates are derived from the new statuses, and
  the new ledger passes the ledger check unchanged.
\<close>

theorem provider_event_spec:
  assumes "assertLedgerState h st = Inr st" and "planProviderEvent h st e = Inr (plan, e')"
  shows "e' = e \<and> list_ex (\<lambda>a. at_status a = At_accepted \<and> Some (at_id a) = ev_attempt_id e) (dl_attempts st)
    \<and> map rc_status (dl_recipients plan) = map (\<lambda>r. if rc_id r \<in> set (ev_recipient_ids e)
         then transitionRecipientStatus (rc_status r) (ev_type e) else rc_status r) (dl_recipients st)
    \<and> list_all2 (\<lambda>r r'. (r' = r) = (rc_id r \<notin> set (dl_changed_recipient_ids plan)))
        (dl_recipients st) (dl_recipients plan)
    \<and> dl_changed_recipient_ids plan = map rc_id (filter (\<lambda>r. rc_id r \<in> set (ev_recipient_ids e)
         \<and> transitionRecipientStatus (rc_status r) (ev_type e) \<noteq> rc_status r) (dl_recipients st))
    \<and> dl_attempts plan = dl_attempts st
    \<and> deriveDeliveryMessageStatus (dl_recipients plan) = Inr (msg_status (dl_message plan))
    \<and> em_status (dl_email plan) = derivePublicEmailStatus (msg_status (dl_message plan)) (dl_recipients plan)
    \<and> assertLedgerState h plan = Inr (ledger_of plan)"
proof -
  from assms(2) obtain st' t where q: "assertLedgerState h st = Inr st'" "ledger_wf h st'" "e' = e" "event_correlates st' e"
      "dl_recipients plan = map (evented_recipient e t) (dl_recipients st')" "dl_attempts plan = dl_attempts st'"
      "dl_changed_recipient_ids plan = map rc_id (filter (event_changes e) (dl_recipients st'))"
      "updateMessage h (dl_message st') (dl_recipients plan) t = Inr (dl_message plan)"
      "dl_email plan = updateEmailForRecipients (dl_email st') (dl_message plan) (dl_recipients plan) t None"
      "ledger_wf h (ledger_of plan)"
    by (rule event_Inr)
  have st: "st' = st" using assms(1) q(1) by simp
  have acc: "list_ex (\<lambda>a. at_status a = At_accepted \<and> Some (at_id a) = ev_attempt_id e) (dl_attempts st)"
    using q(4) unfolding event_correlates_def Let_def st
    by (auto simp: list_ex_iff split: option.splits dest!: find_SomeD)
  have dist: "distinct (map rc_id (dl_recipients st))"
    using q(2) by (simp add: ledger_wf_def message_ok_def unique_values_def st)
  have changed: "rc_id r \<in> set (dl_changed_recipient_ids plan) \<longleftrightarrow> event_changes e r" if "r \<in> set (dl_recipients st)" for r
    using that dist by (auto simp: q(7) st distinct_map dest: inj_onD)
  have diff: "evented_recipient e t r = r \<longleftrightarrow> \<not> event_changes e r" for r
    by (cases r) (auto simp: evented_recipient_def event_changes_def)
  have pointwise: "list_all2 (\<lambda>r r'. (r' = r) = (rc_id r \<notin> set (dl_changed_recipient_ids plan)))
      (dl_recipients st) (dl_recipients plan)"
    using changed diff by (auto simp: q(5) st list_all2_conv_all_nth)
  have "map rc_status (dl_recipients plan) = map (\<lambda>r. if rc_id r \<in> set (ev_recipient_ids e)
      then transitionRecipientStatus (rc_status r) (ev_type e) else rc_status r) (dl_recipients st)"
    by (auto simp: q(5) st evented_recipient_def event_changes_def)
  moreover have "deriveDeliveryMessageStatus (dl_recipients plan) = Inr (msg_status (dl_message plan))"
    using q(8) by (auto simp: updateMessage_Inr)
  moreover have "em_status (dl_email plan) = derivePublicEmailStatus (msg_status (dl_message plan)) (dl_recipients plan)"
    by (simp add: q(9) updateEmailForRecipients_def Let_def)
  moreover have "filter (event_changes e) (dl_recipients st) = filter (\<lambda>r. rc_id r \<in> set (ev_recipient_ids e)
         \<and> transitionRecipientStatus (rc_status r) (ev_type e) \<noteq> rc_status r) (dl_recipients st)"
    by (rule filter_cong[OF refl]) (simp add: event_changes_def)
  ultimately show ?thesis
    using q(3,6,7) acc pointwise wf_assert[OF q(10)] by (simp add: st)
qed

theorem provider_event_spec_witness:
  "assertLedgerState demo_host (ledger_of demo_accepted) = Inr (ledger_of demo_accepted)
   \<and> planProviderEvent demo_host (ledger_of demo_accepted) (demo_event Ev_delivered (demo_time 30))
       = Inr (demo_delivered, demo_event Ev_delivered (demo_time 30))
   \<and> deriveDeliveryMessageStatus (dl_recipients demo_delivered) = Inr (msg_status (dl_message demo_delivered))
   \<and> dl_attempts demo_delivered = dl_attempts (ledger_of demo_accepted)"
  using provider_event_spec[OF wf_assert[OF demo_accepted_wf] demo_deliver] wf_assert[OF demo_accepted_wf] demo_deliver
  by blast

text \<open>
  C2. The protocol of a message: in every ledger reachable from a new delivery by any
  sequence of planner steps, the ledger check passes unchanged, the attempts are numbered
  1, 2, 3 and so on, every attempt but the last failed retryably, and so at most one
  attempt of a message is ever accepted by the provider.
\<close>

theorem reachable_ledger_protocol:
  assumes "ledger_reachable h st"
  shows "assertLedgerState h st = Inr st
    \<and> map at_sequence (dl_attempts st) = [1..int (length (dl_attempts st))]
    \<and> list_all (\<lambda>a. at_status a = At_retryable_failed) (butlast (dl_attempts st))
    \<and> length (filter (\<lambda>a. at_status a = At_accepted) (dl_attempts st)) \<le> 1"
  by (rule ledger_inv_protocol[OF ledger_reachable_inv[OF assms]])

lemma demo_reachable: "ledger_reachable demo_host (ledger_of demo_accepted)"
  using reach_step[OF reach_step[OF reach_init[OF demo_ledger_initial] step_start[OF demo_start]] step_complete[OF demo_complete]] .

theorem reachable_ledger_protocol_witness:
  "ledger_reachable demo_host (ledger_of demo_accepted)
   \<and> length (filter (\<lambda>a. at_status a = At_accepted) (dl_attempts (ledger_of demo_accepted))) \<le> 1"
  using demo_reachable reachable_ledger_protocol[OF demo_reachable] by blast

text \<open>
  C1. No second submission: once an attempt of a message is submitting, was accepted or
  failed permanently, no further attempt can start, in any reachable ledger and for any
  proposed attempt. A message the provider has accepted is never handed over again.
\<close>

theorem no_second_submission:
  assumes "ledger_reachable h st" and "a \<in> set (dl_attempts st)"
    and "at_status a \<in> {At_submitting, At_accepted, At_permanent_failed}"
  shows "isl (planAttemptStart h st b)"
  by (rule settled_no_start[OF ledger_reachable_inv[OF assms(1)] assms(2,3)])

theorem no_second_submission_witness:
  "ledger_reachable demo_host (ledger_of demo_accepted)
   \<and> demo_accepted_attempt \<in> set (dl_attempts (ledger_of demo_accepted))
   \<and> isl (planAttemptStart demo_host (ledger_of demo_accepted) (demo_attempt demo_at2 2 (demo_time 40)))"
  using demo_reachable no_second_submission[OF demo_reachable, of demo_accepted_attempt]
  by (simp add: demo_accepted_def demo_accepted_attempt_def)

end
