(* ===== verification/Commit_Properties.thy ===== *)
theory Commit_Properties
  imports Delivery_Protocol Ledger_Properties
begin

text \<open>
  The properties of the atomic delivery commit and of the ledger operations of the store,
  with their witnesses on the delivery of \<open>Demo_Delivery\<close> in an empty store.
\<close>

section \<open>A commit without faults\<close>

abbreviation silent :: mutation_hook where
  "silent \<equiv> \<lambda>_. None"

lemma silent_hook: "hook = silent \<Longrightarrow> afterDeliveryMutation hook m s = (Inr (), s\<lparr>m_mutations := m_mutations s @ [m]\<rparr>)"
  by (simp add: afterDeliveryMutation_def Let_def)

lemma stage_silent:
  "distinct (map rc_id rs) \<Longrightarrow> \<forall>r \<in> set rs. \<not> map_has m (rc_id r) \<Longrightarrow>
     \<exists>t. stage_recipients silent i rs m s = (Inr (put_all rc_id rs m), t)"
proof (induction rs arbitrary: i m s)
  case (Cons r rs)
  then have "distinct (map rc_id rs)" "\<forall>x \<in> set rs. \<not> map_has (map_set (rc_id r) r m) (rc_id x)"
    by (auto simp: rev_image_eqI)
  from Cons.IH[OF this] show ?case using Cons.prems by (simp add: sx_simps silent_hook bindS_def)
qed (simp add: returnS_def)

lemma commit_succeeds:
  assumes "validateDeliveryCommit h c now = Inr c" "live_claim s (dc_idempotency c) now = None"
    "\<not> map_has (m_emails s) (em_id (dc_email c))" "\<not> map_has (m_messages s) (msg_id (dc_message c))"
    "\<not> map_has (m_outbox s) (ob_id (dc_outbox c))"
    "distinct (map rc_id (dc_recipients c))" "\<forall>r \<in> set (dc_recipients c). \<not> map_has (m_recipients s) (rc_id r)"
  obtains t where "commitDelivery h silent c now s = (Inr (delivery_commit.extend c \<lparr>dcr_replayed = False\<rparr>), t)"
    "unlogged t = unlogged (committed c s)"
proof -
  obtain nr u where st: "stage_commit silent c s = (Inr nr, u)"
  proof -
    obtain v where "stage_recipients silent 0 (dc_recipients c) (m_recipients s)
        (s\<lparr>m_mutations := (m_mutations s @ [Mut_commit Ent_email]) @ [Mut_commit Ent_message]\<rparr>)
        = (Inr (put_all rc_id (dc_recipients c) (m_recipients s)), v)"
      using stage_silent[OF assms(6,7)] by blast
    then show thesis
      using that by (cases "dc_idempotency c = None") (simp_all add: stage_commit_def sx_simps silent_hook bindS_def)
  qed
  have run: "commitDelivery h silent c now s = commit_delivery_writes silent c s"
    using assms(1-5) by (simp add: commitDelivery_def sx_simps)
  obtain r t where rt: "commit_delivery_writes silent c s = (r, t)" by fastforce
  then obtain x where x: "r = Inr x"
    using st by (auto simp: commit_delivery_writes_def Let_def sx_simps bindS_def silent_hook)
  from rt show thesis
  proof (cases rule: commit_writes_cases)
    case rolled_back
    then show thesis using x by simp
  next
    case visible
    then show thesis using that run rt x by simp
  qed
qed

lemma demo_email_facts [simp]:
  "em_status demo_email = Em_queued" "em_request_hash demo_email = demo_hash" "em_created_at demo_email = demo_time 0"
  "em_scheduled_at demo_email = None" "msg_intent_digest demo_message = demo_hash" "msg_created_at demo_message = demo_time 0"
  "msg_status demo_message = Msg_queued" "msg_scheduled_at demo_message = None"
  by (simp_all add: demo_email_def demo_message_def)

lemma demo_commit_fields [simp]:
  "dc_email demo_commit = demo_email" "dc_message demo_commit = demo_message" "dc_recipients demo_commit = demo_recipients"
  "dc_outbox demo_commit = demo_outbox" "dc_idempotency demo_commit = Some demo_claim"
  by (simp_all add: demo_commit_def)

lemma demo_outbox_ok: "outbox_ok demo_host demo_outbox"
proof -
  have "is_outbox_identity (ob_id demo_outbox)" by (simp add: demo_outbox_def) code_simp
  moreover have "createOutboxIdentity demo_id Dispatch_message 0 = Inr (ob_id demo_outbox)"
    by (simp add: demo_outbox_def) code_simp
  ultimately show ?thesis
    by (simp add: outbox_ok_def demo_outbox_def updated_at_ok_def is_safe_int_def)
qed

lemma demo_commit_valid: "validateDeliveryCommit demo_host demo_commit demo_now = Inr demo_commit"
proof -
  have w: "message_ok demo_host demo_message" "list_all (recipient_ok demo_host) demo_recipients"
    using demo_ledger_wf by (simp_all add: ledger_wf_def)
  have "commit_recipients_match demo_email demo_message demo_recipients"
    by (simp add: commit_recipients_match_def Let_def unique_values_def list_all_iff)
      (auto simp: demo_recipients_def demo_recipient_def)
  moreover have "unique_values (map (\<lambda>r. js_lower demo_host (rc_address r)) demo_recipients)"
    "unique_values (map recipient_position demo_recipients)"
    by (simp_all add: unique_values_def demo_recipients_def demo_recipient_def js_lower_def ascii_lower_def
      recipient_position_def int_dec_def nat_dec.simps is_upper_def digit_char_def)
  moreover have "commit_outbox_matches demo_email demo_message demo_outbox"
    by (simp add: commit_outbox_matches_def demo_outbox_def)
  moreover have "commit_records_match demo_email demo_message" by (simp add: commit_records_match_def)
  moreover have "0 \<le> demo_now" by (simp add: demo_now_def)
  ultimately show ?thesis
    using w demo_outbox_ok by (simp add: validate_Inr_iff demo_claim_def)
qed

definition demo_store :: mem where
  "demo_store = snd (commitDelivery demo_host silent demo_commit demo_now empty_store)"

lemma demo_commit_run:
  "commitDelivery demo_host silent demo_commit demo_now empty_store
     = (Inr (delivery_commit.extend demo_commit \<lparr>dcr_replayed = False\<rparr>), demo_store)"
  "unlogged demo_store = unlogged (committed demo_commit empty_store)"
proof -
  have fresh: "live_claim empty_store (dc_idempotency demo_commit) demo_now = None"
    "\<not> map_has (m_emails empty_store) (em_id (dc_email demo_commit))"
    "\<not> map_has (m_messages empty_store) (msg_id (dc_message demo_commit))"
    "\<not> map_has (m_outbox empty_store) (ob_id (dc_outbox demo_commit))"
    "distinct (map rc_id (dc_recipients demo_commit))"
    "\<forall>r \<in> set (dc_recipients demo_commit). \<not> map_has (m_recipients empty_store) (rc_id r)"
    by (simp_all add: live_claim_def empty_store_def map_has_def split: option.split)
  from commit_succeeds[OF demo_commit_valid this]
  obtain t where "commitDelivery demo_host silent demo_commit demo_now empty_store
      = (Inr (delivery_commit.extend demo_commit \<lparr>dcr_replayed = False\<rparr>), t)"
    "unlogged t = unlogged (committed demo_commit empty_store)" .
  then show "commitDelivery demo_host silent demo_commit demo_now empty_store
     = (Inr (delivery_commit.extend demo_commit \<lparr>dcr_replayed = False\<rparr>), demo_store)"
    "unlogged demo_store = unlogged (committed demo_commit empty_store)"
    by (simp_all add: demo_store_def)
qed

lemma demo_store_reachable: "store_reachable demo_host demo_store"
  using store_next[OF store_init step_quiet[OF step_commit[OF demo_commit_run(1)]]] .

lemma demo_store_maps:
  "m_outbox demo_store = [(ob_id demo_outbox, demo_outbox)]" "m_emails demo_store = [(demo_id, demo_email)]"
  "m_messages demo_store = [(demo_id, demo_message)]" "m_attempts demo_store = []" "m_events demo_store = []"
  "m_recipients demo_store = put_all rc_id demo_recipients []"
  "m_idempotency demo_store = put_claim (Some demo_claim) demo_id []"
  "m_outbox_by_message demo_store = [(demo_id, ob_id demo_outbox)]"
  using unlogged_eqD[OF demo_commit_run(2)] by (simp_all add: committed_def empty_store_def)

section \<open>The commit\<close>

text \<open>
  C5. The delivery commit is all or nothing: whatever fault the mutation hook injects at
  whatever point, the emails, claims, messages, recipients and outbox items of the store
  are either exactly what they were, and then the call threw or replayed an earlier
  commit, or they are the old maps with every record of the commit added; a fault after
  that is possible only in the announcement that follows the swap.
\<close>

theorem commit_all_or_nothing:
  assumes "commitDelivery h hook c now s = (r, t)"
  shows "(delivery_view t = delivery_view s \<and> (isl r \<or> dcr_replayed (projr r)))
    \<or> (delivery_view t = (delivery_view s)\<lparr>
          v_emails := map_set (em_id (dc_email c)) (dc_email c) (m_emails s),
          v_idempotency := put_claim (dc_idempotency c) (em_id (dc_email c)) (m_idempotency s),
          v_messages := map_set (msg_id (dc_message c)) (dc_message c) (m_messages s),
          v_recipients := put_all rc_id (dc_recipients c) (m_recipients s),
          v_outbox := map_set (ob_id (dc_outbox c)) (dc_outbox c) (m_outbox s),
          v_outbox_by_message := map_set (msg_id (dc_message c)) (ob_id (dc_outbox c)) (m_outbox_by_message s)\<rparr>
       \<and> (r = Inr (delivery_commit.extend c \<lparr>dcr_replayed = False\<rparr>)
          \<or> isl r \<and> last (m_mutations t) = Mut_commit_swap))"
  using assms
proof (cases rule: commitDelivery_cases)
  case unchanged
  then show ?thesis using unlogged_eqD(10)[OF unchanged(1)] by (cases r) auto
next
  case visible
  have "delivery_view t = delivery_view (committed c s)" using unlogged_eqD(10)[OF visible(6)] .
  then show ?thesis using visible(7,10) by (cases r) (auto simp: committed_def delivery_view_def)
qed

lemma demo_fault_run:
  "\<exists>t. commitDelivery demo_host (\<lambda>ms. if length ms = 3 then Some TypeError else None) demo_commit demo_now empty_store
     = (Inl TypeError, t) \<and> m_mutations t = [Mut_commit Ent_email, Mut_commit Ent_message, Mut_commit (Ent_recipient 0)]"
proof -
  let ?hook = "\<lambda>ms. if length ms = (3 :: nat) then Some TypeError else (None :: js_error option)"
  have "\<exists>t. stage_commit ?hook demo_commit empty_store = (Inl TypeError, t)
      \<and> m_mutations t = [Mut_commit Ent_email, Mut_commit Ent_message, Mut_commit (Ent_recipient 0)]"
    by (simp add: stage_commit_def demo_recipients_def sx_simps bindS_def afterDeliveryMutation_def Let_def
      empty_store_def map_has_def)
  then obtain t where st: "stage_commit ?hook demo_commit empty_store = (Inl TypeError, t)"
    and log: "m_mutations t = [Mut_commit Ent_email, Mut_commit Ent_message, Mut_commit (Ent_recipient 0)]"
    by blast
  have "commit_delivery_writes ?hook demo_commit empty_store = (Inl TypeError, t)"
    using st by (simp add: commit_delivery_writes_def Let_def sx_simps bindS_def)
  moreover have "live_claim empty_store (Some demo_claim) demo_now = None" "m_emails empty_store = []"
    "m_messages empty_store = []" "m_outbox empty_store = []"
    by (simp_all add: live_claim_def empty_store_def)
  ultimately have "commitDelivery demo_host ?hook demo_commit demo_now empty_store = (Inl TypeError, t)"
    using demo_commit_valid by (simp add: commitDelivery_def sx_simps map_has_def)
  then show ?thesis using log by blast
qed

theorem commit_all_or_nothing_witness:
  "\<exists>t. commitDelivery demo_host (\<lambda>ms. if length ms = 3 then Some TypeError else None) demo_commit demo_now empty_store
        = (Inl TypeError, t) \<and> delivery_view t = delivery_view empty_store"
proof -
  obtain t where run: "commitDelivery demo_host (\<lambda>ms. if length ms = 3 then Some TypeError else None) demo_commit demo_now
      empty_store = (Inl TypeError, t)"
    and log: "m_mutations t = [Mut_commit Ent_email, Mut_commit Ent_message, Mut_commit (Ent_recipient 0)]"
    using demo_fault_run by blast
  show ?thesis using commit_all_or_nothing[OF run] run log by auto
qed

lemma outbox_identity_nonempty: "outbox_ok h b \<Longrightarrow> ob_id b \<noteq> []"
  by (auto simp: outbox_ok_def is_outbox_identity_def)

lemma committed_result:
  assumes v: "validateDeliveryCommit h c now = Inr c"
  obtains d where "deliveryResult (committed c s) (em_id (dc_email c)) b = Some d" "dc_email d = dc_email c"
    "dc_message d = dc_message c" "dc_outbox d = dc_outbox c" "dcr_replayed d = b"
    "map rc_id (dc_recipients d) = msg_recipient_ids (dc_message c)"
    "set (dc_recipients d) = set (dc_recipients c)"
proof -
  let ?t = "committed c s" and ?rs = "dc_recipients c" and ?m = "dc_message c"
  note V = validate_D[OF v]
  have em: "em_id (dc_email c) = msg_id ?m" using V(5) by (simp add: commit_records_match_def)
  note perm = commit_recipients_perm[OF V(2,6)]
  have ids: "set (msg_recipient_ids ?m) = set (map rc_id ?rs)" using perm(1) by (metis mset_eq_setD)
  define get where "get = (\<lambda>i. the (map_get (m_recipients ?t) i))"
  have got: "map_get (m_recipients ?t) (rc_id r) = Some r" if "r \<in> set ?rs" for r
    using put_all_get[OF perm(2) that] by (simp add: committed_def)
  have look: "map_get (m_recipients ?t) i = Some (get i) \<and> rc_id (get i) = i \<and> get i \<in> set ?rs"
    if "i \<in> set (msg_recipient_ids ?m)" for i
    using that got unfolding ids by (auto simp: get_def)
  have those: "those (map (map_get (m_recipients ?t)) (msg_recipient_ids ?m)) = Some (map get (msg_recipient_ids ?m))"
    using look by (intro those_map_Some) auto
  have "outbox_of_message ?t (msg_id ?m) = Some (dc_outbox c)"
    using outbox_identity_nonempty[OF V(4)] by (simp add: outbox_of_message_def committed_def)
  then have "deliveryResult ?t (em_id (dc_email c)) b = Some \<lparr>dc_email = dc_email c, dc_message = ?m,
      dc_recipients = map get (msg_recipient_ids ?m), dc_outbox = dc_outbox c,
      dc_idempotency = map_option (\<lambda>e. \<lparr>ic_key_hash = ic_key_hash e, ic_request_hash = ic_request_hash e,
        ic_expires_at = ic_expires_at e\<rparr>) (find (\<lambda>e. ie_email_id e = msg_id ?m) (map_values (m_idempotency ?t))),
      dcr_replayed = b\<rparr>"
    using those em by (simp add: deliveryResult_def) (simp add: committed_def)
  moreover have "map rc_id (map get (msg_recipient_ids ?m)) = msg_recipient_ids ?m"
    using look by (simp add: map_idI)
  moreover have "set (map get (msg_recipient_ids ?m)) = set ?rs"
  proof
    show "set (map get (msg_recipient_ids ?m)) \<subseteq> set ?rs" using look by auto
    show "set ?rs \<subseteq> set (map get (msg_recipient_ids ?m))"
    proof
      fix r assume r: "r \<in> set ?rs"
      then have "rc_id r \<in> set (msg_recipient_ids ?m)" "get (rc_id r) = r" using ids got by (auto simp: get_def)
      then show "r \<in> set (map get (msg_recipient_ids ?m))" by (metis image_eqI list.set_map)
    qed
  qed
  ultimately show thesis using that by simp
qed

lemma deliveryResult_unlogged:
  assumes "unlogged t = unlogged s"
  shows "deliveryResult t k b = deliveryResult s k b"
  by (simp only: deliveryResult_def outbox_of_message_def unlogged_eqD[OF assms])

text \<open>
  C26. What was committed can be read back: after a fresh commit the store returns for the
  email's ID the very email, message and outbox item that were committed, and the
  committed recipients, each once and in the message's order.
\<close>

theorem committed_delivery_readable:
  assumes "commitDelivery h hook c now s = (Inr x, t)" and "\<not> dcr_replayed x"
  shows "\<exists>d. getDelivery (em_id (dc_email c)) t = Some d \<and> dc_email d = dc_email c \<and> dc_message d = dc_message c
    \<and> dc_outbox d = dc_outbox c \<and> map rc_id (dc_recipients d) = msg_recipient_ids (dc_message c)
    \<and> set (dc_recipients d) = set (dc_recipients c)"
  using assms(1)
proof (cases rule: commitDelivery_cases)
  case unchanged
  then show ?thesis using assms(2) by blast
next
  case visible
  show ?thesis
    using committed_result[OF visible(1), of s False] deliveryResult_unlogged[OF visible(6)]
    unfolding getDelivery_def by metis
qed

theorem committed_delivery_readable_witness:
  "\<exists>d. getDelivery demo_id demo_store = Some d \<and> dc_email d = demo_email \<and> dc_message d = demo_message
     \<and> dc_outbox d = demo_outbox \<and> map rc_id (dc_recipients d) = [demo_rc1, demo_rc2]"
proof -
  have "\<not> dcr_replayed (delivery_commit.extend demo_commit \<lparr>dcr_replayed = False\<rparr>)"
    by (simp add: delivery_commit.extend_def)
  from committed_delivery_readable[OF demo_commit_run(1) this] show ?thesis by auto
qed

text \<open>
  Idempotency: while the claim of a committed delivery is live, committing under the
  same key never writes; with the same request hash it returns the first delivery's email,
  message and outbox item, marked as replayed, and with another hash it throws a conflict.
\<close>

theorem commit_replay:
  assumes "commitDelivery h hook c now s = (Inr x, t)" and "\<not> dcr_replayed x" and "dc_idempotency c = Some k"
    and "validateDeliveryCommit h c' now' = Inr c'" and "dc_idempotency c' = Some k'"
    and "ic_key_hash k' = ic_key_hash k" and "now' < ic_expires_at k"
  shows "\<exists>r. commitDelivery h hook' c' now' t = (r, t)
    \<and> (if ic_request_hash k' = ic_request_hash k
        then \<exists>y. r = Inr y \<and> dcr_replayed y \<and> dc_email y = dc_email c \<and> dc_message y = dc_message c \<and> dc_outbox y = dc_outbox c
        else r = Inl (ConflictError ''The Idempotency-Key has already been used with a different request.''))"
  using assms(1)
proof (cases rule: commitDelivery_cases)
  case unchanged
  then show ?thesis using assms(2) by blast
next
  case visible
  have "m_idempotency t = m_idempotency (committed c s)" using unlogged_eqD(2)[OF visible(6)] .
  then have live: "live_claim t (dc_idempotency c') now' = Some \<lparr>ic_key_hash = ic_key_hash k,
      ic_request_hash = ic_request_hash k, ic_expires_at = ic_expires_at k, ie_email_id = em_id (dc_email c)\<rparr>"
    using assms(3,5-7) by (simp add: live_claim_def committed_def put_claim_def)
  obtain d where d: "deliveryResult t (em_id (dc_email c)) True = Some d" "dc_email d = dc_email c"
      "dc_message d = dc_message c" "dc_outbox d = dc_outbox c" "dcr_replayed d"
    using committed_result[OF visible(1), of s True] deliveryResult_unlogged[OF visible(6)] by metis
  show ?thesis
    using assms(4) live assms(5) d
    by (auto simp: commitDelivery_def sx_simps claims_hash_def)
qed

theorem commit_replay_witness:
  "\<exists>r. commitDelivery demo_host silent demo_commit demo_now demo_store = (r, demo_store)
     \<and> (\<exists>y. r = Inr y \<and> dcr_replayed y \<and> dc_email y = demo_email)"
proof -
  have "\<not> dcr_replayed (delivery_commit.extend demo_commit \<lparr>dcr_replayed = False\<rparr>)" "demo_now < ic_expires_at demo_claim"
    by (simp_all add: delivery_commit.extend_def demo_claim_def)
  from commit_replay[OF demo_commit_run(1) this(1) _ demo_commit_valid _ _ this(2), where hook' = silent]
  show ?thesis by auto
qed

end
