(* ===== verification/Store_Simulation.thy ===== *)
theory Store_Simulation
  imports Delivery_Protocol
begin

text \<open>
  The store simulates the ledger protocol message by message: whatever operation runs, with
  whatever fault, the ledger of a stored message stays as it is up to its email and schedule
  or makes one planner step. What a ledger step keeps (attempts that are no longer
  submitting) and what the store keeps (provider events) follow for whole runs.
\<close>

section \<open>When the ledger of a message is the same\<close>

lemma deliveryLedger_cong:
  assumes "m_emails t = m_emails s" "m_messages t = m_messages s" "m_recipients t = m_recipients s"
    "m_attempts t = m_attempts s" "m_events t = m_events s"
  shows "deliveryLedger h t = deliveryLedger h s"
  unfolding deliveryLedger_def assms ..

lemma view_eqD:
  assumes "delivery_view t = delivery_view s"
  shows "m_emails t = m_emails s" "m_messages t = m_messages s" "m_recipients t = m_recipients s"
    "m_attempts t = m_attempts s" "m_events t = m_events s" "m_outbox t = m_outbox s"
  using assms by (simp_all add: delivery_view_def)

lemma deliveryLedger_view: "delivery_view t = delivery_view s \<Longrightarrow> deliveryLedger h t = deliveryLedger h s"
  by (rule deliveryLedger_cong) (rule view_eqD; assumption)+

definition same_progress :: "delivery_ledger_snapshot \<Rightarrow> delivery_ledger_snapshot \<Rightarrow> bool" where
  "same_progress L L' \<longleftrightarrow> dl_recipients L' = dl_recipients L \<and> dl_attempts L' = dl_attempts L \<and> dls_events L' = dls_events L"

lemma same_progress_refl [simp]: "same_progress L L"
  by (simp add: same_progress_def)

definition simulates :: "host \<Rightarrow> mem \<Rightarrow> mem \<Rightarrow> string \<Rightarrow> delivery_ledger_snapshot \<Rightarrow> bool" where
  "simulates h s t k L \<longleftrightarrow> (\<exists>L'. deliveryLedger h t k = Some L'
     \<and> (same_progress L L' \<or> ledger_step h (ledger_of L) (ledger_of L')))"

lemma simulates_stutter:
  "deliveryLedger h s k = Some L \<Longrightarrow> deliveryLedger h t k = deliveryLedger h s k \<Longrightarrow> simulates h s t k L"
  by (auto simp: simulates_def)

lemma simulates_email:
  assumes "deliveryLedger h s k = Some L" "m_emails t = map_set i e (m_emails s)" "m_messages t = m_messages s"
    "m_recipients t = m_recipients s" "m_attempts t = m_attempts s" "m_events t = m_events s"
  shows "simulates h s t k L"
proof -
  obtain e' where "map_get (m_emails t) k = Some e'"
    using assms(1,2) by (cases "k = i") (auto simp: deliveryLedger_Some)
  then have "deliveryLedger h t k = Some (L\<lparr>dl_email := e'\<rparr>)"
    using assms(1,3-6) by (simp add: deliveryLedger_Some)
  then show ?thesis by (auto simp: simulates_def same_progress_def)
qed

lemma simulates_message:
  assumes "deliveryLedger h s k = Some L" "map_get (m_messages s) i = Some m" "msg_recipient_ids m' = msg_recipient_ids m"
    "m_emails t = map_set i e (m_emails s)" "m_messages t = map_set i m' (m_messages s)"
    "m_recipients t = m_recipients s" "m_attempts t = m_attempts s" "m_events t = m_events s"
  shows "simulates h s t k L"
proof (cases "k = i")
  case True
  then have "deliveryLedger h t k = Some (L\<lparr>dl_email := e, dl_message := m'\<rparr>)"
    using assms by (simp add: deliveryLedger_Some)
  then show ?thesis by (auto simp: simulates_def same_progress_def)
next
  case False
  then have "deliveryLedger h t k = Some L" using assms by (simp add: deliveryLedger_Some)
  then show ?thesis by (auto simp: simulates_def)
qed

section \<open>The ledger operations\<close>

text \<open>The four calls of the ledger port on message \<open>k\<close>.\<close>

inductive ledger_call ::
  "host \<Rightarrow> mutation_hook \<Rightarrow> string \<Rightarrow> mem \<Rightarrow> ledger_mutation_result option result \<Rightarrow> mem \<Rightarrow> bool" for h hook k where
  call_begin: "at_message_id a = k \<Longrightarrow> attempt_id_free s a \<Longrightarrow> beginDeliveryAttempt h hook a s = (r, t) \<Longrightarrow> ledger_call h hook k s r t"
| call_complete: "cp_message_id c = k \<Longrightarrow> completeDeliveryAttempt h hook c s = (r, t) \<Longrightarrow> ledger_call h hook k s r t"
| call_append: "ev_message_id e = k \<Longrightarrow> appendProviderEvent h hook e s = (r, t) \<Longrightarrow> ledger_call h hook k s r t"
| call_local: "applyLocalDeliveryState h hook k x u s = (r, t) \<Longrightarrow> ledger_call h hook k s r t"

text \<open>A planner called on a snapshot is a step of the ledger state in it.\<close>

lemma snapshot_steps:
  "planAttemptStart h (L :: delivery_ledger_snapshot) a = Inr (plan, a') \<Longrightarrow> ledger_step h (ledger_of L) (ledger_of plan)"
  "planAttemptCompletion h L c = Inr (plan, a') \<Longrightarrow> ledger_step h (ledger_of L) (ledger_of plan)"
  "planProviderEvent h L e = Inr (plan, e') \<Longrightarrow> ledger_step h (ledger_of L) (ledger_of plan)"
  "planLocalRecipientState h L x u = Inr plan \<Longrightarrow> ledger_step h (ledger_of L) (ledger_of plan)"
  using plan_truncate[of h L] by (auto intro: ledger_step.intros)

lemma plan_outcome_refines:
  assumes inv: "store_inv h s" and out: "plan_outcome h s k planned (r, t)"
    and fits: "\<And>plan a e L. deliveryLedger h s k = Some L \<Longrightarrow> planned plan a e L \<Longrightarrow>
      plan_fits h s k plan a e \<and> ledger_step h (ledger_of L) (ledger_of plan)"
  shows "(delivery_view t = delivery_view s \<and> (\<forall>x. r = Inr (Some x) \<longrightarrow> lmr_replayed x))
    \<or> (\<exists>L L' x. deliveryLedger h s k = Some L \<and> deliveryLedger h t k = Some L' \<and> ledger_step h (ledger_of L) (ledger_of L')
         \<and> r = Inr (Some x) \<and> \<not> lmr_replayed x \<and> ledger_of x = ledger_of L'
         \<and> (\<forall>k'. k' \<noteq> k \<longrightarrow> deliveryLedger h t k' = deliveryLedger h s k') \<and> m_outbox t = m_outbox s)"
proof -
  consider (same) "unlogged t = unlogged s" "\<forall>x. r = Inr (Some x) \<longrightarrow> lmr_replayed x"
    | (plan) L plan a e where "deliveryLedger h s k = Some L" "planned plan a e L"
        "r = Inr (deliveryLedgerResult h t k False (dl_changed_recipient_ids plan) a e)"
        "unlogged t = unlogged (apply_plan plan a e s)"
    using out unfolding plan_outcome_def prod.case by blast
  then show ?thesis
  proof cases
    case same
    then show ?thesis using unlogged_eqD(10)[OF same(1)] by blast
  next
    case plan
    have f: "plan_fits h s k plan a e" "ledger_step h (ledger_of L) (ledger_of plan)" using fits[OF plan(1,2)] by blast+
    obtain L' where L': "deliveryLedger h t k = Some L'" "ledger_of L' = ledger_of plan"
      using apply_plan_own[OF inv f(1)] deliveryLedger_unlogged[OF plan(4)] by metis
    have r: "r = Inr (Some (delivery_ledger_snapshot.extend L' \<lparr>lmr_replayed = False,
        lmr_changed_recipient_ids = dl_changed_recipient_ids plan, lmr_attempt = a, lmr_event = e\<rparr>))"
      using plan(3) L'(1) by (simp add: deliveryLedgerResult_def)
    have other: "\<forall>k'. k' \<noteq> k \<longrightarrow> deliveryLedger h t k' = deliveryLedger h s k'"
      using apply_plan_other[OF inv f(1)] deliveryLedger_unlogged[OF plan(4)] by simp
    let ?x = "delivery_ledger_snapshot.extend L' \<lparr>lmr_replayed = False,
        lmr_changed_recipient_ids = dl_changed_recipient_ids plan, lmr_attempt = a, lmr_event = e\<rparr>"
    have x: "\<not> lmr_replayed ?x" "ledger_of ?x = ledger_of L'"
      by (simp_all add: delivery_ledger_snapshot.extend_def delivery_ledger_state.truncate_def)
    have step: "ledger_step h (ledger_of L) (ledger_of L')" using f(2) L'(2) by metis
    have outbox: "m_outbox t = m_outbox s" using plan_outcome_outbox[OF out] .
    show ?thesis
      by (rule disjI2, rule exI[of _ L], rule exI[of _ L'], rule exI[of _ ?x])
        (intro conjI plan(1) L'(1) step r x other outbox)
  qed
qed

lemma ledger_call_refines:
  assumes inv: "store_inv h s" and call: "ledger_call h hook k s r t"
  shows "(delivery_view t = delivery_view s \<and> (\<forall>x. r = Inr (Some x) \<longrightarrow> lmr_replayed x))
    \<or> (\<exists>L L' x. deliveryLedger h s k = Some L \<and> deliveryLedger h t k = Some L' \<and> ledger_step h (ledger_of L) (ledger_of L')
         \<and> r = Inr (Some x) \<and> \<not> lmr_replayed x \<and> ledger_of x = ledger_of L'
         \<and> (\<forall>k'. k' \<noteq> k \<longrightarrow> deliveryLedger h t k' = deliveryLedger h s k') \<and> m_outbox t = m_outbox s)"
  using call
proof (cases rule: ledger_call.cases)
  case (call_begin a)
  show ?thesis
    by (rule plan_outcome_refines[OF inv begin_outcome[of h s a hook, unfolded call_begin(1,3)]])
      (use call_begin(1,2) in \<open>auto intro: start_fits(1)[OF inv] snapshot_steps\<close>)
next
  case (call_complete c)
  show ?thesis
    by (rule plan_outcome_refines[OF inv complete_outcome[of h s c hook, unfolded call_complete]])
      (use call_complete(1) in \<open>auto intro: completion_fits[OF inv] snapshot_steps\<close>)
next
  case (call_append e)
  show ?thesis
    by (rule plan_outcome_refines[OF inv append_outcome[of h s e hook, unfolded call_append]])
      (use call_append(1) in \<open>auto intro: event_fits(1)[OF inv] snapshot_steps\<close>)
next
  case (call_local x u)
  show ?thesis
    by (rule plan_outcome_refines[OF inv local_outcome[of h s k x u hook, unfolded call_local]])
      (auto intro: local_fits[OF inv] snapshot_steps)
qed


lemma call_simulates:
  assumes inv: "store_inv h s" and call: "ledger_call h hook k s r t" and L: "deliveryLedger h s k' = Some L"
  shows "simulates h s t k' L"
  using ledger_call_refines[OF inv call]
proof (elim disjE exE conjE)
  assume "delivery_view t = delivery_view s"
  then show ?thesis by (intro simulates_stutter[OF L] fun_cong[OF deliveryLedger_view])
next
  fix L0 L' x
  assume "deliveryLedger h s k = Some L0" "deliveryLedger h t k = Some L'" "ledger_step h (ledger_of L0) (ledger_of L')"
    "\<forall>k'. k' \<noteq> k \<longrightarrow> deliveryLedger h t k' = deliveryLedger h s k'"
  then show ?thesis using L by (cases "k' = k") (auto simp: simulates_def)
qed

section \<open>Every operation\<close>

lemma commit_simulates:
  assumes inv: "store_inv h s" and run: "commitDelivery h hook c now s = (r, t)" and L: "deliveryLedger h s k = Some L"
  shows "simulates h s t k L"
  using run
proof (cases rule: commitDelivery_cases)
  case unchanged
  show ?thesis by (rule simulates_stutter[OF L deliveryLedger_unlogged[OF unchanged(1)]])
next
  case visible
  have "k \<noteq> msg_id (dc_message c)" using visible(4) L by (auto simp: deliveryLedger_Some map_has_def)
  then show ?thesis
    using committed_other_ledger(1)[OF inv visible(1,9)] deliveryLedger_unlogged[OF visible(6)]
    by (intro simulates_stutter[OF L]) metis
qed

lemma quiet_step_simulates:
  assumes inv: "store_inv h s" and step: "quiet_step h s t" and L: "deliveryLedger h s k = Some L"
  shows "simulates h s t k L"
  using step
proof (cases rule: quiet_step.cases)
  case (step_commit hook c now r)
  then show ?thesis using commit_simulates[OF inv _ L] by blast
next
  case (step_begin a hook r)
  show ?thesis using call_simulates[OF inv call_begin[OF refl step_begin(1,2)] L] by blast
next
  case (step_completion hook cp r)
  show ?thesis using call_simulates[OF inv call_complete[OF refl step_completion] L] by blast
next
  case (step_append hook e r)
  show ?thesis using call_simulates[OF inv call_append[OF refl step_append] L] by blast
next
  case (step_local_state hook k' y u r)
  show ?thesis using call_simulates[OF inv call_local[OF step_local_state] L] by blast
next
  case (step_create now e claim rc)
  show ?thesis
  proof (cases "t = s")
    case False
    then show ?thesis using step_create
      by (intro simulates_email[OF L, of t "em_id e" e]) (auto simp: createEmail_def split: option.splits if_splits)
  qed (use L in \<open>simp add: simulates_stutter\<close>)
next
  case (step_claim k' attempt now re)
  show ?thesis
  proof (cases "t = s")
    case False
    then obtain e where "t = s\<lparr>m_emails := map_set k' e (m_emails s)\<rparr>"
      using step_claim by (auto simp: claimEmailForSend_def Let_def split: option.splits if_splits)
    then show ?thesis by (intro simulates_email[OF L, of t k' e]) simp_all
  qed (use L in \<open>simp add: simulates_stutter\<close>)
next
  case (step_update updates k' fs re)
  show ?thesis
  proof (cases "t = s")
    case False
    then obtain e where "t = s\<lparr>m_emails := map_set k' e (m_emails s)\<rparr>"
      using step_update by (auto simp: updateEmail_def split: option.splits if_splits)
    then show ?thesis by (intro simulates_email[OF L, of t k' e]) simp_all
  qed (use L in \<open>simp add: simulates_stutter\<close>)
next
  case (step_reschedule k' due now re)
  show ?thesis
  proof (cases "t = s")
    case False
    then obtain e m b where "map_get (m_messages s) k' = Some m"
      and "t = s\<lparr>m_emails := map_set k' e (m_emails s),
        m_messages := map_set k' (m\<lparr>msg_scheduled_at := Some due, msg_status := Msg_scheduled,
          msg_updated_at := to_iso now\<rparr>) (m_messages s), m_outbox := b\<rparr>"
      using step_reschedule by (auto simp: rescheduleEmailAndOutbox_def Let_def split: option.splits if_splits)
    then show ?thesis
      by (intro simulates_message[OF L, of k' m "m\<lparr>msg_scheduled_at := Some due, msg_status := Msg_scheduled,
          msg_updated_at := to_iso now\<rparr>" t e]) simp_all
  qed (use L in \<open>simp add: simulates_stutter\<close>)
qed

lemma settle_ledger:
  assumes "settle_outcome s i owner f ok (r, t)"
  shows "deliveryLedger h t k = deliveryLedger h s k"
proof -
  consider "unlogged t = unlogged s"
    | x p where "unlogged t = (with_outbox (map_set i (f x) (m_outbox s)) (unlogged s))\<lparr>m_publish_failures := p\<rparr>"
    using assms unfolding settle_outcome_def prod.case by blast
  then show ?thesis
  proof cases
    case 1
    then show ?thesis using deliveryLedger_unlogged[OF 1] by metis
  next
    case 2
    note u = unlogged_eqD[of t "with_outbox (map_set i (f x) (m_outbox s)) s\<lparr>m_publish_failures := p\<rparr>"]
    have "unlogged t = unlogged (with_outbox (map_set i (f x) (m_outbox s)) s\<lparr>m_publish_failures := p\<rparr>)"
      using 2 by (simp add: with_outbox_def)
    from u[OF this] have "deliveryLedger h t = deliveryLedger h s" by (intro deliveryLedger_cong) simp_all
    then show ?thesis by simp
  qed
qed

lemma lease_ledger:
  assumes "leaseDueOutbox h hook input s = (r, t)"
  shows "deliveryLedger h t k = deliveryLedger h s k"
  using assms
proof (cases rule: lease_outcome)
  case (leasing secs n e j)
  then obtain m where u: "unlogged t = unlogged (with_outbox m s)" by (metis with_outbox_simps(3))
  from unlogged_eqD[OF u] have "deliveryLedger h t = deliveryLedger h s" by (intro deliveryLedger_cong) simp_all
  then show ?thesis by simp
qed simp

lemma store_step_simulates:
  assumes inv: "store_inv h s" and step: "store_step h s t" and L: "deliveryLedger h s k = Some L"
  shows "simulates h s t k L"
  using step
proof (cases rule: store_step.cases)
  case step_quiet
  then show ?thesis by (rule quiet_step_simulates[OF inv _ L])
next
  case (step_lease hook input r)
  then show ?thesis using L by (simp add: simulates_stutter lease_ledger)
next
  case (step_acknowledge hook i owner now r)
  then show ?thesis
    using settle_ledger[OF acknowledge_outcome[of s i owner now h hook, unfolded step_acknowledge]] L
    by (simp add: simulates_stutter)
next
  case (step_failure hook i owner category now r)
  then show ?thesis
    using settle_ledger[OF failure_outcome[of s i owner now category h hook, unfolded step_failure]] L
    by (simp add: simulates_stutter)
qed

section \<open>What runs keep\<close>

text \<open>A planner step never changes an attempt that is no longer submitting.\<close>

lemma ledger_step_keeps_settled:
  assumes inv: "ledger_inv h st" and step: "ledger_step h st st'"
    and a: "a \<in> set (dl_attempts st)" "at_status a \<noteq> At_submitting"
  shows "a \<in> set (dl_attempts st')"
  using step
proof (cases rule: ledger_step.cases)
  case (step_start b plan b')
  from step_start(2) obtain st0 where "assertLedgerState h st = Inr st0" "dl_attempts plan = dl_attempts st0 @ [b]"
    by (rule start_Inr)
  then show ?thesis using a(1) assert_of_wf inv step_start(1) by (auto simp: ledger_inv_def)
next
  case (step_complete c plan b')
  from step_complete(2) obtain st0 i b t where q: "assertLedgerState h st = Inr st0" "dl_attempts st0 ! i = b"
      "at_status b = At_submitting" "dl_attempts plan = (dl_attempts st0)[i := b']"
    by (rule completion_Inr)
  have "st0 = st" using assert_of_wf[OF _ q(1)] inv by (simp add: ledger_inv_def)
  moreover obtain j where "j < length (dl_attempts st)" "dl_attempts st ! j = a" using a(1) by (auto simp: in_set_conv_nth)
  ultimately have "j \<noteq> i" "dl_attempts st' ! j = (if i = j then b' else a)" "j < length (dl_attempts st')"
    using q a(2) step_complete(1) by auto
  then show ?thesis by (auto simp: in_set_conv_nth)
next
  case (step_event e plan e')
  from step_event(2) obtain st0 where "assertLedgerState h st = Inr st0" "dl_attempts plan = dl_attempts st0"
    by (rule event_Inr)
  then show ?thesis using a(1) assert_of_wf inv step_event(1) by (auto simp: ledger_inv_def)
next
  case (step_local x u plan)
  from step_local(2) obtain st0 where "assertLedgerState h st = Inr st0" "dl_attempts plan = dl_attempts st0"
    by (rule local_Inr)
  then show ?thesis using a(1) assert_of_wf inv step_local(1) by (auto simp: ledger_inv_def)
qed

lemma settled_attempt_stays:
  assumes "(store_step h)\<^sup>*\<^sup>* s t" "store_inv h s" "deliveryLedger h s k = Some L"
    "a \<in> set (dl_attempts L)" "at_status a \<noteq> At_submitting"
  shows "\<exists>L'. deliveryLedger h t k = Some L' \<and> a \<in> set (dl_attempts L')"
  using assms(1)
proof (induction rule: rtranclp_induct)
  case base
  then show ?case using assms by blast
next
  case (step t u)
  then obtain L' where L': "deliveryLedger h t k = Some L'" "a \<in> set (dl_attempts L')" by blast
  have inv: "store_inv h t" using store_steps_inv[OF step(1) assms(2)] .
  then have l: "ledger_inv h (ledger_of L')" using L'(1) by (simp add: store_inv_def)
  from store_step_simulates[OF inv step(2) L'(1)] obtain L'' where L'': "deliveryLedger h u k = Some L''"
    and "same_progress L' L'' \<or> ledger_step h (ledger_of L') (ledger_of L'')" by (auto simp: simulates_def)
  from this(2) have "a \<in> set (dl_attempts L'')"
  proof
    assume "ledger_step h (ledger_of L') (ledger_of L'')"
    from ledger_step_keeps_settled[OF l this, of a] show ?thesis using L'(2) assms(5) by simp
  qed (use L'(2) in \<open>simp add: same_progress_def\<close>)
  then show ?case using L'' by blast
qed

lemma ledger_stays:
  "(store_step h)\<^sup>*\<^sup>* s t \<Longrightarrow> store_inv h s \<Longrightarrow> deliveryLedger h s k = Some L \<Longrightarrow> \<exists>L'. deliveryLedger h t k = Some L'"
proof (induction rule: rtranclp_induct)
  case (step t u)
  then obtain L' where L': "deliveryLedger h t k = Some L'" by blast
  show ?case
    using store_step_simulates[OF store_steps_inv[OF step(1) step(4)] step(2) L'] by (auto simp: simulates_def)
qed blast

text \<open>A provider event, once stored, stays as it is.\<close>

lemma plan_outcome_events:
  assumes out: "plan_outcome h s k planned (r, t)" and e: "map_get (m_events s) i = Some e"
    and new: "\<And>plan a e L. planned plan a (Some e) L \<Longrightarrow> \<not> map_has (m_events s) (ev_id e)"
  shows "map_get (m_events t) i = Some e"
proof -
  consider "unlogged t = unlogged s"
    | L and plan :: delivery_ledger_plan and a ev where "planned plan a ev L" "unlogged t = unlogged (apply_plan plan a ev s)"
    using out unfolding plan_outcome_def prod.case by blast
  then show ?thesis
  proof cases
    case 1
    then show ?thesis using e unlogged_eqD(6)[OF 1] by simp
  next
    case 2
    then show ?thesis
      using e new unlogged_eqD(6)[OF 2(2)] by (cases ev) (auto simp: apply_plan_def put_all_def map_has_def)
  qed
qed

lemma store_step_event:
  assumes step: "store_step h s t" and e: "map_get (m_events s) i = Some e"
  shows "map_get (m_events t) i = Some e"
  using step
proof (cases rule: store_step.cases)
  case step_quiet
  then show ?thesis
  proof (cases rule: quiet_step.cases)
    case (step_commit hook c now r)
    from step_commit show ?thesis
    proof (cases rule: commitDelivery_cases)
      case unchanged
      then show ?thesis using e unlogged_eqD(6)[OF unchanged(1)] by simp
    next
      case visible
      then show ?thesis using e unlogged_eqD(6)[OF visible(6)] by (simp add: committed_def)
    qed
  next
    case (step_begin a hook r)
    show ?thesis by (rule plan_outcome_events[OF begin_outcome[of h s a hook, unfolded step_begin(2)] e]) simp
  next
    case (step_completion hook cp r)
    show ?thesis by (rule plan_outcome_events[OF complete_outcome[of h s cp hook, unfolded step_completion] e]) simp
  next
    case (step_append hook ev r)
    show ?thesis by (rule plan_outcome_events[OF append_outcome[of h s ev hook, unfolded step_append] e]) auto
  next
    case (step_local_state hook k y u r)
    show ?thesis by (rule plan_outcome_events[OF local_outcome[of h s k y u hook, unfolded step_local_state] e]) simp
  qed (use e in \<open>auto simp: createEmail_def claimEmailForSend_def updateEmail_def rescheduleEmailAndOutbox_def Let_def
         split: option.splits if_splits\<close>)
next
  case (step_lease hook input r)
  from step_lease show ?thesis
  proof (cases rule: lease_outcome)
    case (leasing secs n x j)
    then obtain m where u: "unlogged t = unlogged (with_outbox m s)" by (metis with_outbox_simps(3))
    from unlogged_eqD(6)[OF u] show ?thesis using e by simp
  qed (use e in simp)
next
  case (step_acknowledge hook k owner now r)
  then show ?thesis
    using acknowledge_outcome[of s k owner now h hook] e by (auto simp: settle_outcome_def dest: arg_cong[where f = m_events])
next
  case (step_failure hook k owner category now r)
  then show ?thesis
    using failure_outcome[of s k owner now category h hook] e by (auto simp: settle_outcome_def dest: arg_cong[where f = m_events])
qed

lemma event_stays:
  "(store_step h)\<^sup>*\<^sup>* s t \<Longrightarrow> map_get (m_events s) i = Some e \<Longrightarrow> map_get (m_events t) i = Some e"
  by (induction rule: rtranclp_induct) (auto intro: store_step_event)

end
