(* ===== verification/Store_Ledger_Properties.thy ===== *)
theory Store_Ledger_Properties
  imports Commit_Properties Store_Simulation
begin

text \<open>
  The properties of the delivery ledger as the store keeps it: every ledger operation is a
  step of the abstract ledger protocol or leaves the store alone, whatever the hook does;
  in every reachable store a message is accepted by its provider at most once; and repeated
  attempts and events are recognised.
\<close>

section \<open>The operations with a silent hook\<close>

lemma announce_recipients_silent: "\<exists>t. announce_recipients silent i rs s = (Inr (), t)"
  by (induction rs arbitrary: i s) (simp_all add: sx_simps silent_hook bindS_def)

lemma commit_plan_silent:
  obtains t where "commitLedgerPlan silent plan a e s = (Inr (), t)" "unlogged t = unlogged (apply_plan plan a e s)"
proof -
  obtain r t where run: "commitLedgerPlan silent plan a e s = (r, t)" by fastforce
  obtain u where ann: "announce_recipients silent 0 (dl_recipients plan)
      (s\<lparr>m_mutations := (m_mutations s @ [Mut_ledger Ent_email]) @ [Mut_ledger Ent_message]\<rparr>) = (Inr (), u)"
    using announce_recipients_silent by blast
  have "\<exists>v. announce_plan silent plan a e s = (Inr (), v)"
    using ann by (cases "a = None"; cases "e = None") (simp_all add: announce_plan_def sx_simps silent_hook bindS_def)
  then have "r = Inr ()"
    using run by (auto simp: commitLedgerPlan_def sx_simps bindS_def)
  then show thesis using that commit_plan_cases[OF run] run by auto
qed

lemma silent_plan:
  assumes inv: "store_inv h s" and fits: "plan_fits h s k plan a e"
  obtains t M where "commitLedgerPlan silent plan a e s = (Inr (), t)" "deliveryLedger h t k = Some M"
    "ledger_of M = ledger_of plan" "unlogged t = unlogged (apply_plan plan a e s)"
proof -
  obtain t where t: "commitLedgerPlan silent plan a e s = (Inr (), t)" "unlogged t = unlogged (apply_plan plan a e s)"
    by (rule commit_plan_silent)
  obtain M where "deliveryLedger h (apply_plan plan a e s) k = Some M" "ledger_of M = ledger_of plan"
    by (rule apply_plan_own[OF inv fits])
  then show thesis using that t deliveryLedger_unlogged[OF t(2)] by metis
qed

text \<open>The three calls, when their planner returns on the stored ledger.\<close>

lemma silent_begin:
  assumes reach: "store_reachable h s" and ok: "attempt_id_free s a" "attempt_ok h a"
    and L: "deliveryLedger h s (at_message_id a) = Some L"
    and fresh: "find (\<lambda>b. at_id b = at_id a \<or> at_sequence b = at_sequence a) (dl_attempts L) = None"
    and p: "planAttemptStart h (ledger_of L) a = Inr (plan, a)"
  obtains x t M where "beginDeliveryAttempt h silent a s = (Inr (Some x), t)" "\<not> lmr_replayed x" "store_reachable h t"
    "deliveryLedger h t (at_message_id a) = Some M" "ledger_of M = ledger_of plan"
    "unlogged t = unlogged (apply_plan plan (Some a) None s)"
proof -
  have p': "planAttemptStart h L a = Inr (plan, a)" using p by (simp add: plan_truncate)
  obtain t M where t: "commitLedgerPlan silent plan (Some a) None s = (Inr (), t)"
      "deliveryLedger h t (at_message_id a) = Some M" "ledger_of M = ledger_of plan"
      "unlogged t = unlogged (apply_plan plan (Some a) None s)"
    by (rule silent_plan[OF store_reachable_inv[OF reach] start_fits(1)[OF store_reachable_inv[OF reach] L p' ok(1)]])
  obtain x where x: "deliveryLedgerResult h t (at_message_id a) False (dl_changed_recipient_ids plan) (Some a) None = Some x"
    using t(2) by (simp add: deliveryLedgerResult_def)
  have run: "beginDeliveryAttempt h silent a s = (Inr (Some x), t)"
    using ok(2) L fresh p' t(1) x
    by (simp add: beginDeliveryAttempt_def parse_attempt_def checkE_def sx_simps bindS_def)
  show thesis
    using that[OF run _ _ t(2-4)] replayed_result[OF x] store_next[OF reach step_quiet[OF step_begin[OF ok(1) run]]] by simp
qed

lemma silent_complete:
  assumes reach: "store_reachable h s" and L: "deliveryLedger h s (cp_message_id c) = Some L"
    and open_attempt: "find (\<lambda>b. at_id b = cp_attempt_id c) (dl_attempts L) = Some b" "at_status b = At_submitting"
    and p: "planAttemptCompletion h (ledger_of L) c = Inr (plan, a)"
  obtains x t M where "completeDeliveryAttempt h silent c s = (Inr (Some x), t)" "\<not> lmr_replayed x" "store_reachable h t"
    "deliveryLedger h t (cp_message_id c) = Some M" "ledger_of M = ledger_of plan"
    "unlogged t = unlogged (apply_plan plan (Some a) None s)"
proof -
  have p': "planAttemptCompletion h L c = Inr (plan, a)" using p by (simp add: plan_truncate)
  obtain t M where t: "commitLedgerPlan silent plan (Some a) None s = (Inr (), t)"
      "deliveryLedger h t (cp_message_id c) = Some M" "ledger_of M = ledger_of plan"
      "unlogged t = unlogged (apply_plan plan (Some a) None s)"
    by (rule silent_plan[OF store_reachable_inv[OF reach] completion_fits[OF store_reachable_inv[OF reach] L p']])
  obtain x where x: "deliveryLedgerResult h t (cp_message_id c) False (dl_changed_recipient_ids plan) (Some a) None = Some x"
    using t(2) by (simp add: deliveryLedgerResult_def)
  have run: "completeDeliveryAttempt h silent c s = (Inr (Some x), t)"
    using L open_attempt p' t(1) x by (simp add: completeDeliveryAttempt_def sx_simps bindS_def)
  show thesis
    using that[OF run _ _ t(2-4)] replayed_result[OF x] store_next[OF reach step_quiet[OF step_completion[OF run]]] by simp
qed

lemma silent_append:
  assumes reach: "store_reachable h s" and ok: "event_ok h e" "map_get (m_events s) (ev_id e) = None"
    and L: "deliveryLedger h s (ev_message_id e) = Some L"
    and p: "planProviderEvent h (ledger_of L) e = Inr (plan, e)"
  obtains x t M where "appendProviderEvent h silent e s = (Inr (Some x), t)" "\<not> lmr_replayed x" "store_reachable h t"
    "deliveryLedger h t (ev_message_id e) = Some M" "ledger_of M = ledger_of plan"
    "unlogged t = unlogged (apply_plan plan None (Some e) s)"
proof -
  have p': "planProviderEvent h L e = Inr (plan, e)" using p by (simp add: plan_truncate)
  have fresh: "\<not> map_has (m_events s) (ev_id e)" using ok(2) by (simp add: map_has_def)
  obtain t M where t: "commitLedgerPlan silent plan None (Some e) s = (Inr (), t)"
      "deliveryLedger h t (ev_message_id e) = Some M" "ledger_of M = ledger_of plan"
      "unlogged t = unlogged (apply_plan plan None (Some e) s)"
    by (rule silent_plan[OF store_reachable_inv[OF reach] event_fits(1)[OF store_reachable_inv[OF reach] L p' fresh]])
  obtain x where x: "deliveryLedgerResult h t (ev_message_id e) False (dl_changed_recipient_ids plan) None (Some e) = Some x"
    using t(2) by (simp add: deliveryLedgerResult_def)
  have run: "appendProviderEvent h silent e s = (Inr (Some x), t)"
    using ok L p' t(1) x by (simp add: appendProviderEvent_def parse_event_def checkE_def sx_simps bindS_def)
  show thesis
    using that[OF run _ _ t(2-4)] replayed_result[OF x] store_next[OF reach step_quiet[OF step_append[OF run]]] by simp
qed

section \<open>A message that is committed, handed over, accepted and reported on\<close>

lemma demo_ledger_in_store:
  obtains L where "deliveryLedger demo_host demo_store demo_id = Some L" "ledger_of L = demo_ledger"
proof -
  have r: "those (map (map_get (m_recipients demo_store)) (msg_recipient_ids demo_message)) = Some demo_recipients"
    unfolding demo_store_maps using those_put_all[of rc_id demo_recipients "[]"] by simp
  have "deliveryLedger demo_host demo_store demo_id = Some \<lparr>dl_email = demo_email, dl_message = demo_message,
      dl_recipients = demo_recipients, dl_attempts = [], dls_events = []\<rparr>"
    using r by (simp add: deliveryLedger_Some demo_store_maps(2-5) map_values_def js_sort_def del: those.simps list.map(2))
  then show thesis
    using that by (simp add: delivery_ledger_state.truncate_def demo_ledger_def)
qed

lemma demo_started_run:
  obtains x t M where "beginDeliveryAttempt demo_host silent demo_submitting demo_store = (Inr (Some x), t)"
    "\<not> lmr_replayed x" "store_reachable demo_host t" "deliveryLedger demo_host t demo_id = Some M"
    "ledger_of M = ledger_of demo_started" "m_events t = []"
proof -
  obtain L where L: "deliveryLedger demo_host demo_store demo_id = Some L" "ledger_of L = demo_ledger"
    by (rule demo_ledger_in_store)
  have L': "deliveryLedger demo_host demo_store (at_message_id demo_submitting) = Some L" using L(1) by simp
  have free: "attempt_id_free demo_store demo_submitting" by (simp add: attempt_id_free_def demo_store_maps)
  have "dl_attempts L = []" using arg_cong[where f = dl_attempts, OF L(2)] by simp
  then have fresh: "find (\<lambda>b. at_id b = at_id demo_submitting \<or> at_sequence b = at_sequence demo_submitting) (dl_attempts L) = None"
    by simp
  have p: "planAttemptStart demo_host (ledger_of L) demo_submitting = Inr (demo_started, demo_submitting)"
    using demo_start L(2) by simp
  obtain x t M where run: "beginDeliveryAttempt demo_host silent demo_submitting demo_store = (Inr (Some x), t)"
      "\<not> lmr_replayed x" "store_reachable demo_host t" "deliveryLedger demo_host t (at_message_id demo_submitting) = Some M"
      "ledger_of M = ledger_of demo_started" "unlogged t = unlogged (apply_plan demo_started (Some demo_submitting) None demo_store)"
    by (rule silent_begin[OF demo_store_reachable free _ L' fresh p]) (simp_all add: is_safe_int_def)
  have "m_events t = []" using unlogged_eqD(6)[OF run(6)] by (simp add: apply_plan_def put_all_def demo_store_maps)
  then show thesis using that run by simp
qed

lemma demo_accepted_run:
  obtains s L x t M where "store_reachable demo_host s" "deliveryLedger demo_host s demo_id = Some L"
    "completeDeliveryAttempt demo_host silent demo_accepting s = (Inr (Some x), t)"
    "\<not> lmr_replayed x" "store_reachable demo_host t" "deliveryLedger demo_host t demo_id = Some M"
    "ledger_of M = ledger_of demo_accepted" "m_events t = []"
proof -
  obtain x s L where s: "beginDeliveryAttempt demo_host silent demo_submitting demo_store = (Inr (Some x), s)"
      "store_reachable demo_host s" "deliveryLedger demo_host s demo_id = Some L"
      "ledger_of L = ledger_of demo_started" "m_events s = []"
    by (rule demo_started_run)
  have c: "cp_message_id demo_accepting = demo_id" "cp_attempt_id demo_accepting = at_id demo_submitting"
    by (simp_all add: demo_accepting_def demo_completion_def)
  have "dl_attempts L = [demo_submitting]"
    using arg_cong[where f = dl_attempts, OF s(4)] by (simp add: demo_started_fields)
  then have found: "find (\<lambda>b. at_id b = cp_attempt_id demo_accepting) (dl_attempts L) = Some demo_submitting"
    by (simp add: c)
  have p: "planAttemptCompletion demo_host (ledger_of L) demo_accepting = Inr (demo_accepted, demo_accepted_attempt)"
    using demo_complete s(4) by simp
  obtain y t M where t: "completeDeliveryAttempt demo_host silent demo_accepting s = (Inr (Some y), t)"
      "\<not> lmr_replayed y" "store_reachable demo_host t" "deliveryLedger demo_host t (cp_message_id demo_accepting) = Some M"
      "ledger_of M = ledger_of demo_accepted"
      "unlogged t = unlogged (apply_plan demo_accepted (Some demo_accepted_attempt) None s)"
    by (rule silent_complete[OF s(2) _ found _ p]) (simp_all add: c s(3))
  have "m_events t = []" using unlogged_eqD(6)[OF t(6)] s(5) by (simp add: apply_plan_def put_all_def)
  then show thesis using that s(2,3) t(1-5) by (simp add: c)
qed

lemma demo_delivered_run:
  obtains s x t where "store_reachable demo_host s"
    "appendProviderEvent demo_host silent (demo_event Ev_delivered (demo_time 30)) s = (Inr (Some x), t)"
    "\<not> lmr_replayed x" "store_reachable demo_host t"
proof -
  let ?e = "demo_event Ev_delivered (demo_time 30)"
  obtain s L where s: "store_reachable demo_host s" "deliveryLedger demo_host s demo_id = Some L"
      "ledger_of L = ledger_of demo_accepted" "m_events s = []"
    by (rule demo_accepted_run)
  have k: "ev_message_id ?e = demo_id" by (simp add: demo_event_def)
  have p: "planProviderEvent demo_host (ledger_of L) ?e = Inr (demo_delivered, ?e)" using demo_deliver s(3) by simp
  obtain x t where "appendProviderEvent demo_host silent ?e s = (Inr (Some x), t)" "\<not> lmr_replayed x" "store_reachable demo_host t"
    by (rule silent_append[OF s(1) demo_event_ok _ _ p]) (simp_all add: k s)
  then show thesis using that s(1) by blast
qed

section \<open>Properties\<close>

text \<open>
  C6. In every reachable state of the store, whatever operations ran with whatever clocks
  and injected faults, the ledger that \<open>getDeliveryLedger\<close> returns for a message passes the
  ledger check unchanged, its attempts are numbered 1, 2, 3 and so on, all but the last
  failed retryably, and at most one of them was accepted by the provider.
\<close>

theorem stored_ledger_protocol:
  assumes "store_reachable h s" and "getDeliveryLedger h k s = Some L"
  shows "assertLedgerState h L = Inr (ledger_of L)
    \<and> map at_sequence (dl_attempts L) = [1..int (length (dl_attempts L))]
    \<and> list_all (\<lambda>a. at_status a = At_retryable_failed) (butlast (dl_attempts L))
    \<and> length (filter (\<lambda>a. at_status a = At_accepted) (dl_attempts L)) \<le> 1"
proof -
  have "ledger_inv h (ledger_of L)"
    using store_reachable_inv[OF assms(1)] assms(2) by (simp add: store_inv_def getDeliveryLedger_def)
  moreover have "assertLedgerState h L = assertLedgerState h (ledger_of L)"
    by (simp add: assertLedgerState_def Let_def cong: if_cong)
  ultimately show ?thesis using ledger_inv_protocol[of h "ledger_of L"] by simp
qed

theorem stored_ledger_protocol_witness:
  "\<exists>s L. store_reachable demo_host s \<and> getDeliveryLedger demo_host demo_id s = Some L
     \<and> dl_attempts L = [demo_accepted_attempt] \<and> assertLedgerState demo_host L = Inr (ledger_of L)"
proof -
  obtain s L where s: "store_reachable demo_host s" "deliveryLedger demo_host s demo_id = Some L"
      "ledger_of L = ledger_of demo_accepted"
    by (rule demo_accepted_run)
  have "dl_attempts L = [demo_accepted_attempt]"
    using arg_cong[where f = dl_attempts, OF s(3)] by (simp add: demo_accepted_def)
  then show ?thesis
    using stored_ledger_protocol[OF s(1), of demo_id L] s(1,2) by (auto simp: getDeliveryLedger_def)
qed

text \<open>
  C7. Every call of the ledger port refines the abstract ledger: on a reachable store the
  call either leaves the stored maps as they were (it threw, found nothing, or replayed an
  earlier call) or takes the ledger of its message one planner step further, returns
  exactly the new ledger, and leaves the ledgers of all other messages and the outbox alone.
\<close>

theorem ledger_operations_refine:
  assumes "store_reachable h s" and "ledger_call h hook k s r t"
  shows "(delivery_view t = delivery_view s \<and> (\<forall>x. r = Inr (Some x) \<longrightarrow> lmr_replayed x))
    \<or> (\<exists>L L' x. deliveryLedger h s k = Some L \<and> deliveryLedger h t k = Some L' \<and> ledger_step h (ledger_of L) (ledger_of L')
         \<and> r = Inr (Some x) \<and> \<not> lmr_replayed x \<and> ledger_of x = ledger_of L'
         \<and> (\<forall>k'. k' \<noteq> k \<longrightarrow> deliveryLedger h t k' = deliveryLedger h s k') \<and> m_outbox t = m_outbox s)"
  by (rule ledger_call_refines[OF store_reachable_inv[OF assms(1)] assms(2)])

theorem ledger_operations_refine_witness:
  "\<exists>s t L L' x. store_reachable demo_host s
     \<and> completeDeliveryAttempt demo_host silent demo_accepting s = (Inr (Some x), t)
     \<and> deliveryLedger demo_host s demo_id = Some L \<and> deliveryLedger demo_host t demo_id = Some L'
     \<and> ledger_step demo_host (ledger_of L) (ledger_of L') \<and> ledger_of x = ledger_of L' \<and> m_outbox t = m_outbox s"
proof -
  obtain s x t where s: "store_reachable demo_host s"
      "completeDeliveryAttempt demo_host silent demo_accepting s = (Inr (Some x), t)" "\<not> lmr_replayed x"
    by (rule demo_accepted_run)
  have "ledger_call demo_host silent demo_id s (Inr (Some x)) t"
    by (rule call_complete[OF _ s(2)]) (simp add: demo_accepting_def demo_completion_def)
  from ledger_operations_refine[OF s(1) this] s show ?thesis by auto
qed

text \<open>
  Every step of the store, the outbox, email and commit operations included, simulates
  the ledger protocol message by message: the ledger of a stored message keeps its
  recipients, attempts and events or makes one planner step, and it never disappears.
\<close>

theorem store_simulates_ledger:
  assumes "store_reachable h s" and "store_step h s t" and "deliveryLedger h s k = Some L"
  shows "\<exists>L'. deliveryLedger h t k = Some L' \<and>
    (dl_recipients L' = dl_recipients L \<and> dl_attempts L' = dl_attempts L \<and> dls_events L' = dls_events L
     \<or> ledger_step h (ledger_of L) (ledger_of L'))"
  using store_step_simulates[OF store_reachable_inv[OF assms(1)] assms(2,3)]
  by (simp add: simulates_def same_progress_def)

theorem store_simulates_ledger_witness:
  "\<exists>s t L. store_reachable demo_host s \<and> store_step demo_host s t \<and> deliveryLedger demo_host s demo_id = Some L
     \<and> deliveryLedger demo_host t demo_id \<noteq> None"
proof -
  obtain s L x t where s: "store_reachable demo_host s" "deliveryLedger demo_host s demo_id = Some L"
      "completeDeliveryAttempt demo_host silent demo_accepting s = (Inr (Some x), t)"
    by (rule demo_accepted_run)
  have step: "store_step demo_host s t" by (rule step_quiet[OF step_completion[OF s(3)]])
  from store_simulates_ledger[OF s(1) step s(2)] s(1,2) step show ?thesis by blast
qed

text \<open>A proposed attempt changes nothing once one of the attempts is settled.\<close>

lemma begin_when_settled:
  assumes inv: "store_inv h t" and L: "deliveryLedger h t k = Some L" "a \<in> set (dl_attempts L)"
    and settled: "at_status a \<in> {At_accepted, At_permanent_failed}"
    and run: "at_message_id b = k" "beginDeliveryAttempt h hook b t = (r, u)"
  shows "u = t \<and> (isl r \<or> b \<in> set (dl_attempts L) \<and> (\<exists>x. r = Inr (Some x) \<and> lmr_replayed x))"
proof -
  have "isl (planAttemptStart h (ledger_of L) b)"
    using settled_no_start[of h "ledger_of L" a b] L inv settled by (auto simp: store_inv_def)
  then have "isl (planAttemptStart h L b)" by (simp add: plan_truncate)
  then show ?thesis
    using run L(1)
    by (auto simp: beginDeliveryAttempt_def parse_attempt_def checkE_def sx_simps bindS_def isl_def find_Some_iff
        deliveryLedgerResult_def delivery_ledger_snapshot.extend_def
        split: if_splits option.splits sum.splits)
qed

text \<open>
  C18. A message the provider has accepted, or rejected for good, is never handed over
  again: after any further operations its settled attempt is still in the ledger as it was,
  and a call that proposes an attempt for the message changes nothing and either throws or
  replays an attempt that is already there.
\<close>

theorem settled_message_not_resubmitted:
  assumes "store_reachable h s" and "getDeliveryLedger h k s = Some L"
    and "a \<in> set (dl_attempts L)" and "at_status a \<in> {At_accepted, At_permanent_failed}"
    and "(store_step h)\<^sup>*\<^sup>* s t" and "at_message_id b = k" and "beginDeliveryAttempt h hook b t = (r, u)"
  shows "\<exists>L'. getDeliveryLedger h k t = Some L' \<and> a \<in> set (dl_attempts L') \<and> delivery_view u = delivery_view t
    \<and> (isl r \<or> b \<in> set (dl_attempts L') \<and> (\<exists>x. r = Inr (Some x) \<and> lmr_replayed x))"
proof -
  have inv: "store_inv h t" using store_steps_inv[OF assms(5) store_reachable_inv[OF assms(1)]] .
  obtain L' where L': "deliveryLedger h t k = Some L'" "a \<in> set (dl_attempts L')"
    using settled_attempt_stays[OF assms(5) store_reachable_inv[OF assms(1)] _ assms(3), of k] assms(2,4)
    by (auto simp: getDeliveryLedger_def)
  have "u = t \<and> (isl r \<or> b \<in> set (dl_attempts L') \<and> (\<exists>x. r = Inr (Some x) \<and> lmr_replayed x))"
    by (rule begin_when_settled[OF inv L' assms(4,6,7)])
  then show ?thesis using L' by (auto simp: getDeliveryLedger_def)
qed

theorem settled_message_not_resubmitted_witness:
  "\<exists>s r u. store_reachable demo_host s
     \<and> beginDeliveryAttempt demo_host silent (demo_attempt demo_at2 2 (demo_time 40)) s = (r, u)
     \<and> isl r \<and> delivery_view u = delivery_view s"
proof -
  let ?b = "demo_attempt demo_at2 2 (demo_time 40)"
  obtain s L where s: "store_reachable demo_host s" "deliveryLedger demo_host s demo_id = Some L"
      "ledger_of L = ledger_of demo_accepted"
    by (rule demo_accepted_run)
  have as: "dl_attempts L = [demo_accepted_attempt]"
    using arg_cong[where f = dl_attempts, OF s(3)] by (simp add: demo_accepted_def)
  obtain r u where run: "beginDeliveryAttempt demo_host silent ?b s = (r, u)" by fastforce
  have "?b \<noteq> demo_accepted_attempt" by (simp add: demo_attempt_def demo_accepted_attempt_def)
  then show ?thesis
    using settled_message_not_resubmitted[OF s(1), of demo_id L demo_accepted_attempt s ?b silent r u] s(1,2) as run
    by (auto simp: getDeliveryLedger_def demo_accepted_attempt_def demo_attempt_def)
qed

text \<open>
  C19. A provider event takes effect once: after it was appended, and after any further
  operations, appending an event with the same identity changes nothing; it is reported as
  a replay when it is the same event received at another time, and throws otherwise.
\<close>

theorem event_applied_once:
  assumes "store_reachable h s" and "appendProviderEvent h hook e s = (Inr (Some x), t)" and "\<not> lmr_replayed x"
    and "(store_step h)\<^sup>*\<^sup>* t u" and "ev_id e' = ev_id e" and "appendProviderEvent h hook' e' u = (r, v)"
  shows "getProviderEvent (ev_id e) u = Some e \<and> v = u
    \<and> (if event_ok h e' \<and> e'\<lparr>ev_received_at := []\<rparr> = e\<lparr>ev_received_at := []\<rparr>
       then \<exists>y. r = Inr (Some y) \<and> lmr_replayed y \<and> lmr_event y = Some e else isl r)"
proof -
  have inv: "store_inv h s" by (rule store_reachable_inv[OF assms(1)])
  obtain L and plan :: delivery_ledger_plan where p: "deliveryLedger h s (ev_message_id e) = Some L"
      "planProviderEvent h L e = Inr (plan, e)" "unlogged t = unlogged (apply_plan plan None (Some e) s)"
    using append_outcome[of h s e hook, unfolded assms(2)] assms(3) unfolding plan_outcome_def prod.case by blast
  have "event_ok h e" using event_Inr[of h "ledger_of L" e plan e] p(2) plan_truncate(3)[of h L e] by metis
  have "map_get (m_events t) (ev_id e) = Some e"
    using unlogged_eqD(6)[OF p(3)] by (simp add: apply_plan_def put_all_def)
  then have u: "map_get (m_events u) (ev_id e) = Some e" by (rule event_stays[OF assms(4)])
  have "(store_step h)\<^sup>*\<^sup>* s u"
    using converse_rtranclp_into_rtranclp[OF step_quiet[OF step_append[OF assms(2)]] assms(4)] .
  then obtain M where M: "deliveryLedger h u (ev_message_id e) = Some M"
    using ledger_stays[OF _ inv p(1)] by blast
  show ?thesis
  proof (cases "event_ok h e'")
    case False
    then show ?thesis
      using assms(6) u by (auto simp: appendProviderEvent_def getProviderEvent_def parse_event_def checkE_def sx_simps bindS_def)
  next
    case True
    have eq: "isEquivalentProviderEventReplay h e e' = Inr (e\<lparr>ev_received_at := []\<rparr> = e'\<lparr>ev_received_at := []\<rparr>)"
      using True \<open>event_ok h e\<close> by (simp add: isEquivalentProviderEventReplay_def parse_event_def checkE_def)
    obtain y where y: "deliveryLedgerResult h u (ev_message_id e) True [] None (Some e) = Some y" "lmr_event y = Some e"
      using M by (simp add: deliveryLedgerResult_def delivery_ledger_snapshot.extend_def)
    show ?thesis
      using assms(5,6) u True eq y replayed_result[OF y(1)]
      by (auto simp: appendProviderEvent_def getProviderEvent_def parse_event_def checkE_def sx_simps bindS_def)
  qed
qed

theorem event_applied_once_witness:
  "\<exists>t y. store_reachable demo_host t
     \<and> appendProviderEvent demo_host silent (demo_event Ev_delivered (demo_time 30)) t = (Inr (Some y), t) \<and> lmr_replayed y"
proof -
  let ?e = "demo_event Ev_delivered (demo_time 30)"
  obtain s x t where s: "store_reachable demo_host s" "appendProviderEvent demo_host silent ?e s = (Inr (Some x), t)"
      "\<not> lmr_replayed x" "store_reachable demo_host t"
    by (rule demo_delivered_run)
  obtain r v where run: "appendProviderEvent demo_host silent ?e t = (r, v)" by fastforce
  from event_applied_once[OF s(1-3) rtranclp.rtrancl_refl refl run] demo_event_ok s(4) run show ?thesis by auto
qed

end
