(* ===== verification/Outbox_Properties.thy ===== *)
theory Outbox_Properties
  imports Commit_Properties
begin

text \<open>
  The properties of the transactional outbox as the store keeps it: what a lease hands out,
  that a leased item belongs to its holder until the lease expires, that a dispatched item
  is final, who can settle an item, and what the metrics count.
\<close>

section \<open>Hosts that collate\<close>

locale collating_host =
  fixes h :: host
  assumes host_collation: "collation (h_collate h)"
begin

lemma outbox_comparator: "comparator (outbox_order h)"
  unfolding outbox_order_def by (rule collation.two_keys[OF host_collation])

end

sublocale collating_host \<subseteq> due: comparator "outbox_order h"
  by (rule outbox_comparator)

context collating_host
begin

lemma due_outbox_first:
  assumes "x \<in> set (take n (due_outbox h now s))" "y \<in> set (drop n (due_outbox h now s))"
  shows "outbox_order h x y \<le> 0"
  using assms unfolding due_outbox_def by (rule due.sorted_prefix_least)

lemma due_outbox_sorted: "sorted_wrt (\<lambda>x y. outbox_order h x y \<le> 0) (due_outbox h now s)"
  unfolding due_outbox_def by (rule due.sorted_js_sort)

end

interpretation demo: collating_host demo_host
  by (simp add: collating_host_def demo_host_def code_units.collation_axioms)

section \<open>A lease of the demonstration item\<close>

definition demo_lease :: "string \<Rightarrow> int \<Rightarrow> lease_due_input" where
  "demo_lease owner n = \<lparr>lo_owner = owner, lo_now = demo_now + 1000 * n, lo_lease_seconds = Num 60, lo_limit = Num 10\<rparr>"

definition demo_leased :: outbox_record where
  "demo_leased = leased_item demo_outbox ''worker-1'' (demo_time 65) (demo_time 5)"

definition demo_leased_store :: mem where
  "demo_leased_store = snd (leaseDueOutbox demo_host silent (demo_lease ''worker-1'' 5) demo_store)"

lemma demo_owner_ok: "is_lease_owner ''worker-1''" "is_lease_owner ''worker-2''"
  by code_simp+

lemma demo_leased_ok: "outbox_ok demo_host demo_leased"
proof -
  have "is_outbox_identity ''outbox:v1:email_0123456789abcdef:dispatch-message:0''"
    "createOutboxIdentity demo_id Dispatch_message 0 = Inr ''outbox:v1:email_0123456789abcdef:dispatch-message:0''"
      "is_provider_opaque_id ''worker-1''"
    by code_simp+
  then show ?thesis
    by (simp add: outbox_ok_def demo_leased_def leased_item_def demo_outbox_def is_safe_int_def updated_at_ok_def)
qed

lemma demo_due: "due_outbox demo_host (demo_now + 1000 * n) demo_store = (if 0 \<le> n then [demo_outbox] else [])"
  by (simp add: due_outbox_def demo_store_maps map_values_def outbox_is_due_def demo_outbox_def date_le_def)

lemma demo_lease_run:
  "leaseDueOutbox demo_host silent (demo_lease ''worker-1'' 5) demo_store = (Inr [demo_leased], demo_leased_store)"
  "m_outbox demo_leased_store = [(ob_id demo_outbox, demo_leased)]"
proof -
  have v: "valid_time (demo_now + 1000 * 5 + 60 * 1000)" using demo_time_valid[of 65] by (simp add: add.commute)
  have t: "to_iso (demo_now + 1000 * 5 + 60 * 1000) = demo_time 65" "to_iso (demo_now + 1000 * 5) = demo_time 5"
    by (simp_all add: demo_time_def add.commute)
  have "leaseDueOutbox demo_host silent (demo_lease ''worker-1'' 5) demo_store
      = lease_each demo_host silent ''worker-1'' (demo_time 65) (demo_time 5) [demo_outbox] demo_store"
    using lease_run[of "demo_lease ''worker-1'' 5" 60 10 demo_host silent demo_store] v t demo_owner_ok demo_due[of 5]
    by (simp add: demo_lease_def js_integer_def)
  also have "\<dots> = (Inr [demo_leased], demo_store\<lparr>m_outbox := [(ob_id demo_outbox, demo_leased)],
      m_mutations := m_mutations demo_store @ [Mut_lease]\<rparr>)"
    using demo_leased_ok demo_store_maps(1)
    by (simp add: parse_outbox_def checkE_def sx_simps bindS_def silent_hook demo_leased_def)
  finally show "leaseDueOutbox demo_host silent (demo_lease ''worker-1'' 5) demo_store = (Inr [demo_leased], demo_leased_store)"
    "m_outbox demo_leased_store = [(ob_id demo_outbox, demo_leased)]"
    by (simp_all add: demo_leased_store_def)
qed

lemma demo_leased_reachable: "store_reachable demo_host demo_leased_store"
  by (rule store_next[OF demo_store_reachable step_lease[OF demo_lease_run(1)]])

section \<open>What a successful lease does to the outbox\<close>

lemma lease_result:
  assumes inv: "store_inv h s" and run: "leaseDueOutbox h hook input s = (Inr leased, t)"
  obtains secs n where "js_integer (lo_lease_seconds input) = Some secs" "0 < secs" "js_integer (lo_limit input) = Some n"
    "0 < n" "n \<le> 1000" "valid_time (lo_now input + secs * 1000)"
    "leased = map (\<lambda>x. leased_item x (lo_owner input) (to_iso (lo_now input + secs * 1000)) (to_iso (lo_now input)))
       (take (nat n) (due_outbox h (lo_now input) s))"
    "distinct (map ob_id leased)" "m_outbox t = put_all ob_id leased (m_outbox s)"
  using run
proof (cases rule: lease_outcome)
  case (leasing secs n e k)
  let ?taken = "take (nat n) (due_outbox h (lo_now input) s)"
  have l: "leased = map (\<lambda>x. leased_item x (lo_owner input) e (to_iso (lo_now input))) ?taken" "k = length ?taken"
    using leasing(12) by blast+
  have m: "m_outbox t = put_all ob_id leased (m_outbox s)"
  proof -
    have all: "take k ?taken = ?taken" unfolding l(2) by (rule take_all[OF order_refl])
    have "unlogged t = unlogged (with_outbox (put_all ob_id leased (m_outbox s)) s)"
      using leasing(10) unfolding all l(1)[symmetric] by simp
    from unlogged_eqD(7)[OF this] show ?thesis by simp
  qed
  have "distinct (map ob_id (due_outbox h (lo_now input) s))"
    using due_outbox_distinct inv by (simp add: store_inv_def maps_keyed_def)
  then have "distinct (map ob_id ?taken)" by (simp add: take_map[symmetric] del: distinct_map)
  moreover have "map ob_id leased = map ob_id ?taken" by (simp add: l(1) comp_def)
  ultimately have "distinct (map ob_id leased)" by simp
  then show thesis by (rule that[OF leasing(1-5) leasing(8) l(1)[unfolded leasing(7)] _ m])
qed simp

lemma lease_result_item:
  assumes inv: "store_inv h s" and run: "leaseDueOutbox h hook input s = (Inr leased, t)" and x: "x \<in> set leased"
  shows "map_get (m_outbox t) (ob_id x) = Some x" "ob_lease_owner x = Some (lo_owner input)"
proof -
  obtain secs n where r: "leased = map (\<lambda>x. leased_item x (lo_owner input) (to_iso (lo_now input + secs * 1000)) (to_iso (lo_now input)))
       (take (nat n) (due_outbox h (lo_now input) s))"
    "distinct (map ob_id leased)" "m_outbox t = put_all ob_id leased (m_outbox s)"
    by (rule lease_result[OF inv run])
  show "map_get (m_outbox t) (ob_id x) = Some x" using put_all_get[OF r(2) x] r(3) by simp
  show "ob_lease_owner x = Some (lo_owner input)" using x r(1) by auto
qed

text \<open>What the holder of a lease can count on, one step of the others at a time.\<close>

lemma others_step_keeps:
  assumes step: "others_step h (ob_id x) owner e s t" and inv: "store_inv h s"
    and x: "map_get (m_outbox s) (ob_id x) = Some x" "ob_lease_owner x = Some owner"
      "ob_lease_expires_at x = Some expires" "date_parse h expires = Some e"
  shows "map_get (m_outbox t) (ob_id x) = Some x"
  using step
proof (cases rule: others_step.cases)
  case others_quiet
  then show ?thesis using quiet_step_item[OF _ inv x(1)] x(2) by simp
next
  case (others_lease input hook r)
  have "\<not> outbox_is_due h (lo_now input) x" using others_lease(1) x(3,4) by (simp add: outbox_is_due_def date_le_def)
  then show ?thesis using lease_keeps_undue(1)[OF others_lease(2) _ x(1)] inv by (simp add: store_inv_def maps_keyed_def)
next
  case (others_acknowledge k owner' hook now r)
  then show ?thesis
    using settle_other_item[OF acknowledge_outcome[of s k owner' now h hook, unfolded others_acknowledge(2)] x(1)] x(2)
    by (auto simp: owns_lease_def)
next
  case (others_failure k owner' hook category now r)
  then show ?thesis
    using settle_other_item[OF failure_outcome[of s k owner' now category h hook, unfolded others_failure(2)] x(1)] x(2)
    by (auto simp: owns_lease_def)
qed

lemma store_step_dispatched:
  assumes step: "store_step h s t" and inv: "store_inv h s" and x: "map_get (m_outbox s) i = Some x"
    and disp: "ob_dispatched_at x \<noteq> None"
  shows "map_get (m_outbox t) i = Some x"
  using step
proof (cases rule: store_step.cases)
  case step_quiet
  then show ?thesis using quiet_step_item[OF _ inv x] disp by simp
next
  case (step_lease hook input r)
  have "\<not> outbox_is_due h (lo_now input) x" using disp by (simp add: outbox_is_due_def)
  then show ?thesis using lease_keeps_undue(1)[OF step_lease _ x] inv by (simp add: store_inv_def maps_keyed_def)
next
  case (step_acknowledge hook k owner now r)
  then show ?thesis
    using settle_other_item[OF acknowledge_outcome[of s k owner now h hook, unfolded step_acknowledge] x] disp
    by (auto simp: owns_lease_def)
next
  case (step_failure hook k owner category now r)
  then show ?thesis
    using settle_other_item[OF failure_outcome[of s k owner now category h hook, unfolded step_failure] x] disp
    by (auto simp: owns_lease_def)
qed

definition demo_acknowledged :: outbox_record where
  "demo_acknowledged = demo_leased\<lparr>ob_lease_owner := None, ob_lease_expires_at := None,
     ob_dispatched_at := Some (demo_time 6), ob_updated_at := demo_time 6\<rparr>"

lemma demo_acknowledge_run:
  obtains t where "store_reachable demo_host t" "getOutboxItem (ob_id demo_outbox) t = Some demo_acknowledged"
proof -
  have ok: "outbox_ok demo_host demo_acknowledged"
    using demo_leased_ok
    by (simp add: demo_acknowledged_def demo_leased_def leased_item_def outbox_ok_def updated_at_ok_def demo_outbox_def)
  have t6: "to_iso (demo_now + 6000) = demo_time 6" by (simp add: demo_time_def)
  let ?t = "demo_leased_store\<lparr>m_outbox := [(ob_id demo_outbox, demo_acknowledged)],
      m_mutations := m_mutations demo_leased_store @ [Mut_acknowledge]\<rparr>"
  have owns: "owns_lease ''worker-1'' demo_leased" by (simp add: owns_lease_def demo_leased_def demo_outbox_def)
  have run: "acknowledgeOutbox demo_host silent (ob_id demo_outbox) ''worker-1'' (demo_now + 6000) demo_leased_store
      = (Inr True, ?t)"
    using demo_lease_run(2) ok t6 owns
    by (simp add: acknowledgeOutbox_def getOutboxItem_def sx_simps parse_outbox_def checkE_def bindS_def silent_hook
        demo_acknowledged_def)
  show thesis
    using that[OF store_next[OF demo_leased_reachable step_acknowledge[OF run]]] by (simp add: getOutboxItem_def)
qed

section \<open>Properties\<close>

text \<open>
  C32. A lease of due outbox items hands out, in order of due date and then identity, the
  first items that are undispatched, due and not under a live lease, as many as the limit
  allows and no more; each gets the caller as its owner, a fresh expiry and one more
  attempt, every other item stays as it was, and an item passed over comes after all items
  that were leased. The host's text comparison has to be a total order.
\<close>

theorem lease_hands_out_first_due:
  assumes "collation (h_collate h)" and "store_reachable h s" and "leaseDueOutbox h hook input s = (Inr leased, t)"
  shows "\<exists>n secs expires due. js_integer (lo_limit input) = Some n \<and> 0 < n \<and> n \<le> 1000
    \<and> js_integer (lo_lease_seconds input) = Some secs \<and> 0 < secs
    \<and> expires = to_iso (lo_now input + secs * 1000)
    \<and> set due = {x. getOutboxItem (ob_id x) s = Some x \<and> outbox_is_due h (lo_now input) x}
    \<and> distinct (map ob_id due) \<and> sorted_wrt (\<lambda>x y. outbox_order h x y \<le> 0) due
    \<and> leased = map (\<lambda>x. leased_item x (lo_owner input) expires (to_iso (lo_now input))) (take (nat n) due)
    \<and> (\<forall>i. getOutboxItem i t = (if i \<in> set (map ob_id leased) then find (\<lambda>x. ob_id x = i) leased else getOutboxItem i s))"
proof -
  have host: "collating_host h" by (simp add: collating_host_def assms(1))
  have key: "keyed ob_id (m_outbox s)"
    using store_reachable_inv[OF assms(2)] by (simp add: store_inv_def maps_keyed_def)
  let ?due = "due_outbox h (lo_now input) s"
  have dist: "distinct (map ob_id ?due)" by (rule due_outbox_distinct[OF key])
  have mem: "set ?due = {x. getOutboxItem (ob_id x) s = Some x \<and> outbox_is_due h (lo_now input) x}"
    using due_outbox_mem[OF key] by (auto simp: getOutboxItem_def)
  obtain secs n where r: "js_integer (lo_lease_seconds input) = Some secs" "0 < secs" "js_integer (lo_limit input) = Some n"
    "0 < n" "n \<le> 1000"
    "leased = map (\<lambda>x. leased_item x (lo_owner input) (to_iso (lo_now input + secs * 1000)) (to_iso (lo_now input)))
       (take (nat n) ?due)"
    "distinct (map ob_id leased)" "m_outbox t = put_all ob_id leased (m_outbox s)"
    by (rule lease_result[OF store_reachable_inv[OF assms(2)] assms(3)])
  have "getOutboxItem i t = (if i \<in> set (map ob_id leased) then find (\<lambda>x. ob_id x = i) leased else getOutboxItem i s)" for i
  proof (cases "i \<in> set (map ob_id leased)")
    case True
    then obtain x where x: "x \<in> set leased" "ob_id x = i" by auto
    have "find (\<lambda>x. ob_id x = i) leased = Some x" using find_key_distinct[OF r(7) x(1)] x(2) by simp
    then show ?thesis using put_all_get[OF r(7) x(1)] x True r(8) by (simp add: getOutboxItem_def)
  next
    case False
    then show ?thesis using put_all_other[OF False] r(8) by (simp add: getOutboxItem_def)
  qed
  then show ?thesis
    using r(1-5) mem dist collating_host.due_outbox_sorted[OF host, of "lo_now input" s] r(6)
    by (intro exI[of _ n] exI[of _ secs] exI[of _ "to_iso (lo_now input + secs * 1000)"] exI[of _ ?due]) simp
qed

theorem lease_hands_out_first_due_witness:
  "store_reachable demo_host demo_store
   \<and> leaseDueOutbox demo_host silent (demo_lease ''worker-1'' 5) demo_store = (Inr [demo_leased], demo_leased_store)
   \<and> getOutboxItem (ob_id demo_leased) demo_leased_store = Some demo_leased"
  using lease_hands_out_first_due[OF demo.host_collation demo_store_reachable demo_lease_run(1)]
    demo_store_reachable demo_lease_run(1) by auto

text \<open>
  C17. A leased item belongs to the caller that leased it until the lease expires: whatever
  else runs in between, other workers leasing by clocks before the expiry and settling items
  that are not theirs included, the item stays exactly as it was leased, and no other lease
  hands it out.
\<close>

theorem lease_is_exclusive:
  assumes "store_reachable h s" and "leaseDueOutbox h hook input s = (Inr leased, t)" and "x \<in> set leased"
    and "ob_lease_expires_at x = Some expires" and "date_parse h expires = Some e"
    and "(others_step h (ob_id x) (lo_owner input) e)\<^sup>*\<^sup>* t u"
    and "lo_now input' < e" and "leaseDueOutbox h hook' input' u = (r, v)"
  shows "getOutboxItem (ob_id x) u = Some x \<and> getOutboxItem (ob_id x) v = Some x
    \<and> (isl r \<or> (\<exists>leased'. r = Inr leased' \<and> ob_id x \<notin> set (map ob_id leased')))"
proof -
  have inv: "store_inv h s" by (rule store_reachable_inv[OF assms(1)])
  note x = lease_result_item[OF inv assms(2,3)]
  have "map_get (m_outbox u) (ob_id x) = Some x \<and> store_inv h u"
    using assms(6)
  proof (induction rule: rtranclp_induct)
    case base
    then show ?case using x(1) lease_inv[OF inv assms(2)] by blast
  next
    case (step u v)
    then show ?case
      using others_step_keeps[OF step(2) _ _ x(2) assms(4,5)] store_step_inv[OF others_store_step[OF step(2)]] by blast
  qed
  then have u: "map_get (m_outbox u) (ob_id x) = Some x" "keyed ob_id (m_outbox u)"
    by (simp_all add: store_inv_def maps_keyed_def)
  have nd: "\<not> outbox_is_due h (lo_now input') x" using assms(4,5,7) by (simp add: outbox_is_due_def date_le_def)
  note k = lease_keeps_undue[OF assms(8) u(2) u(1) nd]
  show ?thesis
    using k u(1) by (cases r) (auto simp: getOutboxItem_def)
qed

theorem lease_is_exclusive_witness:
  "\<exists>r v. leaseDueOutbox demo_host silent (demo_lease ''worker-2'' 64) demo_leased_store = (r, v)
     \<and> getOutboxItem (ob_id demo_leased) v = Some demo_leased"
proof -
  obtain r v where run: "leaseDueOutbox demo_host silent (demo_lease ''worker-2'' 64) demo_leased_store = (r, v)" by fastforce
  have "ob_lease_expires_at demo_leased = Some (demo_time 65)" by (simp add: demo_leased_def)
  have e: "date_parse demo_host (demo_time 65) = Some (demo_now + 65000)" by simp
  have before: "lo_now (demo_lease ''worker-2'' 64) < demo_now + 65000" by (simp add: demo_lease_def)
  from lease_is_exclusive[OF demo_store_reachable demo_lease_run(1) list.set_intros(1) \<open>ob_lease_expires_at demo_leased = _\<close>
      e rtranclp.rtrancl_refl before run]
  show ?thesis using run by blast
qed

text \<open>
  C31. A dispatched item is final: no operation of the store changes it again, however many
  run, and no lease ever hands it out.
\<close>

theorem dispatched_item_final:
  assumes "store_reachable h s" and "getOutboxItem i s = Some x" and "ob_dispatched_at x \<noteq> None"
    and "(store_step h)\<^sup>*\<^sup>* s t" and "leaseDueOutbox h hook input t = (r, u)"
  shows "getOutboxItem i t = Some x \<and> getOutboxItem i u = Some x
    \<and> (isl r \<or> (\<exists>leased. r = Inr leased \<and> i \<notin> set (map ob_id leased)))"
proof -
  have "map_get (m_outbox t) i = Some x \<and> store_inv h t"
    using assms(4)
  proof (induction rule: rtranclp_induct)
    case base
    then show ?case using assms(2) store_reachable_inv[OF assms(1)] by (simp add: getOutboxItem_def)
  next
    case (step t u)
    then show ?case
      using store_step_dispatched[OF step(2) _ _ assms(3)] store_step_inv[OF step(2)] by blast
  qed
  then have t: "map_get (m_outbox t) i = Some x" "keyed ob_id (m_outbox t)"
    by (simp_all add: store_inv_def maps_keyed_def)
  have nd: "\<not> outbox_is_due h (lo_now input) x" using assms(3) by (simp add: outbox_is_due_def)
  note k = lease_keeps_undue[OF assms(5) t(2) t(1) nd]
  show ?thesis using k t(1) by (cases r) (auto simp: getOutboxItem_def)
qed

theorem dispatched_item_final_witness:
  "\<exists>s r u. store_reachable demo_host s \<and> leaseDueOutbox demo_host silent (demo_lease ''worker-2'' 1000) s = (r, u)
     \<and> getOutboxItem (ob_id demo_outbox) u = Some demo_acknowledged"
proof -
  obtain s where s: "store_reachable demo_host s" "getOutboxItem (ob_id demo_outbox) s = Some demo_acknowledged"
    by (rule demo_acknowledge_run)
  obtain r u where run: "leaseDueOutbox demo_host silent (demo_lease ''worker-2'' 1000) s = (r, u)" by fastforce
  have "ob_dispatched_at demo_acknowledged \<noteq> None" by (simp add: demo_acknowledged_def)
  from dispatched_item_final[OF s this rtranclp.rtrancl_refl run] s(1) run show ?thesis by blast
qed

text \<open>
  Only the holder of the lease settles an item: an acknowledgement that reports success
  was made by the owner of an item that was not dispatched, and it dispatches and releases
  exactly that item; one that reports failure changes nothing; the other items, and the
  counter of publish failures, stay.
\<close>

theorem acknowledge_only_by_owner:
  assumes "store_reachable h s" and "acknowledgeOutbox h hook i owner now s = (Inr ok, t)"
  shows "if ok
    then \<exists>x. getOutboxItem i s = Some x \<and> owns_lease owner x
      \<and> getOutboxItem i t = Some (x\<lparr>ob_lease_owner := None, ob_lease_expires_at := None,
           ob_dispatched_at := Some (to_iso now), ob_updated_at := to_iso now\<rparr>)
      \<and> (\<forall>j. getOutboxItem j t = (if j = i then getOutboxItem i t else getOutboxItem j s))
    else delivery_view t = delivery_view s
      \<and> (case getOutboxItem i s of None \<Rightarrow> True | Some x \<Rightarrow> \<not> owns_lease owner x)"
proof -
  let ?f = "\<lambda>x. x\<lparr>ob_lease_owner := None, ob_lease_expires_at := None, ob_dispatched_at := Some (to_iso now), ob_updated_at := to_iso now\<rparr>"
  have out: "settle_outcome s i owner ?f (outbox_ok h) (Inr ok, t)"
    using acknowledge_outcome[of s i owner now h hook] assms(2) by simp
  show ?thesis
  proof (cases ok)
    case True
    then obtain x p where x: "map_get (m_outbox s) i = Some x" "owns_lease owner x"
        "unlogged t = (with_outbox (map_set i (?f x) (m_outbox s)) (unlogged s))\<lparr>m_publish_failures := p\<rparr>"
      using out unfolding settle_outcome_def prod.case by blast
    have "m_outbox t = map_set i (?f x) (m_outbox s)" using arg_cong[where f = m_outbox, OF x(3)] by simp
    then show ?thesis using True x(1,2) by (simp add: getOutboxItem_def)
  next
    case False
    then have f: "unlogged t = unlogged s" "\<not> (\<exists>x. map_get (m_outbox s) i = Some x \<and> owns_lease owner x)"
      using out unfolding settle_outcome_def prod.case by blast+
    show ?thesis
      using False unlogged_eqD(10)[OF f(1)] f(2) by (simp add: getOutboxItem_def split: option.split)
  qed
qed

theorem acknowledge_only_by_owner_witness:
  "\<exists>t. acknowledgeOutbox demo_host silent (ob_id demo_outbox) ''worker-2'' (demo_now + 6000) demo_leased_store = (Inr False, t)
     \<and> delivery_view t = delivery_view demo_leased_store"
proof -
  have "acknowledgeOutbox demo_host silent (ob_id demo_outbox) ''worker-2'' (demo_now + 6000) demo_leased_store
      = (Inr False, demo_leased_store)"
    using demo_lease_run(2)
    by (simp add: acknowledgeOutbox_def getOutboxItem_def sx_simps owns_lease_def demo_leased_def)
  from acknowledge_only_by_owner[OF demo_leased_reachable this] this show ?thesis by auto
qed

end
