(* ===== verification/Outbox_Metrics.thy ===== *)
theory Outbox_Metrics
  imports Outbox_Properties
begin

text \<open>
  The outbox metrics of the store: one pass over the items with counters, shown to agree
  with what the lease operation would hand out at the same time.
\<close>

section \<open>The pass over the items\<close>

text \<open>The undispatched items whose date has come, and the dates of an item.\<close>

definition outbox_matured :: "host \<Rightarrow> int \<Rightarrow> outbox_record \<Rightarrow> bool" where
  "outbox_matured h now x \<longleftrightarrow> ob_dispatched_at x = None \<and> date_le (date_parse h (ob_due_at x)) (Some now)"

definition dates_parse :: "host \<Rightarrow> outbox_record \<Rightarrow> bool" where
  "dates_parse h x \<longleftrightarrow> date_parse h (ob_due_at x) \<noteq> None \<and> opt_ok (\<lambda>l. date_parse h l \<noteq> None) (ob_lease_expires_at x)"

lemma date_less_not_le: "date_less (Some n) (Some d) \<longleftrightarrow> \<not> date_le (Some d) (Some n)"
  by (auto simp: date_less_def date_le_def)

text \<open>One iteration over an item whose dates parse.\<close>

lemma metrics_step_counts:
  assumes "dates_parse h x"
  shows "ml_undispatched (metrics_step h now x m) = ml_undispatched m + (if ob_dispatched_at x = None then 1 else 0)"
    "ml_due (metrics_step h now x m) = ml_due m + (if outbox_is_due h now x then 1 else 0)"
    "ml_leased (metrics_step h now x m) = ml_leased m
       + (if outbox_matured h now x \<and> \<not> outbox_is_due h now x then 1 else 0)"
    "ml_stuck (metrics_step h now x m) = ml_stuck m
       + (if outbox_is_due h now x \<and> ob_lease_expires_at x \<noteq> None then 1 else 0)"
    "ml_oldest (metrics_step h now x m) = (if \<not> outbox_matured h now x then ml_oldest m
       else Some (case ml_oldest m of None \<Rightarrow> date_parse h (ob_due_at x)
         | Some old \<Rightarrow> (case (old, date_parse h (ob_due_at x)) of (Some a, Some b) \<Rightarrow> Some (min a b) | _ \<Rightarrow> None)))"
  using assms
  by (cases "ob_lease_expires_at x"; auto simp: metrics_step_def Let_def outbox_matured_def outbox_is_due_def dates_parse_def
      date_less_not_le split: option.splits)+

lemma metrics_fold_counts:
  assumes "list_all (dates_parse h) xs"
  shows "ml_undispatched (fold (metrics_step h now) xs m)
      = ml_undispatched m + int (length (filter (\<lambda>x. ob_dispatched_at x = None) xs))"
    "ml_due (fold (metrics_step h now) xs m) = ml_due m + int (length (filter (outbox_is_due h now) xs))"
    "ml_leased (fold (metrics_step h now) xs m)
      = ml_leased m + int (length (filter (\<lambda>x. outbox_matured h now x \<and> \<not> outbox_is_due h now x) xs))"
    "ml_stuck (fold (metrics_step h now) xs m)
      = ml_stuck m + int (length (filter (\<lambda>x. outbox_is_due h now x \<and> ob_lease_expires_at x \<noteq> None) xs))"
  using assms by (induction xs arbitrary: m) (simp_all add: metrics_step_counts)

lemma metrics_fold_oldest:
  assumes "list_all (dates_parse h) xs" "ml_oldest m = map_option Some oldest"
  shows "ml_oldest (fold (metrics_step h now) xs m) = map_option Some
    (fold (\<lambda>d old. Some (case old of None \<Rightarrow> d | Some a \<Rightarrow> min a d))
      (map (\<lambda>x. the (date_parse h (ob_due_at x))) (filter (outbox_matured h now) xs)) oldest)"
  using assms
proof (induction xs arbitrary: m oldest)
  case (Cons x xs)
  obtain d where d: "date_parse h (ob_due_at x) = Some d" using Cons.prems(1) by (auto simp: dates_parse_def)
  show ?case
    using Cons.prems d
    by (cases oldest) (simp_all add: metrics_step_counts Cons.IH)
qed simp

lemma fold_min_Some:
  "fold (\<lambda>d old. Some (case old of None \<Rightarrow> d | Some a \<Rightarrow> min a d)) ds (Some (a :: int)) = Some (Min (insert a (set ds)))"
proof -
  have "fold (\<lambda>d old. Some (case old of None \<Rightarrow> d | Some a \<Rightarrow> min a d)) ds (Some a) = Some (fold min ds a)"
    by (induction ds arbitrary: a) (simp_all add: min.commute)
  then show ?thesis by (simp add: Min.set_eq_fold[symmetric])
qed

lemma fold_min_None:
  "fold (\<lambda>d old. Some (case old of None \<Rightarrow> d | Some a \<Rightarrow> min a d)) ds None
     = (if ds = [] then None else Some (Min (set (ds :: int list))))"
  by (cases ds) (simp_all add: fold_min_Some)

lemma metrics_counts_le:
  "length (filter (outbox_is_due h now) xs) + length (filter (\<lambda>x. outbox_matured h now x \<and> \<not> outbox_is_due h now x) xs)
     \<le> length (filter (\<lambda>x. ob_dispatched_at x = None) xs)"
  by (induction xs) (auto simp: outbox_is_due_def outbox_matured_def)

text \<open>
  The metrics agree with what the operations do: \<open>due\<close> counts exactly the items a lease
  without limit would hand out, \<open>leased\<close> the matured items it would pass over, \<open>stuck_leases\<close>
  those of the due items whose lease ran out, \<open>undispatched\<close> all that are not dispatched, so
  that due and leased never exceed undispatched; and the age is that of the earliest due
  date among the matured items, or zero when there is none. The dates of the items parse.
\<close>

theorem metrics_agree_with_leases:
  assumes "list_all (dates_parse h) (map_values (m_outbox s))"
  shows "om_due (getOutboxMetrics h now s) = int (length (due_outbox h now s))
    \<and> om_leased (getOutboxMetrics h now s) = int (length (filter (\<lambda>x. outbox_matured h now x \<and> \<not> outbox_is_due h now x) (map_values (m_outbox s))))
    \<and> om_stuck_leases (getOutboxMetrics h now s) = int (length (filter (\<lambda>x. ob_lease_expires_at x \<noteq> None) (due_outbox h now s)))
    \<and> om_undispatched (getOutboxMetrics h now s) = int (length (filter (\<lambda>x. ob_dispatched_at x = None) (map_values (m_outbox s))))
    \<and> om_due (getOutboxMetrics h now s) + om_leased (getOutboxMetrics h now s) \<le> om_undispatched (getOutboxMetrics h now s)
    \<and> om_oldest_due_age_seconds (getOutboxMetrics h now s)
        = Some (if filter (outbox_matured h now) (map_values (m_outbox s)) = [] then 0
                else (now - Min ((\<lambda>x. the (date_parse h (ob_due_at x))) ` set (filter (outbox_matured h now) (map_values (m_outbox s))))) div 1000)"
proof -
  let ?xs = "map_values (m_outbox s)"
  have due: "mset (due_outbox h now s) = mset (filter (outbox_is_due h now) ?xs)" by (simp add: due_outbox_def)
  have stuck: "length (filter (\<lambda>x. ob_lease_expires_at x \<noteq> None) (due_outbox h now s))
      = length (filter (\<lambda>x. outbox_is_due h now x \<and> ob_lease_expires_at x \<noteq> None) ?xs)"
    using arg_cong[where f = "\<lambda>m. size (filter_mset (\<lambda>x. ob_lease_expires_at x \<noteq> None) m)", OF due]
    by (simp flip: mset_filter add: conj_commute)
  have le: "length (filter (outbox_is_due h now) ?xs) + length (filter (\<lambda>x. outbox_matured h now x \<and> \<not> outbox_is_due h now x) ?xs)
      \<le> length (filter (\<lambda>x. ob_dispatched_at x = None) ?xs)"
    by (rule metrics_counts_le)
  let ?ds = "map (\<lambda>x. the (date_parse h (ob_due_at x))) (filter (outbox_matured h now) ?xs)"
  have past: "Min (set ?ds) \<le> now" if "?ds \<noteq> []"
  proof -
    have "d \<le> now" if "d \<in> set ?ds" for d
      using that assms by (auto simp: outbox_matured_def list_all_iff dates_parse_def date_le_def)
    moreover have "Min (set ?ds) \<in> set ?ds" by (rule Min_in) (use \<open>?ds \<noteq> []\<close> in \<open>simp_all del: set_map set_filter\<close>)
    ultimately show ?thesis by blast
  qed
  have "ml_oldest (fold (metrics_step h now) ?xs \<lparr>ml_due = 0, ml_leased = 0, ml_stuck = 0, ml_undispatched = 0, ml_oldest = None\<rparr>)
      = map_option Some (if ?ds = [] then None else Some (Min (set ?ds)))"
    using metrics_fold_oldest[OF assms, of _ None now] by (simp add: fold_min_None)
  then have age: "om_oldest_due_age_seconds (getOutboxMetrics h now s)
      = Some (if ?ds = [] then 0 else (now - Min (set ?ds)) div 1000)"
    using past by (auto simp: getOutboxMetrics_def Let_def)
  then show ?thesis
    using metrics_fold_counts[OF assms, of now] mset_eq_length[OF due] stuck le
    by (simp add: getOutboxMetrics_def Let_def)
qed

theorem metrics_agree_with_leases_witness:
  "om_due (getOutboxMetrics demo_host (demo_now + 1000 * 5) demo_store) = 1
   \<and> om_oldest_due_age_seconds (getOutboxMetrics demo_host (demo_now + 1000 * 5) demo_store) = Some 5"
proof -
  have parse: "list_all (dates_parse demo_host) (map_values (m_outbox demo_store))"
    by (simp add: demo_store_maps map_values_def dates_parse_def demo_outbox_def)
  have "filter (outbox_matured demo_host (demo_now + 1000 * 5)) (map_values (m_outbox demo_store)) = [demo_outbox]"
    by (simp add: demo_store_maps map_values_def outbox_matured_def demo_outbox_def date_le_def)
  moreover have "date_parse demo_host (ob_due_at demo_outbox) = Some demo_now"
    using demo_time_parse(1)[of 0] by (simp add: demo_outbox_def)
  ultimately show ?thesis
    using metrics_agree_with_leases[OF parse, of "demo_now + 1000 * 5"] demo_due[of 5] by simp
qed

end
