(* ===== verification/Email_Send_Properties.thy ===== *)
theory Email_Send_Properties
  imports Outbox_Properties
begin

text \<open>
  The properties of the email records the worker relies on: a send claim excludes every
  other claim for two minutes, and rescheduling keeps the email, its message record and its
  outbox item in agreement.
\<close>

section \<open>Send claims\<close>

text \<open>Claims of others: on other emails, or on this one before the lease is over.\<close>

inductive other_claim :: "string \<Rightarrow> int \<Rightarrow> mem \<Rightarrow> mem \<Rightarrow> bool" for i lease_until where
  "k \<noteq> i \<or> now div 1000 \<le> lease_until \<Longrightarrow> claimEmailForSend k attempt now s = (r, t) \<Longrightarrow> other_claim i lease_until s t"

lemma claim_some:
  assumes "claimEmailForSend i attempt now s = (Inr (Some e), t)"
  shows "map_get (m_emails t) i = Some e" "em_status e = Em_sending" "em_send_lease_until e = Some (now div 1000 + 120)"
  using assms by (auto simp: claimEmailForSend_def Let_def split: option.splits if_splits)

lemma claim_refused:
  assumes "map_get (m_emails s) i = Some e" "em_status e = Em_sending" "em_send_lease_until e = Some l" "now div 1000 \<le> l"
  shows "claimEmailForSend i attempt now s = (Inr None, s)"
  using assms by (simp add: claimEmailForSend_def send_lease_expired_def)

lemma claim_other_email:
  "claimEmailForSend k attempt now s = (r, t) \<Longrightarrow> k \<noteq> i \<Longrightarrow> map_get (m_emails t) i = map_get (m_emails s) i"
  by (auto simp: claimEmailForSend_def Let_def split: option.splits if_splits)

lemma other_claim_keeps:
  assumes "other_claim i l s t" "map_get (m_emails s) i = Some e" "em_status e = Em_sending" "em_send_lease_until e = Some l"
  shows "map_get (m_emails t) i = Some e"
  using assms(1)
proof cases
  case (1 k now attempt r)
  show ?thesis
  proof (cases "k = i")
    case True
    then show ?thesis using 1 claim_refused[OF assms(2-4)] assms(2) by auto
  next
    case False
    then show ?thesis using claim_other_email[OF 1(2)] assms(2) by simp
  qed
qed

text \<open>
  C28. A send claim is exclusive: once a worker has claimed an email, whatever claims the
  others make, the email stays as the worker was handed it, every claim within the 120
  seconds of the lease is refused without a change, and the first claim after it succeeds
  with a higher attempt count, so that an email whose worker died is taken up again.
\<close>

theorem send_claim_exclusive:
  assumes "claimEmailForSend i attempt now s = (Inr (Some e), t)"
    and "(other_claim i (now div 1000 + 120))\<^sup>*\<^sup>* t u" and "claimEmailForSend i attempt' now' u = (r, v)"
  shows "getEmail i u = Some e \<and> em_attempts e \<ge> attempt
    \<and> (if now' div 1000 \<le> now div 1000 + 120 then r = Inr None \<and> v = u
       else \<exists>e'. r = Inr (Some e') \<and> em_attempts e < em_attempts e' \<and> getEmail i v = Some e')"
proof -
  note c = claim_some[OF assms(1)]
  have u: "map_get (m_emails u) i = Some e"
    using assms(2) by (induction rule: rtranclp_induct) (auto intro: c other_claim_keeps)
  have "em_attempts e \<ge> attempt"
    using assms(1) by (auto simp: claimEmailForSend_def Let_def split: option.splits if_splits)
  moreover have "r = Inr None \<and> v = u" if "now' div 1000 \<le> now div 1000 + 120"
    using claim_refused[OF u c(2,3) that] assms(3) by simp
  moreover have "\<exists>e'. r = Inr (Some e') \<and> em_attempts e < em_attempts e' \<and> getEmail i v = Some e'"
    if "\<not> now' div 1000 \<le> now div 1000 + 120"
    using assms(3) u c that by (auto simp: claimEmailForSend_def send_lease_expired_def Let_def getEmail_def)
  ultimately show ?thesis using u by (simp add: getEmail_def)
qed

theorem send_claim_exclusive_witness:
  "\<exists>e t. claimEmailForSend demo_id 1 demo_now demo_store = (Inr (Some e), t)
     \<and> claimEmailForSend demo_id 1 (demo_now + 120000) t = (Inr None, t)"
proof -
  have "fst (claimEmailForSend demo_id 1 demo_now demo_store) \<noteq> Inr None \<and> \<not> isl (fst (claimEmailForSend demo_id 1 demo_now demo_store))"
    by (simp add: claimEmailForSend_def demo_store_maps demo_email_def Let_def)
  then obtain e t where run: "claimEmailForSend demo_id 1 demo_now demo_store = (Inr (Some e), t)"
    by (cases "claimEmailForSend demo_id 1 demo_now demo_store"; cases "fst (claimEmailForSend demo_id 1 demo_now demo_store)") auto
  obtain r v where again: "claimEmailForSend demo_id 1 (demo_now + 120000) t = (r, v)" by fastforce
  have "(demo_now + 120000) div 1000 \<le> demo_now div 1000 + 120" by (simp add: demo_now_def)
  then show ?thesis
    using send_claim_exclusive[OF run rtranclp.rtrancl_refl again] run again by auto
qed

section \<open>Rescheduling\<close>

lemma lease_index:
  assumes "leaseDueOutbox h hook input s = (r, t)"
  shows "m_outbox_by_message t = m_outbox_by_message s"
  using assms
proof (cases rule: lease_outcome)
  case (leasing secs n e k)
  then obtain m where u: "unlogged t = unlogged (with_outbox m s)" by (metis with_outbox_simps(3))
  from unlogged_eqD(8)[OF u] show ?thesis by (simp add: with_outbox_def)
qed simp

text \<open>
  Rescheduling is consistent: when it returns, the stored email, its message record and
  its outbox item all carry the new time, the email is scheduled, the item is neither leased
  nor dispatched, and no lease by a clock before the new time hands the item out.
\<close>

theorem reschedule_consistent:
  assumes "store_reachable h s" and "rescheduleEmailAndOutbox i scheduled now s = (Inr (Some e), t)"
    and "date_parse h scheduled = Some d" and "lo_now input < d" and "leaseDueOutbox h hook input t = (r, u)"
  shows "getEmail i t = Some e \<and> em_scheduled_at e = Some scheduled \<and> em_status e = Em_scheduled
    \<and> (\<exists>m x. map_get (m_messages t) i = Some m \<and> msg_scheduled_at m = Some scheduled
         \<and> outbox_of_message t i = Some x \<and> ob_due_at x = scheduled \<and> ob_lease_owner x = None \<and> ob_dispatched_at x = None
         \<and> outbox_of_message u i = Some x
         \<and> (isl r \<or> (\<exists>leased. r = Inr leased \<and> ob_id x \<notin> set (map ob_id leased))))"
proof -
  have key: "keyed ob_id (m_outbox s)"
    using store_reachable_inv[OF assms(1)] by (simp add: store_inv_def maps_keyed_def)
  obtain e0 m b where b: "map_get (m_emails s) i = Some e0" "map_get (m_messages s) i = Some m" "outbox_of_message s i = Some b"
      "ob_dispatched_at b = None" "ob_lease_owner b = None"
    and e: "e = e0\<lparr>em_scheduled_at := Some scheduled, em_status := Em_scheduled, em_last_event := ''scheduled'',
        em_updated_at := to_iso now\<rparr>"
    and t: "t = s\<lparr>m_emails := map_set i e (m_emails s),
        m_messages := map_set i (m\<lparr>msg_scheduled_at := Some scheduled, msg_status := Msg_scheduled,
          msg_updated_at := to_iso now\<rparr>) (m_messages s),
        m_outbox := map_set (ob_id b) (b\<lparr>ob_due_at := scheduled, ob_updated_at := to_iso now\<rparr>) (m_outbox s)\<rparr>"
    using assms(2) by (auto simp: rescheduleEmailAndOutbox_def Let_def split: option.splits if_splits)
  let ?x = "b\<lparr>ob_due_at := scheduled, ob_updated_at := to_iso now\<rparr>"
  obtain oid where oid: "map_get (m_outbox_by_message s) i = Some oid" "truthy (Some oid)" "map_get (m_outbox s) oid = Some b"
    using b(3) by (cases "map_get (m_outbox_by_message s) i") (auto simp: outbox_of_message_def Let_def truthy_def split: if_splits)
  then have "ob_id b = oid" using key by (auto dest: keyedD)
  then have x: "map_get (m_outbox t) (ob_id ?x) = Some ?x" "outbox_of_message t i = Some ?x"
    using oid by (simp_all add: t outbox_of_message_def)
  have nd: "\<not> outbox_is_due h (lo_now input) ?x" using assms(3,4) by (simp add: outbox_is_due_def date_le_def)
  have keyt: "keyed ob_id (m_outbox t)" using key by (auto simp: t)
  note k = lease_keeps_undue[OF assms(5) keyt x(1) nd]
  have "m_outbox_by_message u = m_outbox_by_message t" by (rule lease_index[OF assms(5)])
  then have "outbox_of_message u i = Some ?x"
    using oid k(1) \<open>ob_id b = oid\<close> by (simp add: outbox_of_message_def t)
  moreover have "isl r \<or> (\<exists>leased. r = Inr leased \<and> ob_id ?x \<notin> set (map ob_id leased))"
    using k(2) by (cases r) auto
  ultimately show ?thesis
    using b x(2) by (simp add: getEmail_def t e)
qed

theorem reschedule_consistent_witness:
  "\<exists>e t r u. rescheduleEmailAndOutbox demo_id (demo_time 100) (demo_now + 1000) demo_store = (Inr (Some e), t)
     \<and> leaseDueOutbox demo_host silent (demo_lease ''worker-1'' 5) t = (r, u)
     \<and> em_scheduled_at e = Some (demo_time 100) \<and> outbox_of_message u demo_id \<noteq> None"
proof -
  have "outbox_of_message demo_store demo_id = Some demo_outbox"
    by (simp add: outbox_of_message_def demo_store_maps truthy_def demo_outbox_def)
  then obtain e t where run: "rescheduleEmailAndOutbox demo_id (demo_time 100) (demo_now + 1000) demo_store = (Inr (Some e), t)"
    by (simp add: rescheduleEmailAndOutbox_def demo_store_maps demo_email_def demo_outbox_def Let_def)
  obtain r u where lease: "leaseDueOutbox demo_host silent (demo_lease ''worker-1'' 5) t = (r, u)" by fastforce
  have "date_parse demo_host (demo_time 100) = Some (demo_now + 100000)" by simp
  from reschedule_consistent[OF demo_store_reachable run this _ lease] run lease
  show ?thesis by (auto simp: demo_lease_def)
qed

end
