(* ===== verification/Catalog_Store.thy ===== *)
theory Catalog_Store
  imports Store_State
begin

text \<open>
  The other operations of the in-memory store (\<open>MemoryStore\<close> in
  \<open>src/adapters/memory-store.ts\<close>): templates with their aliases and published versions,
  attachment uploads, received emails and their processing claims, domains, webhooks and
  their deliveries, API keys and suppressions. \<open>now\<close> is \<open>Date.now()\<close> in milliseconds.
\<close>

section \<open>Templates\<close>

definition createTemplate :: "template_record \<Rightarrow> (mem, unit) sx" where
  "createTemplate record s =
     (let alias = tver_alias (tmpl_draft record) in
      if map_has (m_templates s) (tmpl_id record) \<or> (\<exists>a \<in> set_option alias. map_has (m_template_aliases s) a)
      then (Inl (ConflictError ''Template alias is already in use.''), s)
      else (Inr (), s\<lparr>m_templates := map_set (tmpl_id record) record (m_templates s),
        m_template_aliases := (case alias of None \<Rightarrow> m_template_aliases s
          | Some a \<Rightarrow> map_set a (tmpl_id record) (m_template_aliases s))\<rparr>))"

text \<open>\<open>id ? map.get(id) : undefined\<close>: an absent or empty identifier finds nothing.\<close>

definition get_if_truthy :: "'v jsmap \<Rightarrow> string option \<Rightarrow> 'v option" where
  "get_if_truthy m i = (if truthy i then map_get m (the i) else None)"

definition getTemplate :: "string \<Rightarrow> mem \<Rightarrow> template_record option" where
  "getTemplate identifier s =
     get_if_truthy (m_templates s)
       (if map_has (m_templates s) identifier then Some identifier else map_get (m_template_aliases s) identifier)"

definition published_alias :: "template_record \<Rightarrow> string option" where
  "published_alias t = Option.bind (tmpl_published t) tver_alias"

definition or_else :: "'a option \<Rightarrow> 'a option \<Rightarrow> 'a option" where
  "or_else a b = (case a of None \<Rightarrow> b | Some x \<Rightarrow> Some x)"

definition getPublishedTemplate :: "string \<Rightarrow> mem \<Rightarrow> template_record option" where
  "getPublishedTemplate identifier s =
     (let i = (if map_has (m_templates s) identifier then Some identifier
               else map_get (m_published_aliases s) identifier);
          draftCandidate = get_if_truthy (m_templates s) (map_get (m_template_aliases s) identifier);
          draft = (case draftCandidate of None \<Rightarrow> None
            | Some t \<Rightarrow> if tmpl_published t = None \<or> published_alias t = Some identifier then Some t else None)
      in or_else (get_if_truthy (m_templates s) i) (or_else draft
           (find (\<lambda>t. published_alias t = Some identifier) (map_values (m_templates s)))))"

definition replaceTemplate :: "template_record \<Rightarrow> string option \<Rightarrow> int \<Rightarrow> (mem, bool) sx" where
  "replaceTemplate record previousAlias expectedRevision s =
     (case map_get (m_templates s) (tmpl_id record) of
        None \<Rightarrow> (Inr False, s)
      | Some current \<Rightarrow>
          if tmpl_revision current \<noteq> expectedRevision then (Inr False, s)
          else let nextAlias = tver_alias (tmpl_draft record);
                   aliasOwner = Option.bind nextAlias (map_get (m_template_aliases s))
               in if aliasOwner \<noteq> None \<and> aliasOwner \<noteq> Some (tmpl_id record)
               then (Inl (ConflictError ''Template alias is already in use.''), s)
               else let aliases1 = (case previousAlias of None \<Rightarrow> m_template_aliases s
                          | Some p \<Rightarrow> if Some p \<noteq> nextAlias then map_delete p (m_template_aliases s) else m_template_aliases s);
                        aliases2 = (case nextAlias of None \<Rightarrow> aliases1 | Some a \<Rightarrow> map_set a (tmpl_id record) aliases1)
                    in (Inr True, s\<lparr>m_template_aliases := aliases2,
                          m_templates := map_set (tmpl_id record) record (m_templates s)\<rparr>))"

definition publication_order :: "host \<Rightarrow> template_publication \<Rightarrow> template_publication \<Rightarrow> int" where
  "publication_order h l r = cmp_or (h_collate h (tp_published_at r) (tp_published_at l)) (h_collate h (tp_id r) (tp_id l))"

definition publishTemplate ::
  "host \<Rightarrow> template_record \<Rightarrow> template_publication \<Rightarrow> string option \<Rightarrow> int \<Rightarrow> nat \<Rightarrow> (mem, bool) sx" where
  "publishTemplate h record publication previousPublishedAlias expectedRevision historyLimit s =
     (case map_get (m_templates s) (tmpl_id record) of
        None \<Rightarrow> (Inr False, s)
      | Some current \<Rightarrow>
          if tmpl_revision current \<noteq> expectedRevision \<or> tp_template_id publication \<noteq> tmpl_id record
             \<or> tp_id publication \<noteq> tver_id (tp_version publication)
          then (Inr False, s)
          else let versions = coalesce (map_get (m_template_versions s) (tmpl_id record)) [] in
          if map_has versions (tp_id publication) then (Inr False, s)
          else let nextAlias = published_alias record;
                   aliasOwner = Option.bind nextAlias (map_get (m_published_aliases s))
               in if aliasOwner \<noteq> None \<and> aliasOwner \<noteq> Some (tmpl_id record)
               then (Inl (ConflictError ''Template alias is already in use.''), s)
               else let retained = take historyLimit (js_sort (publication_order h) (map_values versions @ [publication]));
                        aliases1 = (case previousPublishedAlias of None \<Rightarrow> m_published_aliases s
                          | Some p \<Rightarrow> if Some p \<noteq> nextAlias then map_delete p (m_published_aliases s) else m_published_aliases s);
                        aliases2 = (case nextAlias of None \<Rightarrow> aliases1 | Some a \<Rightarrow> map_set a (tmpl_id record) aliases1)
                    in (Inr True, s\<lparr>
                          m_template_versions := map_set (tmpl_id record)
                            (map_from (map (\<lambda>v. (tp_id v, v)) retained)) (m_template_versions s),
                          m_published_aliases := aliases2,
                          m_templates := map_set (tmpl_id record) record (m_templates s)\<rparr>))"

definition template_versions :: "mem \<Rightarrow> string \<Rightarrow> template_publication list" where
  "template_versions s templateId =
     (case map_get (m_template_versions s) templateId of None \<Rightarrow> [] | Some m \<Rightarrow> map_values m)"

definition getTemplateVersion :: "string \<Rightarrow> string \<Rightarrow> mem \<Rightarrow> template_publication option" where
  "getTemplateVersion templateId versionId s =
     Option.bind (map_get (m_template_versions s) templateId) (\<lambda>m. map_get m versionId)"

definition publication_live :: "host \<Rightarrow> int \<Rightarrow> template_publication \<Rightarrow> bool" where
  "publication_live h nowSeconds v \<longleftrightarrow>
     (case date_parse h (tp_expires_at v) of None \<Rightarrow> False | Some t \<Rightarrow> nowSeconds < t div 1000)"

definition listTemplateVersions ::
  "host \<Rightarrow> string \<Rightarrow> nat \<Rightarrow> template_publication option \<Rightarrow> int \<Rightarrow> mem \<Rightarrow> template_publication page" where
  "listTemplateVersions h templateId limit cursor nowSeconds s =
     (let versions = js_sort (publication_order h) (template_versions s templateId);
          cursorIndex = (case cursor of None \<Rightarrow> None | Some c \<Rightarrow> find_index (\<lambda>v. tp_id v = tp_id c) versions);
          eligible = filter (publication_live h nowSeconds)
            (drop (case cursorIndex of None \<Rightarrow> 0 | Some i \<Rightarrow> i + 1) versions);
          data = take limit eligible
      in if limit < length eligible \<and> data \<noteq> []
         then \<lparr>pg_data = data, pg_has_more = True, pg_next_cursor = Some (tp_id (last data))\<rparr>
         else \<lparr>pg_data = data, pg_has_more = False, pg_next_cursor = None\<rparr>)"

definition deleteTemplate :: "template_record \<Rightarrow> int \<Rightarrow> (mem, bool) sx" where
  "deleteTemplate record expectedRevision s =
     (case map_get (m_templates s) (tmpl_id record) of
        None \<Rightarrow> (Inr False, s)
      | Some current \<Rightarrow>
          if tmpl_revision current \<noteq> expectedRevision then (Inr False, s)
          else (Inr True, s\<lparr>
            m_templates := map_delete (tmpl_id record) (m_templates s),
            m_template_aliases := (case tver_alias (tmpl_draft current) of None \<Rightarrow> m_template_aliases s
              | Some a \<Rightarrow> map_delete a (m_template_aliases s)),
            m_published_aliases := (case published_alias current of None \<Rightarrow> m_published_aliases s
              | Some a \<Rightarrow> map_delete a (m_published_aliases s)),
            m_template_versions := map_delete (tmpl_id record) (m_template_versions s)\<rparr>))"

datatype page_direction = Page_after | Page_before

definition listTemplates ::
  "host \<Rightarrow> nat \<Rightarrow> string option \<Rightarrow> page_direction \<Rightarrow> mem \<Rightarrow> template_record page" where
  "listTemplates h limit cursor direction s =
     (let sorted = js_sort (\<lambda>l r. h_collate h (tmpl_created_at r) (tmpl_created_at l)) (map_values (m_templates s));
          cursorIndex = (if truthy cursor then find_index (\<lambda>t. Some (tmpl_id t) = cursor) sorted else None);
          offset = (if direction = Page_before then (case cursorIndex of None \<Rightarrow> 0 | Some i \<Rightarrow> i - limit)
                    else (case cursorIndex of None \<Rightarrow> 0 | Some i \<Rightarrow> i + 1));
          end' = (case (direction, cursorIndex) of (Page_before, Some i) \<Rightarrow> i | _ \<Rightarrow> offset + limit);
          data = slice offset end' sorted;
          hasMore = (if direction = Page_before then 0 < offset else offset + length data < length sorted)
      in if hasMore \<and> data \<noteq> []
         then \<lparr>pg_data = data, pg_has_more = True,
               pg_next_cursor = Some (tmpl_id (if direction = Page_before then hd data else last data))\<rparr>
         else \<lparr>pg_data = data, pg_has_more = False, pg_next_cursor = None\<rparr>)"

section \<open>Attachment uploads and received emails\<close>

definition putAttachmentUpload :: "attachment_upload_record \<Rightarrow> (mem, unit) sx" where
  "putAttachmentUpload record s = (Inr (), s\<lparr>m_attachment_uploads := map_set (au_id record) record (m_attachment_uploads s)\<rparr>)"

definition getAttachmentUpload :: "string \<Rightarrow> mem \<Rightarrow> attachment_upload_record option" where
  "getAttachmentUpload i s = map_get (m_attachment_uploads s) i"

definition claimReceivedEmail :: "string \<Rightarrow> int \<Rightarrow> int \<Rightarrow> (mem, bool) sx" where
  "claimReceivedEmail i now leaseUntil s =
     (case map_get (m_received_claims s) i of
        Some currentLease \<Rightarrow>
          if now \<le> currentLease then (Inr False, s)
          else (Inr True, s\<lparr>m_received_claims := map_set i leaseUntil (m_received_claims s)\<rparr>)
      | None \<Rightarrow> (Inr True, s\<lparr>m_received_claims := map_set i leaseUntil (m_received_claims s)\<rparr>))"

definition releaseReceivedEmailClaim :: "string \<Rightarrow> int \<Rightarrow> (mem, unit) sx" where
  "releaseReceivedEmailClaim i leaseUntil s =
     (Inr (), if map_get (m_received_claims s) i = Some leaseUntil
              then s\<lparr>m_received_claims := map_delete i (m_received_claims s)\<rparr> else s)"

definition createReceivedEmail :: "received_email_record \<Rightarrow> (mem, bool) sx" where
  "createReceivedEmail record s =
     (if map_has (m_received_emails s) (re_id record) then (Inr False, s)
      else (Inr True, s\<lparr>m_received_emails := map_set (re_id record) record (m_received_emails s)\<rparr>))"

definition getReceivedEmail :: "string \<Rightarrow> mem \<Rightarrow> received_email_record option" where
  "getReceivedEmail i s = map_get (m_received_emails s) i"

definition updateReceivedEmail ::
  "string \<Rightarrow> (received_email_record \<Rightarrow> received_email_record) \<Rightarrow> (mem, received_email_record option) sx" where
  "updateReceivedEmail i updates s =
     (case map_get (m_received_emails s) i of None \<Rightarrow> (Inr None, s)
      | Some r \<Rightarrow> (Inr (Some (updates r)), s\<lparr>m_received_emails := map_set i (updates r) (m_received_emails s)\<rparr>))"

definition listReceivedEmails :: "host \<Rightarrow> int \<Rightarrow> nat \<Rightarrow> string option \<Rightarrow> mem \<Rightarrow> received_email_record page result" where
  "listReceivedEmails h now limit cursor s =
     pageFromMap h re_id re_created_at
       (filter (\<lambda>r. date_less (Some now) (date_parse h (re_expires_at r))) (map_values (m_received_emails s))) limit cursor"

section \<open>Domains\<close>

definition createDomain :: "domain_record \<Rightarrow> (mem, unit) sx" where
  "createDomain record s = (Inr (), s\<lparr>m_domains := map_set (dom_id record) record (m_domains s)\<rparr>)"

definition getDomain :: "string \<Rightarrow> mem \<Rightarrow> domain_record option" where
  "getDomain i s = map_get (m_domains s) i"

definition updateDomain :: "string \<Rightarrow> (domain_record \<Rightarrow> domain_record) \<Rightarrow> (mem, domain_record option) sx" where
  "updateDomain i updates s =
     (case map_get (m_domains s) i of None \<Rightarrow> (Inr None, s)
      | Some r \<Rightarrow> (Inr (Some (updates r)), s\<lparr>m_domains := map_set i (updates r) (m_domains s)\<rparr>))"

definition deleteDomain :: "string \<Rightarrow> (mem, bool) sx" where
  "deleteDomain i s = (Inr (map_has (m_domains s) i), s\<lparr>m_domains := map_delete i (m_domains s)\<rparr>)"

definition listDomains :: "host \<Rightarrow> nat \<Rightarrow> string option \<Rightarrow> mem \<Rightarrow> domain_record page result" where
  "listDomains h limit cursor s = pageFromMap h dom_id dom_created_at (map_values (m_domains s)) limit cursor"

section \<open>Webhooks and their deliveries\<close>

definition createWebhook :: "webhook_endpoint \<Rightarrow> (mem, unit) sx" where
  "createWebhook record s = (Inr (), s\<lparr>m_webhooks := map_set (wh_id record) record (m_webhooks s)\<rparr>)"

definition getWebhook :: "string \<Rightarrow> mem \<Rightarrow> webhook_endpoint option" where
  "getWebhook i s = map_get (m_webhooks s) i"

definition updateWebhook ::
  "string \<Rightarrow> (webhook_endpoint \<Rightarrow> webhook_endpoint) \<Rightarrow> (mem, webhook_endpoint option) sx" where
  "updateWebhook i updates s =
     (case map_get (m_webhooks s) i of None \<Rightarrow> (Inr None, s)
      | Some r \<Rightarrow> (Inr (Some (updates r)), s\<lparr>m_webhooks := map_set i (updates r) (m_webhooks s)\<rparr>))"

definition deleteWebhook :: "string \<Rightarrow> (mem, bool) sx" where
  "deleteWebhook i s = (Inr (map_has (m_webhooks s) i), s\<lparr>m_webhooks := map_delete i (m_webhooks s)\<rparr>)"

definition listWebhooks :: "host \<Rightarrow> nat \<Rightarrow> string option \<Rightarrow> mem \<Rightarrow> webhook_endpoint page result" where
  "listWebhooks h limit cursor s = pageFromMap h wh_id wh_created_at (map_values (m_webhooks s)) limit cursor"

definition createWebhookDelivery :: "webhook_delivery_record \<Rightarrow> (mem, bool) sx" where
  "createWebhookDelivery record s =
     (if map_has (m_webhook_deliveries s) (wd_id record) then (Inr False, s)
      else (Inr True, s\<lparr>m_webhook_deliveries := map_set (wd_id record) record (m_webhook_deliveries s)\<rparr>))"

text \<open>A delivery whose expiry does not parse is not treated as expired here.\<close>

definition getWebhookDelivery :: "host \<Rightarrow> int \<Rightarrow> string \<Rightarrow> mem \<Rightarrow> webhook_delivery_record option" where
  "getWebhookDelivery h now i s =
     (case map_get (m_webhook_deliveries s) i of None \<Rightarrow> None
      | Some r \<Rightarrow> if date_le (date_parse h (wd_expires_at r)) (Some now) then None else Some r)"

definition updateWebhookDelivery ::
  "host \<Rightarrow> int \<Rightarrow> string \<Rightarrow> (webhook_delivery_record \<Rightarrow> webhook_delivery_record)
     \<Rightarrow> (mem, webhook_delivery_record option) sx" where
  "updateWebhookDelivery h now i updates s =
     (case getWebhookDelivery h now i s of None \<Rightarrow> (Inr None, s)
      | Some r \<Rightarrow> (Inr (Some (updates r)), s\<lparr>m_webhook_deliveries := map_set i (updates r) (m_webhook_deliveries s)\<rparr>))"

definition listWebhookDeliveries ::
  "host \<Rightarrow> int \<Rightarrow> string \<Rightarrow> nat \<Rightarrow> string option \<Rightarrow> mem \<Rightarrow> webhook_delivery_record page result" where
  "listWebhookDeliveries h now webhookId limit cursor s =
     pageFromMap h wd_id wd_created_at
       (filter (\<lambda>r. wd_webhook_id r = webhookId \<and> date_less (Some now) (date_parse h (wd_expires_at r)))
         (map_values (m_webhook_deliveries s))) limit cursor"

section \<open>API keys and suppressions\<close>

definition createApiKey :: "api_key_record \<Rightarrow> (mem, unit) sx" where
  "createApiKey record s = (Inr (), s\<lparr>m_api_keys := map_set (ak_id record) record (m_api_keys s)\<rparr>)"

definition getApiKey :: "string \<Rightarrow> mem \<Rightarrow> api_key_record option" where
  "getApiKey i s = map_get (m_api_keys s) i"

definition updateApiKey :: "string \<Rightarrow> (api_key_record \<Rightarrow> api_key_record) \<Rightarrow> (mem, api_key_record option) sx" where
  "updateApiKey i updates s =
     (case map_get (m_api_keys s) i of None \<Rightarrow> (Inr None, s)
      | Some r \<Rightarrow> (Inr (Some (updates r)), s\<lparr>m_api_keys := map_set i (updates r) (m_api_keys s)\<rparr>))"

definition listApiKeys :: "host \<Rightarrow> nat \<Rightarrow> string option \<Rightarrow> mem \<Rightarrow> api_key_record page result" where
  "listApiKeys h limit cursor s = pageFromMap h ak_id ak_created_at (map_values (m_api_keys s)) limit cursor"

definition putSuppression :: "suppression_record \<Rightarrow> (mem, unit) sx" where
  "putSuppression record s = (Inr (), s\<lparr>m_suppressions := map_set (sup_id record) record (m_suppressions s)\<rparr>)"

definition getSuppression :: "string \<Rightarrow> mem \<Rightarrow> suppression_record option" where
  "getSuppression emailHash s = map_get (m_suppressions s) emailHash"

definition deleteSuppression :: "string \<Rightarrow> (mem, bool) sx" where
  "deleteSuppression emailHash s =
     (Inr (map_has (m_suppressions s) emailHash), s\<lparr>m_suppressions := map_delete emailHash (m_suppressions s)\<rparr>)"

definition listSuppressions :: "host \<Rightarrow> nat \<Rightarrow> string option \<Rightarrow> mem \<Rightarrow> suppression_record page result" where
  "listSuppressions h limit cursor s =
     pageFromMap h sup_id sup_created_at (map_values (m_suppressions s)) limit cursor"

end
