(* ===== verification/Listing_Properties.thy ===== *)
theory Listing_Properties
  imports Commit_Properties Catalog_Store
begin

text \<open>
  Listing by pages. A client that follows \<open>next_cursor\<close> from the first page on sees every
  record exactly once, in the order of the listing, and stops; the loop of such a client is
  the definition \<open>all_pages\<close>, with fuel for the pages it may ask for.
\<close>

section \<open>One page\<close>

lemma find_index_distinct:
  assumes "distinct (map f xs)" "j < length xs"
  shows "find_index (\<lambda>x. Some (f x) = Some (f (xs ! j))) xs = Some j"
proof (cases "find_index (\<lambda>x. Some (f x) = Some (f (xs ! j))) xs")
  case None
  then show ?thesis using assms(2) by (auto simp: find_index_None_iff)
next
  case (Some i)
  then have "i < length xs" "f (xs ! i) = f (xs ! j)" using find_index_SomeD by fastforce+
  then show ?thesis using assms Some by (metis length_map nth_eq_iff_index_eq nth_map)
qed

text \<open>The cursor that stands for having seen the first \<open>i\<close> records.\<close>

definition cursor_at :: "('a \<Rightarrow> string) \<Rightarrow> 'a list \<Rightarrow> nat \<Rightarrow> string option" where
  "cursor_at idf listing i = (if i = 0 then None else Some (idf (listing ! (i - 1))))"

lemma page_at:
  fixes h :: host and created :: "'a \<Rightarrow> string"
  assumes "distinct (map idf values)" "list_all (\<lambda>v. idf v \<noteq> []) values" "i \<le> length values"
  defines "listing \<equiv> js_sort (page_order h idf created) values"
  shows "pageFromMap h idf created values limit (cursor_at idf listing i) = Inr
    (if i + limit < length values \<and> 0 < limit
     then \<lparr>pg_data = take limit (drop i listing), pg_has_more = True, pg_next_cursor = cursor_at idf listing (i + limit)\<rparr>
     else \<lparr>pg_data = take limit (drop i listing), pg_has_more = False, pg_next_cursor = None\<rparr>)"
proof -
  have len: "length listing = length values" by (simp add: listing_def)
  have dist: "distinct (map idf listing)"
    using assms(1) mset_eq_imp_distinct_iff[of "map idf listing" "map idf values"] by (simp add: listing_def)
  have ne: "idf x \<noteq> []" if "x \<in> set listing" for x using that assms(2) by (simp add: listing_def list_all_iff)
  have index: "(if truthy (cursor_at idf listing i) then find_index (\<lambda>r. Some (idf r) = cursor_at idf listing i) listing else None)
      = (if i = 0 then None else Some (i - 1))"
    using find_index_distinct[OF dist, of "i - 1"] ne[of "listing ! (i - 1)"] assms(3)
    by (simp add: cursor_at_def truthy_def len)
  have last: "idf (last (take limit (drop i listing))) = idf (listing ! (i + limit - 1))"
    if "i + limit < length values" "0 < limit"
    using that len by (simp add: last_conv_nth min_def)
  show ?thesis
    using index last assms(3) len
    by (cases "i = 0") (auto simp: pageFromMap_def Let_def listing_def[symmetric] slice_def cursor_at_def min_def truthy_def)
qed

section \<open>All pages\<close>

fun all_pages ::
  "nat \<Rightarrow> host \<Rightarrow> ('a \<Rightarrow> string) \<Rightarrow> ('a \<Rightarrow> string) \<Rightarrow> 'a list \<Rightarrow> nat \<Rightarrow> string option \<Rightarrow> 'a list option" where
  "all_pages 0 h idf created values limit cursor = None"
| "all_pages (Suc fuel) h idf created values limit cursor =
     (case pageFromMap h idf created values limit cursor of
        Inl _ \<Rightarrow> None
      | Inr p \<Rightarrow> if \<not> pg_has_more p then Some (pg_data p)
          else map_option (\<lambda>rest. pg_data p @ rest) (all_pages fuel h idf created values limit (pg_next_cursor p)))"

lemma all_pages_from:
  assumes "distinct (map idf values)" "list_all (\<lambda>v. idf v \<noteq> []) values" "0 < limit"
  shows "i \<le> length values \<Longrightarrow> length values - i < fuel \<Longrightarrow>
    all_pages fuel h idf created values limit (cursor_at idf (js_sort (page_order h idf created) values) i)
      = Some (drop i (js_sort (page_order h idf created) values))"
proof (induction fuel arbitrary: i)
  case (Suc fuel)
  let ?listing = "js_sort (page_order h idf created) values"
  note page = page_at[OF assms(1,2) Suc.prems(1), of h created limit]
  show ?case
  proof (cases "i + limit < length values")
    case True
    have "all_pages fuel h idf created values limit (cursor_at idf ?listing (i + limit)) = Some (drop (i + limit) ?listing)"
      using Suc.IH[of "i + limit"] Suc.prems True assms(3) by simp
    moreover have "take limit (drop i ?listing) @ drop (i + limit) ?listing = drop i ?listing"
      by (metis append_take_drop_id drop_drop add.commute)
    ultimately show ?thesis using page True assms(3) by simp
  next
    case False
    then show ?thesis using page Suc.prems by simp
  qed
qed simp

text \<open>
  C36. Following the cursors of a listing from its first page terminates within one request
  per record and yields every stored record exactly once, newest first (the sorted listing),
  whatever the positive page size. The identities are distinct and not empty.
\<close>

theorem listing_pages_complete:
  assumes "distinct (map idf values)" and "list_all (\<lambda>v. idf v \<noteq> []) values" and "0 < limit"
  shows "all_pages (length values + 1) h idf created values limit None = Some (js_sort (page_order h idf created) values)"
  using all_pages_from[OF assms, of 0 "length values + 1" h created] by (simp add: cursor_at_def)

theorem listing_pages_complete_witness:
  "all_pages 4 demo_host fst snd [(''a'', ''t1''), (''b'', ''t3''), (''c'', ''t2'')] 2 None
     = Some [(''b'', ''t3''), (''c'', ''t2''), (''a'', ''t1'')]"
proof -
  let ?xs = "[(''a'', ''t1''), (''b'', ''t3''), (''c'', ''t2'')]"
  have listing: "js_sort (page_order demo_host fst snd) ?xs = [(''b'', ''t3''), (''c'', ''t2''), (''a'', ''t1'')]"
    by (simp add: page_order_def demo_host_def cmp_or_def)
  have four: "length ?xs + 1 = 4" by simp
  have "all_pages (length ?xs + 1) demo_host fst snd ?xs 2 None = Some (js_sort (page_order demo_host fst snd) ?xs)"
    by (rule listing_pages_complete) simp_all
  then show ?thesis by (simp only: four listing)
qed

end
