(* ===== verification/Template_Properties.thy ===== *)
theory Template_Properties
  imports Catalog_Store Demo_Delivery
begin

text \<open>
  The alias indexes of the template store. Templates are found by ID or by the alias of
  their draft or of their published version; the store keeps one map per kind of alias.
  Under the arguments the template service passes, each map is always the exact inverse of
  the aliases of the stored templates, so an alias never names two templates.
\<close>

section \<open>An index is the inverse of a key\<close>

definition index_ok :: "('a \<Rightarrow> string option) \<Rightarrow> 'a jsmap \<Rightarrow> string jsmap \<Rightarrow> bool" where
  "index_ok f records index \<longleftrightarrow>
     (\<forall>a i. map_get index a = Some i \<longleftrightarrow> (\<exists>t. map_get records i = Some t \<and> f t = Some a))"

text \<open>Removing the key of the old record and entering that of the new one.\<close>

definition reindex :: "string option \<Rightarrow> string option \<Rightarrow> string \<Rightarrow> string jsmap \<Rightarrow> string jsmap" where
  "reindex old new i index =
     (let index1 = (case old of None \<Rightarrow> index | Some p \<Rightarrow> if Some p \<noteq> new then map_delete p index else index)
      in case new of None \<Rightarrow> index1 | Some a \<Rightarrow> map_set a i index1)"

lemma reindex_get:
  "map_get (reindex old new i index) a =
     (if new = Some a then Some i else if old = Some a then None else map_get index a)"
  by (auto simp: reindex_def Let_def split: option.split)

lemma index_unique:
  "index_ok f records index \<Longrightarrow> map_get records i = Some t \<Longrightarrow> map_get records j = Some u
     \<Longrightarrow> f t = Some a \<Longrightarrow> f u = Some a \<Longrightarrow> i = j"
  unfolding index_ok_def by (metis option.inject)

lemma index_single:
  assumes ok: "index_ok f records index" and "map_get records i = Some t" and "f t = Some a"
  shows "{j. \<exists>u. map_get records j = Some u \<and> f u = Some a} = {i}"
proof -
  have at: "map_get index a = Some j \<longleftrightarrow> (\<exists>u. map_get records j = Some u \<and> f u = Some a)" for j
    using ok by (simp add: index_ok_def)
  then have "map_get index a = Some i" using assms(2,3) by blast
  moreover have "{j. \<exists>u. map_get records j = Some u \<and> f u = Some a} = {j. map_get index a = Some j}"
    by (simp add: at)
  ultimately show ?thesis by simp
qed

lemma index_set:
  assumes ok: "index_ok f records index" and old: "old = Option.bind (map_get records i) f"
    and free: "\<And>a. f new = Some a \<Longrightarrow> map_get index a = None \<or> map_get index a = Some i"
  shows "index_ok f (map_set i new records) (reindex old (f new) i index)"
  unfolding index_ok_def
proof (intro allI)
  fix a j
  have at: "map_get index a = Some j \<longleftrightarrow> (\<exists>t. map_get records j = Some t \<and> f t = Some a)"
    using ok by (simp add: index_ok_def)
  have ai: "map_get index a = Some i \<longleftrightarrow> old = Some a"
    using ok old by (cases "map_get records i") (auto simp: index_ok_def)
  show "map_get (reindex old (f new) i index) a = Some j
      \<longleftrightarrow> (\<exists>t. map_get (map_set i new records) j = Some t \<and> f t = Some a)"
    using at ai free[of a] by (cases "j = i") (auto simp: reindex_get)
qed

lemma index_keep:
  assumes "index_ok f records index" "f new = Option.bind (map_get records i) f"
  shows "index_ok f (map_set i new records) index"
  using assms by (cases "map_get records i") (auto simp: index_ok_def)

lemma index_delete:
  assumes ok: "index_ok f records index" and old: "map_get records i = Some t"
  shows "index_ok f (map_delete i records) (case f t of None \<Rightarrow> index | Some a \<Rightarrow> map_delete a index)"
proof -
  have at: "map_get index a = Some j \<longleftrightarrow> (\<exists>u. map_get records j = Some u \<and> f u = Some a)" for a j
    using ok by (simp add: index_ok_def)
  show ?thesis
  proof (cases "f t")
    case None
    then show ?thesis using old by (auto simp: index_ok_def at)
  next
    case (Some b)
    have "map_get (map_delete b index) a = Some j \<longleftrightarrow> (\<exists>u. map_get (map_delete i records) j = Some u \<and> f u = Some a)" for a j
    proof (cases "a = b")
      case True
      have "map_get index b = Some i" using at[of b i] old Some by blast
      then have "\<not> (\<exists>u. map_get records j = Some u \<and> f u = Some b)" if "j \<noteq> i" using at[of b j] that by simp
      then show ?thesis using True by auto
    next
      case False
      then show ?thesis using at[of a j] old Some by auto
    qed
    then show ?thesis by (simp add: index_ok_def Some)
  qed
qed

section \<open>The operations\<close>

definition draft_alias :: "template_record \<Rightarrow> string option" where
  "draft_alias t = tver_alias (tmpl_draft t)"

text \<open>
  The calls of the template service: a new template is not published, a new draft keeps the
  published version, a publication keeps the draft alias, and the previous alias that is
  passed is the one of the version whose revision is expected.
\<close>

inductive template_step :: "host \<Rightarrow> mem \<Rightarrow> mem \<Rightarrow> bool" for h where
  template_create: "tmpl_published r = None \<Longrightarrow> createTemplate r s = (x, t) \<Longrightarrow> template_step h s t"
| template_replace: "map_get (m_templates s) (tmpl_id r) = Some current \<Longrightarrow> published_alias r = published_alias current
    \<Longrightarrow> previous = draft_alias current \<Longrightarrow> replaceTemplate r previous revision s = (x', t) \<Longrightarrow> template_step h s t"
| template_publish: "map_get (m_templates s) (tmpl_id r) = Some current \<Longrightarrow> draft_alias r = draft_alias current
    \<Longrightarrow> previous = published_alias current \<Longrightarrow> publishTemplate h r p previous revision limit s = (x', t)
    \<Longrightarrow> template_step h s t"
| template_delete: "deleteTemplate r revision s = (x', t) \<Longrightarrow> template_step h s t"

inductive template_reachable :: "host \<Rightarrow> mem \<Rightarrow> bool" for h where
  template_empty: "template_reachable h empty_store"
| template_next: "template_reachable h s \<Longrightarrow> template_step h s t \<Longrightarrow> template_reachable h t"

definition aliases_ok :: "mem \<Rightarrow> bool" where
  "aliases_ok s \<longleftrightarrow> index_ok draft_alias (m_templates s) (m_template_aliases s)
     \<and> index_ok published_alias (m_templates s) (m_published_aliases s)"

lemma create_aliases:
  assumes ok: "aliases_ok s" and new: "tmpl_published r = None" and run: "createTemplate r s = (x, t)"
  shows "aliases_ok t"
proof (cases "t = s")
  case False
  then have fresh: "\<not> map_has (m_templates s) (tmpl_id r)" "\<And>a. draft_alias r = Some a \<Longrightarrow> map_get (m_template_aliases s) a = None"
    and t: "m_templates t = map_set (tmpl_id r) r (m_templates s)" "m_published_aliases t = m_published_aliases s"
      "m_template_aliases t = reindex None (draft_alias r) (tmpl_id r) (m_template_aliases s)"
    using run by (auto simp: createTemplate_def Let_def draft_alias_def map_has_def reindex_def split: if_splits option.splits)
  have none: "map_get (m_templates s) (tmpl_id r) = None" using fresh(1) by (simp add: map_has_def)
  have "index_ok draft_alias (m_templates t) (m_template_aliases t)"
    unfolding t using ok fresh(2) none by (intro index_set) (auto simp: aliases_ok_def)
  moreover have "index_ok published_alias (m_templates t) (m_published_aliases t)"
    unfolding t using ok none new by (intro index_keep) (auto simp: aliases_ok_def published_alias_def)
  ultimately show ?thesis by (simp add: aliases_ok_def)
qed (use ok in simp)

lemma owner_free: "\<not> (owner \<noteq> None \<and> owner \<noteq> Some i) \<Longrightarrow> owner = None \<or> owner = Some i"
  by auto

lemma replace_aliases:
  assumes ok: "aliases_ok s" and current: "map_get (m_templates s) (tmpl_id r) = Some current"
    and pub: "published_alias r = published_alias current" and run: "replaceTemplate r (draft_alias current) revision s = (x, t)"
  shows "aliases_ok t"
proof (cases "t = s")
  case False
  then have free: "\<And>a. draft_alias r = Some a \<Longrightarrow> map_get (m_template_aliases s) a = None \<or> map_get (m_template_aliases s) a = Some (tmpl_id r)"
    and t: "m_templates t = map_set (tmpl_id r) r (m_templates s)" "m_published_aliases t = m_published_aliases s"
      "m_template_aliases t = reindex (draft_alias current) (draft_alias r) (tmpl_id r) (m_template_aliases s)"
    using run current by (auto simp: replaceTemplate_def Let_def draft_alias_def[of r] reindex_def split: if_splits)
  have "index_ok draft_alias (m_templates t) (m_template_aliases t)"
    unfolding t using ok free current by (intro index_set) (auto simp: aliases_ok_def)
  moreover have "index_ok published_alias (m_templates t) (m_published_aliases t)"
    unfolding t using ok current pub by (intro index_keep) (auto simp: aliases_ok_def)
  ultimately show ?thesis by (simp add: aliases_ok_def)
qed (use ok in simp)

lemma publish_aliases:
  assumes ok: "aliases_ok s" and current: "map_get (m_templates s) (tmpl_id r) = Some current"
    and draft: "draft_alias r = draft_alias current"
    and run: "publishTemplate h r p (published_alias current) revision limit s = (x, t)"
  shows "aliases_ok t"
proof (cases "t = s")
  case False
  then have free: "\<And>a. published_alias r = Some a \<Longrightarrow> map_get (m_published_aliases s) a = None \<or> map_get (m_published_aliases s) a = Some (tmpl_id r)"
    and t: "m_templates t = map_set (tmpl_id r) r (m_templates s)" "m_template_aliases t = m_template_aliases s"
      "m_published_aliases t = reindex (published_alias current) (published_alias r) (tmpl_id r) (m_published_aliases s)"
    using run current by (auto simp: publishTemplate_def Let_def reindex_def split: if_splits)
  have "index_ok published_alias (m_templates t) (m_published_aliases t)"
    unfolding t using ok free current by (intro index_set) (auto simp: aliases_ok_def)
  moreover have "index_ok draft_alias (m_templates t) (m_template_aliases t)"
    unfolding t using ok current draft by (intro index_keep) (auto simp: aliases_ok_def)
  ultimately show ?thesis by (simp add: aliases_ok_def)
qed (use ok in simp)

lemma delete_aliases:
  assumes ok: "aliases_ok s" and run: "deleteTemplate r revision s = (x, t)"
  shows "aliases_ok t"
proof (cases "t = s")
  case False
  then obtain current where current: "map_get (m_templates s) (tmpl_id r) = Some current"
    and t: "t = s\<lparr>m_templates := map_delete (tmpl_id r) (m_templates s),
        m_template_aliases := (case draft_alias current of None \<Rightarrow> m_template_aliases s | Some a \<Rightarrow> map_delete a (m_template_aliases s)),
        m_published_aliases := (case published_alias current of None \<Rightarrow> m_published_aliases s | Some a \<Rightarrow> map_delete a (m_published_aliases s)),
        m_template_versions := map_delete (tmpl_id r) (m_template_versions s)\<rparr>"
    using run by (auto simp: deleteTemplate_def draft_alias_def split: option.splits if_splits)
  show ?thesis
    using ok index_delete[OF _ current] by (auto simp: aliases_ok_def t)
qed (use ok in simp)

lemma template_reachable_aliases: "template_reachable h s \<Longrightarrow> aliases_ok s"
proof (induction rule: template_reachable.induct)
  case template_empty
  then show ?case by (simp add: aliases_ok_def index_ok_def empty_store_def)
next
  case (template_next s t)
  from template_next(2) show ?case
    by (cases rule: template_step.cases)
      (use template_next(3) in \<open>auto intro: create_aliases replace_aliases publish_aliases delete_aliases\<close>)
qed

section \<open>Properties\<close>

text \<open>
  C38. An alias names at most one template: in every store that the calls of the template
  service reach, two templates whose drafts have the same alias, or whose published versions
  do, are the same template, and looking the alias up returns that template unless the alias
  happens to be the ID of another one.
\<close>

theorem template_aliases_unique:
  assumes "template_reachable h s" and "map_get (m_templates s) i = Some t" and "i \<noteq> []"
    and "draft_alias t = Some a" and "\<not> map_has (m_templates s) a"
  shows "getTemplate a s = Some t
    \<and> {j. \<exists>u. map_get (m_templates s) j = Some u \<and> draft_alias u = Some a} = {i}
    \<and> (case published_alias t of None \<Rightarrow> True
       | Some b \<Rightarrow> {j. \<exists>u. map_get (m_templates s) j = Some u \<and> published_alias u = Some b} = {i})"
proof -
  have ok: "aliases_ok s" by (rule template_reachable_aliases[OF assms(1)])
  have "map_get (m_template_aliases s) a = Some i" using ok assms(2,4) by (auto simp: aliases_ok_def index_ok_def)
  then have "getTemplate a s = Some t"
    using assms(2,3,5) by (simp add: getTemplate_def get_if_truthy_def truthy_def)
  moreover have "{j. \<exists>u. map_get (m_templates s) j = Some u \<and> draft_alias u = Some a} = {i}"
    by (rule index_single[of draft_alias, OF _ assms(2,4)]) (use ok in \<open>unfold aliases_ok_def, blast\<close>)
  moreover have "{j. \<exists>u. map_get (m_templates s) j = Some u \<and> published_alias u = Some b} = {i}" if "published_alias t = Some b" for b
    by (rule index_single[of published_alias, OF _ assms(2) that]) (use ok in \<open>unfold aliases_ok_def, blast\<close>)
  ultimately show ?thesis by (simp split: option.split)
qed

definition demo_template :: "string \<Rightarrow> string \<Rightarrow> template_record" where
  "demo_template i a = \<lparr>tmpl_id = i, tmpl_created_at = ''t'', tmpl_updated_at = ''t'', tmpl_revision = 1,
     tmpl_draft = \<lparr>tver_id = ''v1'', tver_name = ''n'', tver_html = ''h'', tver_text = None, tver_alias = Some a,
       tver_from = None, tver_subject = None, tver_reply_to = None, tver_variables = [], tver_created_at = ''t'',
       tver_source_version_id = None\<rparr>,
     tmpl_published = None, tmpl_published_at = None\<rparr>"

definition demo_template_store :: mem where
  "demo_template_store = empty_store\<lparr>m_templates := [(''t-1'', demo_template ''t-1'' ''welcome'')],
     m_template_aliases := [(''welcome'', ''t-1'')]\<rparr>"

lemma demo_template_fields:
  "tmpl_id (demo_template i a) = i" "draft_alias (demo_template i a) = Some a" "tmpl_published (demo_template i a) = None"
  by (simp_all add: demo_template_def draft_alias_def)

lemma demo_template_created: "createTemplate (demo_template ''t-1'' ''welcome'') empty_store = (Inr (), demo_template_store)"
  using demo_template_fields(2)[of "''t-1''" "''welcome''"]
  by (simp add: createTemplate_def empty_store_def map_has_def demo_template_store_def draft_alias_def demo_template_fields)

lemma demo_template_reachable: "template_reachable h demo_template_store"
  by (rule template_next[OF template_empty template_create[OF demo_template_fields(3) demo_template_created]])

lemma demo_template_stored:
  "map_get (m_templates demo_template_store) ''t-1'' = Some (demo_template ''t-1'' ''welcome'')"
  "\<not> map_has (m_templates demo_template_store) ''welcome''"
  by (simp_all add: demo_template_store_def map_has_def)

theorem template_aliases_unique_witness:
  "createTemplate (demo_template ''t-1'' ''welcome'') empty_store = (Inr (), demo_template_store)
     \<and> getTemplate ''welcome'' demo_template_store = Some (demo_template ''t-1'' ''welcome'')"
  using template_aliases_unique[OF demo_template_reachable[of demo_host] demo_template_stored(1) _ demo_template_fields(2)
      demo_template_stored(2)] demo_template_created by blast

end
