(* ===== verification/Received_Claims.thy ===== *)
theory Received_Claims
  imports Catalog_Store Demo_Delivery
begin

text \<open>
  The processing claims of received emails: the worker that claims an inbound email holds it
  until its lease is over or it releases the claim, whatever other workers try.
\<close>

section \<open>What the others do\<close>

text \<open>
  Claims and releases of the others while the lease that ends at \<open>lease\<close> is held: on other
  emails, at a time the lease covers, or releasing a claim that ends at another time.
\<close>

inductive other_received :: "string \<Rightarrow> int \<Rightarrow> mem \<Rightarrow> mem \<Rightarrow> bool" for i lease where
  other_received_claim: "k \<noteq> i \<or> now \<le> lease \<Longrightarrow> claimReceivedEmail k now until s = (rb, t) \<Longrightarrow> other_received i lease s t"
| other_received_release: "k \<noteq> i \<or> until \<noteq> lease \<Longrightarrow> releaseReceivedEmailClaim k until s = (ru, t) \<Longrightarrow> other_received i lease s t"

lemma received_claim_some:
  "claimReceivedEmail i now lease s = (Inr True, t) \<Longrightarrow> map_get (m_received_claims t) i = Some lease"
  by (auto simp: claimReceivedEmail_def split: option.splits if_splits)

lemma received_claim_held:
  "map_get (m_received_claims s) i = Some lease \<Longrightarrow>
     claimReceivedEmail i now until s = (if now \<le> lease then (Inr False, s)
       else (Inr True, s\<lparr>m_received_claims := map_set i until (m_received_claims s)\<rparr>))"
  by (simp add: claimReceivedEmail_def)

lemma received_claim_others:
  "claimReceivedEmail k now until s = (r, t) \<Longrightarrow> k \<noteq> i \<Longrightarrow> map_get (m_received_claims t) i = map_get (m_received_claims s) i"
  by (auto simp: claimReceivedEmail_def split: option.splits if_splits)

lemma other_received_keeps:
  assumes "other_received i lease s t" and held: "map_get (m_received_claims s) i = Some lease"
  shows "map_get (m_received_claims t) i = Some lease"
  using assms(1)
proof cases
  case (other_received_claim k now until rb)
  then show ?thesis
    using received_claim_held[OF held, of now until] received_claim_others held by (cases "k = i") (auto split: if_splits)
next
  case (other_received_release k until ru)
  then show ?thesis using held by (auto simp: releaseReceivedEmailClaim_def split: if_splits)
qed

text \<open>
  A received email is processed by one worker at a time: after a worker claimed it, and
  whatever the others claim and release in the meantime, any further claim is refused,
  without a change, exactly up to the end of the lease; and once the worker releases its
  claim, the next one succeeds at any time.
\<close>

theorem received_claim_exclusive:
  assumes "claimReceivedEmail i now lease s = (Inr True, t)" and "(other_received i lease)\<^sup>*\<^sup>* t u"
    and "claimReceivedEmail i now' until u = (r, v)"
    and "releaseReceivedEmailClaim i lease u = (r', w)"
  shows "r = Inr (lease < now') \<and> (lease < now' \<or> v = u)
    \<and> map_get (m_received_claims v) i = Some (if lease < now' then until else lease)
    \<and> fst (claimReceivedEmail i now'' until' w) = Inr True"
proof -
  have u: "map_get (m_received_claims u) i = Some lease"
    using assms(2) by (induction rule: rtranclp_induct)
      (auto intro: received_claim_some[OF assms(1)] other_received_keeps)
  have "map_get (m_received_claims w) i = None" using assms(4) u by (auto simp: releaseReceivedEmailClaim_def)
  then have "fst (claimReceivedEmail i now'' until' w) = Inr True" by (simp add: claimReceivedEmail_def)
  then show ?thesis
    using assms(3) received_claim_held[OF u, of now' until] u by (auto split: if_splits)
qed

theorem received_claim_exclusive_witness:
  "\<exists>t w. claimReceivedEmail ''r'' 10 70 empty_store = (Inr True, t)
     \<and> claimReceivedEmail ''r'' 70 200 t = (Inr False, t)
     \<and> releaseReceivedEmailClaim ''r'' 70 t = (Inr (), w) \<and> fst (claimReceivedEmail ''r'' 60 120 w) = Inr True"
proof -
  obtain t where c: "claimReceivedEmail ''r'' 10 70 empty_store = (Inr True, t)"
    by (simp add: claimReceivedEmail_def empty_store_def)
  obtain r v where c2: "claimReceivedEmail ''r'' 70 200 t = (r, v)" by fastforce
  obtain w where w: "releaseReceivedEmailClaim ''r'' 70 t = (Inr (), w)" by (simp add: releaseReceivedEmailClaim_def)
  show ?thesis
    using received_claim_exclusive[OF c rtranclp.rtrancl_refl c2 w, of 60 120] c c2 w by auto
qed

end
