(* ===== verification/Error_Telemetry.thy ===== *)
theory Error_Telemetry
  imports Demo_Delivery
begin

text \<open>
  The error classes of \<open>src/core/errors.ts\<close> and the classification of thrown values of
  \<open>src/core/error-telemetry.ts\<close>: a category that is safe to log for anything that can be
  thrown, and whether the failed work is retried. A thrown value is looked at through its
  properties; reading one has no side effect here, so the handlers of \<open>try\<close> are not reached.
\<close>

section \<open>Error classes\<close>

definition is_app_error :: "js_error \<Rightarrow> bool" where
  "is_app_error e = (case e of ValidationError _ \<Rightarrow> True | UnauthorizedError _ \<Rightarrow> True | ForbiddenError _ \<Rightarrow> True
     | RegisteredDomainError _ \<Rightarrow> True | NotFoundError _ \<Rightarrow> True | ConflictError _ \<Rightarrow> True
     | PreconditionFailedError _ \<Rightarrow> True | InvalidStateError _ \<Rightarrow> True | AppError _ _ _ _ \<Rightarrow> True | _ \<Rightarrow> False)"

fun error_status :: "js_error \<Rightarrow> int" where
  "error_status (ValidationError _) = 422"
| "error_status (UnauthorizedError _) = 401"
| "error_status (ForbiddenError _) = 403"
| "error_status (RegisteredDomainError _) = 403"
| "error_status (NotFoundError _) = 404"
| "error_status (ConflictError _) = 409"
| "error_status (PreconditionFailedError _) = 412"
| "error_status (InvalidStateError _) = 409"
| "error_status (AppError n _ _ _) = n"
| "error_status _ = 0"

text \<open>The \<open>name\<close> property: the class of an application error, or the constructor of the others.\<close>

fun error_name :: "js_error \<Rightarrow> string" where
  "error_name (ValidationError _) = ''validation_error''"
| "error_name (UnauthorizedError _) = ''validation_error''"
| "error_name (ForbiddenError _) = ''restricted_api_key''"
| "error_name (RegisteredDomainError _) = ''validation_error''"
| "error_name (NotFoundError _) = ''not_found''"
| "error_name (ConflictError _) = ''conflict''"
| "error_name (PreconditionFailedError _) = ''precondition_failed''"
| "error_name (InvalidStateError _) = ''invalid_state''"
| "error_name (AppError _ n _ _) = n"
| "error_name (PlainError _) = ''Error''"
| "error_name ZodError = ''ZodError''"
| "error_name RangeError = ''RangeError''"
| "error_name SyntaxError = ''SyntaxError''"
| "error_name TypeError = ''TypeError''"
| "error_name (Foreign _) = []"

text \<open>The argument of two of the constructors is a part of the message.\<close>

fun error_message :: "js_error \<Rightarrow> string" where
  "error_message (ValidationError m) = m"
| "error_message (UnauthorizedError m) = m"
| "error_message (ForbiddenError m) = m"
| "error_message (RegisteredDomainError d) = ''The `'' @ d @ ''` domain has been registered already.''"
| "error_message (NotFoundError r) = r @ '' was not found.''"
| "error_message (ConflictError m) = m"
| "error_message (PreconditionFailedError m) = m"
| "error_message (InvalidStateError m) = m"
| "error_message (AppError _ _ m _) = m"
| "error_message (PlainError m) = m"
| "error_message _ = []"

section \<open>Looking at a thrown value\<close>

text \<open>A thrown value as the value \<open>unknown\<close> that a \<open>catch\<close> binds.\<close>

definition thrown_value :: "js_error \<Rightarrow> js_value" where
  "thrown_value e = (case e of Foreign v \<Rightarrow> v
     | _ \<Rightarrow> JObj ([(''name'', JStr (error_name e)), (''message'', JStr (error_message e))]
         @ (if is_app_error e then [(''status'', JNum (Num (of_int (error_status e))))] else [])
         @ (case e of AppError _ _ _ props \<Rightarrow> props | _ \<Rightarrow> [])))"

definition is_object :: "js_value \<Rightarrow> bool" where
  "is_object v = (case v of JArr _ \<Rightarrow> True | JObj _ \<Rightarrow> True | _ \<Rightarrow> False)"

definition js_prop :: "js_value \<Rightarrow> string \<Rightarrow> js_value" where
  "js_prop v k = (case v of JObj fs \<Rightarrow> (case map_of fs k of Some x \<Rightarrow> x | None \<Rightarrow> JUndefined) | _ \<Rightarrow> JUndefined)"

definition network_error_categories :: "(string \<times> string) list" where
  "network_error_categories =
     [(''ECONNREFUSED'', ''network_refused''), (''ECONNRESET'', ''network_reset''),
      (''ENETUNREACH'', ''network_refused''), (''ENOTFOUND'', ''network_dns''),
      (''EAI_AGAIN'', ''network_dns''), (''ETIMEDOUT'', ''timeout'')]"

definition provider_throttling_error_names :: "string list" where
  "provider_throttling_error_names =
     [''BandwidthLimitExceeded'', ''EC2ThrottledException'', ''LimitExceededException'',
      ''PriorRequestNotComplete'', ''ProvisionedThroughputExceededException'', ''RequestLimitExceeded'',
      ''RequestThrottled'', ''RequestThrottledException'', ''SlowDown'', ''ThrottledException'',
      ''Throttling'', ''ThrottlingException'', ''TooManyRequestsException'', ''TransactionInProgressException'']"

fun network_category :: "host \<Rightarrow> nat \<Rightarrow> js_value \<Rightarrow> string option" where
  "network_category h remaining v =
     (if \<not> is_object v then None
      else let code = (case js_prop v ''code'' of JStr s \<Rightarrow> js_upper h s | _ \<Rightarrow> [])
           in case map_of network_error_categories code of
                Some c \<Rightarrow> Some c
              | None \<Rightarrow> (case remaining of 0 \<Rightarrow> None | Suc n \<Rightarrow> network_category h n (js_prop v ''cause'')))"

text \<open>\<open>n >= k\<close> for a number of the language and an integer.\<close>

definition number_ge :: "js_number \<Rightarrow> int \<Rightarrow> bool" where
  "number_ge n k = (case n of Num q \<Rightarrow> of_int k \<le> q | PosInf \<Rightarrow> True | _ \<Rightarrow> False)"

definition provider_category :: "js_value \<Rightarrow> string option" where
  "provider_category v =
     (let metadata = js_prop v ''$metadata'' in
      if \<not> is_object v \<or> \<not> is_object metadata then None
      else if (case js_prop v ''name'' of JStr n \<Rightarrow> n \<in> set provider_throttling_error_names | _ \<Rightarrow> False)
      then Some ''provider_throttled''
      else (case js_prop metadata ''httpStatusCode'' of
          JNum status \<Rightarrow>
            if status = Num 429 then Some ''provider_throttled''
            else if number_ge status 500 then Some ''provider_unavailable''
            else if number_ge status 400 then Some ''provider_rejected''
            else Some ''provider_error''
        | _ \<Rightarrow> Some ''provider_error''))"

text \<open>\<open>/^[a-z][a-z0-9_]{0,63}$/\<close>\<close>

definition is_safe_name :: "string \<Rightarrow> bool" where
  "is_safe_name s = (case s of [] \<Rightarrow> False
     | c # cs \<Rightarrow> is_lower c \<and> length cs \<le> 63 \<and> list_all (\<lambda>x. is_lower x \<or> is_digit x \<or> x = CHR ''_'') cs)"

definition classifyError :: "host \<Rightarrow> js_error \<Rightarrow> string" where
  "classifyError h e =
     (if is_app_error e \<and> is_safe_name (error_name e) then error_name e
      else case network_category h 2 (thrown_value e) of Some c \<Rightarrow> c
      | None \<Rightarrow> (case provider_category (thrown_value e) of Some c \<Rightarrow> c
        | None \<Rightarrow>
            if e = SyntaxError \<or> js_prop (thrown_value e) ''name'' = JStr ''SyntaxError'' then ''invalid_data''
            else if js_prop (thrown_value e) ''name'' \<in> {JStr ''AbortError'', JStr ''TimeoutError''} then ''timeout''
            else ''application_error''))"

definition safeErrorCategory :: "host \<Rightarrow> js_error \<Rightarrow> string" where
  "safeErrorCategory h e = classifyError h e"

definition shouldRetryOperationalError :: "host \<Rightarrow> js_error \<Rightarrow> bool" where
  "shouldRetryOperationalError h e =
     (if is_app_error e then error_status e \<in> {408, 425, 429} \<or> 500 \<le> error_status e
      else classifyError h e \<notin> {''invalid_data'', ''provider_rejected''})"

datatype safe_failure_action =
    Email_delivery_failed | Inbound_processing_failed | Ses_event_failed | Webhook_delivery_failed | Webhook_enqueue_failed

fun failure_action_str :: "safe_failure_action \<Rightarrow> string" where
  "failure_action_str Email_delivery_failed = ''Email delivery failed''"
| "failure_action_str Inbound_processing_failed = ''Inbound email processing failed''"
| "failure_action_str Ses_event_failed = ''SES event processing failed''"
| "failure_action_str Webhook_delivery_failed = ''Webhook delivery failed''"
| "failure_action_str Webhook_enqueue_failed = ''Webhook enqueue failed''"

definition safeFailureMessage :: "host \<Rightarrow> safe_failure_action \<Rightarrow> js_error \<Rightarrow> string" where
  "safeFailureMessage h action e = failure_action_str action @ '' ('' @ safeErrorCategory h e @ '').''"

text \<open>The sanitised error has the message above and a name of its own.\<close>

record sanitized_error =
  se_name :: string
  se_message :: string

definition safeRuntimeError :: "host \<Rightarrow> safe_failure_action \<Rightarrow> js_error \<Rightarrow> sanitized_error" where
  "safeRuntimeError h action e = \<lparr>se_name = ''HayaSendOperationalError'', se_message = safeFailureMessage h action e\<rparr>"

section \<open>What can come out\<close>

text \<open>The errors of the classes that fix their name.\<close>

definition is_core_error :: "js_error \<Rightarrow> bool" where
  "is_core_error e = (case e of AppError _ _ _ _ \<Rightarrow> False | _ \<Rightarrow> is_app_error e)"

lemma core_error_names_safe: "is_core_error e \<Longrightarrow> is_safe_name (error_name e)"
  by (cases e) (simp_all add: is_app_error_def is_core_error_def, (code_simp)+)

declare network_category.simps [simp del]

lemma network_table_category: "map_of network_error_categories k = Some c \<Longrightarrow> \<exists>x. c = category_str x"
proof -
  have "list_all (\<lambda>p. snd p \<in> category_str ` {Network_refused, Network_reset, Network_dns, Timeout}) network_error_categories"
    by (simp add: network_error_categories_def)
  moreover assume "map_of network_error_categories k = Some c"
  ultimately show ?thesis by (auto simp: list_all_iff simp del: category_str.simps dest!: map_of_SomeD bspec)
qed

lemma network_category_in: "network_category h n v = Some c \<Longrightarrow> \<exists>x. c = category_str x"
proof (induction n arbitrary: v)
  case 0
  then show ?case by (subst (asm) network_category.simps)
    (auto simp: Let_def simp del: category_str.simps split: if_splits option.splits dest!: network_table_category)
next
  case (Suc n)
  show ?case using Suc.prems
    by (subst (asm) network_category.simps)
      (auto simp: Let_def simp del: category_str.simps split: if_splits option.splits dest!: network_table_category dest: Suc.IH)
qed

lemma provider_category_in:
  assumes "provider_category v = Some c"
  shows "\<exists>x. c = category_str x"
proof -
  have "c \<in> {''provider_throttled'', ''provider_unavailable'', ''provider_rejected'', ''provider_error''}"
    using assms unfolding provider_category_def Let_def
    by (simp only: insert_iff split: if_splits js_value.splits option.splits) (simp only: option.inject option.distinct, blast?)+
  then show ?thesis
    by (metis category_str.simps(6-9) empty_iff insertE)
qed

definition safe_vocabulary :: "string list" where
  "safe_vocabulary = map category_str all_categories
     @ [''validation_error'', ''restricted_api_key'', ''not_found'', ''conflict'', ''precondition_failed'', ''invalid_state'']"

lemma classify_app: "is_app_error e \<Longrightarrow> is_safe_name (error_name e) \<Longrightarrow> classifyError h e = error_name e"
  by (simp add: classifyError_def)

lemma classify_other:
  assumes "\<not> (is_app_error e \<and> is_safe_name (error_name e))"
  shows "\<exists>x. classifyError h e = category_str x"
proof (cases "network_category h 2 (thrown_value e)")
  case (Some c)
  then show ?thesis
    using assms network_category_in[OF Some] unfolding classifyError_def by ((simp only: if_False option.case)?, blast?)
next
  case None
  show ?thesis
  proof (cases "provider_category (thrown_value e)")
    case (Some c)
    then show ?thesis
      using assms None provider_category_in[OF Some] unfolding classifyError_def by ((simp only: if_False option.case)?, blast?)
  next
    case no_provider: None
    have "classifyError h e \<in> {''invalid_data'', ''timeout'', ''application_error''}"
      unfolding classifyError_def using assms None no_provider by (simp only: option.case if_False if_True simp_thms split: if_splits) blast
    then show ?thesis by (metis category_str.simps(1,2,10) empty_iff insertE)
  qed
qed

lemma category_names_safe: "is_safe_name (category_str x)"
  by (cases x; simp; code_simp)

section \<open>Properties\<close>


text \<open>
  The retry decision: of the application's errors only one raised with a status of its
  own for a time-out, too early a request, throttling or a server error is retried, and none
  of the error classes, which all stand for a client error; a rejection by the provider and
  malformed data are not retried; everything else is, in particular every network failure,
  time-out, throttling and provider outage.
\<close>

theorem retry_decision:
  "shouldRetryOperationalError h e \<longleftrightarrow>
     (case e of
        AppError status name message props \<Rightarrow> status = 408 \<or> status = 425 \<or> status = 429 \<or> 500 \<le> status
      | _ \<Rightarrow> \<not> is_app_error e \<and> safeErrorCategory h e \<in> {''network_refused'', ''network_reset'', ''network_dns'', ''timeout'',
          ''provider_throttled'', ''provider_unavailable'', ''provider_error'', ''application_error''})"
proof (cases "is_app_error e")
  case True
  then show ?thesis by (cases e) (simp_all add: shouldRetryOperationalError_def is_app_error_def)
next
  case False
  obtain x where x: "classifyError h e = category_str x" using classify_other False by blast
  have core: "shouldRetryOperationalError h e \<longleftrightarrow> safeErrorCategory h e \<in> {''network_refused'', ''network_reset'', ''network_dns'',
      ''timeout'', ''provider_throttled'', ''provider_unavailable'', ''provider_error'', ''application_error''}"
    using False unfolding shouldRetryOperationalError_def safeErrorCategory_def x by (cases x) simp_all
  show ?thesis
    unfolding core using False by (cases e) (simp_all add: is_app_error_def)
qed

end
