(* ===== verification/Job_Queues.thy ===== *)
theory Job_Queues
  imports Error_Telemetry
begin

text \<open>
  The job queue port (\<open>src/ports/job-queue.ts\<close>) and two of its implementations: the queue
  that captures jobs in memory (\<open>src/adapters/sqs-job-queue.ts\<close>) and the one that publishes a
  wake-up after a durable enqueue (\<open>src/adapters/wakeup-job-queue.ts\<close>). The port is a locale:
  a job whose enqueue returned has been accepted, and accepted jobs are not forgotten. An
  omitted delay is zero, the default of every implementation.
\<close>

type_synonym 'q enqueue = "job \<Rightarrow> int \<Rightarrow> ('q, unit) sx"

locale job_queue =
  fixes enqueue :: "'q enqueue" and accepted :: "'q \<Rightarrow> job set"
  assumes accepted_stays: "enqueue j d q = (r, q') \<Longrightarrow> accepted q \<subseteq> accepted q'"
    and enqueue_accepts: "enqueue j d q = (Inr (), q') \<Longrightarrow> j \<in> accepted q'"

section \<open>Capturing jobs\<close>

record captured_job =
  cj_job :: job
  cj_delay_seconds :: int

definition capturing_enqueue :: "captured_job list enqueue" where
  "capturing_enqueue j d jobs = (Inr (), jobs @ [\<lparr>cj_job = j, cj_delay_seconds = d\<rparr>])"

definition captured :: "captured_job list \<Rightarrow> job set" where
  "captured jobs = cj_job ` set jobs"

interpretation capturing: job_queue capturing_enqueue captured
  by unfold_locales (auto simp: capturing_enqueue_def captured_def)

section \<open>Waking workers up\<close>

text \<open>
  The state of the wake-up queue is that of the durable queue with the categories it logged.
  A failed publish is logged, never thrown: the job is already durable.
\<close>

definition wakeup_enqueue :: "host \<Rightarrow> 'q enqueue \<Rightarrow> unit result \<Rightarrow> ('q \<times> string list) enqueue" where
  "wakeup_enqueue h durable publish j d w =
     (case durable j d (fst w) of
        (Inl e, q) \<Rightarrow> (Inl e, (q, snd w))
      | (Inr _, q) \<Rightarrow>
          if d \<noteq> 0 then (Inr (), (q, snd w))
          else (case publish of Inr _ \<Rightarrow> (Inr (), (q, snd w))
                | Inl e \<Rightarrow> (Inr (), (q, snd w @ [safeErrorCategory h e]))))"

lemma wakeup_result:
  "wakeup_enqueue h durable publish j d w = (r, w') \<Longrightarrow> durable j d (fst w) = (r, fst w')"
  by (cases "durable j d (fst w)") (auto simp: wakeup_enqueue_def split: sum.splits if_splits)

context job_queue
begin

lemma wakeup_queue: "job_queue (wakeup_enqueue h enqueue publish) (\<lambda>w. accepted (fst w))"
proof
  fix j d w r w'
  assume run: "wakeup_enqueue h enqueue publish j d w = (r, w')"
  show "accepted (fst w) \<subseteq> accepted (fst w')" using accepted_stays wakeup_result[OF run] by blast
next
  fix j d w w'
  assume run: "wakeup_enqueue h enqueue publish j d w = (Inr (), w')"
  show "j \<in> accepted (fst w')" using enqueue_accepts wakeup_result[OF run] by blast
qed

end

interpretation waking: job_queue "wakeup_enqueue h capturing_enqueue publish" "\<lambda>w. captured (fst w)" for h publish
  by (rule capturing.wakeup_queue)

section \<open>Delays\<close>

text \<open>The queue service takes delays from zero to fifteen minutes.\<close>

definition sqs_delay :: "int \<Rightarrow> int" where
  "sqs_delay d = max 0 (min 900 d)"

lemma sqs_delay_bounds: "0 \<le> sqs_delay d" "sqs_delay d \<le> 900"
  by (simp_all add: sqs_delay_def)

end
