(* ===== verification/Outbox_Reconciler.thy ===== *)
theory Outbox_Reconciler
  imports Outbox_Properties Job_Queues
begin

text \<open>
  The outbox reconciler (\<open>src/services/outbox-reconciler.ts\<close>): it leases due items through
  the outbox port, hands one deterministic job per item to the queue, and acknowledges or
  fails the item. The port, the queue and the hook are parameters; a state is the state of
  the port with that of the queue. Wherever the code awaits, others may run: the parameter
  \<open>others\<close> is what they do to the state. The contract the reconciler needs of the port is
  the locale \<open>outbox_port\<close>, and the in-memory store satisfies it.
\<close>

section \<open>The reconciler\<close>

definition diagnosticCategory :: "host \<Rightarrow> js_error \<Rightarrow> diagnostic_category" where
  "diagnosticCategory h e =
     (case category_of_str (safeErrorCategory h e) of Some c \<Rightarrow> c | None \<Rightarrow> Application_error)"

record reconciler_options =
  ro_owner :: string
  ro_lease_seconds :: "js_number option"
  ro_batch_size :: "js_number option"

record reconciler =
  rec_owner :: string
  rec_lease_seconds :: js_number
  rec_batch_size :: js_number

definition positive_integer :: "js_number \<Rightarrow> bool" where
  "positive_integer n = (case js_integer n of None \<Rightarrow> False | Some i \<Rightarrow> 0 < i)"

definition createReconciler :: "reconciler_options \<Rightarrow> reconciler result" where
  "createReconciler opts =
     (if \<not> is_lease_owner (ro_owner opts)
      then Inl (PlainError ''Outbox lease owner must be a privacy-safe opaque ID.'')
      else let lease = coalesce (ro_lease_seconds opts) (Num 60); batch = coalesce (ro_batch_size opts) (Num 100) in
        if \<not> positive_integer lease
        then Inl (PlainError ''Outbox lease duration must be a positive integer.'')
        else if \<not> positive_integer batch \<or> (case js_integer batch of None \<Rightarrow> False | Some i \<Rightarrow> 1000 < i)
        then Inl (PlainError ''Outbox batch size must be between 1 and 1000.'')
        else Inr \<lparr>rec_owner = ro_owner opts, rec_lease_seconds = lease, rec_batch_size = batch\<rparr>)"

text \<open>The parameters of a sweep.\<close>

record ('s, 'q) reconciler_env =
  re_lease :: "lease_due_input \<Rightarrow> ('s, outbox_record list) sx"
  re_acknowledge :: "string \<Rightarrow> string \<Rightarrow> int \<Rightarrow> ('s, bool) sx"
  re_fail :: "string \<Rightarrow> string \<Rightarrow> diagnostic_category \<Rightarrow> int \<Rightarrow> ('s, bool) sx"
  re_enqueue :: "'q enqueue"
  re_after_publish :: "outbox_record \<Rightarrow> unit result"
  re_others :: "'s \<times> 'q \<Rightarrow> 's \<times> 'q"

definition on_store :: "('s, 'a) sx \<Rightarrow> ('s \<times> 'q, 'a) sx" where
  "on_store m w = (case m (fst w) of (r, s') \<Rightarrow> (r, (s', snd w)))"

definition on_queue :: "('q, 'a) sx \<Rightarrow> ('s \<times> 'q, 'a) sx" where
  "on_queue m w = (case m (snd w) of (r, q') \<Rightarrow> (r, (fst w, q')))"

text \<open>An awaited call: the call, then whatever others do before the result is delivered.\<close>

definition awaitS :: "('s, 'q) reconciler_env \<Rightarrow> ('s \<times> 'q, 'a) sx \<Rightarrow> ('s \<times> 'q, 'a) sx" where
  "awaitS env m w = (case m w of (r, w') \<Rightarrow> (r, re_others env w'))"

definition outbox_job :: "outbox_record \<Rightarrow> job" where
  "outbox_job item = Send_email (ob_message_id item) (Some (ob_id item))"

record sweep_counts =
  sw_dispatched :: nat
  sw_failed :: nat

definition sweep_item ::
  "host \<Rightarrow> ('s, 'q) reconciler_env \<Rightarrow> reconciler \<Rightarrow> int \<Rightarrow> outbox_record \<Rightarrow> sweep_counts \<Rightarrow> ('s \<times> 'q, sweep_counts) sx" where
  "sweep_item h env self now item counts w =
     (case awaitS env (on_queue (re_enqueue env (outbox_job item) 0)) w of
        (Inl e, w1) \<Rightarrow>
          bindS (awaitS env (on_store (re_fail env (ob_id item) (rec_owner self) (diagnosticCategory h e) now)))
            (\<lambda>_. returnS (counts\<lparr>sw_failed := sw_failed counts + 1\<rparr>)) w1
      | (Inr _, w1) \<Rightarrow>
          thenS (awaitS env (liftS (re_after_publish env item)))
            (bindS (awaitS env (on_store (re_acknowledge env (ob_id item) (rec_owner self) now)))
              (\<lambda>ok. returnS (if ok then counts\<lparr>sw_dispatched := sw_dispatched counts + 1\<rparr> else counts))) w1)"

fun sweep_items ::
  "host \<Rightarrow> ('s, 'q) reconciler_env \<Rightarrow> reconciler \<Rightarrow> int \<Rightarrow> outbox_record list \<Rightarrow> sweep_counts \<Rightarrow> ('s \<times> 'q, sweep_counts) sx" where
  "sweep_items h env self now [] counts = returnS counts"
| "sweep_items h env self now (item # items) counts =
     bindS (sweep_item h env self now item counts) (sweep_items h env self now items)"

record sweep_result = sweep_counts +
  sw_leased :: nat

definition lease_input :: "reconciler \<Rightarrow> int \<Rightarrow> lease_due_input" where
  "lease_input self now = \<lparr>lo_owner = rec_owner self, lo_now = now, lo_lease_seconds = rec_lease_seconds self,
     lo_limit = rec_batch_size self\<rparr>"

definition sweep :: "host \<Rightarrow> ('s, 'q) reconciler_env \<Rightarrow> reconciler \<Rightarrow> int \<Rightarrow> ('s \<times> 'q, sweep_result) sx" where
  "sweep h env self now =
     bindS (awaitS env (on_store (re_lease env (lease_input self now)))) (\<lambda>leased.
     bindS (sweep_items h env self now leased \<lparr>sw_dispatched = 0, sw_failed = 0\<rparr>) (\<lambda>counts.
     returnS (sweep_counts.extend counts \<lparr>sw_leased = length leased\<rparr>)))"

text \<open>
  \<open>run\<close>: the signal is read before and after each sweep, at the polls 0, 1, 2 and so on; a
  round waits after its sweep unless the signal was raised. \<open>None\<close> when the fuel, one unit
  per round, is used up.
\<close>

fun run_rounds ::
  "nat \<Rightarrow> host \<Rightarrow> ('s, 'q) reconciler_env \<Rightarrow> reconciler \<Rightarrow> (nat \<Rightarrow> bool) \<Rightarrow> (nat \<Rightarrow> int) \<Rightarrow> nat \<Rightarrow> 's \<times> 'q
     \<Rightarrow> (unit result \<times> ('s \<times> 'q)) option" where
  "run_rounds fuel h env self aborted clock i w =
     (if aborted (2 * i) then Some (Inr (), w)
      else case fuel of 0 \<Rightarrow> None
      | Suc fuel' \<Rightarrow>
         (case sweep h env self (clock i) w of
            (Inl e, w') \<Rightarrow> Some (Inl e, w')
          | (Inr _, w') \<Rightarrow> run_rounds fuel' h env self aborted clock (Suc i)
              (if aborted (2 * i + 1) then w' else re_others env w')))"

declare run_rounds.simps [simp del]

definition run ::
  "nat \<Rightarrow> host \<Rightarrow> ('s, 'q) reconciler_env \<Rightarrow> reconciler \<Rightarrow> js_number option \<Rightarrow> (nat \<Rightarrow> bool) \<Rightarrow> (nat \<Rightarrow> int) \<Rightarrow> 's \<times> 'q
     \<Rightarrow> (unit result \<times> ('s \<times> 'q)) option" where
  "run fuel h env self interval aborted clock w =
     (if \<not> positive_integer (coalesce interval (Num 1000))
      then Some (Inl (PlainError ''Outbox sweep interval must be a positive integer.''), w)
      else run_rounds fuel h env self aborted clock 0 w)"

section \<open>The contract of the port\<close>

text \<open>Items do not disappear and keep their message; items become dispatched only within a set.\<close>

definition items_evolve :: "('s \<Rightarrow> string \<Rightarrow> outbox_record option) \<Rightarrow> 's \<Rightarrow> 's \<Rightarrow> bool" where
  "items_evolve item s t \<longleftrightarrow>
     (\<forall>k x. item s k = Some x \<longrightarrow> (\<exists>y. item t k = Some y \<and> ob_message_id y = ob_message_id x))"

definition dispatch_within :: "('s \<Rightarrow> string \<Rightarrow> outbox_record option) \<Rightarrow> string set \<Rightarrow> 's \<Rightarrow> 's \<Rightarrow> bool" where
  "dispatch_within item ks s t \<longleftrightarrow>
     (\<forall>k y. item t k = Some y \<and> ob_dispatched_at y \<noteq> None \<and> k \<notin> ks \<longrightarrow>
        (\<exists>x. item s k = Some x \<and> ob_dispatched_at x \<noteq> None))"

text \<open>What the reconciler is for: a dispatched item has its job in the queue.\<close>

definition published :: "('s \<Rightarrow> string \<Rightarrow> outbox_record option) \<Rightarrow> ('q \<Rightarrow> job set) \<Rightarrow> 's \<times> 'q \<Rightarrow> bool" where
  "published item accepted w \<longleftrightarrow>
     (\<forall>k x. item (fst w) k = Some x \<and> ob_dispatched_at x \<noteq> None \<longrightarrow>
        Send_email (ob_message_id x) (Some k) \<in> accepted (snd w))"

text \<open>
  The queue satisfies the contract of the job queue; the others keep the same promises as
  the operations of the port.
\<close>

definition env_ok :: "('s \<Rightarrow> string \<Rightarrow> outbox_record option) \<Rightarrow> ('s \<Rightarrow> bool) \<Rightarrow> ('q \<Rightarrow> job set) \<Rightarrow> ('s, 'q) reconciler_env \<Rightarrow> bool" where
  "env_ok item sound accepted env \<longleftrightarrow>
     job_queue (re_enqueue env) accepted
   \<and> (\<forall>w. sound (fst w) \<and> published item accepted w \<longrightarrow>
        sound (fst (re_others env w)) \<and> items_evolve item (fst w) (fst (re_others env w))
        \<and> published item accepted (re_others env w) \<and> accepted (snd w) \<subseteq> accepted (snd (re_others env w)))"

lemma items_evolve_refl [simp]: "items_evolve item s s"
  by (auto simp: items_evolve_def)

lemma items_evolve_trans: "items_evolve item s t \<Longrightarrow> items_evolve item t u \<Longrightarrow> items_evolve item s u"
  unfolding items_evolve_def by metis

lemma published_mono:
  assumes "published item accepted (s, q)" "items_evolve item s t" "dispatch_within item ks s t" "accepted q \<subseteq> accepted q'"
    and "\<And>k y. k \<in> ks \<Longrightarrow> item t k = Some y \<Longrightarrow> Send_email (ob_message_id y) (Some k) \<in> accepted q'"
  shows "published item accepted (t, q')"
  unfolding published_def
proof (intro allI impI, elim conjE)
  fix k y assume y: "item (fst (t, q')) k = Some y" "ob_dispatched_at y \<noteq> None"
  show "Send_email (ob_message_id y) (Some k) \<in> accepted (snd (t, q'))"
  proof (cases "k \<in> ks")
    case True
    then show ?thesis using assms(5) y(1) by simp
  next
    case False
    then obtain x where x: "item s k = Some x" "ob_dispatched_at x \<noteq> None"
      using assms(3) y by (auto simp: dispatch_within_def)
    then have "Send_email (ob_message_id x) (Some k) \<in> accepted q" using assms(1) by (auto simp: published_def)
    moreover have "ob_message_id y = ob_message_id x"
      using assms(2) x(1) y(1) by (fastforce simp: items_evolve_def)
    ultimately show ?thesis using assms(4) by auto
  qed
qed

locale outbox_port =
  fixes lease :: "lease_due_input \<Rightarrow> ('s, outbox_record list) sx"
    and acknowledge :: "string \<Rightarrow> string \<Rightarrow> int \<Rightarrow> ('s, bool) sx"
    and failure :: "string \<Rightarrow> string \<Rightarrow> diagnostic_category \<Rightarrow> int \<Rightarrow> ('s, bool) sx"
    and item :: "'s \<Rightarrow> string \<Rightarrow> outbox_record option"
    and sound :: "'s \<Rightarrow> bool"
  assumes lease_law: "sound s \<Longrightarrow> lease input s = (rl, t) \<Longrightarrow> sound t \<and> items_evolve item s t \<and> dispatch_within item {} s t"
    and lease_items: "sound s \<Longrightarrow> lease input s = (Inr leased, t) \<Longrightarrow> x \<in> set leased \<Longrightarrow> item t (ob_id x) = Some x"
    and acknowledge_law: "sound s \<Longrightarrow> acknowledge k w n s = (rb, t) \<Longrightarrow> sound t \<and> items_evolve item s t \<and> dispatch_within item {k} s t"
    and failure_law: "sound s \<Longrightarrow> failure k w c n s = (rb, t) \<Longrightarrow> sound t \<and> items_evolve item s t \<and> dispatch_within item {} s t"
begin

definition good :: "('q \<Rightarrow> job set) \<Rightarrow> 's \<times> 'q \<Rightarrow> bool" where
  "good accepted w \<longleftrightarrow> sound (fst w) \<and> published item accepted w"

text \<open>From one state to a later one.\<close>

definition onward :: "('q \<Rightarrow> job set) \<Rightarrow> 's \<times> 'q \<Rightarrow> 's \<times> 'q \<Rightarrow> bool" where
  "onward accepted w w' \<longleftrightarrow> good accepted w' \<and> items_evolve item (fst w) (fst w') \<and> accepted (snd w) \<subseteq> accepted (snd w')"

lemma onward_refl: "good accepted w \<Longrightarrow> onward accepted w w"
  by (simp add: onward_def)

lemma onward_trans: "onward accepted w w' \<Longrightarrow> onward accepted w' w'' \<Longrightarrow> onward accepted w w''"
  unfolding onward_def using items_evolve_trans[of item "fst w" "fst w'" "fst w''"] order_trans by auto

lemma others_onward: "env_ok item sound accepted env \<Longrightarrow> good accepted w \<Longrightarrow> onward accepted w (re_others env w)"
  unfolding env_ok_def onward_def good_def by blast

lemma await_onward:
  assumes "env_ok item sound accepted env" "awaitS env m w = (r, w')" "\<And>r v. m w = (r, v) \<Longrightarrow> onward accepted w v"
  shows "onward accepted w w'"
proof -
  obtain r0 v where v: "m w = (r0, v)" by (rule prod.exhaust)
  then have "w' = re_others env v" "onward accepted w v" using assms(2,3) by (auto simp: awaitS_def)
  moreover have "onward accepted v (re_others env v)"
    using others_onward[OF assms(1)] calculation(2) by (simp add: onward_def[of accepted w])
  ultimately show ?thesis using onward_trans by blast
qed

lemma store_onward:
  assumes "good accepted w" "on_store m w = (r, v)"
    and "\<And>r t. m (fst w) = (r, t) \<Longrightarrow> sound t \<and> items_evolve item (fst w) t \<and> dispatch_within item ks (fst w) t"
    and "\<And>k y t. k \<in> ks \<Longrightarrow> item t k = Some y \<Longrightarrow> items_evolve item (fst w) t \<Longrightarrow>
      Send_email (ob_message_id y) (Some k) \<in> accepted (snd w)"
  shows "onward accepted w v"
proof -
  obtain t where t: "m (fst w) = (r, t)" "v = (t, snd w)" using assms(2) by (cases "m (fst w)") (auto simp: on_store_def)
  have "published item accepted (t, snd w)"
    using assms(1) assms(3)[OF t(1)] assms(4)
    by (intro published_mono[of item accepted "fst w" "snd w" t ks "snd w"]) (auto simp: good_def)
  then show ?thesis using assms(3)[OF t(1)] t(2) by (simp add: onward_def good_def)
qed

lemma queue_onward:
  assumes "env_ok item sound accepted env" "good accepted w" "on_queue (re_enqueue env j d) w = (r, v)"
  shows "onward accepted w v" "r = Inr () \<Longrightarrow> j \<in> accepted (snd v)"
proof -
  obtain q where q: "re_enqueue env j d (snd w) = (r, q)" "v = (fst w, q)"
    using assms(3) by (cases "re_enqueue env j d (snd w)") (auto simp: on_queue_def)
  have a: "accepted (snd w) \<subseteq> accepted q" "r = Inr () \<Longrightarrow> j \<in> accepted q"
    using job_queue.accepted_stays[of "re_enqueue env" accepted j d "snd w" r q]
      job_queue.enqueue_accepts[of "re_enqueue env" accepted j d "snd w" q] assms(1) q(1)
    by (simp_all add: env_ok_def)
  then have "published item accepted (fst w, q)" using assms(2) by (auto simp: good_def published_def)
  then show "onward accepted w v" using assms(2) a(1) q(2) by (simp add: onward_def good_def)
  show "r = Inr () \<Longrightarrow> j \<in> accepted (snd v)" using a(2) q(2) by simp
qed

text \<open>The operations of the environment are those of the port.\<close>

definition port_env :: "('s, 'q) reconciler_env \<Rightarrow> bool" where
  "port_env env \<longleftrightarrow> re_lease env = lease \<and> re_acknowledge env = acknowledge \<and> re_fail env = failure"

lemma sweep_item_onward:
  assumes env: "port_env env" "env_ok item sound accepted env" and good: "good accepted w"
    and x: "item (fst w) (ob_id x) = Some y" "ob_message_id y = ob_message_id x"
    and run: "sweep_item h env self now x counts w = (r, w')"
  shows "onward accepted w w'"
proof -
  obtain r1 w1 where q: "awaitS env (on_queue (re_enqueue env (outbox_job x) 0)) w = (r1, w1)" by (rule prod.exhaust)
  obtain v where v: "on_queue (re_enqueue env (outbox_job x) 0) w = (r1, v)" "w1 = re_others env v"
    using q by (cases "on_queue (re_enqueue env (outbox_job x) 0) w") (auto simp: awaitS_def)
  have step1: "onward accepted w w1"
    by (rule await_onward[OF env(2) q]) (rule queue_onward(1)[OF env(2) good])
  have good1: "good accepted w1" using step1 by (simp add: onward_def)
  show ?thesis
  proof (cases r1)
    case (Inl e)
    obtain r2 w2 where f: "awaitS env (on_store (failure (ob_id x) (rec_owner self) (diagnosticCategory h e) now)) w1 = (r2, w2)"
      by (rule prod.exhaust)
    have "onward accepted w1 w2"
      by (rule await_onward[OF env(2) f], rule store_onward[OF good1, where ks = "{}"])
        (use good1 failure_law in \<open>auto simp: good_def\<close>)
    moreover have "w' = w2"
      using run q f Inl env(1) by (cases r2) (auto simp: sweep_item_def port_env_def bindS_def returnS_def)
    ultimately show ?thesis using step1 onward_trans by blast
  next
    case (Inr u)
    have job: "outbox_job x \<in> accepted (snd w1)"
    proof -
      have "outbox_job x \<in> accepted (snd v)" using queue_onward(2)[OF env(2) good v(1)] Inr by simp
      moreover have "good accepted v" using queue_onward(1)[OF env(2) good v(1)] by (simp add: onward_def)
      then have "accepted (snd v) \<subseteq> accepted (snd w1)" using env(2) v(2) unfolding env_ok_def good_def by blast
      ultimately show ?thesis by blast
    qed
    obtain r2 w2 where a: "awaitS env (liftS (re_after_publish env x)) w1 = (r2, w2)" by (rule prod.exhaust)
    have step2: "onward accepted w1 w2"
      by (rule await_onward[OF env(2) a]) (use onward_refl[OF good1] in \<open>simp add: liftS_def\<close>)
    show ?thesis
    proof (cases r2)
      case (Inl e)
      then have "w' = w2" using run q a Inr by (auto simp: sweep_item_def thenS_def bindS_def)
      then show ?thesis using step1 step2 onward_trans by blast
    next
      case after: (Inr u')
      obtain r3 w3 where k: "awaitS env (on_store (acknowledge (ob_id x) (rec_owner self) now)) w2 = (r3, w3)" by (rule prod.exhaust)
      have good2: "good accepted w2" using step2 by (simp add: onward_def)
      have job2: "outbox_job x \<in> accepted (snd w2)" using job step2 by (auto simp: onward_def)
      have same: "items_evolve item (fst w) (fst w2)"
        using step1 step2 items_evolve_trans by (auto simp: onward_def)
      have "onward accepted w2 w3"
      proof (rule await_onward[OF env(2) k], rule store_onward[OF good2, where ks = "{ob_id x}"])
        fix r t assume "acknowledge (ob_id x) (rec_owner self) now (fst w2) = (r, t)"
        then show "sound t \<and> items_evolve item (fst w2) t \<and> dispatch_within item {ob_id x} (fst w2) t"
          by (intro acknowledge_law) (use good2 in \<open>simp_all add: good_def\<close>)
      next
        fix k z t assume z: "k \<in> {ob_id x}" "item t k = Some z" "items_evolve item (fst w2) t"
        have "items_evolve item (fst w) t" by (rule items_evolve_trans[OF same z(3)])
        then obtain y' where "item t (ob_id x) = Some y'" "ob_message_id y' = ob_message_id y"
          using x(1) unfolding items_evolve_def by blast
        then have "ob_message_id z = ob_message_id x" using x(2) z(1,2) by simp
        then show "Send_email (ob_message_id z) (Some k) \<in> accepted (snd w2)"
          using job2 z(1) by (simp add: outbox_job_def)
      qed
      moreover have "w' = w3"
        using run q a k Inr after env(1) by (cases r3) (auto simp: sweep_item_def thenS_def bindS_def returnS_def port_env_def)
      ultimately show ?thesis using step1 step2 onward_trans by blast
    qed
  qed
qed

lemma sweep_items_onward:
  assumes env: "port_env env" "env_ok item sound accepted env"
  shows "good accepted w \<Longrightarrow> (\<And>x. x \<in> set xs \<Longrightarrow> \<exists>y. item (fst w) (ob_id x) = Some y \<and> ob_message_id y = ob_message_id x)
    \<Longrightarrow> sweep_items h env self now xs counts w = (r, w') \<Longrightarrow> onward accepted w w'"
proof (induction xs arbitrary: w counts)
  case Nil
  then show ?case by (simp add: returnS_def onward_refl)
next
  case (Cons x xs)
  obtain r1 w1 where one: "sweep_item h env self now x counts w = (r1, w1)" by (rule prod.exhaust)
  obtain y where "item (fst w) (ob_id x) = Some y" "ob_message_id y = ob_message_id x" using Cons.prems(2) by auto
  then have step: "onward accepted w w1" using sweep_item_onward[OF env Cons.prems(1) _ _ one] by blast
  show ?case
  proof (cases r1)
    case (Inl e)
    then show ?thesis using Cons.prems(3) one step by (simp add: bindS_def)
  next
    case (Inr counts')
    have "\<exists>y. item (fst w1) (ob_id z) = Some y \<and> ob_message_id y = ob_message_id z" if "z \<in> set xs" for z
      using Cons.prems(2)[of z] that step unfolding onward_def items_evolve_def by fastforce
    moreover have "sweep_items h env self now xs counts' w1 = (r, w')" using Cons.prems(3) one Inr by (simp add: bindS_def)
    moreover have "good accepted w1" using step by (simp add: onward_def)
    ultimately have "onward accepted w1 w'" using Cons.IH by blast
    then show ?thesis using step onward_trans by blast
  qed
qed

lemma sweep_onward:
  assumes env: "port_env env" "env_ok item sound accepted env" and good: "good accepted w"
    and run: "sweep h env self now w = (r, w')"
  shows "onward accepted w w'"
proof -
  obtain r1 w1 where l: "awaitS env (on_store (lease (lease_input self now))) w = (r1, w1)" by (rule prod.exhaust)
  obtain v where v: "on_store (lease (lease_input self now)) w = (r1, v)" "w1 = re_others env v"
    using l by (cases "on_store (lease (lease_input self now)) w") (auto simp: awaitS_def)
  have step0: "onward accepted w v"
    by (rule store_onward[OF good v(1), where ks = "{}"]) (use good lease_law in \<open>auto simp: good_def\<close>)
  have step1: "onward accepted w w1"
    by (rule await_onward[OF env(2) l], rule store_onward[OF good, where ks = "{}"])
      (use good lease_law in \<open>auto simp: good_def\<close>)
  show ?thesis
  proof (cases r1)
    case (Inl e)
    then show ?thesis using run l step1 env(1) by (simp add: sweep_def port_env_def bindS_def)
  next
    case (Inr leased)
    have "lease (lease_input self now) (fst w) = (Inr leased, fst v)"
      using v(1) Inr by (cases "lease (lease_input self now) (fst w)") (auto simp: on_store_def)
    then have items: "item (fst v) (ob_id x) = Some x" if "x \<in> set leased" for x
      using lease_items that good by (auto simp: good_def)
    have "good accepted v" using step0 by (simp add: onward_def)
    then have "items_evolve item (fst v) (fst w1)" using env(2) v(2) unfolding env_ok_def good_def by blast
    then have tracked: "\<exists>y. item (fst w1) (ob_id x) = Some y \<and> ob_message_id y = ob_message_id x" if "x \<in> set leased" for x
      using items[OF that] unfolding items_evolve_def by blast
    obtain r2 w2 where s: "sweep_items h env self now leased \<lparr>sw_dispatched = 0, sw_failed = 0\<rparr> w1 = (r2, w2)" by (rule prod.exhaust)
    have "onward accepted w1 w2"
      by (rule sweep_items_onward[OF env _ tracked s]) (use step1 in \<open>auto simp: onward_def\<close>)
    moreover have "w' = w2"
      using run l s Inr env(1) by (cases r2) (auto simp: sweep_def port_env_def bindS_def returnS_def)
    ultimately show ?thesis using step1 onward_trans by blast
  qed
qed

lemma run_rounds_onward:
  assumes env: "port_env env" "env_ok item sound accepted env"
  shows "good accepted w \<Longrightarrow> run_rounds fuel h env self aborted clock i w = Some (r, w') \<Longrightarrow> onward accepted w w'"
proof (induction fuel arbitrary: i w)
  case 0
  then show ?case by (auto simp: run_rounds.simps onward_refl split: if_splits)
next
  case (Suc fuel)
  show ?case
  proof (cases "aborted (2 * i)")
    case True
    then show ?thesis using Suc.prems by (auto simp: run_rounds.simps onward_refl)
  next
    case False
    obtain r1 w1 where s: "sweep h env self (clock i) w = (r1, w1)" by (rule prod.exhaust)
    have step: "onward accepted w w1" by (rule sweep_onward[OF env Suc.prems(1) s])
    show ?thesis
    proof (cases r1)
      case (Inl e)
      then show ?thesis using Suc.prems(2) False s step by (simp add: run_rounds.simps[of "Suc fuel"])
    next
      case (Inr u)
      let ?w2 = "if aborted (2 * i + 1) then w1 else re_others env w1"
      have "good accepted w1" using step by (simp add: onward_def)
      then have step2: "onward accepted w1 ?w2"
        using others_onward[OF env(2)] onward_refl[of accepted w1] by simp
      have "run_rounds fuel h env self aborted clock (Suc i) ?w2 = Some (r, w')"
        using Suc.prems(2) False s Inr by (simp add: run_rounds.simps[of "Suc fuel"])
      then have "onward accepted ?w2 w'" using Suc.IH step2 by (auto simp: onward_def[of _ w1])
      then show ?thesis using step step2 onward_trans by blast
    qed
  qed
qed

end

section \<open>The in-memory store is such a port\<close>

definition stored_item :: "mem \<Rightarrow> string \<Rightarrow> outbox_record option" where
  "stored_item s k = getOutboxItem k s"

definition outbox_keyed :: "mem \<Rightarrow> bool" where
  "outbox_keyed s \<longleftrightarrow> keyed ob_id (m_outbox s)"

text \<open>A change of some items that keeps their message and where they are dispatched.\<close>

lemma put_all_items:
  assumes "keyed ob_id (m_outbox s)" "m_outbox t = put_all ob_id ys (m_outbox s)" "distinct (map ob_id ys)"
    and "\<And>y. y \<in> set ys \<Longrightarrow> \<exists>x. map_get (m_outbox s) (ob_id y) = Some x \<and> ob_message_id y = ob_message_id x
      \<and> ob_dispatched_at y = ob_dispatched_at x"
  shows "outbox_keyed t \<and> items_evolve stored_item s t \<and> dispatch_within stored_item {} s t"
proof -
  have get: "\<exists>y. map_get (m_outbox t) k = Some y \<and> (map_get (m_outbox s) k = Some y \<or> y \<in> set ys \<and> ob_id y = k)"
    if "map_get (m_outbox s) k \<noteq> None \<or> map_get (m_outbox t) k \<noteq> None" for k
  proof (cases "k \<in> set (map ob_id ys)")
    case True
    then obtain y where "y \<in> set ys" "ob_id y = k" by auto
    then show ?thesis using put_all_get[OF assms(3)] assms(2) by auto
  next
    case False
    then show ?thesis using that put_all_other[OF False] assms(2) by auto
  qed
  have "outbox_keyed t" using assms(1,2) by (auto simp: outbox_keyed_def)
  moreover have "items_evolve stored_item s t"
    unfolding items_evolve_def stored_item_def getOutboxItem_def using get assms(4) by (metis option.distinct(1) option.inject)
  moreover have "dispatch_within stored_item {} s t"
    unfolding dispatch_within_def stored_item_def getOutboxItem_def using get assms(4) by (metis option.distinct(1) option.inject)
  ultimately show ?thesis by blast
qed

lemma lease_evolves:
  assumes inv: "store_inv h s" and run: "leaseDueOutbox h hook input s = (r, t)"
  shows "items_evolve stored_item s t \<and> dispatch_within stored_item {} s t"
  using run
proof (cases rule: lease_outcome)
  case unchanged
  then show ?thesis by (auto simp: dispatch_within_def)
next
  case (leasing secs n e k)
  let ?taken = "take k (take (nat n) (due_outbox h (lo_now input) s))"
  let ?ys = "map (\<lambda>i. leased_item i (lo_owner input) e (to_iso (lo_now input))) ?taken"
  have key: "keyed ob_id (m_outbox s)" using inv by (simp add: store_inv_def maps_keyed_def)
  have "m_outbox t = put_all ob_id ?ys (m_outbox s)" using arg_cong[where f = m_outbox, OF leasing(10)] by simp
  moreover have "map ob_id ?ys = take (min k (nat n)) (map ob_id (due_outbox h (lo_now input) s))"
    by (simp add: comp_def take_map)
  then have "distinct (map ob_id ?ys)" using due_outbox_distinct[OF key] by simp
  moreover have "\<exists>x. map_get (m_outbox s) (ob_id y) = Some x \<and> ob_message_id y = ob_message_id x
      \<and> ob_dispatched_at y = ob_dispatched_at x" if y: "y \<in> set ?ys" for y
  proof -
    obtain x where "x \<in> set ?taken" "y = leased_item x (lo_owner input) e (to_iso (lo_now input))"
      using y unfolding set_map by blast
    moreover have "x \<in> set (due_outbox h (lo_now input) s)" using calculation(1) by (meson in_set_takeD)
    ultimately show ?thesis using due_outbox_mem[OF key] by simp
  qed
  ultimately show ?thesis using put_all_items[OF key] by blast
qed

lemma settle_evolves:
  assumes key: "keyed ob_id (m_outbox s)" and out: "settle_outcome s k owner f ok (r, t)"
    and f: "\<And>x. ob_id (f x) = ob_id x" "\<And>x. ob_message_id (f x) = ob_message_id x"
  shows "items_evolve stored_item s t \<and> dispatch_within stored_item {k} s t"
    "(\<And>x. ob_dispatched_at (f x) = ob_dispatched_at x) \<Longrightarrow> dispatch_within stored_item {} s t"
proof -
  consider "m_outbox t = m_outbox s"
    | x where "map_get (m_outbox s) k = Some x" "m_outbox t = map_set k (f x) (m_outbox s)"
  proof -
    from out consider (same) "unlogged t = unlogged s"
      | (set) x p where "map_get (m_outbox s) k = Some x"
          "unlogged t = (with_outbox (map_set k (f x) (m_outbox s)) (unlogged s))\<lparr>m_publish_failures := p\<rparr>"
      unfolding settle_outcome_def by auto
    then show thesis
    proof cases
      case same
      then show thesis using that(1) unlogged_eqD(7) by blast
    next
      case set
      have "m_outbox t = map_set k (f x) (m_outbox s)" using arg_cong[where f = m_outbox, OF set(2)] by simp
      then show thesis by (rule that(2)[OF set(1)])
    qed
  qed
  note cases = this
  show "items_evolve stored_item s t \<and> dispatch_within stored_item {k} s t"
    using cases
  proof cases
    case 1
    then show ?thesis by (auto simp: items_evolve_def dispatch_within_def stored_item_def getOutboxItem_def)
  next
    case 2
    then show ?thesis using f(2) by (auto simp: items_evolve_def dispatch_within_def stored_item_def getOutboxItem_def)
  qed
  show "dispatch_within stored_item {} s t" if "\<And>x. ob_dispatched_at (f x) = ob_dispatched_at x"
    using cases
  proof cases
    case 1
    then show ?thesis by (auto simp: dispatch_within_def stored_item_def getOutboxItem_def)
  next
    case 2
    then show ?thesis using that by (auto simp: dispatch_within_def stored_item_def getOutboxItem_def split: if_splits)
  qed
qed

interpretation memory_outbox: outbox_port "leaseDueOutbox h hook" "acknowledgeOutbox h hook" "recordOutboxFailure h hook"
    stored_item "store_inv h" for h hook
proof
  fix s input rl t assume a: "store_inv h s" "leaseDueOutbox h hook input s = (rl, t)"
  show "store_inv h t \<and> items_evolve stored_item s t \<and> dispatch_within stored_item {} s t"
    using store_step_inv[OF step_lease[OF a(2)] a(1)] lease_evolves[OF a] by simp
next
  fix s input leased t x assume "store_inv h s" "leaseDueOutbox h hook input s = (Inr leased, t)" "x \<in> set leased"
  then show "stored_item t (ob_id x) = Some x" using lease_result_item(1) by (simp add: stored_item_def getOutboxItem_def)
next
  fix s k w n rb t assume a: "store_inv h s" "acknowledgeOutbox h hook k w n s = (rb, t)"
  have "keyed ob_id (m_outbox s)" using a(1) by (simp add: store_inv_def maps_keyed_def)
  then show "store_inv h t \<and> items_evolve stored_item s t \<and> dispatch_within stored_item {k} s t"
    using store_step_inv[OF step_acknowledge[OF a(2)] a(1)]
      settle_evolves(1)[OF _ acknowledge_outcome[of s k w n h hook, unfolded a(2)]] by simp
next
  fix s k w c n rb t assume a: "store_inv h s" "recordOutboxFailure h hook k w c n s = (rb, t)"
  have "keyed ob_id (m_outbox s)" using a(1) by (simp add: store_inv_def maps_keyed_def)
  then show "store_inv h t \<and> items_evolve stored_item s t \<and> dispatch_within stored_item {} s t"
    using store_step_inv[OF step_failure[OF a(2)] a(1)]
      settle_evolves[OF _ failure_outcome[of s k w n c h hook, unfolded a(2)]] by simp
qed

text \<open>The reconciler on the in-memory store.\<close>

definition memory_env ::
  "host \<Rightarrow> mutation_hook \<Rightarrow> 'q enqueue \<Rightarrow> (outbox_record \<Rightarrow> unit result) \<Rightarrow> (mem \<times> 'q \<Rightarrow> mem \<times> 'q) \<Rightarrow> (mem, 'q) reconciler_env" where
  "memory_env h hook enqueue after others =
     \<lparr>re_lease = leaseDueOutbox h hook, re_acknowledge = acknowledgeOutbox h hook, re_fail = recordOutboxFailure h hook,
       re_enqueue = enqueue, re_after_publish = after, re_others = others\<rparr>"

lemma memory_env_sel [simp]:
  "re_lease (memory_env h hook enqueue after others) = leaseDueOutbox h hook"
  "re_acknowledge (memory_env h hook enqueue after others) = acknowledgeOutbox h hook"
  "re_fail (memory_env h hook enqueue after others) = recordOutboxFailure h hook"
  "re_enqueue (memory_env h hook enqueue after others) = enqueue"
  "re_after_publish (memory_env h hook enqueue after others) = after"
  "re_others (memory_env h hook enqueue after others) = others"
  by (simp_all add: memory_env_def)

lemma memory_env_port: "memory_outbox.port_env h hook (memory_env h hook enqueue after others)"
  by (simp add: memory_outbox.port_env_def)

section \<open>A sweep of the demonstration store\<close>

definition demo_reconciler :: reconciler where
  "demo_reconciler = \<lparr>rec_owner = ''worker-1'', rec_lease_seconds = Num 60, rec_batch_size = Num 10\<rparr>"

definition demo_env :: "(mem, captured_job list) reconciler_env" where
  "demo_env = memory_env demo_host silent capturing_enqueue (\<lambda>_. Inr ()) id"

definition demo_dispatched :: outbox_record where
  "demo_dispatched = demo_leased\<lparr>ob_lease_owner := None, ob_lease_expires_at := None,
     ob_dispatched_at := Some (demo_time 5), ob_updated_at := demo_time 5\<rparr>"

definition demo_swept_store :: mem where
  "demo_swept_store = demo_leased_store\<lparr>m_outbox := [(ob_id demo_outbox, demo_dispatched)],
      m_mutations := m_mutations demo_leased_store @ [Mut_acknowledge]\<rparr>"

lemma demo_sweep:
  "sweep demo_host demo_env demo_reconciler (demo_now + 5000) (demo_store, [])
     = (Inr \<lparr>sw_dispatched = 1, sw_failed = 0, sw_leased = 1\<rparr>,
        (demo_swept_store, [\<lparr>cj_job = outbox_job demo_leased, cj_delay_seconds = 0\<rparr>]))"
proof -
  have ok: "outbox_ok demo_host demo_dispatched"
    using demo_leased_ok
    by (simp add: demo_dispatched_def demo_leased_def leased_item_def outbox_ok_def updated_at_ok_def demo_outbox_def)
  have t5: "to_iso (demo_now + 5000) = demo_time 5" by (simp add: demo_time_def)
  have input: "lease_input demo_reconciler (demo_now + 5000) = demo_lease ''worker-1'' 5"
    by (simp add: lease_input_def demo_reconciler_def demo_lease_def)
  have owns: "owns_lease ''worker-1'' demo_leased" "ob_id demo_leased = ob_id demo_outbox"
    by (simp_all add: owns_lease_def demo_leased_def demo_outbox_def)
  have ack: "acknowledgeOutbox demo_host silent (ob_id demo_leased) ''worker-1'' (demo_now + 5000) demo_leased_store
      = (Inr True, demo_swept_store)"
    using demo_lease_run(2) ok t5 owns
    by (simp add: acknowledgeOutbox_def getOutboxItem_def sx_simps parse_outbox_def checkE_def bindS_def silent_hook
        demo_dispatched_def demo_swept_store_def)
  show ?thesis
    using ack
    by (simp add: sweep_def sweep_item_def awaitS_def on_store_def on_queue_def demo_env_def input
        demo_lease_run(1) bindS_def thenS_def returnS_def liftS_def capturing_enqueue_def sweep_counts.extend_def)
      (simp add: demo_reconciler_def returnS_def)
qed

section \<open>A sweep that nobody disturbs\<close>

text \<open>One acknowledgement of an item the caller owns.\<close>

lemma acknowledge_owned:
  assumes x: "map_get (m_outbox s) (ob_id x) = Some x" "owns_lease owner x"
    and run: "acknowledgeOutbox h hook (ob_id x) owner now s = (Inr b, t)"
  shows "b" "\<exists>y. map_get (m_outbox t) (ob_id x) = Some y \<and> ob_dispatched_at y = Some (to_iso now)"
    "k \<noteq> ob_id x \<Longrightarrow> map_get (m_outbox t) k = map_get (m_outbox s) k"
proof -
  let ?f = "\<lambda>x. x\<lparr>ob_lease_owner := None, ob_lease_expires_at := None,
       ob_dispatched_at := Some (to_iso now), ob_updated_at := to_iso now\<rparr>"
  have out: "settle_outcome s (ob_id x) owner ?f (outbox_ok h) (Inr b, t)"
    using acknowledge_outcome[of s "ob_id x" owner now h hook] unfolding run .
  obtain p where p: "b" "unlogged t = (with_outbox (map_set (ob_id x) (?f x) (m_outbox s)) (unlogged s))\<lparr>m_publish_failures := p\<rparr>"
    using out x unfolding settle_outcome_def by auto
  have m: "m_outbox t = map_set (ob_id x) (?f x) (m_outbox s)" using arg_cong[where f = m_outbox, OF p(2)] by simp
  show "b" by (rule p(1))
  show "\<exists>y. map_get (m_outbox t) (ob_id x) = Some y \<and> ob_dispatched_at y = Some (to_iso now)" by (simp add: m)
  show "k \<noteq> ob_id x \<Longrightarrow> map_get (m_outbox t) k = map_get (m_outbox s) k" by (simp add: m)
qed

lemma sweep_items_all:
  assumes enq: "\<And>j d q. fst (enqueue j d q) = Inr ()" and after: "after = (\<lambda>_. Inr ())"
  shows "distinct (map ob_id xs) \<Longrightarrow>
    (\<And>x. x \<in> set xs \<Longrightarrow> map_get (m_outbox s) (ob_id x) = Some x \<and> owns_lease (rec_owner self) x) \<Longrightarrow>
    sweep_items h (memory_env h hook enqueue after id) self now xs counts (s, q) = (Inr c, (t, q')) \<Longrightarrow>
    sw_dispatched c = sw_dispatched counts + length xs \<and> sw_failed c = sw_failed counts
    \<and> (\<forall>x \<in> set xs. \<exists>y. map_get (m_outbox t) (ob_id x) = Some y \<and> ob_dispatched_at y = Some (to_iso now))
    \<and> (\<forall>k. k \<notin> ob_id ` set xs \<longrightarrow> map_get (m_outbox t) k = map_get (m_outbox s) k)"
proof (induction xs arbitrary: s q counts)
  case Nil
  then show ?case by (simp add: returnS_def)
next
  case (Cons x xs)
  obtain q1 where q1: "enqueue (outbox_job x) 0 q = (Inr (), q1)" using enq[of "outbox_job x" 0 q] by (metis prod.collapse)
  obtain r s1 where ack: "acknowledgeOutbox h hook (ob_id x) (rec_owner self) now s = (r, s1)" by (rule prod.exhaust)
  obtain b where r: "r = Inr b"
    using Cons.prems(3) q1 ack
    by (cases r) (auto simp: bindS_def thenS_def sweep_item_def awaitS_def on_queue_def on_store_def after liftS_def)
  have x: "map_get (m_outbox s) (ob_id x) = Some x" "owns_lease (rec_owner self) x" using Cons.prems(2) by auto
  note ack' = acknowledge_owned[OF x ack[unfolded r]]
  have rest: "sweep_items h (memory_env h hook enqueue after id) self now xs
      (counts\<lparr>sw_dispatched := sw_dispatched counts + 1\<rparr>) (s1, q1) = (Inr c, (t, q'))"
    using Cons.prems(3) q1 ack r ack'(1)
    by (simp add: bindS_def thenS_def returnS_def sweep_item_def awaitS_def on_queue_def on_store_def after liftS_def id_def)
  have fresh: "ob_id x \<notin> ob_id ` set xs" "distinct (map ob_id xs)" using Cons.prems(1) by auto
  have "map_get (m_outbox s1) (ob_id z) = Some z \<and> owns_lease (rec_owner self) z" if "z \<in> set xs" for z
  proof -
    have "ob_id z \<noteq> ob_id x" using that fresh(1) by (metis imageI)
    then show ?thesis using ack'(3) Cons.prems(2)[of z] that by simp
  qed
  from Cons.IH[OF fresh(2) this rest] show ?case using ack'(2,3) fresh(1) by simp
qed

section \<open>Properties\<close>



text \<open>
  C23. A sweep that nobody disturbs and whose queue accepts every job dispatches all it
  leased and fails nothing: the leased items are the first due items, as many as the batch
  size allows; each of them ends up dispatched at the time of the sweep; and when the batch
  was not used up, no due item is left in the store.
\<close>

theorem sweep_dispatches_due:
  assumes inv: "store_inv h s" and enq: "\<And>j d q. fst (enqueue j d q) = Inr ()" and after: "\<And>x. after x = Inr ()"
    and run: "sweep h (memory_env h hook enqueue after id) self now (s, q) = (Inr res, (t, q'))"
  obtains batch where "js_integer (rec_batch_size self) = Some batch" "batch \<le> 1000"
    "sw_leased res = length (take (nat batch) (due_outbox h now s))"
    "sw_dispatched res = sw_leased res" "sw_failed res = 0"
    "list_all (\<lambda>x. \<exists>y. getOutboxItem (ob_id x) t = Some y \<and> ob_dispatched_at y = Some (to_iso now))
       (take (nat batch) (due_outbox h now s))"
    "int (sw_leased res) = batch \<or> due_outbox h now t = []"
proof -
  obtain r s1 where l: "leaseDueOutbox h hook (lease_input self now) s = (r, s1)" by (rule prod.exhaust)
  obtain leased where r: "r = Inr leased"
    using run l by (cases r) (auto simp: sweep_def bindS_def awaitS_def on_store_def)
  have input: "lo_now (lease_input self now) = now" "lo_owner (lease_input self now) = rec_owner self"
      "lo_limit (lease_input self now) = rec_batch_size self"
    by (simp_all add: lease_input_def)
  obtain secs batch where b: "js_integer (rec_batch_size self) = Some batch" "0 < batch" "batch \<le> 1000"
    "leased = map (\<lambda>x. leased_item x (rec_owner self) (to_iso (now + secs * 1000)) (to_iso now))
       (take (nat batch) (due_outbox h now s))"
    "distinct (map ob_id leased)" "m_outbox s1 = put_all ob_id leased (m_outbox s)"
    by (rule lease_result[OF inv l[unfolded r], unfolded input])
  have key: "keyed ob_id (m_outbox s)" using inv by (simp add: store_inv_def maps_keyed_def)
  have ids: "map ob_id leased = map ob_id (take (nat batch) (due_outbox h now s))" by (simp add: b(4) comp_def)
  have owned: "map_get (m_outbox s1) (ob_id x) = Some x \<and> owns_lease (rec_owner self) x" if x: "x \<in> set leased" for x
  proof -
    obtain z where z: "z \<in> set (due_outbox h now s)" "ob_dispatched_at x = ob_dispatched_at z"
      using x unfolding b(4) by (auto dest: in_set_takeD)
    have "ob_dispatched_at z = None" using z(1) due_outbox_mem[OF key] by (auto simp: outbox_is_due_def)
    moreover have "ob_lease_owner x = Some (rec_owner self)"
      using lease_result_item(2)[OF inv l[unfolded r] x] input by simp
    moreover have "map_get (m_outbox s1) (ob_id x) = Some x" by (rule lease_result_item(1)[OF inv l[unfolded r] x])
    ultimately show ?thesis using z(2) by (simp add: owns_lease_def)
  qed
  obtain rc w where items: "sweep_items h (memory_env h hook enqueue after id) self now leased \<lparr>sw_dispatched = 0, sw_failed = 0\<rparr> (s1, q)
      = (rc, w)" by (rule prod.exhaust)
  obtain c where c: "rc = Inr c" "w = (t, q')" "res = sweep_counts.extend c \<lparr>sw_leased = length leased\<rparr>"
    using run l r items by (cases rc) (auto simp: sweep_def bindS_def awaitS_def on_store_def returnS_def)
  have after': "after = (\<lambda>_. Inr ())" using after by auto
  note all = sweep_items_all[OF enq after' b(5) owned items[unfolded c(1,2)], simplified]
  have due: "due_outbox h now t = []" if "int (length leased) \<noteq> batch"
  proof -
    have short: "take (nat batch) (due_outbox h now s) = due_outbox h now s"
    proof -
      have "length leased = min (length (due_outbox h now s)) (nat batch)" unfolding b(4) by simp
      then show ?thesis using that b(2) by simp
    qed
    have keyt: "keyed ob_id (m_outbox t)"
    proof -
      have "keyed ob_id (m_outbox s1)" using key b(6) by auto
      have "memory_outbox.good h (\<lambda>_. UNIV) (s, q)" using inv by (simp add: memory_outbox.good_def published_def)
      moreover have "env_ok stored_item (store_inv h) (\<lambda>_. UNIV) (memory_env h hook enqueue after id)"
        by (simp add: env_ok_def job_queue_def)
      ultimately have "memory_outbox.onward h (\<lambda>_. UNIV) (s, q) (t, q')"
        using memory_outbox.sweep_onward[OF memory_env_port _ _ run] by blast
      then show ?thesis by (simp add: memory_outbox.onward_def memory_outbox.good_def store_inv_def maps_keyed_def)
    qed
    have False if y: "y \<in> set (due_outbox h now t)" for y
    proof -
      have y': "map_get (m_outbox t) (ob_id y) = Some y" "outbox_is_due h now y" using y due_outbox_mem[OF keyt] by auto
      show False
      proof (cases "ob_id y \<in> ob_id ` set leased")
        case True
        then show False using all y' by (auto simp: outbox_is_due_def)
      next
        case False
        then have "map_get (m_outbox s) (ob_id y) = Some y"
          using all y'(1) b(6) put_all_other[of "ob_id y" ob_id leased "m_outbox s"] by simp
        then have "ob_id y \<in> set (map ob_id (due_outbox h now s))"
          using due_outbox_mem[OF key] y'(2) by auto
        then show False using False ids short by (metis set_map)
      qed
    qed
    then show ?thesis by (cases "due_outbox h now t") auto
  qed
  show thesis
  proof (rule that[OF b(1,3)])
    show "sw_leased res = length (take (nat batch) (due_outbox h now s))"
      using ids by (metis c(3) length_map sweep_result.ext_inject sweep_result.surjective sweep_counts.extend_def sweep_result.select_convs(1))
    show "sw_dispatched res = sw_leased res" "sw_failed res = 0" using all by (simp_all add: c(3) sweep_counts.extend_def)
    show "list_all (\<lambda>x. \<exists>y. getOutboxItem (ob_id x) t = Some y \<and> ob_dispatched_at y = Some (to_iso now))
       (take (nat batch) (due_outbox h now s))"
      using all unfolding b(4) by (simp add: list_all_iff getOutboxItem_def)
    show "int (sw_leased res) = batch \<or> due_outbox h now t = []" using due by (auto simp: c(3) sweep_counts.extend_def)
  qed
qed

lemma sweep_dispatches_due_witness:
  "\<exists>batch. js_integer (rec_batch_size demo_reconciler) = Some batch \<and> due_outbox demo_host (demo_now + 5000) demo_swept_store = []"
proof -
  have inv: "store_inv demo_host demo_store" by (rule store_reachable_inv[OF demo_store_reachable])
  have enq: "fst (capturing_enqueue j d q) = Inr ()" for j d q by (simp add: capturing_enqueue_def)
  have after: "(\<lambda>_. Inr ()) x = Inr ()" for x :: outbox_record by simp
  show ?thesis
    by (rule sweep_dispatches_due[OF inv enq after demo_sweep[unfolded demo_env_def]])
      (auto simp: demo_reconciler_def js_integer_def)
qed

text \<open>
  The loop of the reconciler ends: it returns, or passes on an error of a sweep,
  within as many rounds as there are before a round at whose start the signal is raised.
  An interval that is not a positive integer is refused before the first sweep.
\<close>

theorem run_returns_when_aborted:
  assumes "aborted (2 * n)" "n \<le> fuel"
  shows "\<exists>r w'. run fuel h env self interval aborted clock w = Some (r, w')
    \<and> (\<not> positive_integer (coalesce interval (Num 1000)) \<longrightarrow> isl r \<and> w' = w)"
proof -
  have rounds: "\<exists>r w'. run_rounds fuel h env self aborted clock i w = Some (r, w')" if "n \<le> i + fuel" "i \<le> n" for fuel i w
    using that
  proof (induction fuel arbitrary: i w)
    case 0
    then show ?case using assms(1) by (auto simp: run_rounds.simps)
  next
    case (Suc fuel)
    show ?case
    proof (cases "aborted (2 * i)")
      case True
      then show ?thesis by (simp add: run_rounds.simps)
    next
      case False
      then have "i \<noteq> n" using assms(1) by auto
      then have bounds: "n \<le> Suc i + fuel" "Suc i \<le> n" using Suc.prems by auto
      obtain r1 w1 where s: "sweep h env self (clock i) w = (r1, w1)" by (rule prod.exhaust)
      show ?thesis
        using Suc.IH[OF bounds] False s by (cases r1) (simp_all add: run_rounds.simps[of "Suc fuel"])
    qed
  qed
  obtain r w' where "run_rounds fuel h env self aborted clock 0 w = Some (r, w')" using rounds[of 0 fuel w] assms(2) by auto
  then show ?thesis by (cases "positive_integer (coalesce interval (Num 1000))") (simp_all add: run_def)
qed

lemma run_returns_when_aborted_witness:
  "\<exists>r w'. run 1 demo_host demo_env demo_reconciler None (\<lambda>i. 0 < i) (\<lambda>_. demo_now) (demo_store, []) = Some (r, w')"
  using run_returns_when_aborted[of "\<lambda>i. 0 < i" 1 1 demo_host demo_env demo_reconciler None "\<lambda>_. demo_now" "(demo_store, [])"]
  by auto

end
