(* ===== verification/Schedule.thy ===== *)
theory Schedule
  imports Demo_Delivery
begin

text \<open>
  Scheduling times (\<open>src/core/schedule.ts\<close>): the relative form \<open>in 10 minutes\<close> or a date, at
  most thirty days ahead. Instants and delays are integers: beyond the range in which the
  doubles of the language are exact, every result is refused for its distance anyway.
\<close>

section \<open>Parsing\<close>

definition schedule_units :: "string list" where
  "schedule_units = [''minute'', ''minutes'', ''min'', ''hour'', ''hours'', ''day'', ''days'']"

text \<open>\<open>/^in\s+(\d+)\s*(minute|minutes|min|hour|hours|day|days)$/i\<close>: the amount and the unit in lower case.\<close>

definition relative_schedule :: "string \<Rightarrow> (nat \<times> string) option" where
  "relative_schedule s =
     (let points = code_points (drop 2 (map ascii_lower s));
          rest = concat (dropWhile is_space points);
          digits = takeWhile is_digit rest;
          unit = concat (dropWhile is_space (code_points (dropWhile is_digit rest)))
      in if take 2 (map ascii_lower s) = ''in'' \<and> takeWhile is_space points \<noteq> [] \<and> digits \<noteq> [] \<and> unit \<in> set schedule_units
         then Some (dec_val digits, unit) else None)"

definition unit_ms :: "string \<Rightarrow> int" where
  "unit_ms unit = (if starts_with ''min'' unit then 60000 else if starts_with ''hour'' unit then 3600000 else 86400000)"

definition max_schedule_ms :: int where
  "max_schedule_ms = 30 * 86400000"

definition parseScheduledAt :: "host \<Rightarrow> string option \<Rightarrow> int \<Rightarrow> string option result" where
  "parseScheduledAt h value now =
     (case value of None \<Rightarrow> Inr None
      | Some value \<Rightarrow>
         (case (case relative_schedule (js_trim value) of
                  Some (amount, unit) \<Rightarrow> make_date (now + int amount * unit_ms unit)
                | None \<Rightarrow> Option.bind (date_parse h value) make_date) of
            None \<Rightarrow> Inl (ValidationError (''scheduled_at must be an ISO 8601 timestamp or a value such as '' @ [CHR 0x27] @ ''in 10 minutes'' @ [CHR 0x27] @ ''.''))
          | Some parsed \<Rightarrow>
             if parsed \<le> now then Inl (ValidationError ''scheduled_at must be in the future.'')
             else if parsed > now + max_schedule_ms
             then Inl (ValidationError ''scheduled_at must be no more than 30 days in the future.'')
             else Inr (Some (to_iso parsed))))"

section \<open>Delays\<close>

text \<open>\<open>None\<close> is not a number, for a text that is no date. A ceiling is the negated floor of the negation.\<close>

definition secondsUntil :: "host \<Rightarrow> string option \<Rightarrow> int \<Rightarrow> int option" where
  "secondsUntil h scheduledAt now =
     (case scheduledAt of None \<Rightarrow> Some 0
      | Some s \<Rightarrow> if s = [] then Some 0
         else map_option (\<lambda>t. max 0 (- ((now - t) div 1000))) (Option.bind (date_parse h s) make_date))"

definition delaySecondsUntil :: "host \<Rightarrow> string option \<Rightarrow> int \<Rightarrow> int option" where
  "delaySecondsUntil h scheduledAt now = map_option (min 900) (secondsUntil h scheduledAt now)"

section \<open>Property\<close>

text \<open>Rounding up to seconds.\<close>

lemma ceiling_seconds:
  fixes d :: int
  assumes "0 < d" "d \<le> 1000 * k"
  shows "1 \<le> - (- d div 1000)" "- (- d div 1000) \<le> k" "1000 * (- (- d div 1000) - 1) < d" "d \<le> 1000 * - (- d div 1000)"
proof -
  obtain q r where q: "- d div 1000 = q" "- d mod 1000 = r" by blast
  have "- d = 1000 * q + r" using mult_div_mod_eq[of 1000 "- d"] unfolding q by simp
  moreover have "0 \<le> r" "r < 1000" unfolding q(2)[symmetric] by simp_all
  ultimately show "1 \<le> - (- d div 1000)" "- (- d div 1000) \<le> k" "1000 * (- (- d div 1000) - 1) < d"
    "d \<le> 1000 * - (- d div 1000)"
    using assms unfolding q by auto
qed

text \<open>
  C34. A schedule that was accepted, in whichever form it was written, is a time that reads
  back as the instant it stands for, strictly after now and at most thirty days ahead; the
  seconds to wait for it are rounded up, so that waiting them never ends early, and there
  are between one and 2592000 of them, the delay of the queue being the same up to its
  limit of 900.
\<close>

theorem schedule_bounds:
  assumes "parseScheduledAt h (Some value) now = Inr (Some t)"
  obtains instant secs where "t = to_iso instant" "date_parse h t = Some instant"
    "now < instant" "instant \<le> now + 2592000000"
    "secondsUntil h (Some t) now = Some secs" "1 \<le> secs" "secs \<le> 2592000"
    "now + 1000 * (secs - 1) < instant" "instant \<le> now + 1000 * secs"
    "delaySecondsUntil h (Some t) now = Some (min 900 secs)"
proof -
  obtain instant where i: "t = to_iso instant" "now < instant" "instant \<le> now + max_schedule_ms" "valid_time instant"
    using assms
    by (auto simp: parseScheduledAt_def make_date_def split: option.splits if_splits prod.splits Option.bind_splits)
  have again: "date_parse h t = Some instant"
    using i(1,4) by (simp add: date_parse_def parse_iso_to_iso)
  have nonempty: "t \<noteq> []" using i(1) by (auto simp: to_iso_def Let_def split: prod.split)
  let ?secs = "- (- (instant - now) div 1000)"
  have b: "1 \<le> ?secs" "?secs \<le> 2592000" "1000 * (?secs - 1) < instant - now" "instant - now \<le> 1000 * ?secs"
    using ceiling_seconds[of "instant - now" 2592000] i(2,3) by (simp_all add: max_schedule_ms_def)
  have s: "secondsUntil h (Some t) now = Some ?secs"
    using again nonempty i(4) b(1) by (simp add: secondsUntil_def make_date_def)
  show thesis
    by (rule that[OF i(1) again i(2) _ s b(1,2)]) (use i(3) b s in \<open>simp_all add: max_schedule_ms_def delaySecondsUntil_def\<close>)
qed

lemma schedule_bounds_witness:
  "\<exists>secs. secondsUntil demo_host (Some (demo_time 600)) demo_now = Some secs \<and> secs \<le> 2592000"
proof -
  have "relative_schedule (js_trim ''In 10 minutes'') = Some (10, ''minutes'')" by code_simp
  moreover have "starts_with ''min'' ''minutes''" by code_simp
  moreover have "make_date (demo_now + 600000) = Some (demo_now + 600000)" "to_iso (demo_now + 600000) = demo_time 600"
    using demo_time_valid[of 600] by (simp_all add: make_date_def demo_time_def)
  ultimately have "parseScheduledAt demo_host (Some ''In 10 minutes'') demo_now = Inr (Some (demo_time 600))"
    by (simp add: parseScheduledAt_def unit_ms_def max_schedule_ms_def)
  from schedule_bounds[OF this] show ?thesis by metis
qed

end
