(* ===== verification/Byte_Text.thy ===== *)
theory Byte_Text
  imports Js_Text
begin

text \<open>
  Bytes and their text forms (\<open>src/core/bytes.ts\<close>): UTF-8, base64 and its URL-safe form.
  \<open>btoa\<close> and \<open>atob\<close> are those of the platform; a binary string, one character per byte,
  is the list of its bytes.
\<close>

section \<open>Bytes of a text\<close>

definition utf8Bytes :: "string \<Rightarrow> 8 word list" where
  "utf8Bytes s = map (\<lambda>c. word_of_nat (code c)) s"

definition utf8ByteLength :: "string \<Rightarrow> nat" where
  "utf8ByteLength s = length (utf8Bytes s)"

lemma utf8ByteLength_length [simp]: "utf8ByteLength s = length s"
  by (simp add: utf8ByteLength_def utf8Bytes_def)

lemma code_less_256: "code c < 256"
  by (rule nat_of_char_less_256)

lemma utf8Bytes_inject: "utf8Bytes s = utf8Bytes t \<longleftrightarrow> s = t"
proof -
  have "inj (\<lambda>c. word_of_nat (code c) :: 8 word)"
  proof (rule injI)
    fix c d assume "word_of_nat (code c) = (word_of_nat (code d) :: 8 word)"
    then have "unat (word_of_nat (code c) :: 8 word) = unat (word_of_nat (code d) :: 8 word)" by simp
    then have "code c = code d" using code_less_256[of c] code_less_256[of d] by (simp add: unat_of_nat)
    then show "c = d" by simp
  qed
  then show ?thesis by (simp add: utf8Bytes_def inj_map_eq_map)
qed

section \<open>Base64\<close>

definition b64_char :: "nat \<Rightarrow> char" where
  "b64_char n = char_of (if n < 26 then 65 + n else if n < 52 then 71 + n else if n < 62 then n - 4
     else if n = 62 then 43 else 47 :: nat)"

definition b64_val :: "char \<Rightarrow> nat option" where
  "b64_val c = (if is_upper c then Some (code c - 65) else if is_lower c then Some (code c - 71)
     else if is_digit c then Some (code c + 4) else if c = CHR ''+'' then Some 62 else if c = CHR ''/'' then Some 63 else None)"

fun sextets :: "8 word list \<Rightarrow> nat list" where
  "sextets [] = []"
| "sextets [a] = (let n = unat a * 16 in [n div 64, n mod 64])"
| "sextets [a, b] = (let n = (unat a * 256 + unat b) * 4 in [n div 4096, n div 64 mod 64, n mod 64])"
| "sextets (a # b # c # r) =
     (let n = unat a * 65536 + unat b * 256 + unat c
      in n div 262144 # n div 4096 mod 64 # n div 64 mod 64 # n mod 64 # sextets r)"

definition btoa :: "8 word list \<Rightarrow> string" where
  "btoa bs = map b64_char (sextets bs) @ replicate ((3 - length bs mod 3) mod 3) CHR ''=''"

fun unsextets :: "nat list \<Rightarrow> 8 word list" where
  "unsextets [x, y] = [word_of_nat ((x * 64 + y) div 16)]"
| "unsextets [x, y, z] = (let n = x * 4096 + y * 64 + z in [word_of_nat (n div 1024), word_of_nat (n div 4)])"
| "unsextets (w # x # y # z # r) =
     (let n = w * 262144 + x * 4096 + y * 64 + z
      in word_of_nat (n div 65536) # word_of_nat (n div 256) # word_of_nat n # unsextets r)"
| "unsextets _ = []"

definition is_ascii_whitespace :: "char \<Rightarrow> bool" where
  "is_ascii_whitespace c \<longleftrightarrow> code c \<in> {9, 10, 12, 13, 32}"

text \<open>Padding is dropped only from a text whose length is a multiple of four, at most two characters of it.\<close>

definition strip_padding :: "string \<Rightarrow> string" where
  "strip_padding s =
     (if length s mod 4 \<noteq> 0 then s
      else case rev s of
        a # b # r \<Rightarrow> if a \<noteq> CHR ''='' then s else if b = CHR ''='' then rev r else rev (b # r)
      | _ \<Rightarrow> s)"

definition invalid_character :: js_error where
  "invalid_character = Foreign (JObj [(''name'', JStr ''InvalidCharacterError'')])"

definition atob :: "string \<Rightarrow> 8 word list result" where
  "atob s =
     (let d = strip_padding (filter (\<lambda>c. \<not> is_ascii_whitespace c) s)
      in if length d mod 4 = 1 then Inl invalid_character
         else case those (map b64_val d) of None \<Rightarrow> Inl invalid_character | Some ns \<Rightarrow> Inr (unsextets ns))"

definition bytesToBase64 :: "8 word list \<Rightarrow> string" where
  "bytesToBase64 value = btoa value"

definition base64ToBytes :: "string \<Rightarrow> 8 word list result" where
  "base64ToBytes value = atob value"

definition strip_trailing :: "char \<Rightarrow> string \<Rightarrow> string" where
  "strip_trailing c s = rev (dropWhile ((=) c) (rev s))"

definition bytesToBase64Url :: "8 word list \<Rightarrow> string" where
  "bytesToBase64Url value =
     strip_trailing CHR ''='' (replace_all_char CHR ''/'' ''_'' (replace_all_char CHR ''+'' ''-'' (bytesToBase64 value)))"

text \<open>\<open>/^[A-Za-z0-9+/]*={0,2}$/u\<close>\<close>

definition is_base64_shape :: "string \<Rightarrow> bool" where
  "is_base64_shape s =
     (let body = strip_trailing CHR ''='' s
      in length s \<le> length body + 2 \<and> list_all (\<lambda>c. is_alnum c \<or> c = CHR ''+'' \<or> c = CHR ''/'') body)"

definition isCanonicalBase64 :: "string \<Rightarrow> bool" where
  "isCanonicalBase64 value =
     (if js_length value = 0 \<or> js_length value mod 4 \<noteq> 0 \<or> \<not> is_base64_shape value then False
      else case base64ToBytes value of Inl _ \<Rightarrow> False | Inr bytes \<Rightarrow> bytesToBase64 bytes = value)"

section \<open>The digits\<close>

lemma code_b64_char:
  "n < 64 \<Longrightarrow> code (b64_char n) = (if n < 26 then 65 + n else if n < 52 then 71 + n else if n < 62 then n - 4
     else if n = 62 then 43 else 47)"
  by (simp add: b64_char_def take_bit_eq_mod)

lemma b64_char_class:
  assumes "n < 64"
  shows "b64_val (b64_char n) = Some n" "is_alnum (b64_char n) \<or> b64_char n = CHR ''+'' \<or> b64_char n = CHR ''/''"
    "b64_char n \<noteq> CHR ''=''" "\<not> is_ascii_whitespace (b64_char n)" "code (b64_char n) < 128"
proof -
  note c = code_b64_char[OF assms]
  have eq: "b64_char n = CHR ''+'' \<longleftrightarrow> n = 62" "b64_char n = CHR ''/'' \<longleftrightarrow> n = 63" "b64_char n = CHR ''='' \<longleftrightarrow> False"
  proof -
    have "b64_char n = d \<longleftrightarrow> code (b64_char n) = code d" for d by simp
    then show "b64_char n = CHR ''+'' \<longleftrightarrow> n = 62" "b64_char n = CHR ''/'' \<longleftrightarrow> n = 63" "b64_char n = CHR ''='' \<longleftrightarrow> False"
      using assms unfolding c by auto
  qed
  show "b64_val (b64_char n) = Some n"
    using assms c eq by (auto simp: b64_val_def is_upper_def is_lower_def is_digit_def)
  show "is_alnum (b64_char n) \<or> b64_char n = CHR ''+'' \<or> b64_char n = CHR ''/''"
    using assms c eq by (auto simp: char_class_defs)
  show "b64_char n \<noteq> CHR ''=''" using eq by simp
  show "\<not> is_ascii_whitespace (b64_char n)" using assms c by (auto simp: is_ascii_whitespace_def)
  show "code (b64_char n) < 128" using assms c by auto
qed

lemma byte_less: "unat (a :: 8 word) < 256"
  using unsigned_less[of a] by simp

lemma sextets_less: "list_all (\<lambda>n. n < 64) (sextets bs)"
proof (induction bs rule: sextets.induct)
  case (2 a)
  then show ?case using byte_less[of a] by (simp add: Let_def less_mult_imp_div_less)
next
  case (3 a b)
  then show ?case using byte_less[of a] byte_less[of b] by (simp add: Let_def less_mult_imp_div_less)
next
  case (4 a b c r)
  then show ?case using byte_less[of a] byte_less[of b] byte_less[of c]
    by (simp add: Let_def less_mult_imp_div_less)
qed simp

lemma three_digits: "n div 4096 * 4096 + n div 64 mod 64 * 64 + n mod 64 = (n :: nat)"
proof -
  have "n div 4096 = n div 64 div 64" by (simp add: div_mult2_eq[symmetric])
  then show ?thesis using div_mult_mod_eq[of n 64] div_mult_mod_eq[of "n div 64" 64] by linarith
qed

lemma four_digits: "n div 262144 * 262144 + n div 4096 mod 64 * 4096 + n div 64 mod 64 * 64 + n mod 64 = (n :: nat)"
proof -
  have "n div 262144 = n div 4096 div 64" by (simp add: div_mult2_eq[symmetric])
  then show ?thesis using three_digits[of n] div_mult_mod_eq[of "n div 4096" 64] by linarith
qed

lemma unat_byte: "unat (word_of_nat n :: 8 word) = n mod 256"
  by (simp add: unat_of_nat)

lemma byte_of_sum: "word_of_nat (k * 256 + unat a) = (a :: 8 word)"
proof -
  have "(k * 256 + unat a) mod 256 = unat a" using byte_less[of a] by simp
  then have "unat (word_of_nat (k * 256 + unat a) :: 8 word) = unat a" by (simp only: unat_byte)
  then show ?thesis by (rule word_unat_eq_iff[THEN iffD2])
qed

lemma unsextets_sextets [simp]: "unsextets (sextets bs) = bs"
proof (induction bs rule: sextets.induct)
  case (2 a)
  have "unat a * 16 div 64 * 64 + unat a * 16 mod 64 = unat a * 16" by (rule div_mult_mod_eq)
  then show ?case by (simp only: sextets.simps unsextets.simps Let_def) simp
next
  case (3 a b)
  let ?n = "(unat a * 256 + unat b) * 4"
  have "?n div 1024 = unat a" using byte_less[of b] by simp
  moreover have "?n div 4 = unat a * 256 + unat b" by simp
  ultimately show ?case using byte_of_sum[of "unat a" b] byte_of_sum[of 0 a]
    by (simp only: mult_0 add_0 sextets.simps unsextets.simps Let_def three_digits)
next
  case (4 a b c r)
  let ?n = "unat a * 65536 + unat b * 256 + unat c"
  have "?n div 65536 = unat a" using byte_less[of b] byte_less[of c] by simp
  moreover have "?n div 256 = unat a * 256 + unat b" using byte_less[of c] by simp
  moreover have "?n = (unat a * 256 + unat b) * 256 + unat c" by simp
  ultimately have "word_of_nat (?n div 65536) = a" "word_of_nat (?n div 256) = b" "word_of_nat ?n = c"
    using byte_of_sum[of 0 a] byte_of_sum[of "unat a" b] byte_of_sum[of "unat a * 256 + unat b" c]
    by (simp_all only: mult_0 add_0)
  then show ?case using 4 by (simp only: sextets.simps unsextets.simps Let_def four_digits)
qed simp

lemma length_sextets:
  "length (sextets bs) + (3 - length bs mod 3) mod 3 = 4 * ((length bs + 2) div 3)" "length (sextets bs) mod 4 \<noteq> 1"
  "length (sextets bs) = 0 \<longleftrightarrow> bs = []"
proof (induction bs rule: sextets.induct)
  case (4 a b c r)
  have "length (a # b # c # r) mod 3 = length r mod 3" "(length (a # b # c # r) + 2) div 3 = Suc ((length r + 2) div 3)"
    by simp_all
  then show "length (sextets (a # b # c # r)) + (3 - length (a # b # c # r) mod 3) mod 3
      = 4 * ((length (a # b # c # r) + 2) div 3)"
    using 4(1) by (simp add: Let_def)
  show "length (sextets (a # b # c # r)) mod 4 \<noteq> 1" using 4(2) by (simp add: Let_def)
  show "length (sextets (a # b # c # r)) = 0 \<longleftrightarrow> a # b # c # r = []" by (simp add: Let_def)
qed (simp_all add: Let_def)

section \<open>Encoding and decoding\<close>

lemma btoa_parts:
  obtains body k where "btoa bs = body @ replicate k CHR ''=''" "k \<le> 2" "body = map b64_char (sextets bs)"
    "length (btoa bs) mod 4 = 0" "list_all (\<lambda>c. c \<noteq> CHR ''='' \<and> \<not> is_ascii_whitespace c \<and> code c < 128
      \<and> (is_alnum c \<or> c = CHR ''+'' \<or> c = CHR ''/'')) body"
proof
  show "btoa bs = map b64_char (sextets bs) @ replicate ((3 - length bs mod 3) mod 3) CHR ''=''" by (simp add: btoa_def)
  show "length (btoa bs) mod 4 = 0" using length_sextets(1)[of bs] by (simp add: btoa_def)
  show "list_all (\<lambda>c. c \<noteq> CHR ''='' \<and> \<not> is_ascii_whitespace c \<and> code c < 128
      \<and> (is_alnum c \<or> c = CHR ''+'' \<or> c = CHR ''/'')) (map b64_char (sextets bs))"
    using sextets_less[of bs] b64_char_class by (auto simp: list_all_iff)
qed (auto intro: less_Suc_eq_le[THEN iffD1])

lemma strip_padding_body:
  assumes "CHR ''='' \<notin> set body" "k \<le> 2" "(length body + k) mod 4 = 0"
  shows "strip_padding (body @ replicate k CHR ''='') = body"
proof -
  consider "k = 0" | "k = 1" | "k = 2" using assms(2) by linarith
  then show ?thesis
  proof cases
    case 1
    have "strip_padding body = body"
    proof (cases "rev body")
      case (Cons a r)
      then have "a \<noteq> CHR ''=''" using assms(1) by (metis list.set_intros(1) set_rev)
      then show ?thesis using Cons by (simp add: strip_padding_def split: list.split)
    qed (simp add: strip_padding_def)
    then show ?thesis using 1 by simp
  next
    case 2
    then have "body \<noteq> []" using assms(3) by auto
    then obtain b r where b: "rev body = b # r" by (cases "rev body") auto
    then have "b \<noteq> CHR ''=''" using assms(1) by (metis list.set_intros(1) set_rev)
    moreover have "body = rev (b # r)" using b by (metis rev_rev_ident)
    ultimately show ?thesis using 2 assms(3) by (simp add: strip_padding_def)
  next
    case 3
    then show ?thesis using assms(3) by (simp add: strip_padding_def numeral_2_eq_2)
  qed
qed

lemma those_b64: "list_all (\<lambda>n. n < 64) ns \<Longrightarrow> those (map b64_val (map b64_char ns)) = Some ns"
  by (induction ns) (simp_all add: b64_char_class)

lemma atob_btoa [simp]: "atob (btoa bs) = Inr bs"
proof -
  obtain body k where b: "btoa bs = body @ replicate k CHR ''=''" "k \<le> 2" "body = map b64_char (sextets bs)"
    "length (btoa bs) mod 4 = 0" "list_all (\<lambda>c. c \<noteq> CHR ''='' \<and> \<not> is_ascii_whitespace c \<and> code c < 128
      \<and> (is_alnum c \<or> c = CHR ''+'' \<or> c = CHR ''/'')) body" by (rule btoa_parts)
  have "filter (\<lambda>c. \<not> is_ascii_whitespace c) (btoa bs) = btoa bs"
    unfolding b(1) using b(5) by (auto simp: list_all_iff is_ascii_whitespace_def intro!: filter_True)
  moreover have "strip_padding (btoa bs) = body"
  proof -
    have "CHR ''='' \<notin> set body" using b(5) by (auto simp: list_all_iff)
    moreover have "(length body + k) mod 4 = 0" using b(4) unfolding b(1) by simp
    ultimately show ?thesis unfolding b(1) by (intro strip_padding_body b(2))
  qed
  ultimately show ?thesis
    using those_b64[OF sextets_less, of bs] length_sextets(2)[of bs] by (simp add: atob_def b(3))
qed

lemma btoa_shape:
  assumes "bs \<noteq> []"
  shows "is_ascii (btoa bs)" "is_base64_shape (btoa bs)" "length (btoa bs) \<noteq> 0" "length (btoa bs) mod 4 = 0"
proof -
  obtain body k where b: "btoa bs = body @ replicate k CHR ''=''" "k \<le> 2" "body = map b64_char (sextets bs)"
    "length (btoa bs) mod 4 = 0" "list_all (\<lambda>c. c \<noteq> CHR ''='' \<and> \<not> is_ascii_whitespace c \<and> code c < 128
      \<and> (is_alnum c \<or> c = CHR ''+'' \<or> c = CHR ''/'')) body" by (rule btoa_parts)
  show "is_ascii (btoa bs)" unfolding b(1) using b(5) by (simp add: is_ascii_def list_all_iff ball_Un set_replicate_conv_if)
  have "strip_trailing CHR ''='' (body @ replicate k CHR ''='') = body"
  proof -
    have "dropWhile ((=) CHR ''='') (rev (replicate k CHR ''='') @ rev body) = dropWhile ((=) CHR ''='') (rev body)"
      by (rule dropWhile_append2) simp
    also have "\<dots> = rev body"
    proof -
      have "CHR ''='' \<notin> set (rev body)" using b(5) by (auto simp: list_all_iff)
      then show ?thesis unfolding dropWhile_eq_self_iff by (metis hd_in_set)
    qed
    finally show ?thesis by (simp add: strip_trailing_def)
  qed
  then show "is_base64_shape (btoa bs)"
    unfolding b(1) is_base64_shape_def Let_def using b(2,5) by (simp add: list_all_iff)
  show "length (btoa bs) \<noteq> 0" using length_sextets(3)[of bs] assms by (auto simp: btoa_def)
  show "length (btoa bs) mod 4 = 0" by (rule b(4))
qed

section \<open>Property\<close>

text \<open>
  C39. Base64 is lossless and canonical: decoding what was encoded gives the same bytes
  back, and a text passes the canonical check exactly when it is the encoding of some
  non-empty byte string, the one its decoding returns.
\<close>

theorem base64_canonical:
  "base64ToBytes (bytesToBase64 bytes) = Inr bytes
   \<and> (isCanonicalBase64 value \<longleftrightarrow> (\<exists>bs. bs \<noteq> [] \<and> value = bytesToBase64 bs \<and> base64ToBytes value = Inr bs))"
proof (intro conjI iffI)
  show "base64ToBytes (bytesToBase64 bytes) = Inr bytes" by (simp add: base64ToBytes_def bytesToBase64_def)
next
  assume can: "isCanonicalBase64 value"
  then obtain bs where "base64ToBytes value = Inr bs" "bytesToBase64 bs = value" "js_length value \<noteq> 0"
    by (auto simp: isCanonicalBase64_def split: if_splits sum.splits)
  moreover have "bs \<noteq> []" using calculation by (auto simp: bytesToBase64_def btoa_def js_length_def)
  ultimately show "\<exists>bs. bs \<noteq> [] \<and> value = bytesToBase64 bs \<and> base64ToBytes value = Inr bs" by blast
next
  assume "\<exists>bs. bs \<noteq> [] \<and> value = bytesToBase64 bs \<and> base64ToBytes value = Inr bs"
  then obtain bs where bs: "bs \<noteq> []" "value = bytesToBase64 bs" by blast
  then show "isCanonicalBase64 value"
    using btoa_shape[OF bs(1)]
    by (simp add: isCanonicalBase64_def bytesToBase64_def base64ToBytes_def js_length_ascii)
qed

end
