(* ===== verification/Crypto.thy ===== *)
theory Crypto
  imports Byte_Text
begin

text \<open>
  Identities, hashes and secrets (\<open>src/core/crypto.ts\<close>) and the part of \<open>JSON.stringify\<close>
  that request hashing and the job envelope use. SHA-256 and HMAC are parameters (the hash
  of a text stands for the hash of its bytes), random bytes and random UUIDs are arguments.
\<close>

unbundle bit_operations_syntax

section \<open>Objects and JSON\<close>

text \<open>
  The order in which an object keeps the properties created in a given order: array
  indices first, ascending.
\<close>

definition is_array_index :: "string \<Rightarrow> bool" where
  "is_array_index k \<longleftrightarrow> nat_dec (dec_val k) = k \<and> dec_val k < 4294967295"

definition object_order :: "(string \<times> 'a) list \<Rightarrow> (string \<times> 'a) list" where
  "object_order fs =
     js_sort (\<lambda>x y. int (dec_val (fst x)) - int (dec_val (fst y))) (filter (\<lambda>x. is_array_index (fst x)) fs)
     @ filter (\<lambda>x. \<not> is_array_index (fst x)) fs"

definition json_hex :: "nat \<Rightarrow> char" where
  "json_hex n = char_of (if n < 10 then 48 + n else 87 + n)"

definition json_char :: "char \<Rightarrow> string" where
  "json_char c =
     (if c = CHR 0x22 then [CHR 0x5C, c] else if c = CHR 0x5C then [c, c]
      else if code c = 8 then [CHR 0x5C, CHR ''b''] else if code c = 9 then [CHR 0x5C, CHR ''t'']
      else if code c = 10 then [CHR 0x5C, CHR ''n''] else if code c = 12 then [CHR 0x5C, CHR ''f'']
      else if code c = 13 then [CHR 0x5C, CHR ''r'']
      else if code c < 32 then CHR 0x5C # ''u00'' @ [json_hex (code c div 16), json_hex (code c mod 16)]
      else [c])"

definition json_string :: "string \<Rightarrow> string" where
  "json_string s = CHR 0x22 # concat (map json_char s) @ [CHR 0x22]"

text \<open>\<open>String(n)\<close> of a finite number: integers below \<open>1e21\<close> are written out.\<close>

definition number_text :: "host \<Rightarrow> rat \<Rightarrow> string" where
  "number_text h q =
     (if q = of_int \<lfloor>q\<rfloor> \<and> \<bar>\<lfloor>q\<rfloor>\<bar> < 10 ^ 21 then int_dec \<lfloor>q\<rfloor> else h_number_text h q)"

text \<open>\<open>JSON.stringify\<close>; \<open>None\<close> is the result \<open>undefined\<close>.\<close>

fun json_text :: "host \<Rightarrow> js_value \<Rightarrow> string option" where
  "json_text h JUndefined = None"
| "json_text h JNull = Some ''null''"
| "json_text h (JBool b) = Some (if b then ''true'' else ''false'')"
| "json_text h (JNum n) = Some (case n of Num q \<Rightarrow> number_text h q | _ \<Rightarrow> ''null'')"
| "json_text h (JStr s) = Some (json_string s)"
| "json_text h (JArr xs) =
     Some (''['' @ join_with '','' (map (\<lambda>x. coalesce (json_text h x) ''null'') xs) @ '']'')"
| "json_text h (JObj fs) =
     Some (''{'' @ join_with '','' (concat (map (\<lambda>(k, v). case json_text h v of None \<Rightarrow> []
       | Some t \<Rightarrow> [json_string k @ '':'' @ t]) fs)) @ ''}'')"

section \<open>Identities and hashes\<close>

definition createId :: "string \<Rightarrow> string \<Rightarrow> string" where
  "createId prefix uuid = prefix @ ''_'' @ replace_all_char CHR ''-'' [] uuid"

definition sha256 :: "host \<Rightarrow> string \<Rightarrow> string" where
  "sha256 h value = h_sha256 h value"

definition key_order :: "host \<Rightarrow> string \<times> 'a \<Rightarrow> string \<times> 'a \<Rightarrow> int" where
  "key_order h x y = h_collate h (fst x) (fst y)"

lemma size_prop: "(k, v) \<in> set fs \<Longrightarrow> size v < Suc (size_list (size_prod (\<lambda>_. 0) size) fs)"
  by (induction fs) auto

function canonicalize :: "host \<Rightarrow> js_value \<Rightarrow> js_value" where
  "canonicalize h (JArr xs) = JArr (map (canonicalize h) xs)"
| "canonicalize h (JObj fs) =
     JObj (object_order (map (\<lambda>(k, v). (k, canonicalize h v))
       (js_sort (key_order h) (filter (\<lambda>x. snd x \<noteq> JUndefined) fs))))"
| "canonicalize h JUndefined = JUndefined"
| "canonicalize h JNull = JNull"
| "canonicalize h (JBool b) = JBool b"
| "canonicalize h (JNum n) = JNum n"
| "canonicalize h (JStr s) = JStr s"
  by pat_completeness auto

termination
  by (relation "measure (\<lambda>(h, v). size v)")
    (auto simp: less_Suc_eq_le intro: size_list_estimation' order_refl dest: size_prop)

text \<open>The hash is taken of a text; the encoder throws on \<open>undefined\<close>.\<close>

definition requestHash :: "host \<Rightarrow> js_value \<Rightarrow> string result" where
  "requestHash h value =
     (case json_text h (canonicalize h value) of None \<Rightarrow> Inl TypeError | Some t \<Rightarrow> Inr (sha256 h t))"

section \<open>Secrets\<close>

definition byte_or_zero :: "8 word list \<Rightarrow> nat \<Rightarrow> 32 word" where
  "byte_or_zero bs i = (if i < length bs then ucast (bs ! i) else 0)"

text \<open>Bitwise operators work on 32-bit integers.\<close>

definition secretsEqual :: "string \<Rightarrow> string \<Rightarrow> bool" where
  "secretsEqual left right =
     (let leftBytes = utf8Bytes left; rightBytes = utf8Bytes right;
          difference = (word_of_nat (length leftBytes) XOR word_of_nat (length rightBytes) :: 32 word);
          len = max (length leftBytes) (length rightBytes)
      in foldl (\<lambda>d i. d OR (byte_or_zero leftBytes i XOR byte_or_zero rightBytes i)) difference [0..<len] = 0)"

definition createWebhookSecret :: "8 word list \<Rightarrow> string" where
  "createWebhookSecret random = ''whsec_'' @ bytesToBase64 random"

definition signWebhook :: "host \<Rightarrow> string \<Rightarrow> string \<Rightarrow> string \<Rightarrow> string \<Rightarrow> string result" where
  "signWebhook h secret i timestamp payload =
     (let encodedSecret = (if starts_with ''whsec_'' secret then drop (length ''whsec_'') secret else secret)
      in bindE (base64ToBytes encodedSecret) (\<lambda>secretBytes.
         Inr (''v1,'' @ bytesToBase64 (h_hmac_sha256 h secretBytes (i @ ''.'' @ timestamp @ ''.'' @ payload)))))"

definition createRandomToken :: "8 word list \<Rightarrow> string" where
  "createRandomToken random = bytesToBase64Url random"

lemma sign_with_created_secret:
  "signWebhook h (createWebhookSecret random) i timestamp payload
     = Inr (''v1,'' @ bytesToBase64 (h_hmac_sha256 h random (i @ ''.'' @ timestamp @ ''.'' @ payload)))"
proof -
  have "starts_with ''whsec_'' (''whsec_'' @ bytesToBase64 random)" by (rule starts_with_append)
  then show ?thesis
    by (simp add: signWebhook_def createWebhookSecret_def bindE_def base64ToBytes_def bytesToBase64_def)
qed

lemma xor_zero_iff: "x XOR y = 0 \<longleftrightarrow> x = (y :: 32 word)"
proof
  assume zero: "x XOR y = 0"
  have "x = x XOR (y XOR y)" by simp
  also have "\<dots> = (x XOR y) XOR y" by (simp only: xor.assoc)
  finally show "x = y" by (simp add: zero)
qed simp

text \<open>The loop compares every byte; it ends with zero exactly when nothing differed.\<close>

lemma difference_zero:
  "foldl (\<lambda>d i. d OR (f i XOR g i)) (d :: 32 word) ks = 0 \<longleftrightarrow> d = 0 \<and> (\<forall>i \<in> set ks. f i = g i)"
proof (induction ks arbitrary: d)
  case (Cons i ks)
  show ?case using Cons by (auto simp: or_eq_0_iff xor_zero_iff)
qed simp

end
