(* ===== verification/Crypto_Properties.thy ===== *)
theory Crypto_Properties
  imports Crypto Demo_Delivery
begin

text \<open>
  The properties of secrets and request hashes: the constant-time comparison decides
  equality, and the hash of a request does not depend on the order in which its properties
  were written.
\<close>

section \<open>Sorting is determined\<close>

lemma sorted_list_determined:
  assumes "sorted_wrt r xs" "sorted_wrt r ys" "mset xs = mset ys"
    and "\<And>x y. x \<in> set xs \<Longrightarrow> y \<in> set xs \<Longrightarrow> r x y \<Longrightarrow> r y x \<Longrightarrow> x = y"
  shows "xs = ys"
  using assms
proof (induction xs arbitrary: ys)
  case (Cons x xs)
  then obtain y ys' where ys: "ys = y # ys'" by (cases ys) auto
  have sets: "set (x # xs) = set ys" using Cons.prems(3) by (metis set_mset_mset)
  have "x = y"
  proof (rule ccontr)
    assume "x \<noteq> y"
    then have "y \<in> set xs" "x \<in> set ys'" using sets ys by auto
    then show False using Cons.prems(1,2,4) ys \<open>x \<noteq> y\<close> by auto
  qed
  moreover have "xs = ys'"
    by (rule Cons.IH) (use Cons.prems ys \<open>x = y\<close> in auto)
  ultimately show ?case using ys by simp
qed simp

context comparator
begin

lemma js_sort_determined:
  assumes "mset xs = mset ys" "\<And>x y. x \<in> set xs \<Longrightarrow> y \<in> set xs \<Longrightarrow> cmp x y \<le> 0 \<Longrightarrow> cmp y x \<le> 0 \<Longrightarrow> x = y"
  shows "js_sort cmp xs = js_sort cmp ys"
  by (rule sorted_list_determined[where r = "\<lambda>x y. cmp x y \<le> 0"]) (use assms sorted_js_sort in auto)

end

context collation
begin

lemma by_key: "comparator (\<lambda>x y. collate (fst x) (fst y))"
proof
  fix x y :: "string \<times> 'a" assume "0 < collate (fst x) (fst y)"
  then show "collate (fst y) (fst x) \<le> 0" using collate_sym by force
qed (use collate_trans in blast)

end

lemma insert_by_map: "(\<And>x y. cmp (f x) (f y) = cmp' x y) \<Longrightarrow> insert_by cmp (f x) (map f ys) = map f (insert_by cmp' x ys)"
  by (induction ys) auto

lemma js_sort_map: "(\<And>x y. cmp (f x) (f y) = cmp' x y) \<Longrightarrow> js_sort cmp (map f xs) = map f (js_sort cmp' xs)"
  by (induction xs) (simp_all add: insert_by_map[of cmp f cmp'])

lemma map_eq_of_all2: "list_all2 (\<lambda>x y. f x = f y) xs ys \<Longrightarrow> map f xs = map f ys"
  by (induction rule: list_all2_induct) simp_all

section \<open>Values that differ in the order of properties\<close>

text \<open>
  Equal up to the order of the properties of objects and up to properties that are undefined.
\<close>

inductive same_json :: "js_value \<Rightarrow> js_value \<Rightarrow> bool" where
  same_value: "same_json v v"
| same_array: "list_all2 same_json xs ys \<Longrightarrow> same_json (JArr xs) (JArr ys)"
| same_object: "distinct (map fst fs) \<Longrightarrow> mset fs' = mset (filter (\<lambda>x. snd x \<noteq> JUndefined) fs) \<Longrightarrow>
    mset gs' = mset (filter (\<lambda>x. snd x \<noteq> JUndefined) gs) \<Longrightarrow>
    list_all2 (\<lambda>x y. fst x = fst y \<and> same_json (snd x) (snd y)) fs' gs' \<Longrightarrow> same_json (JObj fs) (JObj gs)"

fun json_keys :: "js_value \<Rightarrow> string list" where
  "json_keys (JArr xs) = concat (map json_keys xs)"
| "json_keys (JObj fs) = map fst fs @ concat (map (\<lambda>(k, v). json_keys v) fs)"
| "json_keys _ = []"

definition tells_apart :: "host \<Rightarrow> string set \<Rightarrow> bool" where
  "tells_apart h ks \<longleftrightarrow> (\<forall>x \<in> ks. \<forall>y \<in> ks. h_collate h x y = 0 \<longrightarrow> x = y)"

lemma tells_apart_mono: "tells_apart h ks \<Longrightarrow> ls \<subseteq> ks \<Longrightarrow> tells_apart h ls"
  by (auto simp: tells_apart_def)

lemma canonical_members:
  assumes coll: "collation (h_collate h)" and apart: "tells_apart h (fst ` set fs)" and dist: "distinct (map fst fs)"
    and perm: "mset fs' = mset (filter (\<lambda>x. snd x \<noteq> JUndefined) fs)" "mset gs' = mset (filter (\<lambda>x. snd x \<noteq> JUndefined) gs)"
    and same: "map (\<lambda>(k, v). (k, canonicalize h v)) fs' = map (\<lambda>(k, v). (k, canonicalize h v)) gs'"
  shows "canonicalize h (JObj fs) = canonicalize h (JObj gs)"
proof -
  let ?c = "\<lambda>(k, v). (k, canonicalize h v)"
  let ?f = "filter (\<lambda>x. snd x \<noteq> JUndefined) fs" and ?g = "filter (\<lambda>x. snd x \<noteq> JUndefined) gs"
  have commute: "map ?c (js_sort (key_order h) xs) = js_sort (key_order h) (map ?c xs)" for xs
    by (rule js_sort_map[symmetric]) (auto simp: key_order_def)
  have cmp: "comparator (key_order h :: string \<times> js_value \<Rightarrow> _ \<Rightarrow> int)"
    using collation.by_key[OF coll] by (simp add: key_order_def[abs_def])
  have eq: "mset (map ?c ?f) = mset (map ?c ?g)"
  proof -
    have "mset (map ?c ?f) = mset (map ?c fs')" by (simp only: mset_map perm(1))
    also have "\<dots> = mset (map ?c ?g)" by (simp only: same mset_map perm(2))
    finally show ?thesis .
  qed
  have keys: "distinct (map fst (map ?c ?f))"
  proof -
    have "map fst (map ?c ?f) = map fst ?f" by (simp add: case_prod_beta comp_def)
    then show ?thesis using dist by (simp only: distinct_map_filter)
  qed
  have "js_sort (key_order h) (map ?c ?f) = js_sort (key_order h) (map ?c ?g)"
  proof (rule comparator.js_sort_determined[OF cmp eq])
    fix x y assume xy: "x \<in> set (map ?c ?f)" "y \<in> set (map ?c ?f)" "key_order h x y \<le> 0" "key_order h y x \<le> 0"
    have "h_collate h (fst x) (fst y) = 0"
      using xy(3,4) collation.collate_sym[OF coll, of "fst y" "fst x"] by (simp add: key_order_def)
    moreover have "fst x \<in> fst ` set fs" "fst y \<in> fst ` set fs" using xy(1,2) by force+
    ultimately have "fst x = fst y" using apart unfolding tells_apart_def by blast
    then obtain k a b where pairs: "x = (k, a)" "y = (k, b)" by (cases x; cases y) simp
    have "a = b" by (rule eq_key_imp_eq_value[OF keys]) (use xy(1,2) in \<open>simp_all only: pairs\<close>)
    then show "x = y" by (simp add: pairs)
  qed
  then show ?thesis by (simp add: commute)
qed

lemma canonicalize_same:
  assumes coll: "collation (h_collate h)"
  shows "same_json v w \<Longrightarrow> tells_apart h (set (json_keys v)) \<Longrightarrow> canonicalize h v = canonicalize h w"
proof (induction rule: same_json.induct)
  case (same_array xs ys)
  have "list_all2 (\<lambda>x y. canonicalize h x = canonicalize h y) xs ys"
    using same_array.IH
  proof (rule list.rel_mono_strong)
    fix x y assume x: "x \<in> set xs" and "same_json x y \<and> (tells_apart h (set (json_keys x)) \<longrightarrow> canonicalize h x = canonicalize h y)"
    moreover have "tells_apart h (set (json_keys x))" using same_array.prems x by (auto elim!: tells_apart_mono)
    ultimately show "canonicalize h x = canonicalize h y" by blast
  qed
  then have "map (canonicalize h) xs = map (canonicalize h) ys" by (rule map_eq_of_all2)
  then show ?case by simp
next
  case (same_object fs fs' gs' gs)
  have "list_all2 (\<lambda>x y. (\<lambda>(k, v). (k, canonicalize h v)) x = (\<lambda>(k, v). (k, canonicalize h v)) y) fs' gs'"
    using same_object(4)
  proof (rule list.rel_mono_strong)
    fix x y assume x: "x \<in> set fs'" and xy: "fst x = fst y \<and> same_json (snd x) (snd y)
      \<and> (tells_apart h (set (json_keys (snd x))) \<longrightarrow> canonicalize h (snd x) = canonicalize h (snd y))"
    have "x \<in> set fs" using x same_object(2) by (metis filter_is_subset set_mset_mset subsetD)
    then have "set (json_keys (snd x)) \<subseteq> set (json_keys (JObj fs))"
      unfolding json_keys.simps by (simp only: set_append set_concat set_map) (auto simp: case_prod_beta)
    then have "tells_apart h (set (json_keys (snd x)))" using same_object.prems tells_apart_mono by blast
    then show "(\<lambda>(k, v). (k, canonicalize h v)) x = (\<lambda>(k, v). (k, canonicalize h v)) y"
      using xy by (simp add: case_prod_beta)
  qed
  then have "map (\<lambda>(k, v). (k, canonicalize h v)) fs' = map (\<lambda>(k, v). (k, canonicalize h v)) gs'"
    by (rule map_eq_of_all2)
  moreover have "tells_apart h (fst ` set fs)" using same_object.prems by (auto elim!: tells_apart_mono)
  ultimately show ?case using canonical_members[OF coll _ same_object(1-3)] by blast
qed simp

lemma widen_inject: "ucast a = (ucast b :: 32 word) \<longleftrightarrow> a = (b :: 8 word)"
proof
  assume "ucast a = (ucast b :: 32 word)"
  then have "ucast (ucast a :: 32 word) = (ucast (ucast b :: 32 word) :: 8 word)" by simp
  then show "a = b" by (simp add: ucast_up_ucast_id is_up.rep_eq)
qed simp

text \<open>The comparison looks at every byte of both texts.\<close>

lemma secretsEqual_iff:
  assumes "length left < 2 ^ 32" "length right < 2 ^ 32"
  shows "secretsEqual left right \<longleftrightarrow> left = right"
proof -
  let ?l = "utf8Bytes left" and ?r = "utf8Bytes right"
  have len: "length ?l = length left" "length ?r = length right" by (simp_all add: utf8Bytes_def)
  have lens: "(word_of_nat (length left) XOR word_of_nat (length right) :: 32 word) = 0 \<longleftrightarrow> length left = length right"
  proof
    assume "(word_of_nat (length left) XOR word_of_nat (length right) :: 32 word) = 0"
    then have "(word_of_nat (length left) :: 32 word) = word_of_nat (length right)" by (simp only: xor_zero_iff)
    then have "unat (word_of_nat (length left) :: 32 word) = unat (word_of_nat (length right) :: 32 word)" by simp
    then show "length left = length right" using assms by (simp add: unat_of_nat)
  qed simp
  have bytes: "(\<forall>i \<in> set [0..<max (length left) (length right)]. byte_or_zero ?l i = byte_or_zero ?r i) \<longleftrightarrow> ?l = ?r"
    if "length left = length right"
  proof -
    have "byte_or_zero ?l i = byte_or_zero ?r i \<longleftrightarrow> ?l ! i = ?r ! i" if "i < length left" for i
      using that \<open>length left = length right\<close> len by (simp add: byte_or_zero_def widen_inject)
    then show ?thesis using that len by (auto intro!: nth_equalityI)
  qed
  show ?thesis
    unfolding secretsEqual_def Let_def difference_zero len lens
    using bytes utf8Bytes_inject[of left right] by blast
qed

section \<open>Properties\<close>

text \<open>
  The comparison of secrets that looks at every byte decides equality of the two texts,
  whatever their lengths, below the four gigabytes at which 32-bit lengths would wrap.
\<close>

theorem secrets_equal_iff:
  assumes "length left < 2 ^ 32" "length right < 2 ^ 32"
  shows "secretsEqual left right \<longleftrightarrow> left = right"
  by (rule secretsEqual_iff[OF assms])

lemma secrets_equal_iff_witness:
  "secretsEqual ''token-1'' ''token-1'' \<and> \<not> secretsEqual ''token-1'' ''token-2''"
  using secrets_equal_iff[of "''token-1''" "''token-1''"] secrets_equal_iff[of "''token-1''" "''token-2''"] by simp

text \<open>
  C40. The hash of a request does not depend on the order in which a client writes the
  properties of its objects, at any depth, nor on properties that are undefined, provided
  the host's collation is an order that tells the property names of the request apart.
\<close>

theorem request_hash_ignores_order:
  assumes "collation (h_collate h)" "tells_apart h (set (json_keys v))" "same_json v w"
  shows "requestHash h v = requestHash h w"
  using canonicalize_same[OF assms(1,3,2)] by (simp add: requestHash_def)

lemma request_hash_ignores_order_witness:
  "requestHash demo_host (JObj [(''to'', JArr [JObj [(''b'', JNum (Num 1)), (''a'', JNull)]]), (''from'', JStr ''x''), (''cc'', JUndefined)])
     = requestHash demo_host (JObj [(''from'', JStr ''x''), (''to'', JArr [JObj [(''a'', JNull), (''b'', JNum (Num 1))]])])"
    (is "requestHash demo_host ?v = requestHash demo_host ?w")
proof (rule request_hash_ignores_order)
  show "collation (h_collate demo_host)" by (simp add: demo_host_def code_units.collation_axioms)
  show "tells_apart demo_host (set (json_keys ?v))"
    unfolding tells_apart_def by (simp add: demo_host_def code_unit_compare_eq del: json_keys.simps)
  have inner: "same_json (JObj [(''b'', JNum (Num 1)), (''a'', JNull)]) (JObj [(''a'', JNull), (''b'', JNum (Num 1))])"
    by (rule same_object[where fs' = "[(''b'', JNum (Num 1)), (''a'', JNull)]" and gs' = "[(''b'', JNum (Num 1)), (''a'', JNull)]"])
      (simp_all add: same_value)
  show "same_json ?v ?w"
    by (rule same_object[where fs' = "[(''to'', JArr [JObj [(''b'', JNum (Num 1)), (''a'', JNull)]]), (''from'', JStr ''x'')]"
          and gs' = "[(''to'', JArr [JObj [(''a'', JNull), (''b'', JNum (Num 1))]]), (''from'', JStr ''x'')]"])
      (simp_all add: same_value same_array inner)
qed

end
