(* ===== verification/Job_Envelope.thy ===== *)
theory Job_Envelope
  imports Crypto_Properties Error_Telemetry
begin

text \<open>
  The envelope of a queued job (\<open>src/core/job-envelope.ts\<close>): a deterministic identity, the
  limits on its size, and the check of what comes back from a queue. Jobs are looked at as
  objects of the language, as the code does; \<open>job_value\<close> is the object of a typed job.
\<close>

section \<open>Jobs as objects\<close>

definition webhook_event_value :: "webhook_event \<Rightarrow> js_value" where
  "webhook_event_value e = JObj [(''type'', JStr (webhook_event_str (we_type e))),
     (''created_at'', JStr (we_created_at e)), (''data'', JObj (we_data e))]"

definition optional_prop :: "string \<Rightarrow> string option \<Rightarrow> (string \<times> js_value) list" where
  "optional_prop k v = (case v of None \<Rightarrow> [] | Some s \<Rightarrow> [(k, JStr s)])"

fun job_value :: "job \<Rightarrow> js_value" where
  "job_value (Send_email email_id job_id) =
     JObj ([(''type'', JStr ''send_email''), (''email_id'', JStr email_id)] @ optional_prop ''job_id'' job_id)"
| "job_value (Reconcile_outbox outbox_id) =
     JObj ((''type'', JStr ''reconcile_outbox'') # optional_prop ''outbox_id'' outbox_id)"
| "job_value (Publish_received_email email_id) =
     JObj [(''type'', JStr ''publish_received_email''), (''email_id'', JStr email_id)]"
| "job_value (Deliver_webhook webhook_id delivery_id event) =
     JObj ([(''type'', JStr ''deliver_webhook''), (''webhook_id'', JStr webhook_id)]
       @ optional_prop ''delivery_id'' delivery_id @ [(''event'', webhook_event_value event)])"

section \<open>Envelopes\<close>

definition max_job_envelope_bytes :: nat where
  "max_job_envelope_bytes = 128000"

definition max_job_id_bytes :: nat where
  "max_job_id_bytes = 2048"

record job_envelope =
  je_id :: string
  je_created_at :: string
  je_job :: job

definition envelope_value :: "job_envelope \<Rightarrow> js_value" where
  "envelope_value e = JObj [(''schema_version'', JStr ''1.0.0''), (''id'', JStr (je_id e)),
     (''created_at'', JStr (je_created_at e)), (''job'', job_value (je_job e))]"

definition type_text :: "js_value \<Rightarrow> string" where
  "type_text job = (case js_prop job ''type'' of JStr t \<Rightarrow> t | _ \<Rightarrow> [])"

definition supplied_id :: "js_value \<Rightarrow> js_value" where
  "supplied_id job =
     (if js_prop job ''type'' = JStr ''send_email'' then js_prop job ''job_id''
      else if js_prop job ''type'' = JStr ''reconcile_outbox'' then js_prop job ''outbox_id''
      else if js_prop job ''type'' = JStr ''deliver_webhook'' then js_prop job ''delivery_id''
      else JUndefined)"

text \<open>A supplied identity is a text or missing; the hash stands in for a missing one.\<close>

definition jobIdentity :: "host \<Rightarrow> js_value \<Rightarrow> string result" where
  "jobIdentity h job =
     bindE (case supplied_id job of JStr s \<Rightarrow> Inr s | _ \<Rightarrow> requestHash h job) (\<lambda>suffix.
     Inr (''job:v1:'' @ replace_all_char CHR ''_'' ''-'' (type_text job) @ '':'' @ suffix))"

definition is_string :: "js_value \<Rightarrow> bool" where
  "is_string v = (case v of JStr _ \<Rightarrow> True | _ \<Rightarrow> False)"

definition is_optional_string :: "js_value \<Rightarrow> bool" where
  "is_optional_string v \<longleftrightarrow> v = JUndefined \<or> is_string v"

definition isJob :: "js_value \<Rightarrow> bool" where
  "isJob job =
     (if \<not> is_object job then False
      else if js_prop job ''type'' = JStr ''send_email''
      then is_string (js_prop job ''email_id'') \<and> is_optional_string (js_prop job ''job_id'')
      else if js_prop job ''type'' = JStr ''reconcile_outbox'' then is_optional_string (js_prop job ''outbox_id'')
      else if js_prop job ''type'' = JStr ''publish_received_email'' then is_string (js_prop job ''email_id'')
      else if js_prop job ''type'' = JStr ''deliver_webhook''
      then is_string (js_prop job ''webhook_id'') \<and> is_optional_string (js_prop job ''delivery_id'')
        \<and> is_object (js_prop job ''event'')
      else False)"

definition json_bytes :: "host \<Rightarrow> js_value \<Rightarrow> nat" where
  "json_bytes h v = utf8ByteLength (coalesce (json_text h v) [])"

definition createJobEnvelope :: "host \<Rightarrow> job \<Rightarrow> int \<Rightarrow> job_envelope result" where
  "createJobEnvelope h job now =
     bindE (jobIdentity h (job_value job)) (\<lambda>i.
     bindE (date_to_iso (make_date now)) (\<lambda>created_at.
     let envelope = \<lparr>je_id = i, je_created_at = created_at, je_job = job\<rparr>
     in if utf8ByteLength (je_id envelope) > max_job_id_bytes
        then Inl (PlainError (''Queue job IDs must not exceed '' @ nat_dec max_job_id_bytes @ '' bytes.''))
        else if json_bytes h (envelope_value envelope) > max_job_envelope_bytes
        then Inl (PlainError (''Queue messages must not exceed '' @ nat_dec max_job_envelope_bytes @ '' bytes.''))
        else Inr envelope))"

definition is_valid_envelope :: "host \<Rightarrow> js_value \<Rightarrow> bool result" where
  "is_valid_envelope h envelope =
     (case (js_prop envelope ''id'', js_prop envelope ''created_at'') of
        (JStr i, JStr created_at) \<Rightarrow>
          if js_prop envelope ''schema_version'' \<noteq> JStr ''1.0.0'' \<or> utf8ByteLength i > max_job_id_bytes
             \<or> date_parse h created_at = None \<or> \<not> isJob (js_prop envelope ''job'')
          then Inr False
          else bindE (jobIdentity h (js_prop envelope ''job'')) (\<lambda>identity. Inr (i = identity))
      | _ \<Rightarrow> Inr False)"

definition parseJobEnvelope :: "host \<Rightarrow> js_value \<Rightarrow> js_value result" where
  "parseJobEnvelope h value =
     (if \<not> is_object value then Inl (PlainError ''Queue payload is not an object.'')
      else bindE (is_valid_envelope h value) (\<lambda>valid.
        if \<not> valid then Inl (PlainError ''Queue payload is not a valid deterministic job.'')
        else if json_bytes h value > max_job_envelope_bytes
        then Inl (PlainError (''Queue messages must not exceed '' @ nat_dec max_job_envelope_bytes @ '' bytes.''))
        else Inr value))"

section \<open>Jobs of the program\<close>

lemma job_value_props:
  "js_prop (job_value (Send_email e j)) ''job_id'' = (case j of None \<Rightarrow> JUndefined | Some s \<Rightarrow> JStr s)"
  "js_prop (job_value (Reconcile_outbox ob)) ''outbox_id'' = (case ob of None \<Rightarrow> JUndefined | Some s \<Rightarrow> JStr s)"
  "js_prop (job_value (Deliver_webhook w d ev)) ''delivery_id'' = (case d of None \<Rightarrow> JUndefined | Some s \<Rightarrow> JStr s)"
  by (simp_all add: js_prop_def optional_prop_def webhook_event_value_def split: option.split)

lemma isJob_job_value: "isJob (job_value job)"
  by (cases job) (auto simp: isJob_def is_object_def js_prop_def optional_prop_def is_string_def is_optional_string_def
      webhook_event_value_def split: option.split)

lemma envelope_props:
  "js_prop (envelope_value e) ''schema_version'' = JStr ''1.0.0''" "js_prop (envelope_value e) ''id'' = JStr (je_id e)"
  "js_prop (envelope_value e) ''created_at'' = JStr (je_created_at e)" "js_prop (envelope_value e) ''job'' = job_value (je_job e)"
  "is_object (envelope_value e)"
  by (simp_all add: envelope_value_def js_prop_def is_object_def)

section \<open>Property\<close>

text \<open>
  What the producer puts on the queue the consumer accepts, unchanged: an envelope that
  was created passes the check of its object, and its identity is the deterministic one of
  its job, the supplied identity when there is one. What the consumer accepts is a job under
  its own deterministic identity and within the limits; in particular an identity cannot be
  used to smuggle in another job.
\<close>

theorem job_envelope_round_trip:
  "(case createJobEnvelope h job now of
      Inl e \<Rightarrow> True
    | Inr envelope \<Rightarrow> je_job envelope = job \<and> jobIdentity h (job_value job) = Inr (je_id envelope)
        \<and> parseJobEnvelope h (envelope_value envelope) = Inr (envelope_value envelope))
   \<and> (case parseJobEnvelope h value of
      Inl e \<Rightarrow> True
    | Inr accepted \<Rightarrow> accepted = value \<and> isJob (js_prop value ''job'') \<and> json_bytes h value \<le> 128000
        \<and> (case js_prop value ''id'' of
             JStr i \<Rightarrow> jobIdentity h (js_prop value ''job'') = Inr i \<and> length i \<le> 2048
           | _ \<Rightarrow> False))"
proof (rule conjI)
  show "case createJobEnvelope h job now of
     Inl e \<Rightarrow> True
   | Inr envelope \<Rightarrow> je_job envelope = job \<and> jobIdentity h (job_value job) = Inr (je_id envelope)
       \<and> parseJobEnvelope h (envelope_value envelope) = Inr (envelope_value envelope)"
  proof (cases "createJobEnvelope h job now")
    case (Inr e)
    then have e: "je_job e = job" "jobIdentity h (job_value job) = Inr (je_id e)" "valid_time now" "je_created_at e = to_iso now"
        "length (je_id e) \<le> max_job_id_bytes" "json_bytes h (envelope_value e) \<le> max_job_envelope_bytes"
      by (auto simp: createJobEnvelope_def bindE_def Let_def date_to_iso_def make_date_def split: sum.splits if_splits)
    have "date_parse h (je_created_at e) = Some now" using e(3,4) by (simp add: date_parse_def parse_iso_to_iso)
    then have "parseJobEnvelope h (envelope_value e) = Inr (envelope_value e)"
      using e isJob_job_value[of job]
      by (simp add: parseJobEnvelope_def is_valid_envelope_def envelope_props bindE_def)
    then show ?thesis using Inr e(1,2) by simp
  qed simp
  show "case parseJobEnvelope h value of
     Inl e \<Rightarrow> True
   | Inr accepted \<Rightarrow> accepted = value \<and> isJob (js_prop value ''job'') \<and> json_bytes h value \<le> 128000
       \<and> (case js_prop value ''id'' of
            JStr i \<Rightarrow> jobIdentity h (js_prop value ''job'') = Inr i \<and> length i \<le> 2048
          | _ \<Rightarrow> False)"
    by (auto simp: parseJobEnvelope_def is_valid_envelope_def bindE_def max_job_envelope_bytes_def max_job_id_bytes_def
        split: sum.splits if_splits js_value.splits)
qed

text \<open>An envelope that is created.\<close>

lemma demo_envelope:
  "createJobEnvelope demo_host (Send_email demo_id (Some ''outbox-1'')) demo_now
     = Inr \<lparr>je_id = ''job:v1:send-email:outbox-1'', je_created_at = demo_time 0, je_job = Send_email demo_id (Some ''outbox-1'')\<rparr>"
proof -
  have "jobIdentity demo_host (job_value (Send_email demo_id (Some ''outbox-1''))) = Inr ''job:v1:send-email:outbox-1''"
    by (simp add: jobIdentity_def supplied_id_def js_prop_def bindE_def type_text_def replace_all_char_def optional_prop_def)
  moreover have "date_to_iso (make_date demo_now) = Inr (demo_time 0)"
    using demo_time_valid[of 0] by (simp add: make_date_def date_to_iso_def demo_time_def)
  moreover have "json_bytes demo_host (envelope_value \<lparr>je_id = ''job:v1:send-email:outbox-1'', je_created_at = demo_time 0,
      je_job = Send_email demo_id (Some ''outbox-1'')\<rparr>) \<le> 128000"
  proof -
    have c: "civil_of_days 20454 = (2026, 1, 1)" "iso_year 2026 = ''2026''" "pad_dec 2 1 = ''01''" "pad_dec 2 0 = ''00''"
        "pad_dec 3 0 = ''000''"
      by code_simp+
    have t: "demo_time 0 = ''2026-01-01T00:00:00.000Z''"
      by (simp add: demo_time_def demo_now_def to_iso_def c del: pad_dec.simps) (simp add: c del: pad_dec.simps flip: One_nat_def)
    show ?thesis
      by (simp add: t demo_id_def json_bytes_def envelope_value_def json_string_def json_char_def optional_prop_def)
  qed
  ultimately show ?thesis
    by (simp add: createJobEnvelope_def bindE_def max_job_id_bytes_def max_job_envelope_bytes_def)
qed

end
