(* ===== verification/Provider_Capabilities.thy ===== *)
theory Provider_Capabilities
  imports Demo_Delivery
begin

text \<open>
  Provider capabilities and the conformance report (\<open>src/core/provider-capabilities.ts\<close>): the
  schemas as records with a check of what a parse accepts, the catalogue of conformance
  cases, and the validation of a report against it. A parse trims the free texts; literal
  fields (versions, the privacy flags, the behaviour on unknown errors) are left out, and
  input that has not the shape of the record is refused before anything below.
\<close>

section \<open>Capability documents\<close>

datatype capability_status = Cap_supported | Cap_conditional | Cap_unsupported

record capability_support =
  cs_status :: capability_status
  cs_notes :: string

record provider_event_capabilities =
  pe_accepted :: capability_support
  pe_delivered :: capability_support
  pe_delayed :: capability_support
  pe_bounced :: capability_support
  pe_complained :: capability_support
  pe_rejected :: capability_support
  pe_opened :: capability_support
  pe_clicked :: capability_support

datatype maturity = Experimental | Beta | Production

record provider_limits =
  pl_max_serialized_request_bytes :: int
  pl_max_mime_message_bytes :: int
  pl_max_combined_recipients :: int
  pl_max_attachments :: int
  pl_max_decoded_attachment_bytes :: int
  pl_max_batch_messages :: int
  pl_max_schedule_delay_seconds :: int

record provider_features =
  pf_attachments :: capability_support
  pf_custom_headers :: capability_support
  pf_scheduling :: capability_support
  pf_cancellation :: capability_support
  pf_batch :: capability_support
  pf_provider_message_id :: capability_support
  pf_provider_event_id :: capability_support
  pf_provider_idempotency :: capability_support
  pf_domain_verification :: capability_support
  pf_suppression_handling :: capability_support

record error_mapping =
  em_retryable_categories :: "diagnostic_category list"
  em_permanent_categories :: "diagnostic_category list"

record capability_source =
  src_title :: string
  src_url :: string
  src_checked_at :: string

record provider_capability_document =
  pc_provider :: string
  pc_adapter_version :: string
  pc_checked_at :: string
  pc_service_maturity :: maturity
  pc_required_plan :: string
  pc_limits :: provider_limits
  pc_features :: provider_features
  pc_events :: provider_event_capabilities
  pc_error_mapping :: error_mapping
  pc_sources :: "capability_source list"
  pc_limitations :: "string list"

text \<open>\<open>z.string().trim().min(1).max(n)\<close>, on the trimmed text.\<close>

definition text_ok :: "nat \<Rightarrow> string \<Rightarrow> bool" where
  "text_ok n s \<longleftrightarrow> 1 \<le> js_length s \<and> js_length s \<le> n"

text \<open>\<open>/^[a-z][a-z0-9-]{1,63}$/\<close>, the expression of provider names.\<close>

definition is_identifier :: "string \<Rightarrow> bool" where
  "is_identifier s \<longleftrightarrow> is_provider_name s"

text \<open>\<open>/^\d{4}-\d{2}-\d{2}$/\<close>\<close>

definition is_iso_date :: "string \<Rightarrow> bool" where
  "is_iso_date s \<longleftrightarrow> map length (split_on CHR ''-'' s) = [4, 2, 2] \<and> list_all (list_all is_digit) (split_on CHR ''-'' s)"

definition is_https_url :: "host \<Rightarrow> string \<Rightarrow> bool" where
  "is_https_url h s \<longleftrightarrow> h_url h s \<and> starts_with ''https://'' s"

definition positive_int :: "int \<Rightarrow> bool" where
  "positive_int n \<longleftrightarrow> is_safe_int n \<and> 0 < n"

definition nonnegative_int :: "int \<Rightarrow> bool" where
  "nonnegative_int n \<longleftrightarrow> is_safe_int n \<and> 0 \<le> n"

definition trim_support :: "capability_support \<Rightarrow> capability_support" where
  "trim_support c = c\<lparr>cs_notes := js_trim (cs_notes c)\<rparr>"

definition support_ok :: "capability_support \<Rightarrow> bool" where
  "support_ok c \<longleftrightarrow> text_ok 1000 (cs_notes c)"

text \<open>The members of the two groups of capabilities, by their names.\<close>

definition event_supports :: "provider_event_capabilities \<Rightarrow> (string \<times> capability_support) list" where
  "event_supports e = [(''accepted'', pe_accepted e), (''delivered'', pe_delivered e), (''delayed'', pe_delayed e),
     (''bounced'', pe_bounced e), (''complained'', pe_complained e), (''rejected'', pe_rejected e),
     (''opened'', pe_opened e), (''clicked'', pe_clicked e)]"

definition feature_supports :: "provider_features \<Rightarrow> (string \<times> capability_support) list" where
  "feature_supports f = [(''attachments'', pf_attachments f), (''custom_headers'', pf_custom_headers f),
     (''scheduling'', pf_scheduling f), (''cancellation'', pf_cancellation f), (''batch'', pf_batch f),
     (''provider_message_id'', pf_provider_message_id f), (''provider_event_id'', pf_provider_event_id f),
     (''provider_idempotency'', pf_provider_idempotency f), (''domain_verification'', pf_domain_verification f),
     (''suppression_handling'', pf_suppression_handling f)]"

definition trim_events :: "provider_event_capabilities \<Rightarrow> provider_event_capabilities" where
  "trim_events e = \<lparr>pe_accepted = trim_support (pe_accepted e), pe_delivered = trim_support (pe_delivered e),
     pe_delayed = trim_support (pe_delayed e), pe_bounced = trim_support (pe_bounced e),
     pe_complained = trim_support (pe_complained e), pe_rejected = trim_support (pe_rejected e),
     pe_opened = trim_support (pe_opened e), pe_clicked = trim_support (pe_clicked e)\<rparr>"

definition trim_features :: "provider_features \<Rightarrow> provider_features" where
  "trim_features f = \<lparr>pf_attachments = trim_support (pf_attachments f), pf_custom_headers = trim_support (pf_custom_headers f),
     pf_scheduling = trim_support (pf_scheduling f), pf_cancellation = trim_support (pf_cancellation f),
     pf_batch = trim_support (pf_batch f), pf_provider_message_id = trim_support (pf_provider_message_id f),
     pf_provider_event_id = trim_support (pf_provider_event_id f),
     pf_provider_idempotency = trim_support (pf_provider_idempotency f),
     pf_domain_verification = trim_support (pf_domain_verification f),
     pf_suppression_handling = trim_support (pf_suppression_handling f)\<rparr>"

definition limits_ok :: "provider_limits \<Rightarrow> bool" where
  "limits_ok l \<longleftrightarrow> positive_int (pl_max_serialized_request_bytes l) \<and> positive_int (pl_max_mime_message_bytes l)
   \<and> positive_int (pl_max_combined_recipients l) \<and> nonnegative_int (pl_max_attachments l)
   \<and> nonnegative_int (pl_max_decoded_attachment_bytes l) \<and> positive_int (pl_max_batch_messages l)
   \<and> nonnegative_int (pl_max_schedule_delay_seconds l)"

definition error_mapping_ok :: "error_mapping \<Rightarrow> bool" where
  "error_mapping_ok m \<longleftrightarrow> em_retryable_categories m \<noteq> [] \<and> distinct (em_retryable_categories m)
   \<and> em_permanent_categories m \<noteq> [] \<and> distinct (em_permanent_categories m)"

definition source_ok :: "host \<Rightarrow> capability_source \<Rightarrow> bool" where
  "source_ok h s \<longleftrightarrow> text_ok 300 (src_title s) \<and> is_https_url h (src_url s) \<and> is_iso_date (src_checked_at s)"

definition trim_source :: "capability_source \<Rightarrow> capability_source" where
  "trim_source s = s\<lparr>src_title := js_trim (src_title s)\<rparr>"

definition provider_capability_document_ok :: "host \<Rightarrow> provider_capability_document \<Rightarrow> bool" where
  "provider_capability_document_ok h d \<longleftrightarrow>
     is_identifier (pc_provider d) \<and> is_semver (pc_adapter_version d) \<and> is_iso_date (pc_checked_at d)
   \<and> text_ok 1000 (pc_required_plan d) \<and> limits_ok (pc_limits d)
   \<and> list_all (\<lambda>p. support_ok (snd p)) (feature_supports (pc_features d))
   \<and> list_all (\<lambda>p. support_ok (snd p)) (event_supports (pc_events d)) \<and> error_mapping_ok (pc_error_mapping d)
   \<and> pc_sources d \<noteq> [] \<and> list_all (source_ok h) (pc_sources d) \<and> list_all (text_ok 1000) (pc_limitations d)"

definition parse_provider_capability_document ::
  "host \<Rightarrow> provider_capability_document \<Rightarrow> provider_capability_document result" where
  "parse_provider_capability_document h d =
     checkE (provider_capability_document_ok h) ZodError
       (d\<lparr>pc_required_plan := js_trim (pc_required_plan d), pc_features := trim_features (pc_features d),
          pc_events := trim_events (pc_events d), pc_sources := map trim_source (pc_sources d),
          pc_limitations := map js_trim (pc_limitations d)\<rparr>)"

section \<open>Conformance cases and reports\<close>

record conformance_case =
  cc_case_id :: string
  cc_boundary :: string
  cc_injected_condition :: string
  cc_required_outcome :: string
  cc_required :: bool
  cc_unsupported_capability_path :: "string option"

text \<open>\<open>/^(features|events)\.[a-z][a-z0-9_]*\.status$/\<close>\<close>

definition is_capability_path :: "string \<Rightarrow> bool" where
  "is_capability_path s =
     (case split_on CHR ''.'' s of
        [grp, nm, leaf] \<Rightarrow> (grp = ''features'' \<or> grp = ''events'') \<and> leaf = ''status''
          \<and> (case nm of [] \<Rightarrow> False | c # cs \<Rightarrow> is_lower c \<and> list_all (\<lambda>c. is_lower c \<or> is_digit c \<or> c = CHR ''_'') cs)
      | _ \<Rightarrow> False)"

definition conformance_case_ok :: "conformance_case \<Rightarrow> bool" where
  "conformance_case_ok c \<longleftrightarrow> is_identifier (cc_case_id c) \<and> text_ok 200 (cc_boundary c)
   \<and> text_ok 500 (cc_injected_condition c) \<and> text_ok 1000 (cc_required_outcome c)
   \<and> opt_ok is_capability_path (cc_unsupported_capability_path c)"

datatype case_status = Case_passed | Case_failed | Case_unsupported

record conformance_case_result =
  cr_case_id :: string
  cr_status :: case_status
  cr_evidence_url :: string
  cr_reason :: "string option"
  cr_capability_path :: "string option"

definition case_result_ok :: "host \<Rightarrow> conformance_case_result \<Rightarrow> bool" where
  "case_result_ok h r \<longleftrightarrow> is_identifier (cr_case_id r) \<and> is_https_url h (cr_evidence_url r)
   \<and> opt_ok (text_ok 1000) (cr_reason r) \<and> opt_ok is_capability_path (cr_capability_path r)"

record case_counts =
  ct_passed :: int
  ct_failed :: int
  ct_unsupported :: int

datatype report_status = Report_passed | Report_failed

record conformance_result =
  co_run_id :: string
  co_provider :: string
  co_adapter_version :: string
  co_capability_document_sha256 :: string
  co_started_at :: string
  co_completed_at :: string
  co_evidence_url :: string
  co_case_count :: int
  co_summary :: case_counts
  co_status :: report_status
  co_results :: "conformance_case_result list"

definition conformance_result_ok :: "host \<Rightarrow> conformance_result \<Rightarrow> bool" where
  "conformance_result_ok h r \<longleftrightarrow>
     is_identifier (co_run_id r) \<and> is_identifier (co_provider r) \<and> is_semver (co_adapter_version r)
   \<and> is_sha256_hex (co_capability_document_sha256 r) \<and> h_datetime h (co_started_at r) \<and> h_datetime h (co_completed_at r)
   \<and> is_https_url h (co_evidence_url r) \<and> positive_int (co_case_count r)
   \<and> nonnegative_int (ct_passed (co_summary r)) \<and> nonnegative_int (ct_failed (co_summary r))
   \<and> nonnegative_int (ct_unsupported (co_summary r))
   \<and> co_results r \<noteq> [] \<and> list_all (case_result_ok h) (co_results r)"

definition trim_case_result :: "conformance_case_result \<Rightarrow> conformance_case_result" where
  "trim_case_result r = r\<lparr>cr_reason := map_option js_trim (cr_reason r)\<rparr>"

definition trim_conformance_result :: "conformance_result \<Rightarrow> conformance_result" where
  "trim_conformance_result r = r\<lparr>co_results := map trim_case_result (co_results r)\<rparr>"

definition parse_conformance_result :: "host \<Rightarrow> conformance_result \<Rightarrow> conformance_result result" where
  "parse_conformance_result h r = checkE (conformance_result_ok h) ZodError (trim_conformance_result r)"

section \<open>The catalogue\<close>

definition conformance_cases :: "conformance_case list" where
  "conformance_cases = [
     \<lparr>cc_case_id = ''api-plain-text-fallback'', cc_boundary = ''API content normalization'',
       cc_injected_condition = ''Direct or batch HTML is supplied with text omitted, explicit, or empty'',
       cc_required_outcome = ''Omitted text is derived before persistence and MIME accounting; explicit text is unchanged; empty text with HTML remains an opt-out.'',
       cc_required = True, cc_unsupported_capability_path = None\<rparr>,
     \<lparr>cc_case_id = ''api-atomic-commit'', cc_boundary = ''API commit'',
       cc_injected_condition = ''Failure inside the atomic write'',
       cc_required_outcome = ''No partial message or idempotency claim is retained.'',
       cc_required = True, cc_unsupported_capability_path = None\<rparr>,
     \<lparr>cc_case_id = ''outbox-queue-unavailable'', cc_boundary = ''Outbox dispatch'',
       cc_injected_condition = ''Queue unavailable'',
       cc_required_outcome = ''The committed item remains due and observable.'',
       cc_required = True, cc_unsupported_capability_path = None\<rparr>,
     \<lparr>cc_case_id = ''outbox-ack-crash'', cc_boundary = ''Outbox acknowledgement'',
       cc_injected_condition = ''Crash after queue acceptance'',
       cc_required_outcome = ''A duplicate deterministic job is safe.'',
       cc_required = True, cc_unsupported_capability_path = None\<rparr>,
     \<lparr>cc_case_id = ''scheduler-wakeup-loss'', cc_boundary = ''Schedule wake-up'',
       cc_injected_condition = ''The queue delay or platform scheduler loses an accepted wake-up'',
       cc_required_outcome = ''The durable due time remains authoritative and reconciliation republishes the deterministic job without a client replay.'',
       cc_required = True, cc_unsupported_capability_path = None\<rparr>,
     \<lparr>cc_case_id = ''long-delay-recovery'', cc_boundary = ''Long schedule'',
       cc_injected_condition = ''A scheduled send exceeds the queue retention or native delay limit and the runtime is redeployed before it becomes due'',
       cc_required_outcome = ''The schedule survives in the durable store and is materialized into executable work within the documented recovery bound.'',
       cc_required = True, cc_unsupported_capability_path = None\<rparr>,
     \<lparr>cc_case_id = ''send-lease-concurrency'', cc_boundary = ''Send lease'',
       cc_injected_condition = ''Concurrent or expired consumers'',
       cc_required_outcome = ''Only one active claimant owns a lease.'',
       cc_required = True, cc_unsupported_capability_path = None\<rparr>,
     \<lparr>cc_case_id = ''provider-permanent-rejection'', cc_boundary = ''Provider call'',
       cc_injected_condition = ''Permanent rejection'',
       cc_required_outcome = ''The submission is not retried and recipient records retain a terminal reason category.'',
       cc_required = True, cc_unsupported_capability_path = None\<rparr>,
     \<lparr>cc_case_id = ''provider-throttle'', cc_boundary = ''Provider call'',
       cc_injected_condition = ''Throttle or provider unavailability'',
       cc_required_outcome = ''The submission uses bounded retry with backoff.'',
       cc_required = True, cc_unsupported_capability_path = None\<rparr>,
     \<lparr>cc_case_id = ''provider-acceptance-ambiguity'', cc_boundary = ''Provider acceptance'',
       cc_injected_condition = ''Crash before the attempt update'',
       cc_required_outcome = ''The ambiguity is recorded and measurable.'',
       cc_required = True, cc_unsupported_capability_path = None\<rparr>,
     \<lparr>cc_case_id = ''provider-event-ordering'', cc_boundary = ''Provider events'',
       cc_injected_condition = ''Duplicate or older event'',
       cc_required_outcome = ''The immutable event is deduplicated and recipient state does not regress.'',
       cc_required = True, cc_unsupported_capability_path = None\<rparr>,
     \<lparr>cc_case_id = ''recipient-mixed-outcomes'', cc_boundary = ''Recipient aggregate'',
       cc_injected_condition = ''Mixed delivery and bounce'',
       cc_required_outcome = ''Both recipient outcomes remain canonical and the message aggregate is deterministic.'',
       cc_required = True, cc_unsupported_capability_path = None\<rparr>,
     \<lparr>cc_case_id = ''recovery-diagnostics-privacy'', cc_boundary = ''Operator recovery diagnostics'',
       cc_injected_condition = ''Mixed recipient outcomes, an old in-flight attempt, queue backlog, and adversarial private fields'',
       cc_required_outcome = ''Scoped API and CLI output retains canonical recipient and recovery state while omitting addresses, content, credentials, signed URLs, provider identifiers, raw errors, and unrecognized fields.'',
       cc_required = True, cc_unsupported_capability_path = None\<rparr>,
     \<lparr>cc_case_id = ''payload-orphan'', cc_boundary = ''Payload store'',
       cc_injected_condition = ''Object write without metadata commit'',
       cc_required_outcome = ''Bounded orphan cleanup removes the unreferenced object.'',
       cc_required = True, cc_unsupported_capability_path = None\<rparr>,
     \<lparr>cc_case_id = ''webhook-duplicate'', cc_boundary = ''Webhook'',
       cc_injected_condition = ''Timeout or duplicate queue job'',
       cc_required_outcome = ''Automatic retries retain one stable event ID.'',
       cc_required = True, cc_unsupported_capability_path = None\<rparr>,
     \<lparr>cc_case_id = ''deploy-interruption'', cc_boundary = ''Deploy'',
       cc_injected_condition = ''Interrupted migration'',
       cc_required_outcome = ''Retry is safe or a tested rollback is documented.'',
       cc_required = True, cc_unsupported_capability_path = None\<rparr>,
     \<lparr>cc_case_id = ''backup-restore'', cc_boundary = ''Backup and restore'',
       cc_injected_condition = ''The authoritative store and retained payload objects are restored into an isolated deployment'',
       cc_required_outcome = ''Message, recipient, attempt, provider-event, outbox, and payload references remain consistent and due work is recoverable without duplicate terminal mutation.'',
       cc_required = True, cc_unsupported_capability_path = None\<rparr>,
     \<lparr>cc_case_id = ''telemetry-private-fields'', cc_boundary = ''Telemetry'',
       cc_injected_condition = ''Adversarial private fields'',
       cc_required_outcome = ''No message content, address, credential, signed URL, or raw provider error leaves the data plane.'',
       cc_required = True, cc_unsupported_capability_path = None\<rparr>,
     \<lparr>cc_case_id = ''provider-send-idempotency'', cc_boundary = ''Provider submission'',
       cc_injected_condition = ''The caller requires a provider-enforced send idempotency key'',
       cc_required_outcome = ''The adapter either proves provider-side idempotency or reports the capability as unsupported.'',
       cc_required = False, cc_unsupported_capability_path = Some ''features.provider_idempotency.status''\<rparr>,
     \<lparr>cc_case_id = ''provider-open-events'', cc_boundary = ''Provider events'',
       cc_injected_condition = ''The caller requires an open lifecycle event'',
       cc_required_outcome = ''The adapter either consumes a documented open event or reports the capability as unsupported.'',
       cc_required = False, cc_unsupported_capability_path = Some ''events.opened.status''\<rparr>,
     \<lparr>cc_case_id = ''provider-click-events'', cc_boundary = ''Provider events'',
       cc_injected_condition = ''The caller requires a click lifecycle event'',
       cc_required_outcome = ''The adapter either consumes a documented click event or reports the capability as unsupported.'',
       cc_required = False, cc_unsupported_capability_path = Some ''events.clicked.status''\<rparr>]"

section \<open>Validation of a report\<close>

text \<open>
  The status a path names in a capability document; the schema lets only paths of the form
  above come here.
\<close>

definition capabilityStatusAtPath :: "provider_capability_document \<Rightarrow> string \<Rightarrow> capability_status option" where
  "capabilityStatusAtPath d path =
     (case split_on CHR ''.'' path of
        [grp, nm, leaf] \<Rightarrow>
          if leaf \<noteq> ''status'' then None
          else map_option cs_status
            (if grp = ''features'' then map_of (feature_supports (pc_features d)) nm
             else if grp = ''events'' then map_of (event_supports (pc_events d)) nm else None)
      | _ \<Rightarrow> None)"

definition find_case :: "string \<Rightarrow> conformance_case option" where
  "find_case i = find (\<lambda>c. cc_case_id c = i) conformance_cases"

definition check_case_result :: "provider_capability_document \<Rightarrow> conformance_case \<Rightarrow> conformance_case_result \<Rightarrow> unit result" where
  "check_case_result d testCase r =
     (if cr_status r \<noteq> Case_passed \<and> \<not> truthy (cr_reason r)
      then Inl (PlainError (''Non-passing conformance case requires a reason: '' @ cr_case_id r @ ''.''))
      else if cr_status r = Case_unsupported
      then if cc_required testCase
           then Inl (PlainError (''Required conformance case cannot be unsupported: '' @ cr_case_id r @ ''.''))
           else if \<not> truthy (cc_unsupported_capability_path testCase) \<or> \<not> truthy (cr_capability_path r)
                \<or> cr_capability_path r \<noteq> cc_unsupported_capability_path testCase
                \<or> capabilityStatusAtPath d (coalesce (cr_capability_path r) []) \<noteq> Some Cap_unsupported
           then Inl (PlainError (''Unsupported conformance case lacks a matching unsupported capability: '' @ cr_case_id r @ ''.''))
           else Inr ()
      else if truthy (cr_capability_path r)
      then Inl (PlainError (''Only unsupported conformance cases may cite a capability path: '' @ cr_case_id r @ ''.''))
      else Inr ())"

fun check_case_results :: "provider_capability_document \<Rightarrow> string list \<Rightarrow> conformance_case_result list \<Rightarrow> string list result" where
  "check_case_results d seen [] = Inr seen"
| "check_case_results d seen (r # rs) =
     (case find_case (cr_case_id r) of
        None \<Rightarrow> Inl (PlainError (''Conformance result contains an unknown or duplicate case: '' @ cr_case_id r @ ''.''))
      | Some testCase \<Rightarrow>
          if cr_case_id r \<in> set seen
          then Inl (PlainError (''Conformance result contains an unknown or duplicate case: '' @ cr_case_id r @ ''.''))
          else bindE (check_case_result d testCase r) (\<lambda>_. check_case_results d (seen @ [cr_case_id r]) rs))"

definition count_case :: "case_counts \<Rightarrow> conformance_case_result \<Rightarrow> case_counts" where
  "count_case counts r =
     (case cr_status r of Case_passed \<Rightarrow> counts\<lparr>ct_passed := ct_passed counts + 1\<rparr>
      | Case_failed \<Rightarrow> counts\<lparr>ct_failed := ct_failed counts + 1\<rparr>
      | Case_unsupported \<Rightarrow> counts\<lparr>ct_unsupported := ct_unsupported counts + 1\<rparr>)"

definition summarize :: "conformance_case_result list \<Rightarrow> case_counts" where
  "summarize rs = foldl count_case \<lparr>ct_passed = 0, ct_failed = 0, ct_unsupported = 0\<rparr> rs"

definition digest_matches :: "string option \<Rightarrow> conformance_result \<Rightarrow> bool result" where
  "digest_matches expectedDigest r =
     (case expectedDigest of None \<Rightarrow> Inr True
      | Some digest \<Rightarrow> bindE (checkE is_sha256_hex ZodError digest) (\<lambda>digest. Inr (digest = co_capability_document_sha256 r)))"

definition summary_matches :: "conformance_result \<Rightarrow> bool" where
  "summary_matches r =
     (let summary = summarize (co_results r)
      in co_case_count r = int (length (co_results r)) \<and> co_summary r = summary
       \<and> co_status r = (if ct_failed summary = 0 then Report_passed else Report_failed))"

definition validateConformanceResult ::
  "host \<Rightarrow> conformance_result \<Rightarrow> provider_capability_document \<Rightarrow> string option \<Rightarrow> conformance_result result" where
  "validateConformanceResult h input d expectedDigest =
     bindE (parse_conformance_result h input) (\<lambda>r.
     if co_provider r \<noteq> pc_provider d \<or> co_adapter_version r \<noteq> pc_adapter_version d
     then Inl (PlainError ''Conformance result provider or adapter version does not match its capability document.'')
     else bindE (digest_matches expectedDigest r) (\<lambda>same.
     if \<not> same then Inl (PlainError ''Conformance result capability digest does not match its capability document.'')
     else if date_less (date_parse h (co_completed_at r)) (date_parse h (co_started_at r))
     then Inl (PlainError ''Conformance result cannot complete before the run starts.'')
     else bindE (check_case_results d [] (co_results r)) (\<lambda>seen.
     if length seen \<noteq> length conformance_cases
     then Inl (PlainError ''Conformance result does not cover the complete catalog.'')
     else if \<not> summary_matches r
     then Inl (PlainError ''Conformance result summary does not match its cases.'')
     else Inr r)))"

section \<open>What the validation checks\<close>

lemma case_ids:
  "map cc_case_id conformance_cases =
     [''api-plain-text-fallback'', ''api-atomic-commit'', ''outbox-queue-unavailable'', ''outbox-ack-crash'',
      ''scheduler-wakeup-loss'', ''long-delay-recovery'', ''send-lease-concurrency'', ''provider-permanent-rejection'',
      ''provider-throttle'', ''provider-acceptance-ambiguity'', ''provider-event-ordering'', ''recipient-mixed-outcomes'',
      ''recovery-diagnostics-privacy'', ''payload-orphan'', ''webhook-duplicate'', ''deploy-interruption'', ''backup-restore'',
      ''telemetry-private-fields'', ''provider-send-idempotency'', ''provider-open-events'', ''provider-click-events'']"
  by (simp add: conformance_cases_def)

lemma case_ids_distinct: "distinct (map cc_case_id conformance_cases)"
  unfolding case_ids by simp

lemma case_ids_ok: "list_all is_identifier (map cc_case_id conformance_cases)"
  unfolding case_ids by code_simp

lemma length_cases: "length conformance_cases = 21"
  using arg_cong[where f = length, OF case_ids] by simp

text \<open>How a result answers its case of the catalogue.\<close>

definition case_answered :: "provider_capability_document \<Rightarrow> conformance_case \<Rightarrow> conformance_case_result \<Rightarrow> bool" where
  "case_answered d c r \<longleftrightarrow>
     (case cr_status r of
        Case_passed \<Rightarrow> cr_capability_path r = None
      | Case_failed \<Rightarrow> cr_reason r \<noteq> None \<and> cr_capability_path r = None
      | Case_unsupported \<Rightarrow> cr_reason r \<noteq> None \<and> \<not> cc_required c
          \<and> (case cr_capability_path r of None \<Rightarrow> False
             | Some path \<Rightarrow> cc_unsupported_capability_path c = Some path \<and> capabilityStatusAtPath d path = Some Cap_unsupported))"

lemma text_ok_nonempty: "text_ok n s \<Longrightarrow> s \<noteq> []"
  by (auto simp: text_ok_def js_length_def)

lemma capability_path_nonempty: "is_capability_path s \<Longrightarrow> s \<noteq> []"
  by (auto simp: is_capability_path_def)

lemma check_case_result_iff:
  assumes "case_result_ok h r"
  shows "check_case_result d c r = Inr () \<longleftrightarrow> case_answered d c r"
proof -
  have "truthy (cr_reason r) \<longleftrightarrow> cr_reason r \<noteq> None" "truthy (cr_capability_path r) \<longleftrightarrow> cr_capability_path r \<noteq> None"
    using assms text_ok_nonempty capability_path_nonempty
    by (auto simp: case_result_ok_def truthy_iff opt_ok_def split: option.splits)
  moreover have "truthy (cr_capability_path r) \<Longrightarrow> cr_capability_path r = p \<Longrightarrow> truthy p" for p by simp
  ultimately show ?thesis
    by (cases "cr_status r"; cases "cr_capability_path r") (auto simp: check_case_result_def case_answered_def)
qed

lemma find_case_iff: "find_case i = Some c \<longleftrightarrow> c \<in> set conformance_cases \<and> cc_case_id c = i"
proof -
  have "find_case (cc_case_id c) = Some c" if "c \<in> set conformance_cases"
    unfolding find_case_def by (rule find_key_distinct[OF case_ids_distinct that])
  then show ?thesis using find_SomeD unfolding find_case_def by fastforce
qed

lemma check_case_results_iff:
  assumes "list_all (case_result_ok h) rs"
  shows "check_case_results d seen rs = Inr s \<longleftrightarrow>
    s = seen @ map cr_case_id rs \<and> distinct (map cr_case_id rs) \<and> set (map cr_case_id rs) \<inter> set seen = {}
    \<and> list_all (\<lambda>r. \<exists>c. find_case (cr_case_id r) = Some c \<and> case_answered d c r) rs"
  using assms
proof (induction rs arbitrary: seen)
  case (Cons r rs)
  then have ok: "case_result_ok h r" "list_all (case_result_ok h) rs" by simp_all
  show ?case
  proof (cases "find_case (cr_case_id r)")
    case (Some c)
    have "check_case_results d seen (r # rs) = Inr s \<longleftrightarrow>
        cr_case_id r \<notin> set seen \<and> check_case_result d c r = Inr () \<and> check_case_results d (seen @ [cr_case_id r]) rs = Inr s"
      using Some by (cases "check_case_result d c r") (auto simp: bindE_def)
    then show ?thesis
      using Cons.IH[OF ok(2)] check_case_result_iff[OF ok(1)] Some by auto
  qed simp
qed auto

definition count_status :: "case_status \<Rightarrow> conformance_case_result list \<Rightarrow> int" where
  "count_status st rs = int (length (filter (\<lambda>r. cr_status r = st) rs))"

lemma summarize_counts:
  "summarize rs = \<lparr>ct_passed = count_status Case_passed rs, ct_failed = count_status Case_failed rs,
     ct_unsupported = count_status Case_unsupported rs\<rparr>"
proof -
  have "foldl count_case c rs = \<lparr>ct_passed = ct_passed c + count_status Case_passed rs,
     ct_failed = ct_failed c + count_status Case_failed rs, ct_unsupported = ct_unsupported c + count_status Case_unsupported rs\<rparr>" for c
    by (induction rs arbitrary: c) (auto simp: count_case_def count_status_def split: case_status.split)
  then show ?thesis by (simp add: summarize_def)
qed

lemma covers_iff:
  assumes "distinct xs" "distinct ys" "set xs \<subseteq> set ys"
  shows "length xs = length ys \<longleftrightarrow> mset xs = mset ys"
proof
  assume "length xs = length ys"
  then have "card (set xs) = card (set ys)" using assms by (simp add: distinct_card)
  then have "set xs = set ys" using assms(3) by (intro card_subset_eq) auto
  then show "mset xs = mset ys" using assms by (simp add: set_eq_iff_mset_eq_distinct)
next
  assume "mset xs = mset ys"
  then show "length xs = length ys" by (metis size_mset)
qed

section \<open>Property\<close>

text \<open>
  A conformance report is accepted exactly when it is well formed, belongs to the
  provider, version and digest of its capability document, does not end before it started,
  answers every case of the catalogue exactly once and no other, each in the way its status
  demands (a reason unless passed; unsupported only for an optional case whose capability
  the document declares unsupported), and states the true counts and the true verdict. What
  is returned is the report with its texts trimmed.
\<close>

theorem conformance_report_accepted_iff:
  "validateConformanceResult h input d digest = Inr r \<longleftrightarrow>
     r = trim_conformance_result input \<and> conformance_result_ok h r
   \<and> co_provider r = pc_provider d \<and> co_adapter_version r = pc_adapter_version d
   \<and> (case digest of None \<Rightarrow> True | Some x \<Rightarrow> is_sha256_hex x \<and> x = co_capability_document_sha256 r)
   \<and> \<not> date_less (date_parse h (co_completed_at r)) (date_parse h (co_started_at r))
   \<and> mset (map cr_case_id (co_results r)) = mset (map cc_case_id conformance_cases)
   \<and> list_all (\<lambda>x. \<exists>c. c \<in> set conformance_cases \<and> cc_case_id c = cr_case_id x \<and> case_answered d c x) (co_results r)
   \<and> co_case_count r = int (length conformance_cases)
   \<and> ct_passed (co_summary r) = count_status Case_passed (co_results r)
   \<and> ct_failed (co_summary r) = count_status Case_failed (co_results r)
   \<and> ct_unsupported (co_summary r) = count_status Case_unsupported (co_results r)
   \<and> co_status r = (if count_status Case_failed (co_results r) = 0 then Report_passed else Report_failed)"
proof -
  let ?r = "trim_conformance_result input"
  let ?covers = "mset (map cr_case_id (co_results ?r)) = mset (map cc_case_id conformance_cases)"
  let ?each = "list_all (\<lambda>x. \<exists>c. c \<in> set conformance_cases \<and> cc_case_id c = cr_case_id x \<and> case_answered d c x) (co_results ?r)"
  let ?digest = "case digest of None \<Rightarrow> True | Some x \<Rightarrow> is_sha256_hex x \<and> x = co_capability_document_sha256 ?r"
  have dg: "digest_matches digest ?r = Inr True \<longleftrightarrow> ?digest"
    by (simp add: digest_matches_def bindE_def checkE_def split: option.split)
  have seen: "check_case_results d [] (co_results ?r) = Inr s \<and> length s = length conformance_cases \<longleftrightarrow>
      s = map cr_case_id (co_results ?r) \<and> ?covers \<and> ?each" if "conformance_result_ok h ?r" for s
  proof -
    have ok: "list_all (case_result_ok h) (co_results ?r)" using that by (simp add: conformance_result_ok_def)
    have in_cat: "set (map cr_case_id (co_results ?r)) \<subseteq> set (map cc_case_id conformance_cases)" if each: ?each
    proof
      fix i assume "i \<in> set (map cr_case_id (co_results ?r))"
      then obtain x where "x \<in> set (co_results ?r)" "i = cr_case_id x" by auto
      moreover obtain c where "c \<in> set conformance_cases" "cc_case_id c = cr_case_id x"
        using each calculation(1) unfolding list_all_iff by blast
      ultimately show "i \<in> set (map cc_case_id conformance_cases)" by (metis imageI list.set_map)
    qed
    have "distinct (map cr_case_id (co_results ?r))" if ?covers
      using that case_ids_distinct mset_eq_imp_distinct_iff by blast
    then have "distinct (map cr_case_id (co_results ?r)) \<and> length (map cr_case_id (co_results ?r)) = length (map cc_case_id conformance_cases)
        \<longleftrightarrow> ?covers" if ?each
      using covers_iff[OF _ case_ids_distinct in_cat[OF that]] by blast
    then show ?thesis
      unfolding check_case_results_iff[OF ok] find_case_iff by auto
  qed
  have len: "length (co_results ?r) = length conformance_cases" if ?covers
    using that by (metis length_map size_mset)
  have "validateConformanceResult h input d digest = Inr r \<longleftrightarrow>
      (conformance_result_ok h ?r \<and> r = ?r) \<and> (co_provider ?r = pc_provider d \<and> co_adapter_version ?r = pc_adapter_version d)
      \<and> digest_matches digest ?r = Inr True \<and> \<not> date_less (date_parse h (co_completed_at ?r)) (date_parse h (co_started_at ?r))
      \<and> (\<exists>s. check_case_results d [] (co_results ?r) = Inr s \<and> length s = length conformance_cases) \<and> summary_matches ?r"
    unfolding validateConformanceResult_def parse_conformance_result_def
    by (simp only: result_Inr checkE_Inr_iff sum.inject ex_bool_eq simp_thms de_Morgan_disj not_not) blast
  also have "\<dots> \<longleftrightarrow> (conformance_result_ok h ?r \<and> r = ?r) \<and> (co_provider ?r = pc_provider d \<and> co_adapter_version ?r = pc_adapter_version d)
      \<and> ?digest \<and> \<not> date_less (date_parse h (co_completed_at ?r)) (date_parse h (co_started_at ?r))
      \<and> (?covers \<and> ?each) \<and> summary_matches ?r"
    using seen dg by (intro conj_cong refl) blast+
  finally have accepted: "validateConformanceResult h input d digest = Inr r \<longleftrightarrow>
      (conformance_result_ok h ?r \<and> r = ?r) \<and> (co_provider ?r = pc_provider d \<and> co_adapter_version ?r = pc_adapter_version d)
      \<and> ?digest \<and> \<not> date_less (date_parse h (co_completed_at ?r)) (date_parse h (co_started_at ?r))
      \<and> (?covers \<and> ?each) \<and> summary_matches ?r" .
  have summary: "summary_matches ?r \<longleftrightarrow> co_case_count ?r = int (length conformance_cases)
      \<and> ct_passed (co_summary ?r) = count_status Case_passed (co_results ?r)
      \<and> ct_failed (co_summary ?r) = count_status Case_failed (co_results ?r)
      \<and> ct_unsupported (co_summary ?r) = count_status Case_unsupported (co_results ?r)
      \<and> co_status ?r = (if count_status Case_failed (co_results ?r) = 0 then Report_passed else Report_failed)" if ?covers
    unfolding summary_matches_def summarize_counts len[OF that] Let_def
    by (cases "co_summary ?r") (simp only: case_counts.simps case_counts.ext_inject conj_assoc simp_thms)
  show ?thesis
  proof (cases "r = ?r")
    case r: True
    show ?thesis
    proof (cases ?covers)
      case True
      show ?thesis unfolding accepted summary[OF True] unfolding r by (simp only: simp_thms conj_ac)
    next
      case False
      then show ?thesis unfolding accepted unfolding r by (simp only: simp_thms)
    qed
  next
    case False
    then show ?thesis unfolding accepted by (simp only: simp_thms)
  qed
qed

section \<open>A report that is accepted\<close>

definition demo_support :: capability_support where
  "demo_support = \<lparr>cs_status = Cap_supported, cs_notes = ''ok''\<rparr>"

definition demo_capabilities :: provider_capability_document where
  "demo_capabilities = \<lparr>pc_provider = ''aws-ses'', pc_adapter_version = ''1.0.0'', pc_checked_at = ''2026-01-01'',
     pc_service_maturity = Production, pc_required_plan = ''none'',
     pc_limits = \<lparr>pl_max_serialized_request_bytes = 1000, pl_max_mime_message_bytes = 1000, pl_max_combined_recipients = 50,
       pl_max_attachments = 5, pl_max_decoded_attachment_bytes = 1000, pl_max_batch_messages = 10, pl_max_schedule_delay_seconds = 900\<rparr>,
     pc_features = \<lparr>pf_attachments = demo_support, pf_custom_headers = demo_support, pf_scheduling = demo_support,
       pf_cancellation = demo_support, pf_batch = demo_support, pf_provider_message_id = demo_support,
       pf_provider_event_id = demo_support, pf_provider_idempotency = demo_support, pf_domain_verification = demo_support,
       pf_suppression_handling = demo_support\<rparr>,
     pc_events = \<lparr>pe_accepted = demo_support, pe_delivered = demo_support, pe_delayed = demo_support, pe_bounced = demo_support,
       pe_complained = demo_support, pe_rejected = demo_support, pe_opened = demo_support, pe_clicked = demo_support\<rparr>,
     pc_error_mapping = \<lparr>em_retryable_categories = [Timeout], em_permanent_categories = [Invalid_data]\<rparr>,
     pc_sources = [], pc_limitations = []\<rparr>"

text \<open>The report of a run that passed every case.\<close>

definition demo_report :: "provider_capability_document \<Rightarrow> string \<Rightarrow> conformance_result" where
  "demo_report d digest = \<lparr>co_run_id = ''run-1'', co_provider = pc_provider d, co_adapter_version = pc_adapter_version d,
     co_capability_document_sha256 = digest, co_started_at = demo_time 0, co_completed_at = demo_time 60,
     co_evidence_url = ''https://example.com/run-1'', co_case_count = 21,
     co_summary = \<lparr>ct_passed = 21, ct_failed = 0, ct_unsupported = 0\<rparr>, co_status = Report_passed,
     co_results = map (\<lambda>c. \<lparr>cr_case_id = cc_case_id c, cr_status = Case_passed, cr_evidence_url = ''https://example.com/run-1'',
       cr_reason = None, cr_capability_path = None\<rparr>) conformance_cases\<rparr>"

lemma conformance_report_accepted_iff_witness:
  "validateConformanceResult demo_host (demo_report demo_capabilities demo_hash) demo_capabilities (Some demo_hash)
     = Inr (demo_report demo_capabilities demo_hash)"
proof -
  let ?r = "demo_report demo_capabilities demo_hash"
  have "trim_conformance_result ?r = ?r"
    by (simp add: trim_conformance_result_def demo_report_def trim_case_result_def comp_def)
  moreover have "conformance_result_ok demo_host ?r"
  proof -
    have "is_identifier ''run-1''" "is_identifier ''aws-ses''" "is_semver ''1.0.0''" by code_simp+
    moreover have "is_https_url demo_host ''https://example.com/run-1''"
      by (simp add: is_https_url_def demo_host_def starts_with_def)
    moreover have "list_all (\<lambda>c. is_identifier (cc_case_id c)) conformance_cases"
      using case_ids_ok by (simp add: list.pred_map comp_def)
    moreover have "conformance_cases \<noteq> []" using length_cases by auto
    moreover have "list_all (\<lambda>c. case_result_ok demo_host \<lparr>cr_case_id = cc_case_id c, cr_status = Case_passed,
        cr_evidence_url = ''https://example.com/run-1'', cr_reason = None, cr_capability_path = None\<rparr>) conformance_cases"
      using calculation(4,5) by (simp add: list_all_iff case_result_ok_def opt_ok_def)
    ultimately show ?thesis
      using demo_time_parse[of 0] demo_time_parse[of 60]
      by (simp add: conformance_result_ok_def demo_report_def demo_capabilities_def positive_int_def nonnegative_int_def is_safe_int_def
          list.pred_map comp_def)
  qed
  moreover have "count_status Case_passed (co_results ?r) = 21" "count_status Case_failed (co_results ?r) = 0"
    "count_status Case_unsupported (co_results ?r) = 0"
    by (simp_all add: count_status_def demo_report_def length_cases filter_map comp_def)
  moreover have "list_all (\<lambda>x. \<exists>c. c \<in> set conformance_cases \<and> cc_case_id c = cr_case_id x \<and> case_answered demo_capabilities c x) (co_results ?r)"
    by (auto simp: demo_report_def list_all_iff case_answered_def)
  moreover have "map cr_case_id (co_results ?r) = map cc_case_id conformance_cases"
    by (simp add: demo_report_def comp_def)
  ultimately show ?thesis
    unfolding conformance_report_accepted_iff
    by (simp add: demo_report_def length_cases comp_def)
qed

end
