(* ===== verification/Runtime_Capabilities.thy ===== *)
theory Runtime_Capabilities
  imports Provider_Capabilities
begin

text \<open>
  Runtime and deployment capabilities and the readiness matrix
  (\<open>src/core/runtime-capabilities.ts\<close>): the schemas as records with a check of what a parse
  accepts, the validation of a deployment against the documents of its two components, and
  the matrix of open evidence gates. Literal fields are left out and a parse trims the free
  texts, as for the provider documents.
\<close>

section \<open>Runtime documents\<close>

datatype runtime_class = Native_cloud | Portable_container | Serverless

record runtime_limits =
  rl_max_payload_bytes :: int
  rl_max_schedule_delay_seconds :: int
  rl_reconciliation_interval_seconds :: int

record runtime_components =
  rk_atomic_store :: capability_support
  rk_recipient_ledger :: capability_support
  rk_payload_store :: capability_support
  rk_queue_wakeup :: capability_support
  rk_scheduler_wakeup :: capability_support
  rk_periodic_reconciliation :: capability_support
  rk_secret_injection :: capability_support
  rk_provider_event_ingress :: capability_support
  rk_webhook_egress :: capability_support
  rk_backup_restore :: capability_support

record runtime_lifecycle =
  ry_safe_deploy :: capability_support
  ry_doctor :: capability_support
  ry_upgrade :: capability_support
  ry_rollback :: capability_support
  ry_cleanup :: capability_support

record runtime_capability_document =
  rt_runtime :: string
  rt_adapter_version :: string
  rt_checked_at :: string
  rt_service_maturity :: maturity
  rt_runtime_class :: runtime_class
  rt_required_plan :: string
  rt_limits :: runtime_limits
  rt_components :: runtime_components
  rt_lifecycle :: runtime_lifecycle
  rt_sources :: "capability_source list"
  rt_limitations :: "string list"

definition runtime_limits_ok :: "runtime_limits \<Rightarrow> bool" where
  "runtime_limits_ok l \<longleftrightarrow> positive_int (rl_max_payload_bytes l) \<and> nonnegative_int (rl_max_schedule_delay_seconds l)
   \<and> positive_int (rl_reconciliation_interval_seconds l)"

definition component_supports :: "runtime_components \<Rightarrow> capability_support list" where
  "component_supports c = [rk_atomic_store c, rk_recipient_ledger c, rk_payload_store c, rk_queue_wakeup c,
     rk_scheduler_wakeup c, rk_periodic_reconciliation c, rk_secret_injection c, rk_provider_event_ingress c,
     rk_webhook_egress c, rk_backup_restore c]"

definition lifecycle_supports :: "runtime_lifecycle \<Rightarrow> capability_support list" where
  "lifecycle_supports l = [ry_safe_deploy l, ry_doctor l, ry_upgrade l, ry_rollback l, ry_cleanup l]"

text \<open>On a document whose texts are trimmed.\<close>

definition runtime_capability_document_ok :: "host \<Rightarrow> runtime_capability_document \<Rightarrow> bool" where
  "runtime_capability_document_ok h d \<longleftrightarrow>
     is_identifier (rt_runtime d) \<and> is_semver (rt_adapter_version d) \<and> is_iso_date (rt_checked_at d)
   \<and> text_ok 1000 (rt_required_plan d) \<and> runtime_limits_ok (rt_limits d)
   \<and> list_all support_ok (component_supports (rt_components d)) \<and> list_all support_ok (lifecycle_supports (rt_lifecycle d))
   \<and> rt_sources d \<noteq> [] \<and> list_all (source_ok h) (rt_sources d) \<and> list_all (text_ok 1000) (rt_limitations d)"

section \<open>Deployment documents\<close>

datatype evidence_status = Evidence_passed | Evidence_failed | Evidence_pending

record evidence =
  en_status :: evidence_status
  en_url :: string
  en_notes :: string

record deployment_runtime =
  dr_profile :: string
  dr_adapter_version :: string
  dr_capability_document :: string

record deployment_transport =
  dt_provider :: string
  dt_adapter_version :: string
  dt_capability_document :: string

record deployment_maturity =
  dm_runtime :: maturity
  dm_transport :: maturity
  dm_combination :: maturity

record deployment_evidence =
  de_conformance :: evidence
  de_lifecycle :: evidence
  de_terminal_delivery :: evidence
  de_controlled_receipt :: evidence
  de_cleanup :: evidence

text \<open>The effective limits have the fields of the limits of a provider.\<close>

record deployment_capability_document =
  dd_deployment :: string
  dd_adapter_version :: string
  dd_checked_at :: string
  dd_runtime :: deployment_runtime
  dd_transport :: deployment_transport
  dd_maturity :: deployment_maturity
  dd_production_ready :: bool
  dd_effective_limits :: provider_limits
  dd_evidence :: deployment_evidence
  dd_limitations :: "string list"

text \<open>\<open>/^conformance\/runtimes\/[a-z0-9-]+\.v1\.json$/\<close>, and the same for providers.\<close>

definition is_document_path :: "string \<Rightarrow> string \<Rightarrow> bool" where
  "is_document_path prefix s =
     (let suffix = ''.v1.json''; rest = drop (length prefix) s; name = take (length rest - length suffix) rest
      in starts_with prefix s \<and> name @ suffix = rest \<and> name \<noteq> []
       \<and> list_all (\<lambda>c. is_lower c \<or> is_digit c \<or> c = CHR ''-'') name)"

definition evidence_ok :: "host \<Rightarrow> evidence \<Rightarrow> bool" where
  "evidence_ok h e \<longleftrightarrow> is_https_url h (en_url e) \<and> text_ok 1000 (en_notes e)"

text \<open>The evidence by its property name, in the order of the document.\<close>

definition evidence_entries :: "deployment_evidence \<Rightarrow> (string \<times> evidence) list" where
  "evidence_entries e = [(''conformance'', de_conformance e), (''lifecycle'', de_lifecycle e),
     (''terminal_delivery'', de_terminal_delivery e), (''controlled_receipt'', de_controlled_receipt e),
     (''cleanup'', de_cleanup e)]"

definition trim_evidence :: "evidence \<Rightarrow> evidence" where
  "trim_evidence e = e\<lparr>en_notes := js_trim (en_notes e)\<rparr>"

definition trim_deployment :: "deployment_capability_document \<Rightarrow> deployment_capability_document" where
  "trim_deployment d = d\<lparr>dd_evidence := \<lparr>de_conformance = trim_evidence (de_conformance (dd_evidence d)),
       de_lifecycle = trim_evidence (de_lifecycle (dd_evidence d)),
       de_terminal_delivery = trim_evidence (de_terminal_delivery (dd_evidence d)),
       de_controlled_receipt = trim_evidence (de_controlled_receipt (dd_evidence d)),
       de_cleanup = trim_evidence (de_cleanup (dd_evidence d))\<rparr>,
     dd_limitations := map js_trim (dd_limitations d)\<rparr>"

definition deployment_document_ok :: "host \<Rightarrow> deployment_capability_document \<Rightarrow> bool" where
  "deployment_document_ok h d \<longleftrightarrow>
     is_identifier (dd_deployment d) \<and> is_semver (dd_adapter_version d) \<and> is_iso_date (dd_checked_at d)
   \<and> is_identifier (dr_profile (dd_runtime d)) \<and> is_semver (dr_adapter_version (dd_runtime d))
   \<and> is_document_path ''conformance/runtimes/'' (dr_capability_document (dd_runtime d))
   \<and> is_identifier (dt_provider (dd_transport d)) \<and> is_semver (dt_adapter_version (dd_transport d))
   \<and> is_document_path ''conformance/providers/'' (dt_capability_document (dd_transport d))
   \<and> limits_ok (dd_effective_limits d) \<and> list_all (\<lambda>p. evidence_ok h (snd p)) (evidence_entries (dd_evidence d))
   \<and> list_all (text_ok 1000) (dd_limitations d)"

definition parse_deployment :: "host \<Rightarrow> deployment_capability_document \<Rightarrow> deployment_capability_document result" where
  "parse_deployment h d = checkE (deployment_document_ok h) ZodError (trim_deployment d)"

section \<open>Validation of a deployment\<close>

fun maturity_rank :: "maturity \<Rightarrow> nat" where
  "maturity_rank Experimental = 0"
| "maturity_rank Beta = 1"
| "maturity_rank Production = 2"

text \<open>The limits that only the provider bounds, in the order in which they are looked at.\<close>

definition provider_bounded_limits :: "(string \<times> (provider_limits \<Rightarrow> int)) list" where
  "provider_bounded_limits =
     [(''max_serialized_request_bytes'', pl_max_serialized_request_bytes),
      (''max_combined_recipients'', pl_max_combined_recipients), (''max_attachments'', pl_max_attachments),
      (''max_decoded_attachment_bytes'', pl_max_decoded_attachment_bytes), (''max_batch_messages'', pl_max_batch_messages)]"

definition check_provider_limits :: "provider_limits \<Rightarrow> provider_limits \<Rightarrow> unit result" where
  "check_provider_limits effective provider =
     (case find (\<lambda>(name, limit). limit effective > limit provider) provider_bounded_limits of
        Some (name, limit) \<Rightarrow> Inl (PlainError (''Deployment '' @ name @ '' exceeds its provider capability document.''))
      | None \<Rightarrow> Inr ())"

definition check_production_ready :: "deployment_capability_document \<Rightarrow> unit result" where
  "check_production_ready d =
     (if \<not> dd_production_ready d then Inr ()
      else if dm_combination (dd_maturity d) \<noteq> Production
      then Inl (PlainError ''A production-ready deployment must have production combination maturity.'')
      else case find (\<lambda>(name, e). en_status e \<noteq> Evidence_passed) (evidence_entries (dd_evidence d)) of
        Some (name, e) \<Rightarrow> Inl (PlainError (''A production-ready deployment requires passed '' @ name @ '' evidence.''))
      | None \<Rightarrow> Inr ())"

definition validateDeploymentCapabilityDocument ::
  "host \<Rightarrow> deployment_capability_document \<Rightarrow> runtime_capability_document \<Rightarrow> provider_capability_document
     \<Rightarrow> deployment_capability_document result" where
  "validateDeploymentCapabilityDocument h input runtime transport =
     bindE (parse_deployment h input) (\<lambda>d.
     if dr_profile (dd_runtime d) \<noteq> rt_runtime runtime \<or> dr_adapter_version (dd_runtime d) \<noteq> rt_adapter_version runtime
     then Inl (PlainError ''Deployment runtime identity does not match its runtime capability document.'')
     else if dt_provider (dd_transport d) \<noteq> pc_provider transport
       \<or> dt_adapter_version (dd_transport d) \<noteq> pc_adapter_version transport
     then Inl (PlainError ''Deployment transport identity does not match its provider capability document.'')
     else if dm_runtime (dd_maturity d) \<noteq> rt_service_maturity runtime
       \<or> dm_transport (dd_maturity d) \<noteq> pc_service_maturity transport
     then Inl (PlainError ''Deployment component maturity does not match its capability documents.'')
     else if maturity_rank (dm_combination (dd_maturity d))
       > min (maturity_rank (rt_service_maturity runtime)) (maturity_rank (pc_service_maturity transport))
     then Inl (PlainError ''Deployment combination maturity cannot exceed its weakest component.'')
     else if pl_max_schedule_delay_seconds (dd_effective_limits d)
       > min (rl_max_schedule_delay_seconds (rt_limits runtime)) (pl_max_schedule_delay_seconds (pc_limits transport))
     then Inl (PlainError ''Deployment schedule limit exceeds a component capability document.'')
     else if pl_max_mime_message_bytes (dd_effective_limits d) > rl_max_payload_bytes (rt_limits runtime)
       \<or> pl_max_mime_message_bytes (dd_effective_limits d) > pl_max_mime_message_bytes (pc_limits transport)
     then Inl (PlainError ''Deployment message limit exceeds a component capability document.'')
     else bindE (check_provider_limits (dd_effective_limits d) (pc_limits transport)) (\<lambda>_.
     bindE (check_production_ready d) (\<lambda>_. Inr d)))"

section \<open>The readiness matrix\<close>

datatype readiness_gate = Gate_conformance | Gate_lifecycle | Gate_terminal_delivery | Gate_controlled_receipt | Gate_cleanup

record readiness_evidence =
  rv_conformance :: evidence_status
  rv_lifecycle :: evidence_status
  rv_terminal_delivery :: evidence_status
  rv_controlled_receipt :: evidence_status
  rv_cleanup :: evidence_status

definition readiness_gates :: "readiness_gate list" where
  "readiness_gates = [Gate_conformance, Gate_lifecycle, Gate_terminal_delivery, Gate_controlled_receipt, Gate_cleanup]"

fun gate_status :: "readiness_evidence \<Rightarrow> readiness_gate \<Rightarrow> evidence_status" where
  "gate_status e Gate_conformance = rv_conformance e"
| "gate_status e Gate_lifecycle = rv_lifecycle e"
| "gate_status e Gate_terminal_delivery = rv_terminal_delivery e"
| "gate_status e Gate_controlled_receipt = rv_controlled_receipt e"
| "gate_status e Gate_cleanup = rv_cleanup e"

definition compareIdentifiers :: "string \<Rightarrow> string \<Rightarrow> int" where
  "compareIdentifiers left right = code_unit_compare left right"

record readiness_deployment =
  rd_deployment :: string
  rd_checked_at :: string
  rd_runtime :: string
  rd_transport :: string
  rd_maturity :: maturity
  rd_production_ready :: bool
  rd_evidence :: readiness_evidence
  rd_blockers :: "readiness_gate list"

definition open_gates :: "readiness_evidence \<Rightarrow> readiness_gate list" where
  "open_gates e = filter (\<lambda>gate. gate_status e gate \<noteq> Evidence_passed) readiness_gates"

definition readiness_deployment_ok :: "readiness_deployment \<Rightarrow> bool" where
  "readiness_deployment_ok d \<longleftrightarrow>
     is_identifier (rd_deployment d) \<and> is_iso_date (rd_checked_at d) \<and> is_identifier (rd_runtime d)
   \<and> is_identifier (rd_transport d) \<and> rd_blockers d = open_gates (rd_evidence d)"

fun sorted_by_identity :: "readiness_deployment list \<Rightarrow> bool" where
  "sorted_by_identity (x # y # ds) \<longleftrightarrow>
     compareIdentifiers (rd_deployment x) (rd_deployment y) \<le> 0 \<and> sorted_by_identity (y # ds)"
| "sorted_by_identity _ \<longleftrightarrow> True"

text \<open>The matrix is the list of its deployments.\<close>

definition parse_readiness_matrix :: "readiness_deployment list \<Rightarrow> readiness_deployment list result" where
  "parse_readiness_matrix ds =
     checkE (\<lambda>ds. ds \<noteq> [] \<and> list_all readiness_deployment_ok ds \<and> unique_values (map rd_deployment ds) \<and> sorted_by_identity ds)
       ZodError ds"

definition readiness_of :: "deployment_capability_document \<Rightarrow> readiness_deployment" where
  "readiness_of d =
     (let e = dd_evidence d;
          evidence = \<lparr>rv_conformance = en_status (de_conformance e), rv_lifecycle = en_status (de_lifecycle e),
            rv_terminal_delivery = en_status (de_terminal_delivery e),
            rv_controlled_receipt = en_status (de_controlled_receipt e), rv_cleanup = en_status (de_cleanup e)\<rparr>
      in \<lparr>rd_deployment = dd_deployment d, rd_checked_at = dd_checked_at d, rd_runtime = dr_profile (dd_runtime d),
          rd_transport = dt_provider (dd_transport d), rd_maturity = dm_combination (dd_maturity d),
          rd_production_ready = dd_production_ready d, rd_evidence = evidence, rd_blockers = open_gates evidence\<rparr>)"

definition buildReadinessMatrix :: "deployment_capability_document list \<Rightarrow> readiness_deployment list result" where
  "buildReadinessMatrix documents =
     parse_readiness_matrix
       (map readiness_of (js_sort (\<lambda>l r. compareIdentifiers (dd_deployment l) (dd_deployment r)) documents))"

section \<open>What is accepted\<close>

lemma check_provider_limits_iff:
  "check_provider_limits e p = Inr () \<longleftrightarrow>
     pl_max_serialized_request_bytes e \<le> pl_max_serialized_request_bytes p
   \<and> pl_max_combined_recipients e \<le> pl_max_combined_recipients p \<and> pl_max_attachments e \<le> pl_max_attachments p
   \<and> pl_max_decoded_attachment_bytes e \<le> pl_max_decoded_attachment_bytes p
   \<and> pl_max_batch_messages e \<le> pl_max_batch_messages p"
  by (auto simp: check_provider_limits_def provider_bounded_limits_def not_less split: if_splits)

lemma check_production_ready_iff:
  "check_production_ready d = Inr () \<longleftrightarrow>
     (if dd_production_ready d
      then dm_combination (dd_maturity d) = Production \<and> rd_blockers (readiness_of d) = [] else True)"
  by (auto simp: check_production_ready_def evidence_entries_def readiness_of_def open_gates_def readiness_gates_def Let_def
      split: if_splits)

lemma rank_production: "2 \<le> maturity_rank m \<longleftrightarrow> m = Production"
  by (cases m) simp_all

lemma sorted_by_identity_map:
  "sorted_wrt (\<lambda>l r. compareIdentifiers (dd_deployment l) (dd_deployment r) \<le> 0) ds \<Longrightarrow> sorted_by_identity (map readiness_of ds)"
proof (induction ds)
  case (Cons d ds)
  then show ?case by (cases ds) (simp_all add: readiness_of_def Let_def)
qed simp

lemma readiness_of_ok:
  assumes "deployment_document_ok h d"
  shows "readiness_deployment_ok (readiness_of d)"
  using assms by (simp add: readiness_deployment_ok_def readiness_of_def deployment_document_ok_def Let_def)

lemma identifiers_comparator: "comparator (\<lambda>l r. compareIdentifiers (f l) (f r))"
proof
  fix x y assume "0 < compareIdentifiers (f x) (f y)"
  then show "compareIdentifiers (f y) (f x) \<le> 0"
    using code_unit_compare_sym[of "f x" "f y"] by (simp add: compareIdentifiers_def)
qed (use code_unit_compare_trans in \<open>auto simp: compareIdentifiers_def\<close>)

section \<open>Properties\<close>

text \<open>
  A deployment never claims more than its weakest part: a document is accepted exactly
  when it is well formed, names the runtime and the provider of the two capability
  documents in their versions and maturity, and its combined maturity and each of its
  limits are within what the components allow; a document that claims to be ready for
  production has production maturity in both components and no open evidence gate.
\<close>

theorem deployment_within_components:
  "validateDeploymentCapabilityDocument h input runtime transport = Inr d \<longleftrightarrow>
     d = trim_deployment input \<and> deployment_document_ok h d
   \<and> dr_profile (dd_runtime d) = rt_runtime runtime \<and> dr_adapter_version (dd_runtime d) = rt_adapter_version runtime
   \<and> dt_provider (dd_transport d) = pc_provider transport \<and> dt_adapter_version (dd_transport d) = pc_adapter_version transport
   \<and> dm_runtime (dd_maturity d) = rt_service_maturity runtime \<and> dm_transport (dd_maturity d) = pc_service_maturity transport
   \<and> maturity_rank (dm_combination (dd_maturity d)) \<le> maturity_rank (rt_service_maturity runtime)
   \<and> maturity_rank (dm_combination (dd_maturity d)) \<le> maturity_rank (pc_service_maturity transport)
   \<and> pl_max_schedule_delay_seconds (dd_effective_limits d) \<le> rl_max_schedule_delay_seconds (rt_limits runtime)
   \<and> pl_max_schedule_delay_seconds (dd_effective_limits d) \<le> pl_max_schedule_delay_seconds (pc_limits transport)
   \<and> pl_max_mime_message_bytes (dd_effective_limits d) \<le> rl_max_payload_bytes (rt_limits runtime)
   \<and> pl_max_mime_message_bytes (dd_effective_limits d) \<le> pl_max_mime_message_bytes (pc_limits transport)
   \<and> pl_max_serialized_request_bytes (dd_effective_limits d) \<le> pl_max_serialized_request_bytes (pc_limits transport)
   \<and> pl_max_combined_recipients (dd_effective_limits d) \<le> pl_max_combined_recipients (pc_limits transport)
   \<and> pl_max_attachments (dd_effective_limits d) \<le> pl_max_attachments (pc_limits transport)
   \<and> pl_max_decoded_attachment_bytes (dd_effective_limits d) \<le> pl_max_decoded_attachment_bytes (pc_limits transport)
   \<and> pl_max_batch_messages (dd_effective_limits d) \<le> pl_max_batch_messages (pc_limits transport)
   \<and> (if dd_production_ready d
      then rt_service_maturity runtime = Production \<and> pc_service_maturity transport = Production
        \<and> dm_combination (dd_maturity d) = Production \<and> rd_blockers (readiness_of d) = [] else True)"
proof -
  let ?d = "trim_deployment input"
  have "validateDeploymentCapabilityDocument h input runtime transport = Inr d \<longleftrightarrow>
      (deployment_document_ok h ?d \<and> d = ?d)
    \<and> (dr_profile (dd_runtime ?d) = rt_runtime runtime \<and> dr_adapter_version (dd_runtime ?d) = rt_adapter_version runtime)
    \<and> (dt_provider (dd_transport ?d) = pc_provider transport \<and> dt_adapter_version (dd_transport ?d) = pc_adapter_version transport)
    \<and> (dm_runtime (dd_maturity ?d) = rt_service_maturity runtime \<and> dm_transport (dd_maturity ?d) = pc_service_maturity transport)
    \<and> maturity_rank (dm_combination (dd_maturity ?d))
        \<le> min (maturity_rank (rt_service_maturity runtime)) (maturity_rank (pc_service_maturity transport))
    \<and> pl_max_schedule_delay_seconds (dd_effective_limits ?d)
        \<le> min (rl_max_schedule_delay_seconds (rt_limits runtime)) (pl_max_schedule_delay_seconds (pc_limits transport))
    \<and> (pl_max_mime_message_bytes (dd_effective_limits ?d) \<le> rl_max_payload_bytes (rt_limits runtime)
      \<and> pl_max_mime_message_bytes (dd_effective_limits ?d) \<le> pl_max_mime_message_bytes (pc_limits transport))
    \<and> check_provider_limits (dd_effective_limits ?d) (pc_limits transport) = Inr () \<and> check_production_ready ?d = Inr ()"
    unfolding validateDeploymentCapabilityDocument_def parse_deployment_def
    by (simp only: result_Inr checkE_Inr_iff sum.inject simp_thms de_Morgan_disj not_not not_less) auto
  then show ?thesis
    unfolding check_provider_limits_iff check_production_ready_iff
    by (cases "d = ?d"; cases "dd_production_ready ?d") (auto simp: rank_production)
qed

text \<open>
  The readiness matrix of well-formed deployments with different identities can always
  be built: it lists each of them once, in the order of their identities, with exactly its
  open evidence gates as blockers, so that a deployment without blockers is one whose
  evidence is complete.
\<close>

lemma readiness_matrix_built:
  assumes "documents \<noteq> []" "list_all (deployment_document_ok h) documents" "distinct (map dd_deployment documents)"
  obtains ds where "buildReadinessMatrix documents = Inr (map readiness_of ds)" "mset ds = mset documents"
    "sorted_wrt (\<lambda>l r. compareIdentifiers (dd_deployment l) (dd_deployment r) < 0) ds"
    "list_all (\<lambda>d. (rd_blockers (readiness_of d) = []) = list_all (\<lambda>p. en_status (snd p) = Evidence_passed) (evidence_entries (dd_evidence d))) ds"
proof -
  define ds where "ds = js_sort (\<lambda>l r. compareIdentifiers (dd_deployment l) (dd_deployment r)) documents"
  have perm: "mset ds = mset documents" by (simp add: ds_def)
  have sorted: "sorted_wrt (\<lambda>l r. compareIdentifiers (dd_deployment l) (dd_deployment r) \<le> 0) ds"
    unfolding ds_def by (rule comparator.sorted_js_sort[OF identifiers_comparator])
  have dist: "distinct (map dd_deployment ds)"
    using assms(3) perm by (metis mset_eq_imp_distinct_iff mset_map)
  have ids: "map rd_deployment (map readiness_of ds) = map dd_deployment ds" by (simp add: readiness_of_def Let_def)
  have "set ds = set documents" using perm by (metis set_mset_mset)
  then have ok: "list_all readiness_deployment_ok (map readiness_of ds)"
    using assms(2) readiness_of_ok by (auto simp: list_all_iff)
  have "ds \<noteq> []" using assms(1) perm by auto
  moreover have unique: "unique_values (map rd_deployment (map readiness_of ds))"
    unfolding unique_values_def ids by (rule dist)
  ultimately have "buildReadinessMatrix documents = Inr (map readiness_of ds)"
    unfolding buildReadinessMatrix_def ds_def[symmetric] parse_readiness_matrix_def
    using ok sorted_by_identity_map[OF sorted] unique by (simp add: checkE_def)
  moreover have "sorted_wrt (\<lambda>l r. compareIdentifiers (dd_deployment l) (dd_deployment r) < 0) ds"
    using sorted dist
    by (induction ds) (auto simp: compareIdentifiers_def order_less_le code_unit_compare_eq)
  moreover have "list_all (\<lambda>d. (rd_blockers (readiness_of d) = [])
      = list_all (\<lambda>p. en_status (snd p) = Evidence_passed) (evidence_entries (dd_evidence d))) ds"
    by (auto simp: list_all_iff readiness_of_def open_gates_def readiness_gates_def evidence_entries_def Let_def)
  ultimately show thesis using that perm by blast
qed

end
