(* ===== verification/Service_World.thy ===== *)
theory Service_World
  imports Outbox_Reconciler Schedule Crypto
begin

text \<open>
  The world in which the application services run: the state of the store together with
  everything else (the queue, the network, other stores), of a type of its own. A service
  operation is a state-with-error function on the world. The clock and the source of random
  UUIDs belong to the rest of the world and may move on with every reading. As in the
  reconciler, others may run wherever the code awaits.
\<close>

record 'x world_env =
  wo_others :: "mem \<times> 'x \<Rightarrow> mem \<times> 'x"
  wo_clock :: "'x \<Rightarrow> int \<times> 'x"
  wo_uuid :: "'x \<Rightarrow> string \<times> 'x"
  wo_hook :: mutation_hook

type_synonym ('x, 'a) world_op = "(mem \<times> 'x, 'a) sx"

text \<open>The result of an awaited call is delivered after others have run.\<close>

definition awaitW :: "('x, 'z) world_env_scheme \<Rightarrow> ('x, 'a) world_op \<Rightarrow> ('x, 'a) world_op" where
  "awaitW env m w = (case m w of (r, w') \<Rightarrow> (r, wo_others env w'))"

text \<open>An awaited call of the store, and an awaited read of it.\<close>

definition storeW :: "('x, 'z) world_env_scheme \<Rightarrow> (mem, 'a) sx \<Rightarrow> ('x, 'a) world_op" where
  "storeW env m = awaitW env (on_store m)"

definition readW :: "('x, 'z) world_env_scheme \<Rightarrow> (mem \<Rightarrow> 'a) \<Rightarrow> ('x, 'a) world_op" where
  "readW env f = storeW env (getS f)"

text \<open>\<open>new Date()\<close> and \<open>crypto.randomUUID()\<close>.\<close>

definition nowW :: "('x, 'z) world_env_scheme \<Rightarrow> ('x, int) world_op" where
  "nowW env w = (case wo_clock env (snd w) of (t, x) \<Rightarrow> (Inr t, (fst w, x)))"

definition uuidW :: "('x, 'z) world_env_scheme \<Rightarrow> ('x, string) world_op" where
  "uuidW env w = (case wo_uuid env (snd w) of (u, x) \<Rightarrow> (Inr u, (fst w, x)))"

definition createIdW :: "('x, 'z) world_env_scheme \<Rightarrow> string \<Rightarrow> ('x, string) world_op" where
  "createIdW env prefix = bindS (uuidW env) (\<lambda>u. returnS (createId prefix u))"

text \<open>All steps of a \<open>Promise.all\<close> run; the first throw is its result.\<close>

fun allS :: "('a \<Rightarrow> ('s, 'b) sx) \<Rightarrow> 'a list \<Rightarrow> ('s, 'b list) sx" where
  "allS f [] s = (Inr [], s)"
| "allS f (x # xs) s =
     (case f x s of (r, s1) \<Rightarrow> (case allS f xs s1 of (rs, s2) \<Rightarrow>
        (bindE r (\<lambda>y. bindE rs (\<lambda>ys. Inr (y # ys))), s2)))"

section \<open>Text and sets of text\<close>

text \<open>\<open>[...new Set(xs)]\<close> keeps the first of equal values.\<close>

fun unique_first :: "'a list \<Rightarrow> 'a list" where
  "unique_first [] = []"
| "unique_first (x # xs) = x # filter (\<lambda>y. y \<noteq> x) (unique_first xs)"

lemma set_unique_first [simp]: "set (unique_first xs) = set xs"
  by (induction xs) auto

lemma distinct_unique_first [simp]: "distinct (unique_first xs)"
  by (induction xs) (auto simp: distinct_filter)

lemma unique_first_distinct: "distinct xs \<Longrightarrow> unique_first xs = xs"
  by (induction xs) (auto intro!: filter_True)

text \<open>An optional property of an object literal.\<close>

definition opt_prop :: "string \<Rightarrow> ('a \<Rightarrow> js_value) \<Rightarrow> 'a option \<Rightarrow> (string \<times> js_value) list" where
  "opt_prop k f x = (case x of None \<Rightarrow> [] | Some v \<Rightarrow> [(k, f v)])"

definition no_space :: "string \<Rightarrow> bool" where
  "no_space s \<longleftrightarrow> list_all (\<lambda>p. \<not> is_space p) (code_points s)"

text \<open>A character with text on both sides of it.\<close>

definition has_inner :: "char \<Rightarrow> string \<Rightarrow> bool" where
  "has_inner c s \<longleftrightarrow> c \<in> set (butlast (tl s))"

section \<open>Reasoning about the world\<close>

lemma awaitW_cases:
  assumes "awaitW env m w = (r, w')"
  obtains v where "m w = (r, v)" "w' = wo_others env v"
  using assms by (cases "m w") (auto simp: awaitW_def)

lemma storeW_cases:
  assumes "storeW env m w = (r, w')"
  obtains t where "m (fst w) = (r, t)" "w' = wo_others env (t, snd w)"
  using assms unfolding storeW_def
  by (cases "m (fst w)") (auto simp: awaitW_def on_store_def)

lemma readW_eq: "readW env f w = (Inr (f (fst w)), wo_others env w)"
  by (simp add: readW_def storeW_def awaitW_def on_store_def getS_def)

lemma bindS_readW: "bindS (readW env f) k w = k (f (fst w)) (wo_others env w)"
  by (simp add: bindS_def readW_eq)

lemma nowW_cases:
  obtains t x where "nowW env w = (Inr t, (fst w, x))"
  by (cases "wo_clock env (snd w)") (auto simp: nowW_def)

lemma uuidW_cases:
  obtains u x where "uuidW env w = (Inr u, (fst w, x))"
  by (cases "wo_uuid env (snd w)") (auto simp: uuidW_def)

end
