(* ===== verification/Suppression_Service.thy ===== *)
theory Suppression_Service
  imports Service_World Catalog_Store
begin

text \<open>
  Mailbox normalisation and the suppression list (\<open>src/services/suppression-service.ts\<close>).
  A suppression is stored under the hash of the normalised address.
\<close>

section \<open>Mailboxes\<close>

text \<open>\<open>/<([^<>\s]+@[^<>\s]+)>$/\<close>: the group, which begins after the last \<open><\<close>.\<close>

definition angle_address :: "string \<Rightarrow> string option" where
  "angle_address s =
     (if s \<noteq> [] \<and> last s = CHR ''>'' \<and> CHR ''<'' \<in> set s then
        let content = rev (takeWhile (\<lambda>c. c \<noteq> CHR ''<'') (rev (butlast s)))
        in if CHR ''>'' \<notin> set content \<and> no_space content \<and> has_inner CHR ''@'' content then Some content else None
      else None)"

text \<open>\<open>/^[^@\s]+@[^@\s]+\.[^@\s]+$/\<close>\<close>

definition is_mailbox :: "string \<Rightarrow> bool" where
  "is_mailbox s \<longleftrightarrow>
     no_space s \<and> (case split_on CHR ''@'' s of [local, domain] \<Rightarrow> local \<noteq> [] \<and> has_inner CHR ''.'' domain | _ \<Rightarrow> False)"

definition normalizeMailbox :: "host \<Rightarrow> string \<Rightarrow> string result" where
  "normalizeMailbox h value =
     (let trimmed = js_trim value; normalized = js_lower h (coalesce (angle_address trimmed) trimmed)
      in if \<not> is_mailbox normalized then Inl (ValidationError (''Invalid email address: '' @ value)) else Inr normalized)"

section \<open>The service\<close>

record suppression_input =
  si_email :: string
  si_reason :: suppression_reason
  si_source_email_id :: "string option"
  si_detail :: "string option"

definition suppression_put :: "host \<Rightarrow> ('x, 'z) world_env_scheme \<Rightarrow> suppression_input \<Rightarrow> ('x, suppression_record) world_op" where
  "suppression_put h env input =
     bindS (liftS (normalizeMailbox h (si_email input))) (\<lambda>email.
     bindS (readW env (getSuppression (sha256 h email))) (\<lambda>existing.
     bindS (nowW env) (\<lambda>now.
     let record = \<lparr>sup_id = sha256 h email, sup_email = email, sup_reason = si_reason input,
           sup_created_at = coalesce (map_option sup_created_at existing) (to_iso now), sup_updated_at = to_iso now,
           sup_source_email_id = (if truthy (si_source_email_id input) then si_source_email_id input else None),
           sup_detail = (if truthy (si_detail input) then si_detail input else None)\<rparr>
     in bindS (storeW env (putSuppression record)) (\<lambda>_. returnS record))))"

definition suppression_get :: "host \<Rightarrow> ('x, 'z) world_env_scheme \<Rightarrow> string \<Rightarrow> ('x, suppression_record) world_op" where
  "suppression_get h env email =
     bindS (liftS (normalizeMailbox h email)) (\<lambda>normalized.
     bindS (readW env (getSuppression (sha256 h normalized))) (\<lambda>record.
     case record of None \<Rightarrow> throwS (NotFoundError ''Suppression'') | Some r \<Rightarrow> returnS r))"

text \<open>The reads of \<open>Promise.all\<close> are all started, and so made, before the first is awaited.\<close>

definition findSuppressed :: "host \<Rightarrow> ('x, 'z) world_env_scheme \<Rightarrow> string list \<Rightarrow> ('x, suppression_record list) world_op" where
  "findSuppressed h env addresses =
     bindS (liftS (mapE (normalizeMailbox h) addresses)) (\<lambda>normalized.
     bindS (readW env (\<lambda>s. map (\<lambda>email. getSuppression (sha256 h email) s) (unique_first normalized))) (\<lambda>records.
     returnS (List.map_filter id records)))"

definition suppression_list ::
  "host \<Rightarrow> ('x, 'z) world_env_scheme \<Rightarrow> nat \<Rightarrow> string option \<Rightarrow> ('x, suppression_record page) world_op" where
  "suppression_list h env limit cursor = bindS (readW env (listSuppressions h limit cursor)) liftS"

definition suppression_delete :: "host \<Rightarrow> ('x, 'z) world_env_scheme \<Rightarrow> string \<Rightarrow> ('x, unit) world_op" where
  "suppression_delete h env email =
     bindS (liftS (normalizeMailbox h email)) (\<lambda>normalized.
     bindS (storeW env (deleteSuppression (sha256 h normalized))) (\<lambda>found.
     if \<not> found then throwS (NotFoundError ''Suppression'') else returnS ()))"

section \<open>Normal mailboxes\<close>

lemma no_space_code_points: "no_space s \<Longrightarrow> p \<in> set (code_points s) \<Longrightarrow> \<not> is_space p"
  by (auto simp: no_space_def list_all_iff)

lemma js_trim_no_space: "no_space s \<Longrightarrow> js_trim s = s"
proof -
  assume "no_space s"
  then have all: "list_all (\<lambda>p. \<not> is_space p) (code_points s)" by (simp add: no_space_def)
  then have "dropWhile is_space (code_points s) = code_points s"
    by (cases "code_points s") auto
  moreover have "dropWhile is_space (rev (code_points s)) = rev (code_points s)"
    using all by (cases "rev (code_points s)") (auto simp: list_all_iff dest: arg_cong[where f = set])
  ultimately show ?thesis by (simp add: js_trim_def)
qed

lemma angle_address_contents:
  assumes "angle_address s = Some c"
  shows "CHR ''<'' \<notin> set c" "CHR ''>'' \<notin> set c" "set c \<subseteq> set s"
proof -
  obtain t where t: "c = rev (takeWhile (\<lambda>c. c \<noteq> CHR ''<'') (rev (butlast s)))" "CHR ''>'' \<notin> set c"
    using assms by (auto simp: angle_address_def Let_def split: if_splits)
  show "CHR ''<'' \<notin> set c" using t(1) by (auto dest: set_takeWhileD)
  show "CHR ''>'' \<notin> set c" by (rule t(2))
  show "set c \<subseteq> set s" using t(1) by (auto dest!: set_takeWhileD in_set_butlastD)
qed

lemma angle_address_plain: "CHR ''>'' \<notin> set s \<Longrightarrow> angle_address s = None"
  by (metis angle_address_def last_in_set)

lemma ascii_lower_special:
  "\<not> is_upper x \<Longrightarrow> \<not> is_lower x \<Longrightarrow> ascii_lower c = x \<longleftrightarrow> c = x"
proof
  assume x: "\<not> is_upper x" "\<not> is_lower x" and eq: "ascii_lower c = x"
  show "c = x"
  proof (cases "is_upper c")
    case True
    then have "code x = code c + 32" using code_ascii_lower[of c] eq by simp
    then show ?thesis using True x(2) by (simp add: is_upper_def is_lower_def)
  qed (use eq in \<open>simp add: ascii_lower_def\<close>)
qed (simp add: ascii_lower_def)

lemma is_ascii_subset: "set s \<subseteq> set t \<Longrightarrow> is_ascii t \<Longrightarrow> is_ascii s"
  by (auto simp: is_ascii_def list_all_iff)

lemma set_js_trim: "set (js_trim s) \<subseteq> set s"
proof -
  have "set (rev (dropWhile is_space (rev (dropWhile is_space (code_points s))))) \<subseteq> set (code_points s)"
    by (metis (no_types, lifting) set_dropWhileD set_rev subsetI)
  then have "set (js_trim s) \<subseteq> \<Union> (set ` set (code_points s))" by (auto simp: js_trim_def)
  also have "\<dots> = set s" by (metis concat_code_points set_concat)
  finally show ?thesis .
qed

lemma space_lower: "is_space [ascii_lower c] = is_space [c]"
proof (cases "is_upper c")
  case True
  then have "code (ascii_lower c) = code c + 32" "65 \<le> code c" "code c \<le> 90"
    using code_ascii_lower[of c] by (simp_all add: is_upper_def)
  then show ?thesis by (simp add: is_space_def)
qed (simp add: ascii_lower_def)

lemma no_space_lower: "is_ascii s \<Longrightarrow> no_space (map ascii_lower s) = no_space s"
  by (simp add: no_space_def code_points_ascii is_ascii_lower list_all_iff space_lower)

lemma special_chars:
  "ascii_lower c = CHR ''<'' \<longleftrightarrow> c = CHR ''<''" "ascii_lower c = CHR ''>'' \<longleftrightarrow> c = CHR ''>''"
  "ascii_lower c = CHR ''@'' \<longleftrightarrow> c = CHR ''@''"
  by (simp_all add: ascii_lower_special is_upper_def is_lower_def)

lemma in_image_fixed: "(\<And>c. f c = x \<longleftrightarrow> c = x) \<Longrightarrow> x \<in> f ` A \<longleftrightarrow> x \<in> A"
  by (metis (full_types) imageE image_eqI)

lemma in_map_lower [simp]:
  "CHR ''<'' \<in> ascii_lower ` A \<longleftrightarrow> CHR ''<'' \<in> A" "CHR ''>'' \<in> ascii_lower ` A \<longleftrightarrow> CHR ''>'' \<in> A"
  "CHR ''@'' \<in> ascii_lower ` A \<longleftrightarrow> CHR ''@'' \<in> A"
  by (rule in_image_fixed[OF special_chars(1)] in_image_fixed[OF special_chars(2)] in_image_fixed[OF special_chars(3)])+

lemma angle_address_lower:
  assumes "is_ascii s"
  shows "angle_address (map ascii_lower s) = map_option (map ascii_lower) (angle_address s)"
proof -
  let ?c = "rev (takeWhile (\<lambda>c. c \<noteq> CHR ''<'') (rev (butlast s)))"
  have c: "rev (takeWhile (\<lambda>c. c \<noteq> CHR ''<'') (rev (butlast (map ascii_lower s)))) = map ascii_lower ?c"
    by (simp add: rev_map map_butlast[symmetric] takeWhile_map comp_def special_chars)
  have "set ?c \<subseteq> set s" by (auto dest!: set_takeWhileD in_set_butlastD)
  then have "is_ascii ?c" using assms is_ascii_subset by blast
  then have nsp: "no_space (map ascii_lower ?c) = no_space ?c" by (rule no_space_lower)
  have inner: "has_inner CHR ''@'' (map ascii_lower ?c) = has_inner CHR ''@'' ?c"
    by (simp add: has_inner_def map_tl[symmetric] map_butlast[symmetric])
  have gt: "CHR ''>'' \<in> set (map ascii_lower ?c) \<longleftrightarrow> CHR ''>'' \<in> set ?c" by simp
  have outer: "map ascii_lower s \<noteq> [] \<and> last (map ascii_lower s) = CHR ''>'' \<and> CHR ''<'' \<in> set (map ascii_lower s)
      \<longleftrightarrow> s \<noteq> [] \<and> last s = CHR ''>'' \<and> CHR ''<'' \<in> set s"
    by (cases "s = []") (simp_all add: last_map special_chars)
  show ?thesis
    unfolding angle_address_def c Let_def outer gt nsp inner by simp
qed

lemma normalizeMailbox_Inr:
  "normalizeMailbox h v = Inr n \<longleftrightarrow>
     is_mailbox n \<and> n = js_lower h (coalesce (angle_address (js_trim v)) (js_trim v))"
  by (auto simp: normalizeMailbox_def Let_def)

text \<open>A normalised address is its own normal form.\<close>

lemma normalizeMailbox_idem:
  assumes "is_ascii v" "normalizeMailbox h v = Inr n"
  shows "is_ascii n" "normalizeMailbox h n = Inr n"
proof -
  let ?t = "js_trim v"
  have t: "is_ascii ?t" by (rule is_ascii_subset[OF set_js_trim assms(1)])
  have a: "is_ascii (coalesce (angle_address ?t) ?t)"
    using t is_ascii_subset[OF angle_address_contents(3)] by (cases "angle_address ?t") auto
  have n: "is_mailbox n" "n = map ascii_lower (coalesce (angle_address ?t) ?t)"
    using assms(2) unfolding normalizeMailbox_Inr js_lower_ascii[OF a] by blast+
  show na: "is_ascii n" using a n(2) by (simp add: is_ascii_lower)
  have trim: "js_trim n = n" using n(1) by (simp add: js_trim_no_space is_mailbox_def)
  have "angle_address n = None"
  proof (cases "angle_address ?t")
    case None
    then show ?thesis using angle_address_lower[OF t] n(2) by simp
  next
    case (Some c)
    then have "CHR ''>'' \<notin> set n" using angle_address_contents(2)[OF Some] n(2) Some by simp
    then show ?thesis by (rule angle_address_plain)
  qed
  then show "normalizeMailbox h n = Inr n"
    using n trim na by (simp add: normalizeMailbox_Inr js_lower_ascii comp_def)
qed

section \<open>Finding a suppression again\<close>

text \<open>Others leave the suppressions alone.\<close>

definition undisturbed :: "('x, 'z) world_env_scheme \<Rightarrow> bool" where
  "undisturbed env \<longleftrightarrow> (\<forall>w. m_suppressions (fst (wo_others env w)) = m_suppressions (fst w))"

lemma undisturbed_D: "undisturbed env \<Longrightarrow> m_suppressions (fst (wo_others env w)) = m_suppressions (fst w)"
  unfolding undisturbed_def by blast

lemma put_stored:
  assumes "undisturbed env" "suppression_put h env input w = (Inr r, w')"
  shows "normalizeMailbox h (si_email input) = Inr (sup_email r)"
    "map_get (m_suppressions (fst w')) (sha256 h (sup_email r)) = Some r"
proof -
  show n: "normalizeMailbox h (si_email input) = Inr (sup_email r)"
    using assms(2)
    by (auto simp: suppression_put_def bindS_Inr_iff liftS_def Let_def returnS_def)
  from assms(2) n show "map_get (m_suppressions (fst w')) (sha256 h (sup_email r)) = Some r"
    by (auto simp: suppression_put_def bindS_Inr_iff liftS_def Let_def returnS_def putSuppression_def storeW_def awaitW_def
        on_store_def undisturbed_D[OF assms(1)])
qed

lemma find_result:
  assumes "mapE (normalizeMailbox h) addresses = Inr ns"
  shows "findSuppressed h env addresses w = (Inr (List.map_filter (\<lambda>n. map_get (m_suppressions (fst w)) (sha256 h n)) (unique_first ns)),
    wo_others env w)"
  using assms
  by (simp add: findSuppressed_def bindS_def[of "liftS _"] liftS_def bindS_readW returnS_def getSuppression_def List.map_filter_def comp_def
      filter_map)

lemma delete_result:
  assumes "normalizeMailbox h a = Inr n" "map_get (m_suppressions (fst w)) (sha256 h n) \<noteq> None"
  shows "suppression_delete h env a w = (Inr (), wo_others env (snd (deleteSuppression (sha256 h n) (fst w)), snd w))"
  using assms
  by (auto simp: suppression_delete_def bindS_def liftS_def storeW_def awaitW_def on_store_def deleteSuppression_def map_has_def returnS_def)

text \<open>
  C33. A suppression is found again under every spelling of its address: a list of addresses
  one of which has the same normal form finds the record that was put, the normal form is
  its own normal form, and after a deletion under any spelling nothing is found under it.
\<close>

theorem suppression_any_spelling:
  assumes "undisturbed env" and "is_ascii (si_email input)" and "suppression_put h env input w = (Inr r, w1)"
    and "mapE (normalizeMailbox h) addresses = Inr ns" and "sup_email r \<in> set ns"
    and "normalizeMailbox h spelling = Inr (sup_email r)"
  shows "normalizeMailbox h (sup_email r) = Inr (sup_email r)
    \<and> (\<exists>rs w2 w3. findSuppressed h env addresses w1 = (Inr rs, w2) \<and> r \<in> set rs
        \<and> suppression_delete h env spelling w2 = (Inr (), w3)
        \<and> (\<exists>w4. findSuppressed h env [spelling] w3 = (Inr [], w4)))"
proof -
  note put = put_stored[OF assms(1,3)]
  let ?w2 = "wo_others env w1"
  let ?w3 = "wo_others env (snd (deleteSuppression (sha256 h (sup_email r)) (fst ?w2)), snd ?w2)"
  have s2: "map_get (m_suppressions (fst ?w2)) (sha256 h (sup_email r)) = Some r"
    using put(2) undisturbed_D[OF assms(1)] by simp
  have s3: "map_get (m_suppressions (fst ?w3)) (sha256 h (sup_email r)) = None"
    by (simp add: undisturbed_D[OF assms(1)] deleteSuppression_def)
  have "r \<in> set (List.map_filter (\<lambda>n. map_get (m_suppressions (fst w1)) (sha256 h n)) (unique_first ns))"
    using put(2) assms(5) by (force simp: List.map_filter_def)
  moreover have "suppression_delete h env spelling ?w2 = (Inr (), ?w3)"
    by (rule delete_result[OF assms(6)]) (simp add: s2)
  moreover have "findSuppressed h env [spelling] ?w3 = (Inr [], wo_others env ?w3)"
    using find_result[of h "[spelling]" "[sup_email r]" env ?w3] assms(6) s3 by (simp add: List.map_filter_def)
  moreover have "normalizeMailbox h (sup_email r) = Inr (sup_email r)" by (rule normalizeMailbox_idem(2)[OF assms(2) put(1)])
  ultimately show ?thesis using find_result[OF assms(4)] by blast
qed

definition demo_world :: "unit world_env" where
  "demo_world = \<lparr>wo_others = id, wo_clock = (\<lambda>x. (demo_now, x)), wo_uuid = (\<lambda>x. ([], x)), wo_hook = (\<lambda>_. None)\<rparr>"

lemma demo_mailboxes:
  "normalizeMailbox h ''A@example.com'' = Inr ''a@example.com''"
  "normalizeMailbox h ''Ann <a@Example.com>'' = Inr ''a@example.com''"
proof -
  have "js_trim ''A@example.com'' = ''A@example.com''" "js_trim ''Ann <a@Example.com>'' = ''Ann <a@Example.com>''"
      "angle_address ''A@example.com'' = None" "angle_address ''Ann <a@Example.com>'' = Some ''a@Example.com''"
      "is_mailbox ''a@example.com''" "map ascii_lower ''a@Example.com'' = ''a@example.com''"
      "map ascii_lower ''A@example.com'' = ''a@example.com''" "is_ascii ''a@Example.com''" "is_ascii ''A@example.com''"
    by code_simp+
  then show "normalizeMailbox h ''A@example.com'' = Inr ''a@example.com''"
    "normalizeMailbox h ''Ann <a@Example.com>'' = Inr ''a@example.com''"
    by (simp_all add: normalizeMailbox_Inr js_lower_ascii)
qed

theorem suppression_any_spelling_witness:
  "\<exists>r w1 rs w2. suppression_put demo_host demo_world
       \<lparr>si_email = ''A@example.com'', si_reason = Reason_bounce, si_source_email_id = None, si_detail = None\<rparr> (empty_store, ())
       = (Inr r, w1)
     \<and> findSuppressed demo_host demo_world [''Ann <a@Example.com>''] w1 = (Inr rs, w2) \<and> r \<in> set rs"
proof -
  let ?i = "\<lparr>si_email = ''A@example.com'', si_reason = Reason_bounce, si_source_email_id = None, si_detail = None\<rparr>"
  have u: "undisturbed demo_world" by (simp add: undisturbed_def demo_world_def)
  have ports: "awaitW demo_world m = m" "nowW demo_world w = (Inr demo_now, w)" for m :: "(unit, 'b) world_op" and w
    by (simp_all add: fun_eq_iff awaitW_def nowW_def demo_world_def prod_eq_iff split: prod.split)
  obtain r w1 where run: "suppression_put demo_host demo_world ?i (empty_store, ()) = (Inr r, w1)"
    by (simp add: suppression_put_def demo_mailboxes readW_def storeW_def ports on_store_def getS_def putSuppression_def
        bindS_def liftS_def returnS_def Let_def)
  have e: "sup_email r = ''a@example.com''" using put_stored(1)[OF u run] demo_mailboxes(1)[of demo_host] by simp
  have asc: "is_ascii ''A@example.com''" by code_simp
  from suppression_any_spelling[OF u _ run, of "[''Ann <a@Example.com>'']" "[''a@example.com'']" "''Ann <a@Example.com>''"]
    demo_mailboxes e asc run show ?thesis by auto
qed

end
