(* ===== verification/Email_Service.thy ===== *)
theory Email_Service
  imports Suppression_Service
begin

text \<open>
  The email service (\<open>src/services/email-service.ts\<close>): from a send request to an atomic
  delivery commit, the send job with its ledger attempt, and provider events. The scheduler,
  the transport, the webhooks, the attachments and the templates are the ports of the
  environment; the store is the in-memory store. The counters it emits are not modelled.
  The steps of a \<open>Promise.all\<close> are taken one after another.
\<close>

section \<open>The environment\<close>

record 'x email_env = "'x world_env" +
  es_schedule :: "string \<Rightarrow> string option \<Rightarrow> int \<Rightarrow> string \<Rightarrow> ('x, unit) world_op"
  es_reschedule :: "string \<Rightarrow> string \<Rightarrow> int option \<Rightarrow> string \<Rightarrow> ('x, unit) world_op"
  es_reschedule_delivery :: "string \<Rightarrow> string \<Rightarrow> int option \<Rightarrow> ('x, unit) world_op"
  es_cancel :: "string \<Rightarrow> ('x, unit) world_op"
  es_send :: "email_record \<Rightarrow> ('x, string) world_op"
  es_publish :: "webhook_event_type \<Rightarrow> email_record \<Rightarrow> (string \<times> js_value) list \<Rightarrow> ('x, unit) world_op"
  es_find_suppressed :: "string list \<Rightarrow> ('x, suppression_record list) world_op"
  es_resolve :: "attachment_input list option \<Rightarrow> nat \<Rightarrow> int \<Rightarrow> ('x, email_attachment list option) world_op"
  es_read :: "email_attachment \<Rightarrow> ('x, 8 word list) world_op"
  es_resolve_template :: "(send_email_input \<Rightarrow> ('x, send_email_input) world_op) option"
  es_provider :: "provider_reference option"
  es_pre_commit_validator :: "(email_record \<Rightarrow> ('x, unit) world_op) option"

definition hayasend_version :: string where
  "hayasend_version = ''0.3.12''"

definition default_provider :: provider_reference where
  "default_provider = \<lparr>pr_name = ''aws-ses'', pr_adapter_version = hayasend_version, pr_capability_version = ''1.0.0''\<rparr>"

definition final_statuses :: "email_status list" where
  "final_statuses = [Em_sent, Em_delivered, Em_delivery_delayed, Em_opened, Em_clicked, Em_bounced, Em_complained,
     Em_failed, Em_canceled, Em_suppressed]"

definition max_serialized_email_bytes :: nat where
  "max_serialized_email_bytes = 9 * 1024 * 1024"

section \<open>Requests as values\<close>

definition strings_value :: "string list \<Rightarrow> js_value" where
  "strings_value xs = JArr (map JStr xs)"

definition tag_props :: "email_tag \<Rightarrow> js_value" where
  "tag_props t = JObj [(''name'', JStr (tag_name t)), (''value'', JStr (tag_value t))]"

definition content_props :: "'a email_content_scheme \<Rightarrow> (string \<times> js_value) list" where
  "content_props c = [(''to'', strings_value (em_to c))]
     @ opt_prop ''html'' JStr (em_html c) @ opt_prop ''text'' JStr (em_text c)
     @ opt_prop ''cc'' strings_value (em_cc c) @ opt_prop ''bcc'' strings_value (em_bcc c)
     @ opt_prop ''reply_to'' strings_value (em_reply_to c)
     @ opt_prop ''headers'' (\<lambda>hs. JObj (map (\<lambda>(k, v). (k, JStr v)) hs)) (em_headers c)
     @ opt_prop ''tags'' (\<lambda>ts. JArr (map tag_props ts)) (em_tags c)
     @ opt_prop ''scheduled_at'' JStr (em_scheduled_at c)"

fun variable_js :: "variable_value \<Rightarrow> js_value" where
  "variable_js (Str_value s) = JStr s"
| "variable_js (Num_value n) = JNum n"

definition template_js :: "template_reference \<Rightarrow> js_value" where
  "template_js t = JObj ([(''id'', JStr (tr_id t))]
     @ opt_prop ''variables'' (\<lambda>vs. JObj (map (\<lambda>(k, v). (k, variable_js v)) vs)) (tr_variables t))"

fun disposition_str :: "content_disposition \<Rightarrow> string" where
  "disposition_str Inline_part = ''inline''"
| "disposition_str Attachment_part = ''attachment''"

definition presentation_props :: "'a attachment_presentation_scheme \<Rightarrow> (string \<times> js_value) list" where
  "presentation_props p = opt_prop ''content_type'' JStr (atp_content_type p) @ opt_prop ''content_id'' JStr (atp_content_id p)
     @ opt_prop ''content_disposition'' (\<lambda>d. JStr (disposition_str d)) (atp_content_disposition p)"

fun attachment_input_js :: "attachment_input \<Rightarrow> js_value" where
  "attachment_input_js (Inline_attachment filename content p) =
     JObj ([(''filename'', JStr filename), (''content'', JStr content)] @ presentation_props p)"
| "attachment_input_js (Uploaded_attachment i filename p) =
     JObj ([(''attachment_id'', JStr i)] @ opt_prop ''filename'' JStr filename @ presentation_props p)"

text \<open>A send request without its attachments, and with them.\<close>

definition request_props :: "send_email_input \<Rightarrow> (string \<times> js_value) list" where
  "request_props i = opt_prop ''from'' JStr (in_from i) @ content_props i @ opt_prop ''subject'' JStr (in_subject i)
     @ opt_prop ''template'' template_js (in_template i)"

definition input_js :: "send_email_input \<Rightarrow> js_value" where
  "input_js i = JObj (request_props i @ opt_prop ''attachments'' (\<lambda>as. JArr (map attachment_input_js as)) (in_attachments i))"

text \<open>The byte length of \<open>JSON.stringify\<close> of an object or array.\<close>

definition serialized_bytes :: "host \<Rightarrow> js_value \<Rightarrow> nat" where
  "serialized_bytes h v = utf8ByteLength (coalesce (json_text h v) [])"

section \<open>Validation and normalisation\<close>

definition normalizeEnvelopeAddress :: "host \<Rightarrow> string \<Rightarrow> string result" where
  "normalizeEnvelopeAddress h value =
     bindE (normalizeMailbox h value) (\<lambda>normalized.
     if \<not> (h_email h normalized \<and> js_length normalized \<le> 320)
     then Inl (ValidationError (''Invalid email address: '' @ value)) else Inr normalized)"

text \<open>The values kept by the filter of \<open>normalizeRecipients\<close>, with the addresses seen so far.\<close>

fun collect_recipients :: "host \<Rightarrow> string list \<Rightarrow> string list \<Rightarrow> (string list \<times> string list) result" where
  "collect_recipients h seen [] = Inr ([], seen)"
| "collect_recipients h seen (value # values) =
     bindE (normalizeEnvelopeAddress h value) (\<lambda>address.
     if address \<in> set seen then collect_recipients h seen values
     else bindE (collect_recipients h (seen @ [address]) values) (\<lambda>(kept, seen'). Inr (value # kept, seen')))"

record normalized_recipients =
  nr_to :: "string list"
  nr_cc :: "string list option"
  nr_bcc :: "string list option"

definition normalizeRecipients :: "host \<Rightarrow> 'a email_content_scheme \<Rightarrow> normalized_recipients result" where
  "normalizeRecipients h input =
     bindE (collect_recipients h [] (em_to input)) (\<lambda>(to, seen1).
     bindE (collect_recipients h seen1 (coalesce (em_cc input) [])) (\<lambda>(cc, seen2).
     bindE (collect_recipients h seen2 (coalesce (em_bcc input) [])) (\<lambda>(bcc, _).
     Inr \<lparr>nr_to = to, nr_cc = (if cc \<noteq> [] then Some cc else None), nr_bcc = (if bcc \<noteq> [] then Some bcc else None)\<rparr>)))"

fun eachE :: "('a \<Rightarrow> unit result) \<Rightarrow> 'a list \<Rightarrow> unit result" where
  "eachE f [] = Inr ()"
| "eachE f (x # xs) = bindE (f x) (\<lambda>_. eachE f xs)"

definition ensureSafeHeaderValue :: "string \<Rightarrow> string \<Rightarrow> unit result" where
  "ensureSafeHeaderValue label value =
     (if has_crlf value then Inl (ValidationError (label @ '' must not contain line breaks.''))
      else if utf8ByteLength value > 998 then Inl (ValidationError (label @ '' must not exceed 998 bytes.''))
      else Inr ())"

definition check_header :: "host \<Rightarrow> string \<times> string \<Rightarrow> unit result" where
  "check_header h entry = (case entry of (name, value) \<Rightarrow>
     if js_lower h name = ''message-id''
     then Inl (ValidationError ''Message-ID is assigned by the delivery provider.'')
     else bindE (ensureSafeHeaderValue ''header name'' name) (\<lambda>_.
       ensureSafeHeaderValue (''header '' @ name) value))"

definition all_recipients :: "'a email_content_scheme \<Rightarrow> string list" where
  "all_recipients c = em_to c @ coalesce (em_cc c) [] @ coalesce (em_bcc c) []"

definition validateInput :: "host \<Rightarrow> send_email_input \<Rightarrow> unit result" where
  "validateInput h input =
     (if in_template input \<noteq> None then Inl (ValidationError ''Template input must be resolved before sending.'')
      else if \<not> truthy (in_from input) \<or> \<not> truthy (in_subject input)
      then Inl (ValidationError ''from and subject are required.'')
      else if \<not> truthy (em_html input) \<and> \<not> truthy (em_text input)
      then Inl (ValidationError ''Either html or text is required.'')
      else let recipients = all_recipients input in
        if recipients = [] \<or> length recipients > 50
        then Inl (ValidationError ''An email must have between 1 and 50 recipients.'')
        else bindE (ensureSafeHeaderValue ''from'' (the (in_from input))) (\<lambda>_.
          bindE (ensureSafeHeaderValue ''subject'' (the (in_subject input))) (\<lambda>_.
          bindE (eachE (ensureSafeHeaderValue ''recipient'') recipients) (\<lambda>_.
          bindE (eachE (ensureSafeHeaderValue ''reply_to'') (coalesce (em_reply_to input) [])) (\<lambda>_.
          bindE (eachE (check_header h) (coalesce (em_headers input) [])) (\<lambda>_.
          if serialized_bytes h (input_js input) > max_serialized_email_bytes
          then Inl (ValidationError ''The serialized request must not exceed 9 MiB.'') else Inr ()))))))"

section \<open>Preparing and committing\<close>

record prepared_email =
  pe_record :: email_record
  pe_idempotency :: "idempotency_claim option"
  pe_scheduled_at :: "string option"
  pe_suppressed :: "suppression_record list"

definition email_attachment_js :: "email_attachment \<Rightarrow> js_value" where
  "email_attachment_js a = JObj (presentation_props a @ [(''filename'', JStr (att_filename a))]
     @ opt_prop ''content'' JStr (att_content a) @ opt_prop ''attachment_id'' JStr (att_attachment_id a)
     @ opt_prop ''object_key'' JStr (att_object_key a)
     @ opt_prop ''size_bytes'' (\<lambda>n. JNum (Num (of_int n))) (att_size_bytes a)
     @ opt_prop ''checksum_sha256'' JStr (att_checksum_sha256 a))"

definition idempotencyAttachments :: "email_attachment list option \<Rightarrow> email_attachment list option" where
  "idempotencyAttachments = map_option (map (\<lambda>a.
     if \<not> truthy (att_attachment_id a) then a
     else a\<lparr>att_attachment_id := None, att_object_key := None, att_content := None\<rparr>))"

definition attachments_prop :: "email_attachment list option \<Rightarrow> (string \<times> js_value) list" where
  "attachments_prop = opt_prop ''attachments'' (\<lambda>as. JArr (map email_attachment_js as))"

text \<open>
  The content that is stored: the recipients without duplicates replace those of the
  request (a list that became empty does not), and the schedule is an instant.
\<close>

definition normalized_content :: "send_email_input \<Rightarrow> normalized_recipients \<Rightarrow> string option \<Rightarrow> send_email_input" where
  "normalized_content c r scheduledAt = c\<lparr>
     em_to := nr_to r,
     em_cc := (if nr_cc r \<noteq> None then nr_cc r else em_cc c),
     em_bcc := (if nr_bcc r \<noteq> None then nr_bcc r else em_bcc c),
     em_reply_to := map_option unique_first (em_reply_to c),
     em_scheduled_at := (if truthy scheduledAt then scheduledAt else em_scheduled_at c)\<rparr>"

text \<open>What is hashed: a template request as it came in, any other with its own schedule.\<close>

definition intent_value ::
  "send_email_input \<Rightarrow> send_email_input \<Rightarrow> send_email_input \<Rightarrow> email_attachment list option \<Rightarrow> js_value" where
  "intent_value input c normalized attachments =
     JObj ((if in_template input \<noteq> None then request_props input
            else request_props (if em_scheduled_at c \<noteq> None then normalized\<lparr>em_scheduled_at := em_scheduled_at c\<rparr> else normalized))
       @ attachments_prop (idempotencyAttachments attachments))"

definition initial_status :: "suppression_record list \<Rightarrow> string option \<Rightarrow> email_status" where
  "initial_status suppressed scheduledAt =
     (if suppressed \<noteq> [] then Em_suppressed else if truthy scheduledAt then Em_scheduled else Em_queued)"

definition new_email_record ::
  "send_email_input \<Rightarrow> email_attachment list option \<Rightarrow> string \<Rightarrow> email_status \<Rightarrow> string \<Rightarrow> string \<Rightarrow> email_record" where
  "new_email_record normalized attachments i status timestamp hash =
     \<lparr>em_to = em_to normalized, em_html = em_html normalized, em_text = em_text normalized, em_cc = em_cc normalized,
      em_bcc = em_bcc normalized, em_reply_to = em_reply_to normalized, em_headers = em_headers normalized,
      em_tags = em_tags normalized, em_scheduled_at = em_scheduled_at normalized,
      em_from = the (in_from normalized), em_subject = the (in_subject normalized), em_attachments = attachments,
      em_id = i, em_status = status, em_last_event = email_status_str status, em_created_at = timestamp,
      em_updated_at = timestamp, em_provider_id = None, em_request_hash = hash, em_attempts = 0, em_error = None,
      em_send_lease_until = None, em_payload_ref = None\<rparr>"

definition resolve_template ::
  "('x, ('x, 'z) email_env_ext) world_env_scheme \<Rightarrow> send_email_input \<Rightarrow> ('x, send_email_input) world_op" where
  "resolve_template env input =
     (if in_template input = None then returnS input
      else case es_resolve_template env of
        None \<Rightarrow> throwS (ValidationError ''Hosted templates are unavailable.'')
      | Some resolve \<Rightarrow> awaitW env (resolve input))"

definition with_text :: "host \<Rightarrow> send_email_input \<Rightarrow> send_email_input" where
  "with_text h input = (case (em_html input, em_text input) of
     (Some html, None) \<Rightarrow> input\<lparr>em_text := Some (h_html_to_text h html max_serialized_email_bytes)\<rparr>
   | _ \<Rightarrow> input)"

definition new_claim :: "host \<Rightarrow> string option \<Rightarrow> string \<Rightarrow> int \<Rightarrow> idempotency_claim option" where
  "new_claim h key hash now = (case key of None \<Rightarrow> None | Some k \<Rightarrow> if k = [] then None
     else Some \<lparr>ic_key_hash = sha256 h k, ic_request_hash = hash, ic_expires_at = now div 1000 + 86400\<rparr>)"

definition prepareEmail ::
  "host \<Rightarrow> ('x, ('x, 'z) email_env_ext) world_env_scheme \<Rightarrow> send_email_input \<Rightarrow> string option \<Rightarrow> int
     \<Rightarrow> ('x, prepared_email) world_op" where
  "prepareEmail h env request key now =
     bindS (resolve_template env request) (\<lambda>input.
     bindS (liftS (validateInput h input)) (\<lambda>_.
     let c = with_text h input in
     bindS (liftS (parseScheduledAt h (em_scheduled_at c) now)) (\<lambda>scheduledAt.
     bindS (awaitW env (es_resolve env (in_attachments c)
       (utf8ByteLength (coalesce (em_html c) []) + utf8ByteLength (coalesce (em_text c) [])) now)) (\<lambda>attachments.
     bindS (awaitW env (es_find_suppressed env (all_recipients c))) (\<lambda>suppressed.
     bindS (liftS (normalizeRecipients h c)) (\<lambda>recipients.
     let normalized = normalized_content c recipients scheduledAt in
     bindS (liftS (requestHash h (intent_value request c normalized attachments))) (\<lambda>hash.
     bindS (createIdW env ''email'') (\<lambda>i.
     let record = new_email_record normalized attachments i (initial_status suppressed scheduledAt) (to_iso now) hash in
     bindS (awaitW env (case es_pre_commit_validator env of None \<Rightarrow> returnS () | Some validate \<Rightarrow> validate record)) (\<lambda>_.
     returnS \<lparr>pe_record = record, pe_idempotency = new_claim h key hash now, pe_scheduled_at = scheduledAt,
              pe_suppressed = suppressed\<rparr>)))))))))"

text \<open>The recipients of a record, role by role, with their place in the list of the role.\<close>

definition recipient_inputs :: "host \<Rightarrow> email_record \<Rightarrow> (envelope_role \<times> nat \<times> string) list result" where
  "recipient_inputs h record =
     mapE (\<lambda>(role, ordinal, address). bindE (normalizeEnvelopeAddress h address) (\<lambda>a. Inr (role, ordinal, a)))
       (map (Pair Role_to) (List.enumerate 0 (em_to record))
        @ map (Pair Role_cc) (List.enumerate 0 (coalesce (em_cc record) []))
        @ map (Pair Role_bcc) (List.enumerate 0 (coalesce (em_bcc record) [])))"

definition new_recipient :: "email_record \<Rightarrow> string \<Rightarrow> envelope_role \<times> nat \<times> string \<Rightarrow> recipient_record" where
  "new_recipient record i place = (case place of (role, ordinal, address) \<Rightarrow>
     \<lparr>rc_id = i, rc_message_id = em_id record, rc_role = role, rc_ordinal = int ordinal, rc_address = address,
      rc_status = (if em_status record = Em_suppressed then Rc_suppressed else Rc_queued), rc_latest_attempt_id = None,
      rc_created_at = em_created_at record, rc_updated_at = em_created_at record\<rparr>)"

definition new_message :: "provider_reference option \<Rightarrow> email_record \<Rightarrow> recipient_record list \<Rightarrow> message_record" where
  "new_message provider record recipients =
     \<lparr>msg_id = em_id record, msg_provider = coalesce provider default_provider, msg_intent_digest = em_request_hash record,
      msg_recipient_ids = map rc_id recipients,
      msg_status = (if em_status record = Em_suppressed then Msg_suppressed
        else if em_status record = Em_scheduled then Msg_scheduled else Msg_queued),
      msg_created_at = em_created_at record, msg_updated_at = em_created_at record,
      msg_scheduled_at = (if truthy (em_scheduled_at record) then em_scheduled_at record else None)\<rparr>"

definition new_outbox_item :: "email_record \<Rightarrow> string \<Rightarrow> outbox_record" where
  "new_outbox_item record i =
     \<lparr>ob_id = i, ob_message_id = em_id record, ob_job_type = Dispatch_message, ob_generation = 0,
      ob_due_at = coalesce (em_scheduled_at record) (em_created_at record), ob_attempts = 0, ob_lease_owner = None,
      ob_lease_expires_at = None,
      ob_dispatched_at = (if em_status record = Em_suppressed then Some (em_created_at record) else None),
      ob_last_diagnostic_category = None, ob_created_at = em_created_at record, ob_updated_at = em_created_at record\<rparr>"

definition new_commit ::
  "provider_reference option \<Rightarrow> prepared_email \<Rightarrow> recipient_record list \<Rightarrow> string \<Rightarrow> delivery_commit" where
  "new_commit provider p recipients outboxId =
     \<lparr>dc_email = pe_record p, dc_message = new_message provider (pe_record p) recipients, dc_recipients = recipients,
      dc_outbox = new_outbox_item (pe_record p) outboxId, dc_idempotency = pe_idempotency p\<rparr>"

text \<open>A wake-up that fails only emits a counter: the reconciler takes care of the item.\<close>

definition quietly :: "('x, unit) world_op \<Rightarrow> ('x, unit) world_op" where
  "quietly m = catchS m (\<lambda>_. returnS ())"

definition suppressed_extra :: "suppression_record list \<Rightarrow> (string \<times> js_value) list" where
  "suppressed_extra rs = [(''suppressed_recipients'', strings_value (map sup_email rs))]"

definition after_commit ::
  "('x, ('x, 'z) email_env_ext) world_env_scheme \<Rightarrow> prepared_email \<Rightarrow> int \<Rightarrow> delivery_commit_result \<Rightarrow> ('x, unit) world_op" where
  "after_commit env p now created =
     (let record = pe_record p in
      if \<not> dcr_replayed created then
        if em_status record = Em_suppressed
        then awaitW env (es_publish env Wh_suppressed record (suppressed_extra (pe_suppressed p)))
        else thenS (quietly (awaitW env (es_schedule env (em_id record) (pe_scheduled_at p) now (ob_id (dc_outbox created)))))
          (if truthy (pe_scheduled_at p) then awaitW env (es_publish env Wh_scheduled record []) else returnS ())
      else if ob_dispatched_at (dc_outbox created) = None
        \<and> (em_status (dc_email created) = Em_queued
           \<or> em_status (dc_email created) = Em_scheduled \<and> em_scheduled_at (dc_email created) \<noteq> None)
      then quietly (awaitW env (es_schedule env (em_id (dc_email created)) (em_scheduled_at (dc_email created)) now
             (ob_id (dc_outbox created))))
      else returnS ())"

definition commitPreparedEmail ::
  "host \<Rightarrow> ('x, ('x, 'z) email_env_ext) world_env_scheme \<Rightarrow> prepared_email \<Rightarrow> int \<Rightarrow> ('x, create_email_result) world_op" where
  "commitPreparedEmail h env p now =
     bindS (liftS (recipient_inputs h (pe_record p))) (\<lambda>places.
     bindS (mapS (\<lambda>place. bindS (createIdW env ''rcpt'') (\<lambda>i. returnS (new_recipient (pe_record p) i place))) places) (\<lambda>recipients.
     bindS (liftS (createOutboxIdentity (em_id (pe_record p)) Dispatch_message 0)) (\<lambda>outboxId.
     bindS (storeW env (commitDelivery h (wo_hook env) (new_commit (es_provider env) p recipients outboxId) (now div 1000))) (\<lambda>created.
     thenS (after_commit env p now created)
       (returnS \<lparr>cer_record = dc_email created, cer_replayed = dcr_replayed created\<rparr>)))))"

definition create ::
  "host \<Rightarrow> ('x, ('x, 'z) email_env_ext) world_env_scheme \<Rightarrow> send_email_input \<Rightarrow> string option \<Rightarrow> int
     \<Rightarrow> ('x, create_email_result) world_op" where
  "create h env input key now =
     bindS (awaitW env (prepareEmail h env input key now)) (\<lambda>p. commitPreparedEmail h env p now)"

definition createBatch ::
  "host \<Rightarrow> ('x, ('x, 'z) email_env_ext) world_env_scheme \<Rightarrow> send_email_input list \<Rightarrow> string option
     \<Rightarrow> ('x, create_email_result list) world_op" where
  "createBatch h env inputs key =
     (if inputs = [] \<or> length inputs > 100
      then throwS (ValidationError ''A batch must contain between 1 and 100 emails.'')
      else if serialized_bytes h (JArr (map input_js inputs)) > max_serialized_email_bytes
      then throwS (ValidationError ''The serialized batch request must not exceed 9 MiB.'')
      else bindS (nowW env) (\<lambda>now.
        bindS (awaitW env (allS (\<lambda>(index, input).
          prepareEmail h env input (if truthy key then Some (the key @ '':'' @ nat_dec index) else None) now)
          (List.enumerate 0 inputs))) (\<lambda>prepared.
        allS (\<lambda>p. commitPreparedEmail h env p now) prepared)))"

end
