(* ===== verification/Email_Processing.thy ===== *)
theory Email_Processing
  imports Email_Service
begin

text \<open>
  The second half of the email service (\<open>src/services/email-service.ts\<close>): reading an email
  and its recipients, cancelling and rescheduling, the send job \<open>processSend\<close> and provider
  events.
\<close>

section \<open>Reading\<close>

definition email_get :: "('x, 'z) world_env_scheme \<Rightarrow> string \<Rightarrow> ('x, email_record) world_op" where
  "email_get env i =
     bindS (readW env (getEmail i)) (\<lambda>record.
     case record of None \<Rightarrow> throwS (NotFoundError ''Email'') | Some r \<Rightarrow> returnS r)"

definition email_list :: "host \<Rightarrow> ('x, 'z) world_env_scheme \<Rightarrow> nat \<Rightarrow> string option \<Rightarrow> ('x, email_record page) world_op" where
  "email_list h env limit cursor = bindS (readW env (listEmails h limit cursor)) liftS"

datatype recovery_state = Recovery_pending | In_progress | Awaiting_event | Retryable | Ambiguous | Settled

definition attempt_ambiguity_after_seconds :: int where
  "attempt_ambiguity_after_seconds = 60"

definition recoveryState :: "host \<Rightarrow> recipient_record \<Rightarrow> attempt_record option \<Rightarrow> int \<Rightarrow> recovery_state" where
  "recoveryState h recipient attempt now =
     (let status = map_option at_status attempt;
          overdue = (case attempt of None \<Rightarrow> False | Some a \<Rightarrow>
            (case date_parse h (at_started_at a) of None \<Rightarrow> False
             | Some t \<Rightarrow> now - t \<ge> attempt_ambiguity_after_seconds * 1000))
      in if status = Some At_ambiguous \<or> (status = Some At_submitting \<and> overdue) then Ambiguous
         else if status = Some At_retryable_failed then Retryable
         else if status = Some At_pending \<or> status = Some At_submitting \<or> rc_status recipient = Rc_sending then In_progress
         else if rc_status recipient = Rc_accepted \<or> rc_status recipient = Rc_delivery_delayed then Awaiting_event
         else if rc_status recipient = Rc_queued then Recovery_pending
         else Settled)"

definition requiresOperatorAttention :: "recipient_record \<Rightarrow> recovery_state \<Rightarrow> bool" where
  "requiresOperatorAttention recipient recovery \<longleftrightarrow>
     recovery = Ambiguous \<or> rc_status recipient \<in> {Rc_bounced, Rc_complained, Rc_rejected, Rc_failed}"

record attempt_summary =
  as_id :: string
  as_sequence :: int
  as_status :: attempt_status
  as_diagnostic_category :: "diagnostic_category option"
  as_started_at :: string
  as_completed_at :: "string option"

record recipient_summary =
  rs_id :: string
  rs_role :: envelope_role
  rs_ordinal :: int
  rs_status :: recipient_status
  rs_recovery_state :: recovery_state
  rs_requires_operator_attention :: bool
  rs_latest_attempt :: "attempt_summary option"
  rs_updated_at :: string

record recipient_summary_page = "recipient_summary page" +
  rsp_message_id :: string
  rsp_aggregate_status :: message_status
  rsp_recipient_count :: nat
  rsp_attempt_summary :: "attempt_status \<Rightarrow> nat"
  rsp_unattributed_event_count :: nat

definition recipient_summary_of :: "host \<Rightarrow> attempt_record jsmap \<Rightarrow> int \<Rightarrow> recipient_record \<Rightarrow> recipient_summary" where
  "recipient_summary_of h attemptById now recipient =
     (let attempt = (if truthy (rc_latest_attempt_id recipient) then map_get attemptById (the (rc_latest_attempt_id recipient)) else None);
          recovery = recoveryState h recipient attempt now
      in \<lparr>rs_id = rc_id recipient, rs_role = rc_role recipient, rs_ordinal = rc_ordinal recipient,
          rs_status = rc_status recipient, rs_recovery_state = recovery,
          rs_requires_operator_attention = requiresOperatorAttention recipient recovery,
          rs_latest_attempt = map_option (\<lambda>a. \<lparr>as_id = at_id a, as_sequence = at_sequence a, as_status = at_status a,
            as_diagnostic_category = at_diagnostic_category a, as_started_at = at_started_at a,
            as_completed_at = at_completed_at a\<rparr>) attempt,
          rs_updated_at = rc_updated_at recipient\<rparr>)"

definition count_attempts :: "attempt_record list \<Rightarrow> attempt_status \<Rightarrow> nat" where
  "count_attempts attempts = fold (\<lambda>a m. m(at_status a := m (at_status a) + 1)) attempts (\<lambda>_. 0)"

definition recipient_summaries ::
  "host \<Rightarrow> string \<Rightarrow> nat \<Rightarrow> string option \<Rightarrow> int \<Rightarrow> delivery_ledger_snapshot \<Rightarrow> recipient_summary_page result" where
  "recipient_summaries h i limit cursor now ledger =
     (let recipients = dl_recipients ledger;
          cursorIndex = (case cursor of None \<Rightarrow> None | Some c \<Rightarrow> find_index (\<lambda>r. rc_id r = c) recipients)
      in if cursor \<noteq> None \<and> cursorIndex = None
         then Inl (ValidationError ''The pagination cursor is invalid.'')
         else let attemptById = map_from (map (\<lambda>a. (at_id a, a)) (dl_attempts ledger));
                  offset = (case cursorIndex of None \<Rightarrow> 0 | Some n \<Rightarrow> n + 1);
                  data = map (recipient_summary_of h attemptById now) (slice offset (offset + limit) recipients);
                  hasMore = offset + length data < length recipients
              in bindE (deriveDeliveryMessageStatus recipients) (\<lambda>aggregate.
                 Inr \<lparr>pg_data = data, pg_has_more = hasMore,
                      pg_next_cursor = (if hasMore \<and> data \<noteq> [] then Some (rs_id (last data)) else None),
                      rsp_message_id = i, rsp_aggregate_status = aggregate, rsp_recipient_count = length recipients,
                      rsp_attempt_summary = count_attempts (dl_attempts ledger),
                      rsp_unattributed_event_count = length (filter (\<lambda>e. ev_recipient_ids e = []) (dls_events ledger))\<rparr>))"

definition listRecipientSummaries ::
  "host \<Rightarrow> ('x, 'z) world_env_scheme \<Rightarrow> string \<Rightarrow> nat \<Rightarrow> string option \<Rightarrow> int \<Rightarrow> ('x, recipient_summary_page) world_op" where
  "listRecipientSummaries h env i limit cursor now =
     bindS (readW env (getDeliveryLedger h i)) (\<lambda>ledger.
     case ledger of None \<Rightarrow> throwS (NotFoundError ''Delivery ledger'')
     | Some ledger \<Rightarrow> liftS (recipient_summaries h i limit cursor now ledger))"

section \<open>Cancelling and rescheduling\<close>

text \<open>
  The update of an email through its ledger when there is one, and of its record
  alone otherwise.
\<close>

definition apply_local_state ::
  "host \<Rightarrow> ('x, 'z) world_env_scheme \<Rightarrow> string \<Rightarrow> local_status \<Rightarrow> email_status \<Rightarrow> string \<Rightarrow> ('x, email_record option) world_op" where
  "apply_local_state h env i localStatus status updatedAt =
     bindS (readW env (getDeliveryLedger h i)) (\<lambda>ledger.
     if ledger \<noteq> None
     then bindS (storeW env (applyLocalDeliveryState h (wo_hook env) i localStatus updatedAt)) (\<lambda>update.
       returnS (map_option dl_email update))
     else storeW env (updateEmail i (\<lambda>e. e\<lparr>em_status := status, em_last_event := email_status_str status,
            em_updated_at := updatedAt\<rparr>) (Some [Em_queued, Em_scheduled])))"

definition cancel :: "host \<Rightarrow> ('x, ('x, 'z) email_env_ext) world_env_scheme \<Rightarrow> string \<Rightarrow> ('x, email_record) world_op" where
  "cancel h env i =
     bindS (email_get env i) (\<lambda>record.
     if em_status record \<notin> {Em_queued, Em_scheduled}
     then throwS (InvalidStateError (''Email '' @ i @ '' cannot be canceled from status '' @ email_status_str (em_status record) @ ''.''))
     else bindS (nowW env) (\<lambda>now.
       bindS (apply_local_state h env i Local_canceled Em_canceled (to_iso now)) (\<lambda>updated.
       case updated of None \<Rightarrow> throwS (NotFoundError ''Email'')
       | Some email \<Rightarrow> thenS (awaitW env (es_cancel env i)) (returnS email))))"

definition wake_again ::
  "('x, ('x, 'z) email_env_ext) world_env_scheme \<Rightarrow> string \<Rightarrow> string \<Rightarrow> string \<Rightarrow> bool \<Rightarrow> email_record option \<Rightarrow> ('x, unit) world_op" where
  "wake_again env i parsed outboxId atomic current =
     (case current of None \<Rightarrow> returnS ()
      | Some c \<Rightarrow>
          if em_status c = Em_scheduled \<and> truthy (em_scheduled_at c) \<and> em_scheduled_at c \<noteq> Some parsed
          then if atomic then quietly (awaitW env (es_reschedule env i (the (em_scheduled_at c)) None outboxId))
               else awaitW env (es_reschedule_delivery env i (the (em_scheduled_at c)) None)
          else returnS ())"

definition email_reschedule ::
  "host \<Rightarrow> ('x, ('x, 'z) email_env_ext) world_env_scheme \<Rightarrow> string \<Rightarrow> string \<Rightarrow> ('x, email_record) world_op" where
  "email_reschedule h env i scheduledAt =
     bindS (email_get env i) (\<lambda>record.
     if em_status record \<notin> {Em_queued, Em_scheduled}
     then throwS (InvalidStateError (''Email '' @ i @ '' cannot be rescheduled from status '' @ email_status_str (em_status record) @ ''.''))
     else bindS (nowW env) (\<lambda>parseNow.
       bindS (liftS (parseScheduledAt h (Some scheduledAt) parseNow)) (\<lambda>parsed.
       if \<not> truthy parsed then throwS (ValidationError ''scheduled_at is required.'')
       else bindS (nowW env) (\<lambda>now.
         bindS (storeW env (rescheduleEmailAndOutbox i (the parsed) now)) (\<lambda>atomicUpdate.
         bindS (if atomicUpdate \<noteq> None then returnS atomicUpdate
                else storeW env (updateEmail i (\<lambda>e. e\<lparr>em_scheduled_at := parsed, em_status := Em_scheduled,
                  em_last_event := ''scheduled'', em_updated_at := to_iso now\<rparr>) (Some [Em_queued, Em_scheduled]))) (\<lambda>updated.
         case updated of None \<Rightarrow> throwS (NotFoundError ''Email'')
         | Some email \<Rightarrow>
             bindS (liftS (createOutboxIdentity i Dispatch_message 0)) (\<lambda>outboxId.
             thenS (if atomicUpdate \<noteq> None then quietly (awaitW env (es_reschedule env i (the parsed) (Some now) outboxId))
                    else awaitW env (es_reschedule_delivery env i (the parsed) (Some now)))
             (bindS (readW env (getEmail i)) (\<lambda>current.
              thenS (wake_again env i (the parsed) outboxId (atomicUpdate \<noteq> None) current) (returnS email))))))))))"

section \<open>The send job\<close>

definition sent_attachment :: "('x, ('x, 'z) email_env_ext) world_env_scheme \<Rightarrow> email_attachment \<Rightarrow> ('x, email_attachment) world_op" where
  "sent_attachment env a =
     bindS (awaitW env (es_read env a)) (\<lambda>bytes.
     returnS \<lparr>atp_content_type = (if truthy (atp_content_type a) then atp_content_type a else None),
       atp_content_id = (if truthy (atp_content_id a) then atp_content_id a else None),
       atp_content_disposition = atp_content_disposition a, att_filename = att_filename a,
       att_content = Some (bytesToBase64 bytes), att_attachment_id = None, att_object_key = None,
       att_size_bytes = None, att_checksum_sha256 = None\<rparr>)"

definition sendable :: "('x, ('x, 'z) email_env_ext) world_env_scheme \<Rightarrow> email_record \<Rightarrow> ('x, email_record) world_op" where
  "sendable env sending =
     (case em_attachments sending of None \<Rightarrow> returnS sending
      | Some as \<Rightarrow> bindS (mapS (sent_attachment env) as) (\<lambda>sent. returnS (sending\<lparr>em_attachments := Some sent\<rparr>)))"

definition transport_send :: "('x, ('x, 'z) email_env_ext) world_env_scheme \<Rightarrow> email_record \<Rightarrow> ('x, string) world_op" where
  "transport_send env sending = bindS (sendable env sending) (\<lambda>email. awaitW env (es_send env email))"

definition next_sequence :: "delivery_ledger_snapshot \<Rightarrow> int" where
  "next_sequence ledger = foldl max 0 (map at_sequence (dl_attempts ledger)) + 1"

definition new_attempt :: "string \<Rightarrow> delivery_ledger_snapshot \<Rightarrow> string \<Rightarrow> string \<Rightarrow> attempt_record" where
  "new_attempt i ledger attempt_id started_at =
     \<lparr>at_id = attempt_id, at_message_id = i, at_recipient_ids = msg_recipient_ids (dl_message ledger),
      at_sequence = next_sequence ledger, at_provider = msg_provider (dl_message ledger), at_status = At_submitting,
      at_provider_message_id = None, at_diagnostic_category = None, at_started_at = started_at, at_completed_at = None\<rparr>"

text \<open>The attempt of a message with a ledger is in the ledger before the transport is called.\<close>

definition begin_attempt ::
  "host \<Rightarrow> ('x, 'z) world_env_scheme \<Rightarrow> string \<Rightarrow> email_record \<Rightarrow> ('x, attempt_record option) world_op" where
  "begin_attempt h env i sending =
     bindS (readW env (getDeliveryLedger h i)) (\<lambda>ledger.
     case ledger of None \<Rightarrow> returnS None
     | Some ledger \<Rightarrow>
         bindS (createIdW env ''attempt'') (\<lambda>attempt_id.
         let attempt = new_attempt i ledger attempt_id (em_updated_at sending) in
         bindS (storeW env (beginDeliveryAttempt h (wo_hook env) attempt)) (\<lambda>started.
         if started = None
         then throwS (InvalidStateError (''Delivery ledger '' @ i @ '' disappeared while starting an attempt.''))
         else returnS (Some attempt))))"

text \<open>The record of the outcome: in the ledger when an attempt was started, in the email otherwise.\<close>

definition record_outcome ::
  "host \<Rightarrow> ('x, 'z) world_env_scheme \<Rightarrow> string \<Rightarrow> attempt_record option \<Rightarrow> (string \<Rightarrow> attempt_completion)
     \<Rightarrow> (email_record \<Rightarrow> email_record) \<Rightarrow> ('x, email_record option) world_op" where
  "record_outcome h env i attempt completion updates =
     (case attempt of
        Some a \<Rightarrow> bindS (storeW env (completeDeliveryAttempt h (wo_hook env) (completion (at_id a)))) (\<lambda>result.
          returnS (map_option dl_email result))
      | None \<Rightarrow> storeW env (updateEmail i updates (Some [Em_sending])))"

definition record_failure ::
  "host \<Rightarrow> ('x, ('x, 'z) email_env_ext) world_env_scheme \<Rightarrow> string \<Rightarrow> email_record \<Rightarrow> attempt_record option \<Rightarrow> js_error
     \<Rightarrow> ('x, unit) world_op" where
  "record_failure h env i sending attempt e =
     (let message = safeFailureMessage h Email_delivery_failed e;
          finalAttempt = (em_attempts sending \<ge> 3 \<or> \<not> shouldRetryOperationalError h e);
          category = diagnosticCategory h e
      in bindS (nowW env) (\<lambda>now.
         bindS (record_outcome h env i attempt
           (\<lambda>attempt_id. \<lparr>cp_message_id = i, cp_attempt_id = attempt_id,
              cp_status = (if finalAttempt then Completed_permanent_failed else Completed_retryable_failed),
              cp_completed_at = to_iso now, cp_provider_message_id = None, cp_diagnostic_category = Some category,
              cp_public_error = Some message\<rparr>)
           (\<lambda>r. r\<lparr>em_status := (if finalAttempt then Em_failed else Em_queued),
              em_last_event := (if finalAttempt then ''failed'' else ''retrying''), em_updated_at := to_iso now,
              em_error := Some message, em_send_lease_until := None\<rparr>)) (\<lambda>failed.
         if finalAttempt then
           (case failed of None \<Rightarrow> returnS ()
            | Some record \<Rightarrow> awaitW env (es_publish env Wh_failed record [(''error'', JStr message)]))
         else throwS e)))"

definition record_success ::
  "host \<Rightarrow> ('x, ('x, 'z) email_env_ext) world_env_scheme \<Rightarrow> string \<Rightarrow> attempt_record option \<Rightarrow> string \<Rightarrow> ('x, unit) world_op" where
  "record_success h env i attempt providerId =
     bindS (nowW env) (\<lambda>now.
     bindS (record_outcome h env i attempt
       (\<lambda>attempt_id. \<lparr>cp_message_id = i, cp_attempt_id = attempt_id, cp_status = Completed_accepted,
          cp_completed_at = to_iso now, cp_provider_message_id = Some providerId, cp_diagnostic_category = None,
          cp_public_error = None\<rparr>)
       (\<lambda>r. r\<lparr>em_status := Em_sent, em_last_event := ''sent'', em_provider_id := Some providerId,
          em_updated_at := to_iso now, em_error := None, em_send_lease_until := None\<rparr>)) (\<lambda>sent.
     case sent of None \<Rightarrow> returnS () | Some record \<Rightarrow> awaitW env (es_publish env Wh_sent record [])))"

text \<open>\<open>try\<close> around the transport only: what its handler throws is not caught again.\<close>

definition submit ::
  "host \<Rightarrow> ('x, ('x, 'z) email_env_ext) world_env_scheme \<Rightarrow> string \<Rightarrow> email_record \<Rightarrow> attempt_record option \<Rightarrow> ('x, unit) world_op" where
  "submit h env i sending attempt w =
     (case transport_send env sending w of
        (Inl e, w') \<Rightarrow> record_failure h env i sending attempt e w'
      | (Inr providerId, w') \<Rightarrow> record_success h env i attempt providerId w')"

definition suppress ::
  "host \<Rightarrow> ('x, ('x, 'z) email_env_ext) world_env_scheme \<Rightarrow> string \<Rightarrow> suppression_record list \<Rightarrow> ('x, unit) world_op" where
  "suppress h env i suppressedRecipients =
     bindS (nowW env) (\<lambda>now.
     bindS (apply_local_state h env i Local_suppressed Em_suppressed (to_iso now)) (\<lambda>suppressed.
     case suppressed of None \<Rightarrow> returnS ()
     | Some email \<Rightarrow> awaitW env (es_publish env Wh_suppressed email (suppressed_extra suppressedRecipients))))"

definition processSend ::
  "host \<Rightarrow> ('x, ('x, 'z) email_env_ext) world_env_scheme \<Rightarrow> string \<Rightarrow> int \<Rightarrow> ('x, unit) world_op" where
  "processSend h env i attempt =
     bindS (readW env (getEmail i)) (\<lambda>record.
     case record of None \<Rightarrow> returnS ()
     | Some record \<Rightarrow>
        if em_status record \<in> set final_statuses then returnS ()
        else bindS (nowW env) (\<lambda>now.
          if truthy (em_scheduled_at record)
             \<and> (case secondsUntil h (em_scheduled_at record) now of None \<Rightarrow> False | Some delay \<Rightarrow> delay > 0)
          then awaitW env (es_reschedule_delivery env i (the (em_scheduled_at record)) None)
          else bindS (awaitW env (es_find_suppressed env (all_recipients record))) (\<lambda>suppressedRecipients.
            if suppressedRecipients \<noteq> [] then suppress h env i suppressedRecipients
            else bindS (nowW env) (\<lambda>claimNow.
              bindS (storeW env (claimEmailForSend i attempt claimNow)) (\<lambda>sending.
              case sending of None \<Rightarrow> returnS ()
              | Some sending \<Rightarrow>
                 bindS (begin_attempt h env i sending) (\<lambda>deliveryAttempt.
                 submit h env i sending deliveryAttempt))))))"

section \<open>Provider events\<close>

record normalized_provider_event =
  ne_provider_event_id :: "string option"
  ne_provider_message_id :: "string option"
  ne_provider_at :: string
  ne_received_at :: "string option"
  ne_recipient_addresses :: "string list option"
  ne_provider_type :: "provider_event_type option"
  ne_terminal :: "bool option"
  ne_diagnostic_category :: "diagnostic_category option"

fun status_by_event :: "webhook_event_type \<Rightarrow> email_status option" where
  "status_by_event Wh_sent = Some Em_sent"
| "status_by_event Wh_delivered = Some Em_delivered"
| "status_by_event Wh_delivery_delayed = Some Em_delivery_delayed"
| "status_by_event Wh_opened = Some Em_opened"
| "status_by_event Wh_clicked = Some Em_clicked"
| "status_by_event Wh_bounced = Some Em_bounced"
| "status_by_event Wh_complained = Some Em_complained"
| "status_by_event Wh_failed = Some Em_failed"
| "status_by_event Wh_suppressed = Some Em_suppressed"
| "status_by_event Wh_scheduled = None"
| "status_by_event Wh_received = None"

fun provider_type_by_event :: "webhook_event_type \<Rightarrow> provider_event_type option" where
  "provider_type_by_event Wh_sent = Some Ev_accepted"
| "provider_type_by_event Wh_delivered = Some Ev_delivered"
| "provider_type_by_event Wh_delivery_delayed = Some Ev_delayed"
| "provider_type_by_event Wh_opened = Some Ev_opened"
| "provider_type_by_event Wh_clicked = Some Ev_clicked"
| "provider_type_by_event Wh_bounced = Some Ev_bounced"
| "provider_type_by_event Wh_complained = Some Ev_complained"
| "provider_type_by_event Wh_failed = Some Ev_failed"
| "provider_type_by_event Wh_suppressed = Some Ev_failed"
| "provider_type_by_event Wh_scheduled = None"
| "provider_type_by_event Wh_received = None"

text \<open>The one accepted attempt with the provider's message ID, and the recipients the event names.\<close>

definition correlated_attempt :: "string \<Rightarrow> delivery_ledger_snapshot \<Rightarrow> string \<Rightarrow> attempt_record result" where
  "correlated_attempt i ledger providerMessageId =
     (case filter (\<lambda>a. at_status a = At_accepted \<and> at_provider_message_id a = Some providerMessageId) (dl_attempts ledger) of
        [attempt] \<Rightarrow> Inr attempt
      | _ \<Rightarrow> Inl (InvalidStateError (''Provider event for '' @ i @ '' does not correlate to exactly one accepted attempt.'')))"

definition correlated_recipients ::
  "host \<Rightarrow> string \<Rightarrow> delivery_ledger_snapshot \<Rightarrow> attempt_record \<Rightarrow> string list option \<Rightarrow> string list result" where
  "correlated_recipients h i ledger attempt addresses =
     bindE (mapE (\<lambda>r. bindE (normalizeEnvelopeAddress h (rc_address r)) (\<lambda>a. Inr (a, r))) (dl_recipients ledger)) (\<lambda>pairs.
     bindE (mapE (normalizeEnvelopeAddress h) (coalesce addresses [])) (\<lambda>normalized.
     let recipientByAddress = map_from pairs; requested = unique_first normalized;
         correlated = map (map_get recipientByAddress) requested in
     if None \<in> set correlated
     then Inl (InvalidStateError (''Provider event for '' @ i @ '' contains an unknown recipient.''))
     else let ids = (if requested = [] \<and> length (dl_recipients ledger) = 1 then [rc_id (hd (dl_recipients ledger))]
                     else map (\<lambda>r. rc_id (the r)) correlated)
          in if \<exists>r \<in> set ids. r \<notin> set (at_recipient_ids attempt)
             then Inl (InvalidStateError (''Provider event for '' @ i @ '' targets a recipient outside its attempt.''))
             else Inr ids))"

text \<open>\<open>/^[\x21-\x3F\x41-\x7E]{1,512}$/\<close> is the format of an opaque ID.\<close>

definition provider_event_source :: "host \<Rightarrow> normalized_provider_event \<Rightarrow> string \<Rightarrow> event_source" where
  "provider_event_source h input digestInput =
     (case ne_provider_event_id input of
        Some v \<Rightarrow> if is_provider_opaque_id v then Provider_event_id v else Normalized_event_digest (sha256 h digestInput)
      | None \<Rightarrow> Normalized_event_digest (sha256 h digestInput))"

definition event_digest_input ::
  "host \<Rightarrow> string \<Rightarrow> string \<Rightarrow> string \<Rightarrow> string list \<Rightarrow> provider_event_type \<Rightarrow> bool \<Rightarrow> diagnostic_category option \<Rightarrow> string" where
  "event_digest_input h provider providerMessageId providerAt recipientIds providerType terminal category =
     coalesce (json_text h (JObj ([(''provider'', JStr provider), (''provider_message_id'', JStr providerMessageId),
       (''provider_at'', JStr providerAt), (''recipient_ids'', strings_value (js_sort code_unit_compare recipientIds)),
       (''type'', JStr (event_type_str providerType)), (''terminal'', JBool terminal)]
       @ opt_prop ''diagnostic_category'' (\<lambda>c. JStr (category_str c)) category))) []"

definition make_provider_event ::
  "host \<Rightarrow> string \<Rightarrow> delivery_ledger_snapshot \<Rightarrow> normalized_provider_event \<Rightarrow> string \<Rightarrow> attempt_record \<Rightarrow> string list
     \<Rightarrow> string \<Rightarrow> string \<Rightarrow> provider_event_type \<Rightarrow> event_record result" where
  "make_provider_event h i ledger input providerMessageId attempt recipientIds providerAt receivedAt providerType =
     (let provider = msg_provider (dl_message ledger); terminal = coalesce (ne_terminal input) False;
          source = provider_event_source h input (event_digest_input h (pr_name provider) providerMessageId providerAt
            recipientIds providerType terminal (ne_diagnostic_category input))
      in bindE (createProviderEventIdentity (pr_name provider) source) (\<lambda>identity.
         Inr \<lparr>ev_id = identity, ev_provider = provider, ev_source = source, ev_message_id = i,
              ev_attempt_id = Some (at_id attempt), ev_recipient_ids = recipientIds,
              ev_provider_message_id = Some providerMessageId, ev_type = providerType, ev_provider_at = providerAt,
              ev_received_at = receivedAt, ev_terminal = terminal,
              ev_diagnostic_category = ne_diagnostic_category input\<rparr>))"

text \<open>\<open>new Date(x ?? Date.now()).toISOString()\<close>\<close>

definition received_time :: "host \<Rightarrow> ('x, 'z) world_env_scheme \<Rightarrow> string option \<Rightarrow> ('x, string) world_op" where
  "received_time h env received = (case received of Some t \<Rightarrow> liftS (to_iso_of_string h t)
     | None \<Rightarrow> bindS (nowW env) (\<lambda>now. returnS (to_iso now)))"

definition event_extra :: "event_record \<Rightarrow> bool \<Rightarrow> (string \<times> js_value) list" where
  "event_extra event replayed =
     [(''provider_event_id'', JStr (ev_id event)), (''provider_message_id'', JStr (coalesce (ev_provider_message_id event) [])),
      (''provider_at'', JStr (ev_provider_at event)), (''terminal'', JBool (ev_terminal event)),
      (''recipient_ids'', strings_value (ev_recipient_ids event)), (''replayed'', JBool replayed)]"

definition apply_ledger_event ::
  "host \<Rightarrow> ('x, ('x, 'z) email_env_ext) world_env_scheme \<Rightarrow> string \<Rightarrow> webhook_event_type \<Rightarrow> normalized_provider_event
     \<Rightarrow> delivery_ledger_snapshot \<Rightarrow> ('x, unit) world_op" where
  "apply_ledger_event h env i type input ledger =
     (if \<not> truthy (ne_provider_message_id input)
      then throwS (InvalidStateError (''Provider event for '' @ i @ '' is missing its provider message ID.''))
      else let providerMessageId = the (ne_provider_message_id input) in
        bindS (liftS (correlated_attempt i ledger providerMessageId)) (\<lambda>attempt.
        bindS (liftS (correlated_recipients h i ledger attempt (ne_recipient_addresses input))) (\<lambda>recipientIds.
        bindS (liftS (to_iso_of_string h (ne_provider_at input))) (\<lambda>providerAt.
        bindS (received_time h env (ne_received_at input)) (\<lambda>receivedAt.
        case (if ne_provider_type input \<noteq> None then ne_provider_type input else provider_type_by_event type) of
          None \<Rightarrow> returnS ()
        | Some providerType \<Rightarrow>
           bindS (liftS (make_provider_event h i ledger input providerMessageId attempt recipientIds providerAt receivedAt
             providerType)) (\<lambda>event.
           bindS (storeW env (appendProviderEvent h (wo_hook env) event)) (\<lambda>result.
           case result of None \<Rightarrow> returnS ()
           | Some result \<Rightarrow>
              if type \<noteq> Wh_sent \<or> lmr_changed_recipient_ids result \<noteq> []
              then awaitW env (es_publish env type (dl_email result) (event_extra event (lmr_replayed result)))
              else returnS ())))))))"

definition applyProviderEvent ::
  "host \<Rightarrow> ('x, ('x, 'z) email_env_ext) world_env_scheme \<Rightarrow> string \<Rightarrow> webhook_event_type \<Rightarrow> normalized_provider_event
     \<Rightarrow> ('x, unit) world_op" where
  "applyProviderEvent h env i type input =
     (case status_by_event type of None \<Rightarrow> returnS ()
      | Some status \<Rightarrow>
         bindS (readW env (getDeliveryLedger h i)) (\<lambda>ledger.
         case ledger of
           Some ledger \<Rightarrow> apply_ledger_event h env i type input ledger
         | None \<Rightarrow>
             bindS (received_time h env (ne_received_at input)) (\<lambda>updatedAt.
             bindS (storeW env (updateEmail i (\<lambda>e. e\<lparr>em_status := status,
               em_last_event := drop (length ''email.'') (webhook_event_str type), em_updated_at := updatedAt\<rparr>) None)) (\<lambda>updated.
             case updated of None \<Rightarrow> returnS () | Some record \<Rightarrow> awaitW env (es_publish env type record [])))))"

end
