(* ===== verification/Store_Motion.thy ===== *)
theory Store_Motion
  imports Service_World
begin

text \<open>
  How the store may move while an operation of a service runs. The relation is a parameter
  of a locale: an operation moves the store by it when each of its steps does and others,
  who run wherever the operation awaits, do as well.
\<close>

definition moves :: "(mem \<Rightarrow> mem \<Rightarrow> bool) \<Rightarrow> ('x, 'a) world_op \<Rightarrow> bool" where
  "moves R m \<longleftrightarrow> (\<forall>w r w'. m w = (r, w') \<longrightarrow> R (fst w) (fst w'))"

definition others_move :: "(mem \<Rightarrow> mem \<Rightarrow> bool) \<Rightarrow> ('x, 'z) world_env_scheme \<Rightarrow> bool" where
  "others_move R env \<longleftrightarrow> (\<forall>w. R (fst w) (fst (wo_others env w)))"

lemma moves_D: "moves R m \<Longrightarrow> m w = (r, w') \<Longrightarrow> R (fst w) (fst w')"
  unfolding moves_def by blast

text \<open>An invariant of the store that an operation keeps, whether it returns or throws.\<close>

definition preserves :: "(mem \<Rightarrow> bool) \<Rightarrow> ('x, 'a) world_op \<Rightarrow> bool" where
  "preserves P m \<longleftrightarrow> (\<forall>w r w'. P (fst w) \<longrightarrow> m w = (r, w') \<longrightarrow> P (fst w'))"

lemma preserves_D: "preserves P m \<Longrightarrow> P (fst w) \<Longrightarrow> m w = (r, w') \<Longrightarrow> P (fst w')"
  unfolding preserves_def by blast

lemma preserves_pure [intro, simp]: "preserves P (returnS x)" "preserves P (throwS e)" "preserves P (liftS r)"
  by (auto simp: preserves_def returnS_def throwS_def liftS_def)

lemma preserves_draw [intro, simp]: "preserves P (nowW env)" "preserves P (uuidW env)"
  by (auto simp: preserves_def nowW_def uuidW_def split: prod.splits)

lemma preserves_bindS [intro]:
  assumes "preserves P m" "\<And>x. preserves P (f x)"
  shows "preserves P (bindS m f)"
  unfolding preserves_def
proof (intro allI impI)
  fix w r w' assume P: "P (fst w)" and run: "bindS m f w = (r, w')"
  obtain r1 w1 where m: "m w = (r1, w1)" by (rule prod.exhaust)
  have P1: "P (fst w1)" by (rule preserves_D[OF assms(1) P m])
  show "P (fst w')"
  proof (cases r1)
    case (Inl e)
    then show ?thesis using run m P1 by simp
  next
    case (Inr x)
    then have "f x w1 = (r, w')" using run m by simp
    then show ?thesis by (rule preserves_D[OF assms(2) P1])
  qed
qed

lemma preserves_createIdW [intro, simp]: "preserves P (createIdW env prefix)"
  unfolding createIdW_def by (rule preserves_bindS) auto

lemma preserves_mapS [intro]: "(\<And>x. preserves P (f x)) \<Longrightarrow> preserves P (mapS f xs)"
  by (induction xs) auto

definition others_preserve :: "(mem \<Rightarrow> bool) \<Rightarrow> ('x, 'z) world_env_scheme \<Rightarrow> bool" where
  "others_preserve P env \<longleftrightarrow> (\<forall>w. P (fst w) \<longrightarrow> P (fst (wo_others env w)))"

lemma others_preserve_D: "others_preserve P env \<Longrightarrow> P (fst w) \<Longrightarrow> P (fst (wo_others env w))"
  unfolding others_preserve_def by blast

lemma preserves_storeW:
  assumes "others_preserve P env" "\<And>s r t. P s \<Longrightarrow> m s = (r, t) \<Longrightarrow> P t"
  shows "preserves P (storeW env m)"
  unfolding preserves_def
proof (intro allI impI)
  fix w r w' assume P: "P (fst w)" and "storeW env m w = (r, w')"
  then obtain t where t: "m (fst w) = (r, t)" "w' = wo_others env (t, snd w)" by (rule_tac storeW_cases)
  show "P (fst w')" unfolding t(2) by (rule others_preserve_D[OF assms(1)]) (simp add: assms(2)[OF P t(1)])
qed

lemma preserves_readW:
  assumes "others_preserve P env"
  shows "preserves P (readW env f)"
  unfolding readW_def by (rule preserves_storeW[OF assms]) (auto simp: getS_def)

locale store_motion =
  fixes R :: "mem \<Rightarrow> mem \<Rightarrow> bool"
  assumes motion_refl: "R s s"
    and motion_trans: "R s t \<Longrightarrow> R t u \<Longrightarrow> R s u"
begin

lemma moves_pure [intro]: "moves R (returnS x)" "moves R (throwS e)" "moves R (liftS r)"
  by (auto simp: moves_def returnS_def throwS_def liftS_def motion_refl)

lemma moves_draw [intro]: "moves R (nowW env)" "moves R (uuidW env)"
  by (auto simp: moves_def nowW_def uuidW_def motion_refl split: prod.splits)

lemma moves_bindS [intro]:
  assumes "moves R m" "\<And>x. moves R (f x)"
  shows "moves R (bindS m f)"
  unfolding moves_def
proof (intro allI impI)
  fix w r w' assume run: "bindS m f w = (r, w')"
  obtain r1 w1 where m: "m w = (r1, w1)" by (rule prod.exhaust)
  show "R (fst w) (fst w')"
  proof (cases r1)
    case (Inl e)
    then show ?thesis using run m moves_D[OF assms(1) m] by simp
  next
    case (Inr x)
    then have "f x w1 = (r, w')" using run m by simp
    then show ?thesis using moves_D[OF assms(1) m] moves_D[OF assms(2)] motion_trans by blast
  qed
qed

lemma moves_awaitW:
  assumes "others_move R env" "moves R m"
  shows "moves R (awaitW env m)"
  unfolding moves_def
proof (intro allI impI)
  fix w r w' assume "awaitW env m w = (r, w')"
  then obtain v where "m w = (r, v)" "w' = wo_others env v" by (rule awaitW_cases)
  then show "R (fst w) (fst w')"
    using assms motion_trans moves_D[OF assms(2)] unfolding others_move_def by blast
qed

lemma moves_storeW:
  assumes "others_move R env" "\<And>s r t. m s = (r, t) \<Longrightarrow> R s t"
  shows "moves R (storeW env m)"
  unfolding storeW_def
  by (rule moves_awaitW[OF assms(1)]) (auto simp: moves_def on_store_def split: prod.splits intro: assms(2))

lemma moves_readW:
  assumes "others_move R env"
  shows "moves R (readW env f)"
  unfolding readW_def by (rule moves_storeW[OF assms]) (auto simp: getS_def motion_refl)

lemma moves_createIdW [intro]: "moves R (createIdW env prefix)"
  unfolding createIdW_def by (rule moves_bindS) auto

lemma moves_mapS [intro]: "(\<And>x. moves R (f x)) \<Longrightarrow> moves R (mapS f xs)"
  by (induction xs) auto

text \<open>What the motion keeps is an invariant of every operation that moves by it.\<close>

lemma moves_preserves: "moves R m \<Longrightarrow> preserves (R s) m"
  unfolding preserves_def by (metis moves_D motion_trans)

end

end
