(* ===== verification/Email_Submission.thy ===== *)
theory Email_Submission
  imports Email_Processing Store_Ledger_Properties Store_Motion
begin

text \<open>
  What the send job may hand to the transport. A job calls the transport only at one place;
  the theorems here say in which states of the store that place is reached, whatever the
  ports return and whatever others do wherever the job awaits, as long as they change the
  delivery maps by operations of the store only.
\<close>

section \<open>Motion of the store\<close>

context store_motion
begin

lemma moves_sendable:
  assumes "others_move R env" "\<And>a. moves R (es_read env a)"
  shows "moves R (sendable env sending)"
proof -
  have "moves R (sent_attachment env a)" for a
    unfolding sent_attachment_def by (rule moves_bindS[OF moves_awaitW[OF assms(1) assms(2)]]) auto
  then show ?thesis unfolding sendable_def by (cases "em_attachments sending") auto
qed

end

section \<open>Replacing the transport\<close>

text \<open>Nothing but the call of the transport depends on it.\<close>

lemma es_send_irrelevant [simp]:
  "awaitW (env\<lparr>es_send := f\<rparr>) = awaitW env"
  "nowW (env\<lparr>es_send := f\<rparr>) = nowW env"
  "uuidW (env\<lparr>es_send := f\<rparr>) = uuidW env"
  by (simp_all add: fun_eq_iff awaitW_def nowW_def uuidW_def)

lemma es_send_irrelevant_store [simp]:
  "storeW (env\<lparr>es_send := f\<rparr>) = storeW env"
  "readW (env\<lparr>es_send := f\<rparr>) = readW env"
  "createIdW (env\<lparr>es_send := f\<rparr>) = createIdW env"
  by (intro ext; simp add: storeW_def readW_def createIdW_def)+

lemma es_send_irrelevant_steps [simp]:
  "apply_local_state h (env\<lparr>es_send := f\<rparr>) = apply_local_state h env"
  "sent_attachment (env\<lparr>es_send := f\<rparr>) = sent_attachment env"
  "begin_attempt h (env\<lparr>es_send := f\<rparr>) = begin_attempt h env"
  "record_outcome h (env\<lparr>es_send := f\<rparr>) = record_outcome h env"
  by (intro ext; simp add: apply_local_state_def sent_attachment_def begin_attempt_def record_outcome_def
      cong: if_cong option.case_cong)+

lemma es_send_irrelevant_outcome [simp]:
  "sendable (env\<lparr>es_send := f\<rparr>) = sendable env"
  "suppress h (env\<lparr>es_send := f\<rparr>) = suppress h env"
  "record_failure h (env\<lparr>es_send := f\<rparr>) = record_failure h env"
  "record_success h (env\<lparr>es_send := f\<rparr>) = record_success h env"
  by (intro ext; simp add: sendable_def suppress_def record_failure_def record_success_def
      cong: if_cong option.case_cong)+

lemma bindS_cong_run:
  "(\<And>x v. m w = (Inr x, v) \<Longrightarrow> f x v = g x v) \<Longrightarrow> bindS m f w = bindS m g w"
  by (cases "m w"; cases "fst (m w)") (auto simp: bindS_def)

lemma submit_cong:
  assumes "\<And>email v. sendable env sending w = (Inr email, v) \<Longrightarrow> f email v = es_send env email v"
  shows "submit h (env\<lparr>es_send := f\<rparr>) i sending attempt w = submit h env i sending attempt w"
proof -
  have "transport_send (env\<lparr>es_send := f\<rparr>) sending w = transport_send env sending w"
    unfolding transport_send_def es_send_irrelevant_outcome es_send_irrelevant
    by (rule bindS_cong_run) (simp add: assms awaitW_def)
  then show ?thesis by (simp add: submit_def split: prod.split sum.split)
qed

text \<open>
  A job does the same with another transport when it does the same from the point at which
  the transport is called, which is reached after the attempt was begun.
\<close>

context store_motion
begin

lemma processSend_cong:
  assumes motion: "others_move R env" "\<And>as. moves R (es_find_suppressed env as)"
    and claim: "\<And>now s r t. claimEmailForSend i n now s = (r, t) \<Longrightarrow> R s t"
    and same: "\<And>sending att u v. R (fst w) (fst u) \<Longrightarrow> begin_attempt h env i sending u = (Inr att, v) \<Longrightarrow>
      submit h (env\<lparr>es_send := f\<rparr>) i sending att v = submit h env i sending att v"
  shows "processSend h (env\<lparr>es_send := f\<rparr>) i n w = processSend h env i n w"
proof -
  have later: "submit h (env\<lparr>es_send := f\<rparr>) i sending att v = submit h env i sending att v"
    if "R (fst w) (fst w1)" "nowW env w1 = (Inr now, w2)" "awaitW env (es_find_suppressed env as) w2 = (Inr sup, w3)"
      "nowW env w3 = (Inr now', w4)" "storeW env (claimEmailForSend i n now') w4 = (Inr e, w5)"
      "begin_attempt h env i sending w5 = (Inr att, v)"
    for w1 w2 w3 w4 w5 v now now' as sup e sending att
  proof (rule same[OF _ that(6)])
    have "moves R (storeW env (claimEmailForSend i n now'))" by (rule moves_storeW[OF motion(1)]) (rule claim)
    then have "R (fst w4) (fst w5)" using that(5) by (rule moves_D)
    moreover have "R (fst w1) (fst w2)" "R (fst w2) (fst w3)" "R (fst w3) (fst w4)"
      using that(2-4) moves_D[OF moves_draw(1)] moves_D[OF moves_awaitW[OF motion(1,2)]] by blast+
    ultimately have "R (fst w1) (fst w5)" using motion_trans by blast
    then show "R (fst w) (fst w5)" using that(1) motion_trans by blast
  qed
  have w1: "R (fst w) (fst (wo_others env w))" using motion(1) by (simp add: others_move_def del: split_paired_All)
  show ?thesis
    unfolding processSend_def es_send_irrelevant es_send_irrelevant_store es_send_irrelevant_outcome bindS_readW
    by (auto simp: later[OF w1] intro!: bindS_cong_run split: option.split cong: if_cong)
qed

end

section \<open>Settled messages\<close>

interpretation store_steps: store_motion "(store_step h)\<^sup>*\<^sup>*" for h
  by unfold_locales auto

lemma claim_steps: "claimEmailForSend i n now s = (r, t) \<Longrightarrow> (store_step h)\<^sup>*\<^sup>* s t"
  by (intro r_into_rtranclp step_quiet) (rule step_claim)

lemma begin_attempt_cases:
  assumes "begin_attempt h env i sending u = (Inr att, v)" "deliveryLedger h (fst u) i = Some L"
  obtains attempt_id x hook t y where "wo_uuid env (snd (wo_others env u)) = (attempt_id, y)"
    "att = Some (new_attempt i L (createId ''attempt'' attempt_id) (em_updated_at sending))"
    "beginDeliveryAttempt h hook (new_attempt i L (createId ''attempt'' attempt_id) (em_updated_at sending))
       (fst (wo_others env u)) = (Inr (Some x), t)"
    "v = wo_others env (t, y)"
proof -
  obtain attempt_id y where d: "wo_uuid env (snd (wo_others env u)) = (attempt_id, y)" by (rule prod.exhaust)
  let ?a = "new_attempt i L (createId ''attempt'' attempt_id) (em_updated_at sending)"
  obtain r t where b: "beginDeliveryAttempt h (wo_hook env) ?a (fst (wo_others env u)) = (r, t)" by (rule prod.exhaust)
  have s: "storeW env (beginDeliveryAttempt h (wo_hook env) ?a) (fst (wo_others env u), y) = (r, wo_others env (t, y))"
    using b by (simp add: storeW_def awaitW_def on_store_def)
  have "begin_attempt h env i sending u =
      bindS (storeW env (beginDeliveryAttempt h (wo_hook env) ?a)) (\<lambda>started.
        if started = None
        then throwS (InvalidStateError (''Delivery ledger '' @ i @ '' disappeared while starting an attempt.''))
        else returnS (Some ?a)) (fst (wo_others env u), y)"
    using assms(2) d
    by (simp add: begin_attempt_def bindS_readW getDeliveryLedger_def createIdW_def bindS_assoc bindS_def[of "uuidW env"]
        uuidW_def sx_simps Let_def)
  also have "\<dots> = (case r of Inl e \<Rightarrow> (Inl e, wo_others env (t, y))
      | Inr started \<Rightarrow> (if started = None
          then (Inl (InvalidStateError (''Delivery ledger '' @ i @ '' disappeared while starting an attempt.'')), wo_others env (t, y))
          else (Inr (Some ?a), wo_others env (t, y))))"
    by (simp add: bindS_def s sx_simps split: sum.split)
  finally obtain x where "r = Inr (Some x)" "att = Some ?a" "v = wo_others env (t, y)"
    using assms(1) by (auto split: sum.splits if_splits)
  then show thesis using that d b by blast
qed

lemma ledger_one_open:
  assumes "ledger_inv h (ledger_of L)" "a \<in> set (dl_attempts L)" "b \<in> set (dl_attempts L)"
    "at_status a \<noteq> At_retryable_failed" "at_status b \<noteq> At_retryable_failed"
  shows "a = b"
proof -
  have "list_all (\<lambda>a. at_status a = At_retryable_failed) (butlast (dl_attempts L))"
    using ledger_inv_protocol[OF assms(1)] by simp
  moreover have "dl_attempts L = butlast (dl_attempts L) @ [last (dl_attempts L)]" using assms(2) by (cases "dl_attempts L") auto
  then have "set (dl_attempts L) = insert (last (dl_attempts L)) (set (butlast (dl_attempts L)))"
    by (metis list.simps(15) rotate1.simps(2) set_rotate1)
  ultimately have "a = last (dl_attempts L)" "b = last (dl_attempts L)" using assms(2-5) by (auto simp: list_all_iff)
  then show ?thesis by simp
qed

lemma begin_attempt_settled:
  assumes inv: "store_inv h (fst u)" and L: "deliveryLedger h (fst u) i = Some L" "a \<in> set (dl_attempts L)"
    and settled: "at_status a \<in> {At_accepted, At_permanent_failed}"
    and others: "others_move ((store_step h)\<^sup>*\<^sup>*) env"
    and run: "begin_attempt h env i sending u = (Inr att, v)"
  shows False
proof -
  obtain attempt_id x hook t y where b: "beginDeliveryAttempt h hook
      (new_attempt i L (createId ''attempt'' attempt_id) (em_updated_at sending)) (fst (wo_others env u)) = (Inr (Some x), t)"
    by (rule begin_attempt_cases[OF run L(1)])
  let ?b = "new_attempt i L (createId ''attempt'' attempt_id) (em_updated_at sending)"
  have steps: "(store_step h)\<^sup>*\<^sup>* (fst u) (fst (wo_others env u))" using others unfolding others_move_def by blast
  then obtain M where M: "deliveryLedger h (fst (wo_others env u)) i = Some M" "a \<in> set (dl_attempts M)"
    using settled_attempt_stays[OF steps inv L] settled by auto
  have inv': "store_inv h (fst (wo_others env u))" by (rule store_steps_inv[OF steps inv])
  have "?b \<in> set (dl_attempts M)"
    using begin_when_settled[OF inv' M settled _ b] by (simp add: new_attempt_def)
  then have "a = ?b"
    using ledger_one_open[OF ledger_inv_of[OF inv' M(1)] M(2)] settled by (auto simp: new_attempt_def)
  then show False using settled by (simp add: new_attempt_def)
qed

section \<open>Attempts of a job\<close>

lemma reachable_steps: "(store_step h)\<^sup>*\<^sup>* s t \<Longrightarrow> store_reachable h s \<Longrightarrow> store_reachable h t"
  by (induction rule: rtranclp_induct) (auto intro: store_next)

text \<open>
  Others may do what the store offers, but leave alone the attempts under the identities a
  job draws: they do not start one, and do not complete one that is being submitted.
\<close>

definition owned_steps :: "host \<Rightarrow> string set \<Rightarrow> mem \<Rightarrow> mem \<Rightarrow> bool" where
  "owned_steps h owned s t \<longleftrightarrow> (store_step h)\<^sup>*\<^sup>* s t
     \<and> (\<forall>k \<in> owned. case map_get (m_attempts s) k of None \<Rightarrow> map_get (m_attempts t) k = None
          | Some a \<Rightarrow> at_status a = At_submitting \<longrightarrow> map_get (m_attempts t) k = Some a)"

interpretation owned: store_motion "owned_steps h owned" for h owned
proof
  show "owned_steps h owned s s" for s by (auto simp: owned_steps_def split: option.split)
  fix s t u assume s: "owned_steps h owned s t" and t: "owned_steps h owned t u"
  have "case map_get (m_attempts s) k of None \<Rightarrow> map_get (m_attempts u) k = None
      | Some a \<Rightarrow> at_status a = At_submitting \<longrightarrow> map_get (m_attempts u) k = Some a" if k: "k \<in> owned" for k
  proof (cases "map_get (m_attempts s) k")
    case None
    then have "map_get (m_attempts t) k = None" using s k by (fastforce simp: owned_steps_def)
    then show ?thesis using None t k by (fastforce simp: owned_steps_def)
  next
    case (Some a)
    then have "at_status a = At_submitting \<longrightarrow> map_get (m_attempts t) k = Some a"
      using s k by (fastforce simp: owned_steps_def)
    then show ?thesis using Some t k by (fastforce simp: owned_steps_def)
  qed
  then show "owned_steps h owned s u" using s t by (auto simp: owned_steps_def)
qed

text \<open>The ledger of a message when its transport may be called.\<close>

definition submission_recorded :: "host \<Rightarrow> string \<Rightarrow> mem \<Rightarrow> bool" where
  "submission_recorded h i s \<longleftrightarrow> (case getDeliveryLedger h i s of None \<Rightarrow> False
     | Some L \<Rightarrow> dl_attempts L \<noteq> [] \<and> at_status (last (dl_attempts L)) = At_submitting
         \<and> list_all (\<lambda>a. at_status a = At_retryable_failed) (butlast (dl_attempts L)))"

lemma submitting_recorded:
  assumes "store_inv h s" "deliveryLedger h s i \<noteq> None" "map_get (m_attempts s) (at_id a) = Some a"
    "at_message_id a = i" "at_status a = At_submitting"
  shows "submission_recorded h i s"
proof -
  obtain L where L: "deliveryLedger h s i = Some L" using assms(2) by blast
  have a: "a \<in> set (dl_attempts L)"
    using ledger_attempts_set[OF _ L] assms by (auto simp: store_inv_def)
  have inv: "ledger_inv h (ledger_of L)" by (rule ledger_inv_of[OF assms(1) L])
  have earlier: "list_all (\<lambda>a. at_status a = At_retryable_failed) (butlast (dl_attempts L))"
    using ledger_inv_protocol[OF inv] by simp
  have "a \<notin> set (butlast (dl_attempts L))" using earlier assms(5) by (auto simp: list_all_iff)
  then have "a = last (dl_attempts L)" using a by (metis append_butlast_last_id empty_iff empty_set rotate1.simps(2) set_ConsD set_rotate1)
  then show ?thesis using a earlier assms(5) L by (auto simp: submission_recorded_def getDeliveryLedger_def)
qed

lemma begin_replayed:
  assumes run: "beginDeliveryAttempt h hook a s = (Inr (Some x), t)" "lmr_replayed x"
    and M: "deliveryLedger h s (at_message_id a) = Some M"
  shows "a \<in> set (dl_attempts M)"
proof (cases "find (\<lambda>b. at_id b = at_id a \<or> at_sequence b = at_sequence a) (dl_attempts M)")
  case (Some b)
  then have "b \<in> set (dl_attempts M)" by (auto dest: find_SomeD)
  then show ?thesis
    using run M Some
    by (auto simp: beginDeliveryAttempt_def parse_attempt_def checkE_def sx_simps bindS_def split: if_splits)
next
  case None
  show ?thesis
  proof (cases "planAttemptStart h M a")
    case (Inl e)
    then show ?thesis
      using run M None by (auto simp: beginDeliveryAttempt_def parse_attempt_def checkE_def sx_simps bindS_def split: if_splits)
  next
    case (Inr p)
    obtain plan a' where p: "p = (plan, a')" by (rule prod.exhaust)
    obtain r u where c: "commitLedgerPlan hook plan (Some a) None s = (r, u)" by (rule prod.exhaust)
    have "\<exists>cs. deliveryLedgerResult h t (at_message_id a) False cs (Some a) None = Some x"
      using run(1) M None Inr p c
      by (cases r) (auto simp: beginDeliveryAttempt_def parse_attempt_def checkE_def sx_simps bindS_def split: if_splits)
    then show ?thesis using replayed_result run(2) by blast
  qed
qed

lemma begin_attempt_recorded:
  assumes reach: "store_reachable h (fst u)" and L: "deliveryLedger h (fst u) i = Some L"
    and ids: "\<And>x. createId ''attempt'' (fst (wo_uuid env x)) \<in> owned"
    and unused: "\<And>k. k \<in> owned \<Longrightarrow> map_get (m_attempts (fst u)) k = None"
    and others: "others_move (owned_steps h owned) env"
    and run: "begin_attempt h env i sending u = (Inr att, v)"
  obtains a where "store_reachable h (fst v)" "deliveryLedger h (fst v) i \<noteq> None" "at_id a \<in> owned"
    "map_get (m_attempts (fst v)) (at_id a) = Some a" "at_message_id a = i" "at_status a = At_submitting"
proof -
  obtain attempt_id x hook t y where b: "wo_uuid env (snd (wo_others env u)) = (attempt_id, y)"
    "beginDeliveryAttempt h hook (new_attempt i L (createId ''attempt'' attempt_id) (em_updated_at sending))
       (fst (wo_others env u)) = (Inr (Some x), t)" "v = wo_others env (t, y)"
    by (rule begin_attempt_cases[OF run L])
  let ?a = "new_attempt i L (createId ''attempt'' attempt_id) (em_updated_at sending)"
  let ?s = "fst (wo_others env u)"
  have a: "at_id ?a \<in> owned" "at_message_id ?a = i" "at_status ?a = At_submitting"
    using ids[of "snd (wo_others env u)"] b(1) by (simp_all add: new_attempt_def)
  have steps: "owned_steps h owned (fst u) ?s" "owned_steps h owned t (fst v)"
    using others b(3) unfolding others_move_def by (metis fst_conv)+
  have none: "map_get (m_attempts ?s) (at_id ?a) = None"
    using steps(1) a(1) unused[OF a(1)] unfolding owned_steps_def by fastforce
  have s: "store_reachable h ?s" "(store_step h)\<^sup>*\<^sup>* (fst u) ?s"
    using steps(1) reachable_steps[OF _ reach] by (simp_all add: owned_steps_def)
  have step: "store_step h ?s t"
    by (rule step_quiet, rule step_begin[OF _ b(2)]) (simp add: attempt_id_free_def none)
  have t: "store_reachable h t" by (rule store_next[OF s(1) step])
  obtain M where M: "deliveryLedger h ?s i = Some M" using ledger_stays[OF s(2) store_reachable_inv[OF reach] L] by blast
  have new: "map_get (m_attempts t) (at_id ?a) = Some ?a"
  proof -
    have "\<not> lmr_replayed x"
    proof
      assume "lmr_replayed x"
      then have "?a \<in> set (dl_attempts M)"
        using begin_replayed[OF b(2)] M a(2) by simp
      then show False using none ledger_attempts_set[OF _ M] store_reachable_inv[OF s(1)] by (auto simp: store_inv_def)
    qed
    then obtain plan :: delivery_ledger_plan where u: "unlogged t = unlogged (apply_plan plan (Some ?a) None ?s)"
      using begin_outcome[of h ?s ?a hook, unfolded b(2)] unfolding plan_outcome_def prod.case by blast
    show ?thesis using unlogged_eqD(5)[OF u] by (simp add: apply_plan_def put_all_def)
  qed
  have "map_get (m_attempts (fst v)) (at_id ?a) = Some ?a"
    using steps(2) a new unfolding owned_steps_def by fastforce
  moreover have "store_reachable h (fst v)" using steps(2) reachable_steps[OF _ t] by (simp add: owned_steps_def)
  moreover have "(store_step h)\<^sup>*\<^sup>* ?s (fst v)" using step steps(2) by (auto simp: owned_steps_def)
  then have "deliveryLedger h (fst v) i \<noteq> None" using ledger_stays[OF _ store_reachable_inv[OF s(1)] M] by auto
  ultimately show thesis using that a by blast
qed

section \<open>An environment\<close>

text \<open>Nothing happens beside the job, every port accepts what it is given, and nobody is suppressed.\<close>

definition demo_uuid :: string where
  "demo_uuid = replicate 32 CHR ''a''"

definition demo_email_env :: "unit email_env" where
  "demo_email_env = \<lparr>wo_others = id, wo_clock = (\<lambda>x. (1767225600000, x)), wo_uuid = (\<lambda>x. (demo_uuid, x)), wo_hook = silent,
     es_schedule = (\<lambda>_ _ _ _. returnS ()), es_reschedule = (\<lambda>_ _ _ _. returnS ()),
     es_reschedule_delivery = (\<lambda>_ _ _. returnS ()), es_cancel = (\<lambda>_. returnS ()), es_send = (\<lambda>_. returnS ''provider-1''),
     es_publish = (\<lambda>_ _ _. returnS ()), es_find_suppressed = (\<lambda>_. returnS []), es_resolve = (\<lambda>_ _ _. returnS None),
     es_read = (\<lambda>_. returnS []), es_resolve_template = None, es_provider = None, es_pre_commit_validator = None\<rparr>"

lemma demo_email_env_moves:
  assumes "store_motion R"
  shows "others_move R demo_email_env" "moves R (es_find_suppressed demo_email_env as)" "moves R (es_read demo_email_env a)"
  using store_motion.motion_refl[OF assms] store_motion.moves_pure(1)[OF assms]
  by (simp_all add: demo_email_env_def others_move_def del: split_paired_All)

section \<open>Properties\<close>

text \<open>
  C3. A message whose ledger holds an accepted or permanently failed attempt is never handed
  to the transport by a send job: the job does the same whatever the transport is. The ports
  may return anything and others may run wherever the job awaits, as long as the store
  changes by its own operations.
\<close>

theorem settled_message_never_transported:
  assumes "store_reachable h (fst w)" and "getDeliveryLedger h i (fst w) = Some L"
    and "a \<in> set (dl_attempts L)" and "at_status a \<in> {At_accepted, At_permanent_failed}"
    and "others_move ((store_step h)\<^sup>*\<^sup>*) env"
    and "\<And>addresses. moves ((store_step h)\<^sup>*\<^sup>*) (es_find_suppressed env addresses)"
  shows "processSend h (env\<lparr>es_send := transport\<rparr>) i n w = processSend h env i n w"
proof (rule store_steps.processSend_cong[OF assms(5,6) claim_steps])
  fix sending att u v
  assume steps: "(store_step h)\<^sup>*\<^sup>* (fst w) (fst u)" and run: "begin_attempt h env i sending u = (Inr att, v)"
  have inv: "store_inv h (fst w)" by (rule store_reachable_inv[OF assms(1)])
  obtain M where "deliveryLedger h (fst u) i = Some M" "a \<in> set (dl_attempts M)"
    using settled_attempt_stays[OF steps inv _ assms(3), of i] assms(2,4) by (auto simp: getDeliveryLedger_def)
  from begin_attempt_settled[OF store_steps_inv[OF steps inv] this assms(4,5) run]
  show "submit h (env\<lparr>es_send := transport\<rparr>) i sending att v = submit h env i sending att v" ..
qed

theorem settled_message_never_transported_witness:
  "\<exists>s L. store_reachable demo_host s \<and> getDeliveryLedger demo_host demo_id s = Some L \<and> dl_attempts L = [demo_accepted_attempt]
     \<and> (\<forall>transport. processSend demo_host (demo_email_env\<lparr>es_send := transport\<rparr>) demo_id 1 (s, ())
          = processSend demo_host demo_email_env demo_id 1 (s, ()))"
proof -
  obtain s L where s: "store_reachable demo_host s" "deliveryLedger demo_host s demo_id = Some L"
      "ledger_of L = ledger_of demo_accepted"
    by (rule demo_accepted_run)
  have as: "dl_attempts L = [demo_accepted_attempt]"
    using arg_cong[where f = dl_attempts, OF s(3)] by (simp add: demo_accepted_def)
  have "processSend demo_host (demo_email_env\<lparr>es_send := transport\<rparr>) demo_id 1 (s, ())
      = processSend demo_host demo_email_env demo_id 1 (s, ())" for transport
    by (rule settled_message_never_transported[of _ _ _ L demo_accepted_attempt])
      (use s as demo_email_env_moves[OF store_steps.store_motion_axioms] in
        \<open>simp_all add: getDeliveryLedger_def demo_accepted_attempt_def demo_attempt_def\<close>)
  then show ?thesis using s as by (auto simp: getDeliveryLedger_def)
qed

text \<open>
  C4. A send job for a message with a ledger calls the transport only while its attempt is
  on record: whatever a transport would do in a state where the last attempt in the ledger
  is not a submission under way, or an earlier attempt is not a retryable failure, makes no
  difference. The job's draws of attempt identities are its own: others neither start nor
  complete attempts under them.
\<close>

theorem transport_called_after_recording:
  assumes "store_reachable h (fst w)" and "getDeliveryLedger h i (fst w) = Some L"
    and "\<And>x. createId ''attempt'' (fst (wo_uuid env x)) \<in> owned"
    and "\<And>k. k \<in> owned \<Longrightarrow> map_get (m_attempts (fst w)) k = None"
    and "others_move (owned_steps h owned) env"
    and "\<And>addresses. moves (owned_steps h owned) (es_find_suppressed env addresses)"
    and "\<And>a. moves (owned_steps h owned) (es_read env a)"
  shows "processSend h (env\<lparr>es_send := \<lambda>email v. if submission_recorded h i (fst v) then es_send env email v
      else transport email v\<rparr>) i n w = processSend h env i n w"
proof (rule owned.processSend_cong[OF assms(5,6)])
  fix now s r t assume "claimEmailForSend i n now s = (r, t)"
  moreover from this have "m_attempts t = m_attempts s"
    by (auto simp: claimEmailForSend_def Let_def split: option.splits if_splits)
  ultimately show "owned_steps h owned s t" using claim_steps by (auto simp: owned_steps_def split: option.split)
next
  fix sending att u v
  assume steps: "owned_steps h owned (fst w) (fst u)" and run: "begin_attempt h env i sending u = (Inr att, v)"
  have u: "(store_step h)\<^sup>*\<^sup>* (fst w) (fst u)" "store_reachable h (fst u)"
    using steps reachable_steps[OF _ assms(1)] by (auto simp: owned_steps_def)
  obtain M where M: "deliveryLedger h (fst u) i = Some M"
    using ledger_stays[OF u(1) store_reachable_inv[OF assms(1)]] assms(2) by (auto simp: getDeliveryLedger_def)
  have unused: "map_get (m_attempts (fst u)) k = None" if "k \<in> owned" for k
    using steps that assms(4)[OF that] unfolding owned_steps_def by fastforce
  obtain a where a: "store_reachable h (fst v)" "deliveryLedger h (fst v) i \<noteq> None" "at_id a \<in> owned"
      "map_get (m_attempts (fst v)) (at_id a) = Some a" "at_message_id a = i" "at_status a = At_submitting"
    by (rule begin_attempt_recorded[OF u(2) M assms(3) unused assms(5) run])
  show "submit h (env\<lparr>es_send := \<lambda>email v. if submission_recorded h i (fst v) then es_send env email v
      else transport email v\<rparr>) i sending att v = submit h env i sending att v"
  proof (rule submit_cong)
    fix email x assume "sendable env sending v = (Inr email, x)"
    then have x: "owned_steps h owned (fst v) (fst x)"
      using moves_D[OF owned.moves_sendable[OF assms(5,7)]] by blast
    have "store_inv h (fst x)" "deliveryLedger h (fst x) i \<noteq> None"
      using x store_steps_inv ledger_stays store_reachable_inv[OF a(1)] a(2) unfolding owned_steps_def by blast+
    moreover have "map_get (m_attempts (fst x)) (at_id a) = Some a"
      using x a(3,4,6) unfolding owned_steps_def by fastforce
    ultimately show "(if submission_recorded h i (fst x) then es_send env email x else transport email x) = es_send env email x"
      using submitting_recorded[of h "fst x" i a] a(5,6) by simp
  qed
qed

theorem transport_called_after_recording_witness:
  "store_reachable demo_host demo_store \<and> \<not> submission_recorded demo_host demo_id demo_store
   \<and> processSend demo_host (demo_email_env\<lparr>es_send := \<lambda>email v. if submission_recorded demo_host demo_id (fst v)
       then es_send demo_email_env email v else throwS TypeError v\<rparr>) demo_id 1 (demo_store, ())
     = processSend demo_host demo_email_env demo_id 1 (demo_store, ())"
proof -
  obtain L where L: "deliveryLedger demo_host demo_store demo_id = Some L" "ledger_of L = demo_ledger"
    by (rule demo_ledger_in_store)
  have "dl_attempts L = []" using arg_cong[where f = dl_attempts, OF L(2)] by simp
  then have "\<not> submission_recorded demo_host demo_id demo_store"
    using L(1) by (simp add: submission_recorded_def getDeliveryLedger_def)
  moreover have "processSend demo_host (demo_email_env\<lparr>es_send := \<lambda>email v. if submission_recorded demo_host demo_id (fst v)
       then es_send demo_email_env email v else throwS TypeError v\<rparr>) demo_id 1 (demo_store, ())
     = processSend demo_host demo_email_env demo_id 1 (demo_store, ())"
    by (rule transport_called_after_recording[of _ _ _ L _ "{createId ''attempt'' demo_uuid}"])
      (use L demo_store_reachable demo_email_env_moves[OF owned.store_motion_axioms] in
        \<open>simp_all add: getDeliveryLedger_def demo_email_env_def demo_store_maps\<close>)
  ultimately show ?thesis using demo_store_reachable by blast
qed

end
