(* ===== verification/Email_Creation.thy ===== *)
theory Email_Creation
  imports Email_Submission
begin

text \<open>
  What the creation of an email commits: the recipients of the request without duplicates,
  under the bounds of the request, or nothing. The last property states a defect.
\<close>

section \<open>Recipients without duplicates\<close>

lemma collect_recipients_Inr:
  assumes "collect_recipients h seen vs = Inr (kept, seen')"
  obtains as ks where "mapE (normalizeEnvelopeAddress h) vs = Inr as" "mapE (normalizeEnvelopeAddress h) kept = Inr ks"
    "seen' = seen @ ks" "set ks = set as - set seen" "distinct ks" "length kept \<le> length vs"
  using assms
proof (induction vs arbitrary: seen kept thesis)
  case Nil
  then show ?case by simp
next
  case (Cons v vs)
  obtain a where a: "normalizeEnvelopeAddress h v = Inr a" using Cons.prems(2) by (auto simp: bindE_Inr_iff)
  show ?case
  proof (cases "a \<in> set seen")
    case True
    then have "collect_recipients h seen vs = Inr (kept, seen')" using Cons.prems(2) a by simp
    then obtain as ks where "mapE (normalizeEnvelopeAddress h) vs = Inr as" "mapE (normalizeEnvelopeAddress h) kept = Inr ks"
        "seen' = seen @ ks" "set ks = set as - set seen" "distinct ks" "length kept \<le> length vs"
      by (rule Cons.IH[rotated])
    then show ?thesis using True a by (intro Cons.prems(1)[of "a # as" ks]) auto
  next
    case False
    then obtain kept' where k: "collect_recipients h (seen @ [a]) vs = Inr (kept', seen')" "kept = v # kept'"
      using Cons.prems(2) a by (auto simp: bindE_Inr_iff)
    from k(1) obtain as ks where "mapE (normalizeEnvelopeAddress h) vs = Inr as" "mapE (normalizeEnvelopeAddress h) kept' = Inr ks"
        "seen' = (seen @ [a]) @ ks" "set ks = set as - set (seen @ [a])" "distinct ks" "length kept' \<le> length vs"
      by (rule Cons.IH[rotated])
    then show ?thesis using False a k(2) by (intro Cons.prems(1)[of "a # as" "a # ks"]) auto
  qed
qed

lemma mapE_append: "mapE f (xs @ ys) = bindE (mapE f xs) (\<lambda>as. bindE (mapE f ys) (\<lambda>bs. Inr (as @ bs)))"
  by (induction xs) (auto simp: bindE_def split: sum.splits)

lemma mapE_append_Inr: "mapE f (xs @ ys) = Inr zs \<longleftrightarrow> (\<exists>as bs. mapE f xs = Inr as \<and> mapE f ys = Inr bs \<and> zs = as @ bs)"
  by (auto simp: mapE_append bindE_Inr_iff)

lemma mapE_map: "mapE f (map g xs) = mapE (f \<circ> g) xs"
  by (induction xs) auto

text \<open>The places of a role: its normalised addresses in order.\<close>

lemma role_places:
  "mapE (\<lambda>(role, ordinal, address). bindE (f address) (\<lambda>a. Inr (role, ordinal, a))) (map (Pair role) (List.enumerate n as)) = Inr ps
    \<longleftrightarrow> (\<exists>ks. mapE f as = Inr ks \<and> ps = map (Pair role) (List.enumerate n ks))"
  by (induction as arbitrary: n ps) (auto simp: bindE_Inr_iff)

definition place_address :: "envelope_role \<times> nat \<times> string \<Rightarrow> string" where
  "place_address place = snd (snd place)"

lemma place_addresses: "map place_address (map (Pair role) (List.enumerate n ks)) = ks"
  by (induction ks arbitrary: n) (simp_all add: place_address_def)

lemma recipient_inputs_Inr:
  "recipient_inputs h record = Inr places \<Longrightarrow>
     mapE (normalizeEnvelopeAddress h) (all_recipients record) = Inr (map place_address places)"
  unfolding recipient_inputs_def mapE_append_Inr role_places all_recipients_def
  by (elim exE conjE) (simp only: map_append place_addresses, blast)

section \<open>A creation that returns\<close>

lemma liftS_Inr: "liftS r s = (Inr x, t) \<longleftrightarrow> r = Inr x \<and> t = s"
  by (auto simp: liftS_def)

lemma awaitW_Inr: "awaitW env m w = (Inr x, w') \<longleftrightarrow> (\<exists>v. m w = (Inr x, v) \<and> w' = wo_others env v)"
  by (auto simp: awaitW_def split: prod.splits)

lemma prepared_record:
  assumes "prepareEmail h env request key now w = (Inr p, w')" "in_template request = None"
  obtains recipients scheduledAt attachments i status hash where
    "validateInput h request = Inr ()" "normalizeRecipients h (with_text h request) = Inr recipients"
    "pe_record p = new_email_record (normalized_content (with_text h request) recipients scheduledAt) attachments i status
       (to_iso now) hash"
proof -
  have "resolve_template env request w = (Inr request, w)" using assms(2) by (simp add: resolve_template_def returnS_def)
  then show thesis
    using assms(1) that
    by (auto simp: prepareEmail_def Let_def bindS_Inr_iff liftS_Inr returnS_def)
qed

lemma mapS_recipients:
  "mapS (\<lambda>place. bindS (createIdW env ''rcpt'') (\<lambda>i. returnS (new_recipient record i place))) places w = (Inr rs, w') \<Longrightarrow>
     map rc_address rs = map place_address places"
proof (induction places arbitrary: w rs)
  case (Cons p places)
  then show ?case
    by (cases p) (auto simp: bindS_Inr_iff returnS_def new_recipient_def place_address_def)
qed (simp add: returnS_def)

lemma committed_record:
  assumes "commitPreparedEmail h env p now w = (Inr res, w')"
  obtains places recipients outboxId s r t where "recipient_inputs h (pe_record p) = Inr places"
    "map rc_address recipients = map place_address places"
    "commitDelivery h (wo_hook env) (new_commit (es_provider env) p recipients outboxId) (now div 1000) s = (Inr r, t)"
    "cer_record res = dc_email r" "cer_replayed res = dcr_replayed r"
proof -
  from assms obtain places recipients outboxId w1 w2 r where c: "recipient_inputs h (pe_record p) = Inr places"
    "mapS (\<lambda>place. bindS (createIdW env ''rcpt'') (\<lambda>i. returnS (new_recipient (pe_record p) i place))) places w = (Inr recipients, w1)"
    "storeW env (commitDelivery h (wo_hook env) (new_commit (es_provider env) p recipients outboxId) (now div 1000)) w1 = (Inr r, w2)"
    "cer_record res = dc_email r" "cer_replayed res = dcr_replayed r"
    by (auto simp: commitPreparedEmail_def bindS_Inr_iff liftS_Inr thenS_def returnS_def)
  from c(3) obtain t where "commitDelivery h (wo_hook env) (new_commit (es_provider env) p recipients outboxId) (now div 1000) (fst w1) = (Inr r, t)"
    by (rule storeW_cases)
  then show thesis using that c(1,4,5) mapS_recipients[OF c(2)] by blast
qed

lemma create_Inr:
  "create h env input key now w = (Inr res, w') \<longleftrightarrow>
     (\<exists>p v. prepareEmail h env input key now w = (Inr p, v) \<and> commitPreparedEmail h env p now (wo_others env v) = (Inr res, w'))"
  by (auto simp: create_def bindS_Inr_iff awaitW_Inr simp del: split_paired_Ex)

lemma commit_validated:
  assumes "commitDelivery h hook c now s = (Inr r, t)"
  shows "validateDeliveryCommit h c now = Inr c" "\<not> dcr_replayed r \<Longrightarrow> dc_email r = dc_email c"
proof -
  show v: "validateDeliveryCommit h c now = Inr c"
    using assms validate_D(1) by (cases "validateDeliveryCommit h c now") (auto simp: commitDelivery_def liftS_def bindS_def)
  show "\<not> dcr_replayed r \<Longrightarrow> dc_email r = dc_email c"
    using assms by (cases rule: commitDelivery_cases) (auto simp: delivery_commit.extend_def)
qed

text \<open>The addresses of the stored record are those of the request, each once.\<close>

lemma normalized_addresses:
  assumes "normalizeRecipients h c = Inr r" "mapE (normalizeEnvelopeAddress h) (all_recipients (normalized_content c r scheduledAt)) = Inr as"
  obtains requested where "mapE (normalizeEnvelopeAddress h) (all_recipients c) = Inr requested" "set as = set requested"
    "length as \<le> length requested"
proof -
  let ?n = "normalizeEnvelopeAddress h"
  let ?cc = "coalesce (em_cc c) []" and ?bcc = "coalesce (em_bcc c) []"
  from assms(1) obtain to s1 cc s2 bcc s3 where k: "collect_recipients h [] (em_to c) = Inr (to, s1)"
      "collect_recipients h s1 ?cc = Inr (cc, s2)" "collect_recipients h s2 ?bcc = Inr (bcc, s3)"
      "r = \<lparr>nr_to = to, nr_cc = (if cc \<noteq> [] then Some cc else None), nr_bcc = (if bcc \<noteq> [] then Some bcc else None)\<rparr>"
    by (auto simp: normalizeRecipients_def bindE_Inr_iff)
  obtain A a where t: "mapE ?n (em_to c) = Inr A" "mapE ?n to = Inr a" "s1 = [] @ a" "set a = set A - set []" "length to \<le> length (em_to c)"
    by (rule collect_recipients_Inr[OF k(1)])
  obtain B b where u: "mapE ?n ?cc = Inr B" "mapE ?n cc = Inr b" "s2 = s1 @ b" "set b = set B - set s1" "length cc \<le> length ?cc"
    by (rule collect_recipients_Inr[OF k(2)])
  obtain C d where v: "mapE ?n ?bcc = Inr C" "mapE ?n bcc = Inr d" "s3 = s2 @ d" "set d = set C - set s2" "length bcc \<le> length ?bcc"
    by (rule collect_recipients_Inr[OF k(3)])
  have req: "mapE ?n (all_recipients c) = Inr (A @ B @ C)" using t(1) u(1) v(1) by (simp add: all_recipients_def mapE_append)
  let ?cc' = "if cc \<noteq> [] then cc else ?cc" and ?bcc' = "if bcc \<noteq> [] then bcc else ?bcc"
  have all: "all_recipients (normalized_content c r scheduledAt) = to @ ?cc' @ ?bcc'"
    by (simp add: all_recipients_def normalized_content_def k(4))
  have lens: "length A = length (em_to c)" "length B = length ?cc" "length C = length ?bcc"
    using mapE_length t(1) u(1) v(1) by blast+
  have eb: "cc = [] \<longleftrightarrow> b = []" and ed: "bcc = [] \<longleftrightarrow> d = []" using mapE_length[OF u(2)] mapE_length[OF v(2)] by auto
  have as: "as = a @ (if cc \<noteq> [] then b else B) @ (if bcc \<noteq> [] then d else C)"
    using assms(2) t(2) u(1,2) v(1,2) unfolding all by (auto simp: mapE_append split: if_splits)
  have "set as = set (A @ B @ C)"
    unfolding as using t(3,4) u(3,4) v(3,4) eb ed by (cases "cc = []"; cases "bcc = []") auto
  moreover have "length as \<le> length (A @ B @ C)"
    unfolding as using mapE_length[OF t(2)] mapE_length[OF u(2)] mapE_length[OF v(2)] lens t(5) u(5) v(5)
    by (cases "cc = []"; cases "bcc = []") auto
  ultimately show thesis using that req by blast
qed

lemma validated_recipients:
  assumes "validateInput h i = Inr ()"
  shows "1 \<le> length (all_recipients i)" "length (all_recipients i) \<le> 50"
  using assms by (auto simp: validateInput_def Let_def Suc_le_eq split: if_splits)

lemma with_text_recipients [simp]: "all_recipients (with_text h i) = all_recipients i" "em_cc (with_text h i) = em_cc i"
  by (simp_all add: with_text_def all_recipients_def split: option.split)

lemma new_record_recipients [simp]: "all_recipients (new_email_record n as i st ts hash) = all_recipients n"
  by (simp add: new_email_record_def all_recipients_def)

lemma new_commit_fields [simp]:
  "dc_email (new_commit provider p rs k) = pe_record p" "dc_recipients (new_commit provider p rs k) = rs"
  by (simp_all add: new_commit_def)

lemma unique_addresses:
  assumes "validateDeliveryCommit h c now = Inr c'"
  shows "distinct (map rc_address (dc_recipients c))"
proof -
  have "distinct (map (js_lower h) (map rc_address (dc_recipients c)))"
    using assms by (simp add: validate_Inr_iff unique_values_def comp_def)
  then show ?thesis by (simp only: distinct_map)
qed

lemma created_places:
  assumes run: "create h env input key now w = (Inr res, w')" and plain: "in_template input = None"
  obtains requested places stored scheduledAt attachments i status hash recipients where
    "mapE (normalizeEnvelopeAddress h) (all_recipients input) = Inr requested"
    "recipient_inputs h stored = Inr places" "distinct (map place_address places)"
    "set (map place_address places) = set requested" "length places \<le> length requested"
    "1 \<le> length (all_recipients input)" "length (all_recipients input) \<le> 50"
    "normalizeRecipients h (with_text h input) = Inr recipients"
    "stored = new_email_record (normalized_content (with_text h input) recipients scheduledAt) attachments i status
       (to_iso now) hash"
    "\<not> cer_replayed res \<Longrightarrow> cer_record res = stored"
proof -
  obtain p v where p: "prepareEmail h env input key now w = (Inr p, v)"
      "commitPreparedEmail h env p now (wo_others env v) = (Inr res, w')"
    using run by (auto simp: create_Inr)
  obtain r scheduledAt attachments i status hash where r: "validateInput h input = Inr ()"
      "normalizeRecipients h (with_text h input) = Inr r"
      "pe_record p = new_email_record (normalized_content (with_text h input) r scheduledAt) attachments i status (to_iso now) hash"
    by (rule prepared_record[OF p(1) plain])
  obtain places recipients outboxId s c t where c: "recipient_inputs h (pe_record p) = Inr places"
      "map rc_address recipients = map place_address places"
      "commitDelivery h (wo_hook env) (new_commit (es_provider env) p recipients outboxId) (now div 1000) s = (Inr c, t)"
      "cer_record res = dc_email c" "cer_replayed res = dcr_replayed c"
    by (rule committed_record[OF p(2)])
  have "distinct (map rc_address recipients)" using unique_addresses[OF commit_validated(1)[OF c(3)]] by simp
  then have d: "distinct (map place_address places)" by (simp only: c(2))
  have "mapE (normalizeEnvelopeAddress h) (all_recipients (normalized_content (with_text h input) r scheduledAt))
      = Inr (map place_address places)"
    using recipient_inputs_Inr[OF c(1)] by (simp only: r(3) new_record_recipients)
  then obtain requested where q: "mapE (normalizeEnvelopeAddress h) (all_recipients input) = Inr requested"
      "set (map place_address places) = set requested" "length places \<le> length requested"
    using normalized_addresses[OF r(2)] by (metis length_map with_text_recipients(1))
  show thesis
    by (rule that[OF q(1) c(1) d q(2,3) validated_recipients[OF r(1)] r(2,3)])
      (use commit_validated(2)[OF c(3)] c(4,5) in simp)
qed

section \<open>What is prepared can be committed\<close>

text \<open>The laws of the environment that the schemas of the records rely on.\<close>

definition host_ok :: "host \<Rightarrow> bool" where
  "host_ok h \<longleftrightarrow> (\<forall>t. valid_time t \<longrightarrow> h_datetime h (to_iso t)) \<and> (\<forall>s. is_sha256_hex (h_sha256 h s))
     \<and> (\<forall>s. js_lower h (js_lower h s) = js_lower h s)"

lemma int_dec_nat: "int_dec (int n) = nat_dec n"
  by (simp add: int_dec_def)

lemma role_str_no_colon: "CHR '':'' \<notin> set (role_str r)"
  by (cases r) simp_all

lemma role_str_inject: "role_str r = role_str r' \<longleftrightarrow> r = r'"
  by (cases r; cases r') simp_all

lemma position_inject:
  "role_str r @ '':'' @ nat_dec n = role_str r' @ '':'' @ nat_dec n' \<Longrightarrow> r = r' \<and> n = n'"
proof -
  assume eq: "role_str r @ '':'' @ nat_dec n = role_str r' @ '':'' @ nat_dec n'"
  have "takeWhile (\<lambda>c. c \<noteq> CHR '':'') (role_str q @ '':'' @ nat_dec k) = role_str q" for q k
    using role_str_no_colon[of q] by (subst takeWhile_append2) auto
  then have "role_str r = role_str r'" using eq by metis
  then show ?thesis using eq by (simp add: role_str_inject)
qed

lemma enumerate_pairs: "distinct (map (Pair r) (List.enumerate n xs))"
  by (simp add: distinct_map inj_on_def distinct_enumerate)

lemma recipient_inputs_places:
  assumes "recipient_inputs h e = Inr places"
  shows "distinct (map (\<lambda>(r, n, a). (r, n)) places)"
    "\<And>r n a. (r, n, a) \<in> set places \<Longrightarrow> n < length places \<and> (\<exists>v. normalizeEnvelopeAddress h v = Inr a)"
proof -
  from assms obtain as bs cs where p: "places = map (Pair Role_to) (List.enumerate 0 as) @ map (Pair Role_cc) (List.enumerate 0 bs)
      @ map (Pair Role_bcc) (List.enumerate 0 cs)"
    "mapE (normalizeEnvelopeAddress h) (em_to e) = Inr as" "mapE (normalizeEnvelopeAddress h) (coalesce (em_cc e) []) = Inr bs"
    "mapE (normalizeEnvelopeAddress h) (coalesce (em_bcc e) []) = Inr cs"
    unfolding recipient_inputs_def mapE_append_Inr role_places by blast
  have d: "distinct (map (\<lambda>(r, n, a). (r, n)) (map (Pair q) (List.enumerate k xs)))" for q k and xs :: "string list"
    by (simp add: comp_def case_prod_beta distinct_map inj_on_def in_set_enumerate_eq)
      (metis distinct_enumerate in_set_enumerate_eq prod.collapse)
  show "distinct (map (\<lambda>(r, n, a). (r, n)) places)"
    unfolding p(1) map_append distinct_append using d by auto
  have n: "\<exists>v. normalizeEnvelopeAddress h v = Inr a" if "mapE (normalizeEnvelopeAddress h) vs = Inr ks" "a \<in> set ks" for vs ks a
    using that by (auto simp: mapE_Inr_iff list_all2_conv_all_nth in_set_conv_nth)
  show "n < length places \<and> (\<exists>v. normalizeEnvelopeAddress h v = Inr a)" if "(r, n, a) \<in> set places" for r n a
    using that n[OF p(2)] n[OF p(3)] n[OF p(4)]
    by (auto simp: p(1) in_set_enumerate_eq intro: nth_mem)
qed

text \<open>The record that \<open>prepareEmail\<close> returns, with the schedule it was given.\<close>

definition well_prepared :: "host \<Rightarrow> int \<Rightarrow> prepared_email \<Rightarrow> bool" where
  "well_prepared h now p \<longleftrightarrow>
     em_created_at (pe_record p) = to_iso now \<and> em_updated_at (pe_record p) = to_iso now
   \<and> em_status (pe_record p) = initial_status (pe_suppressed p) (em_scheduled_at (pe_record p))
   \<and> is_sha256_hex (em_request_hash (pe_record p))
   \<and> (case em_scheduled_at (pe_record p) of None \<Rightarrow> True | Some t \<Rightarrow> \<exists>instant. valid_time instant \<and> t = to_iso instant)
   \<and> (case pe_idempotency p of None \<Rightarrow> True
        | Some c \<Rightarrow> ic_request_hash c = em_request_hash (pe_record p) \<and> ic_expires_at c = now div 1000 + 86400)"

lemma well_prepared_scheduled:
  "well_prepared h now p \<Longrightarrow> em_scheduled_at (pe_record p) \<noteq> None \<longleftrightarrow> truthy (em_scheduled_at (pe_record p))"
  by (auto simp: well_prepared_def to_iso_nonempty split: option.splits)

lemma well_prepared_status:
  assumes "well_prepared h now p"
  obtains (suppressed) "em_status (pe_record p) = Em_suppressed"
  | (scheduled) t where "em_status (pe_record p) = Em_scheduled" "em_scheduled_at (pe_record p) = Some (to_iso t)" "valid_time t"
  | (queued) "em_status (pe_record p) = Em_queued" "em_scheduled_at (pe_record p) = None"
  using assms well_prepared_scheduled[OF assms]
  by (auto simp: well_prepared_def initial_status_def split: option.splits if_splits)

lemma updated_at_same [simp]: "updated_at_ok h t t"
  by (simp add: updated_at_ok_def date_less_def split: option.split)

lemma envelope_address_ok: "normalizeEnvelopeAddress h v = Inr a \<Longrightarrow> h_email h a \<and> js_length a \<le> 320"
  by (auto simp: normalizeEnvelopeAddress_def bindE_Inr_iff split: if_splits)

lemma envelope_address_lower: "host_ok h \<Longrightarrow> normalizeEnvelopeAddress h v = Inr a \<Longrightarrow> js_lower h a = a"
  by (auto simp: normalizeEnvelopeAddress_def normalizeMailbox_def host_ok_def Let_def bindE_Inr_iff split: if_splits)

lemma default_provider_ok: "provider_reference_ok default_provider"
  unfolding default_provider_def hayasend_version_def by code_simp

lemma outbox_identity_inputs:
  "createOutboxIdentity i Dispatch_message 0 = Inr k \<Longrightarrow> is_message_id i \<and> is_outbox_identity k"
  by (auto simp: createOutboxIdentity_def bindE_Inr_iff)

text \<open>The recipients drawn for the places: one well-formed identity each.\<close>

definition recipients_for :: "email_record \<Rightarrow> (envelope_role \<times> nat \<times> string) list \<Rightarrow> string list \<Rightarrow> recipient_record list" where
  "recipients_for e places ids = map2 (new_recipient e) ids places"

lemma recipients_for_fields:
  assumes "length ids = length places"
  shows "map rc_id (recipients_for e places ids) = ids"
    "map rc_address (recipients_for e places ids) = map place_address places"
    "map (\<lambda>r. (rc_role r, rc_ordinal r)) (recipients_for e places ids) = map (\<lambda>(r, n, a). (r, int n)) places"
  using assms unfolding recipients_for_def
  by (induction ids places rule: list_induct2) (auto simp: new_recipient_def place_address_def split: prod.splits)

lemma recipients_for_member:
  assumes "r \<in> set (recipients_for e places ids)"
  obtains i role n a where "r = new_recipient e i (role, n, a)" "i \<in> set ids" "(role, n, a) \<in> set places"
proof -
  from assms obtain i place where z: "(i, place) \<in> set (zip ids places)" "r = new_recipient e i place"
    by (auto simp: recipients_for_def)
  then show thesis
    using that[of i "fst place" "fst (snd place)" "snd (snd place)"] set_zip_leftD[OF z(1)] set_zip_rightD[OF z(1)] by simp
qed

lemma new_commit_valid:
  assumes host: "host_ok h" and now: "0 \<le> now" "valid_time now" and p: "well_prepared h now p"
    and provider: "opt_ok provider_reference_ok provider"
    and places: "recipient_inputs h (pe_record p) = Inr places" "places \<noteq> []" "length places \<le> 50"
      "distinct (map place_address places)"
    and ids: "length ids = length places" "distinct ids" "list_all is_recipient_id ids"
    and outbox: "createOutboxIdentity (em_id (pe_record p)) Dispatch_message 0 = Inr outboxId"
  shows "validateDeliveryCommit h (new_commit provider p (recipients_for (pe_record p) places ids) outboxId) (now div 1000)
    = Inr (new_commit provider p (recipients_for (pe_record p) places ids) outboxId)"
proof -
  let ?e = "pe_record p" and ?rs = "recipients_for (pe_record p) places ids"
  let ?m = "new_message provider ?e ?rs" and ?o = "new_outbox_item ?e outboxId"
  note fs = recipients_for_fields[OF ids(1), of ?e]
  have e: "em_created_at ?e = to_iso now" "em_updated_at ?e = to_iso now" "is_sha256_hex (em_request_hash ?e)"
    using p by (simp_all add: well_prepared_def)
  have t: "h_datetime h (to_iso now)" using host now by (simp add: host_ok_def)
  have sched: "opt_ok (h_datetime h) (em_scheduled_at ?e)"
    using p host by (auto simp: well_prepared_def host_ok_def split: option.splits)
  have same: "(if truthy (em_scheduled_at ?e) then em_scheduled_at ?e else None) = em_scheduled_at ?e"
    using well_prepared_scheduled[OF p] by (cases "em_scheduled_at ?e") auto
  have len: "length ?rs = length places" by (metis fs(2) length_map)
  have ne: "?rs \<noteq> []" using len places(2) by auto
  have i: "is_message_id (em_id ?e)" "is_outbox_identity outboxId" using outbox_identity_inputs[OF outbox] by simp_all
  have prov: "provider_reference_ok (coalesce provider default_provider)"
    using provider default_provider_ok by (cases provider) simp_all
  have m: "message_ok h ?m"
    using i prov e t sched ids ne len places(2)
    by (simp add: message_ok_def new_message_def fs same unique_values_def Suc_le_eq)
  have r: "list_all (recipient_ok h) ?rs"
    unfolding list_all_iff
  proof
    fix r assume "r \<in> set ?rs"
    then obtain k role n a where r: "r = new_recipient ?e k (role, n, a)" "k \<in> set ids" "(role, n, a) \<in> set places"
      by (rule recipients_for_member)
    have na: "n < length places" "\<exists>v. normalizeEnvelopeAddress h v = Inr a"
      using recipient_inputs_places(2)[OF places(1) r(3)] by simp_all
    have "is_safe_int (int n)" using na(1) places(3) by (simp add: is_safe_int_def)
    moreover have "is_recipient_id k" using ids(3) r(2) by (simp add: list_all_iff)
    ultimately show "recipient_ok h r"
      using na(2) i(1) e t envelope_address_ok by (auto simp: recipient_ok_def new_recipient_def r(1))
  qed
  have o: "outbox_ok h ?o"
    using i e t sched outbox
    by (cases "em_scheduled_at ?e") (simp_all add: outbox_ok_def new_outbox_item_def is_safe_int_def)
  have matches: "commit_records_match ?e ?m" "em_status ?e \<in> {Em_queued, Em_scheduled, Em_suppressed}"
    using e by (cases rule: well_prepared_status[OF p]; simp add: commit_records_match_def new_message_def same to_iso_nonempty)+
  have c: "opt_ok (\<lambda>c. ic_request_hash c = em_request_hash ?e \<and> now div 1000 < ic_expires_at c) (pe_idempotency p)"
    using p by (auto simp: well_prepared_def split: option.splits)
  have rm: "commit_recipients_match ?e ?m ?rs"
  proof -
    have "list_all (\<lambda>r. rc_message_id r = em_id ?e \<and> rc_status r = (if em_status ?e = Em_suppressed then Rc_suppressed else Rc_queued)
        \<and> rc_latest_attempt_id r = None \<and> rc_created_at r = em_created_at ?e \<and> rc_updated_at r = em_created_at ?e) ?rs"
      by (auto simp: list_all_iff new_recipient_def elim!: recipients_for_member)
    then show ?thesis
      using ne ids(1,2) len by (simp add: commit_recipients_match_def new_message_def fs unique_values_def list_all_iff Let_def)
  qed
  have "js_lower h a = a" if "a \<in> set (map place_address places)" for a
    using that recipient_inputs_places(2)[OF places(1)] envelope_address_lower[OF host] by (force simp: place_address_def)
  then have addresses: "unique_values (map (\<lambda>r. js_lower h (rc_address r)) ?rs)"
    using places(4) fs(2) by (metis (no_types, lifting) list.map_comp comp_def map_idI unique_values_def map_eq_conv in_set_conv_nth list.set_map image_eqI)
  have "map recipient_position ?rs = map (\<lambda>(r, n). role_str r @ '':'' @ nat_dec n) (map (\<lambda>(r, n, a). (r, n)) places)"
    using arg_cong[where f = "map (\<lambda>(r, k). role_str r @ '':'' @ int_dec k)", OF fs(3)]
    by (simp add: comp_def recipient_position_def[abs_def] case_prod_beta int_dec_nat)
  moreover have "inj (\<lambda>(r, n). role_str r @ '':'' @ nat_dec n)"
    by (auto simp: inj_on_def dest: position_inject[simplified])
  ultimately have positions: "unique_values (map recipient_position ?rs)"
    using recipient_inputs_places(1)[OF places(1)]
    by (simp only: unique_values_def distinct_map inj_on_subset[OF _ subset_UNIV])
  have om: "commit_outbox_matches ?e ?m ?o"
    using e by (simp add: commit_outbox_matches_def new_outbox_item_def new_message_def)
  have "0 \<le> now div 1000" using now(1) by simp
  then show ?thesis
    unfolding validate_Inr_iff using m r o matches c rm addresses positions om by (simp add: new_commit_def)
qed

lemma parsed_schedule:
  assumes "parseScheduledAt h value now = Inr t"
  shows "case t of None \<Rightarrow> value = None | Some s \<Rightarrow> \<exists>instant. valid_time instant \<and> s = to_iso instant"
  using assms by (auto simp: parseScheduledAt_def make_date_def Option.bind_eq_Some_conv split: option.splits if_splits)

lemma normalized_fields [simp]:
  "em_scheduled_at (normalized_content c r t) = (if truthy t then t else em_scheduled_at c)"
  by (simp add: normalized_content_def)

lemma new_email_fields [simp]:
  "em_created_at (new_email_record n as i st ts hash) = ts" "em_updated_at (new_email_record n as i st ts hash) = ts"
  "em_status (new_email_record n as i st ts hash) = st" "em_request_hash (new_email_record n as i st ts hash) = hash"
  "em_scheduled_at (new_email_record n as i st ts hash) = em_scheduled_at n"
  by (simp_all add: new_email_record_def)

lemma request_hash_ok: "host_ok h \<Longrightarrow> requestHash h v = Inr hash \<Longrightarrow> is_sha256_hex hash"
  by (auto simp: requestHash_def sha256_def host_ok_def split: option.splits)

lemma prepared_well:
  assumes "prepareEmail h env request key now w = (Inr p, w')" "host_ok h"
  shows "well_prepared h now p"
proof -
  from assms(1) obtain c recipients t attachments hash i suppressed where p:
    "parseScheduledAt h (em_scheduled_at c) now = Inr t" "requestHash h (intent_value request c (normalized_content c recipients t) attachments) = Inr hash"
    "pe_record p = new_email_record (normalized_content c recipients t) attachments i (initial_status suppressed t) (to_iso now) hash"
    "pe_suppressed p = suppressed" "pe_idempotency p = new_claim h key hash now"
    by (auto simp: prepareEmail_def Let_def bindS_Inr_iff liftS_Inr returnS_def)
  have s: "em_scheduled_at (pe_record p) = t" "case t of None \<Rightarrow> True | Some s \<Rightarrow> \<exists>instant. valid_time instant \<and> s = to_iso instant"
    using parsed_schedule[OF p(1)] by (auto simp: p(3) to_iso_nonempty split: option.splits)
  show ?thesis
    unfolding well_prepared_def using s p(4,5) request_hash_ok[OF assms(2) p(2)]
    by (auto simp: p(3) new_claim_def split: option.splits)
qed

section \<open>A request\<close>

lemma demo_addresses:
  "normalizeEnvelopeAddress demo_host ''a@example.com'' = Inr ''a@example.com''"
  "normalizeEnvelopeAddress demo_host ''A@example.com'' = Inr ''a@example.com''"
proof -
  have "js_trim ''a@example.com'' = ''a@example.com''" "js_trim ''A@example.com'' = ''A@example.com''"
      "angle_address ''a@example.com'' = None" "angle_address ''A@example.com'' = None" "is_mailbox ''a@example.com''"
      "map ascii_lower ''a@example.com'' = ''a@example.com''" "map ascii_lower ''A@example.com'' = ''a@example.com''"
      "is_ascii ''a@example.com''" "is_ascii ''A@example.com''"
    by code_simp+
  then show "normalizeEnvelopeAddress demo_host ''a@example.com'' = Inr ''a@example.com''"
    "normalizeEnvelopeAddress demo_host ''A@example.com'' = Inr ''a@example.com''"
    using demo_address_ok by (simp_all add: normalizeEnvelopeAddress_def normalizeMailbox_def js_lower_ascii)
qed

definition demo_input :: "string list \<Rightarrow> string list option \<Rightarrow> send_email_input" where
  "demo_input to cc = \<lparr>em_to = to, em_html = None, em_text = Some ''hi'', em_cc = cc, em_bcc = None, em_reply_to = None,
     em_headers = None, em_tags = None, em_scheduled_at = None, in_from = Some ''s@example.com'', in_subject = Some ''hello'',
     in_template = None, in_attachments = None\<rparr>"

lemma demo_host_ok: "host_ok demo_host"
proof -
  have "h_datetime demo_host (to_iso t)" if "valid_time t" for t
    using that by (simp add: demo_host_def parse_iso_to_iso)
  moreover have "is_sha256_hex (h_sha256 demo_host s)" for s
    using pad_dec_digits by (auto simp: demo_host_def is_sha256_hex_def is_hex_lower_def list_all_iff)
  moreover have "js_lower demo_host (js_lower demo_host s) = js_lower demo_host s" for s
    using is_ascii_lower by (simp add: js_lower_def demo_host_def comp_def)
  ultimately show ?thesis by (simp add: host_ok_def)
qed

text \<open>Two spellings of one address.\<close>

definition demo_request :: send_email_input where
  "demo_request = demo_input [''A@example.com'', ''a@example.com''] None"

lemma demo_request_valid: "validateInput demo_host demo_request = Inr ()"
proof -
  have "serialized_bytes demo_host (input_js demo_request) \<le> max_serialized_email_bytes"
    by (simp add: serialized_bytes_def input_js_def request_props_def content_props_def opt_prop_def demo_request_def demo_input_def
        strings_value_def json_string_def json_char_def max_serialized_email_bytes_def)
  then show ?thesis
    by (simp add: validateInput_def demo_request_def demo_input_def all_recipients_def ensureSafeHeaderValue_def has_crlf_def)
qed

lemma demo_prepared:
  obtains p where "prepareEmail demo_host demo_email_env demo_request None demo_now (empty_store, ()) = (Inr p, (empty_store, ()))"
    "em_id (pe_record p) = createId ''email'' demo_uuid" "recipient_inputs demo_host (pe_record p) = Inr [(Role_to, 0, ''a@example.com'')]"
    "pe_idempotency p = None" "em_status (pe_record p) = Em_queued" "pe_scheduled_at p = None"
proof -
  have fields: "with_text demo_host demo_request = demo_request" "em_scheduled_at demo_request = None"
      "in_template demo_request = None" "em_to demo_request = [''A@example.com'', ''a@example.com'']"
      "em_cc demo_request = None" "em_bcc demo_request = None"
    by (simp_all add: demo_request_def demo_input_def with_text_def)
  have env: "awaitW demo_email_env m = m" for m :: "(unit, 'b) world_op"
    by (simp add: fun_eq_iff awaitW_def demo_email_env_def split: prod.split)
  have ports: "es_resolve demo_email_env as n t = returnS None" "es_find_suppressed demo_email_env xs = returnS []"
      "es_pre_commit_validator demo_email_env = None" "wo_uuid demo_email_env x = (demo_uuid, x)" for as n t xs x
    by (simp_all add: demo_email_env_def)
  have r: "normalizeRecipients demo_host demo_request = Inr \<lparr>nr_to = [''A@example.com''], nr_cc = None, nr_bcc = None\<rparr>"
    using demo_addresses by (simp add: normalizeRecipients_def fields)
  let ?n = "normalized_content demo_request \<lparr>nr_to = [''A@example.com''], nr_cc = None, nr_bcc = None\<rparr> None"
  obtain hash where hash: "requestHash demo_host (intent_value demo_request demo_request ?n None) = Inr hash"
    by (simp add: requestHash_def intent_value_def)
  let ?e = "new_email_record ?n None (createId ''email'' demo_uuid) Em_queued (to_iso demo_now) hash"
  have run: "prepareEmail demo_host demo_email_env demo_request None demo_now (empty_store, ())
      = (Inr \<lparr>pe_record = ?e, pe_idempotency = None, pe_scheduled_at = None, pe_suppressed = []\<rparr>, (empty_store, ()))"
    by (simp add: prepareEmail_def resolve_template_def fields demo_request_valid r hash env parseScheduledAt_def initial_status_def
        new_claim_def createIdW_def uuidW_def ports returnS_def liftS_def bindS_def Let_def)
  have places: "recipient_inputs demo_host ?e = Inr [(Role_to, 0, ''a@example.com'')]"
    using demo_addresses by (simp add: recipient_inputs_def new_email_record_def normalized_content_def fields)
  show thesis
    by (rule that[OF run]) (simp_all add: places, simp_all add: new_email_record_def)
qed

lemma demo_id_drawn: "is_message_id (createId ''email'' demo_uuid)" "is_recipient_id (createId ''rcpt'' demo_uuid)"
  unfolding demo_uuid_def by code_simp+

lemma demo_outbox_id:
  "createOutboxIdentity (createId ''email'' demo_uuid) Dispatch_message 0
     = Inr (''outbox:v1:'' @ createId ''email'' demo_uuid @ '':dispatch-message:0'')"
  unfolding demo_uuid_def by code_simp

section \<open>Properties\<close>

text \<open>
  C8. An email that was created from a request without a template has every recipient of
  the request exactly once: the normalised addresses of its places are distinct and are
  those of the request, at least one and at most fifty, whatever the ports return and
  whatever others do meanwhile.
\<close>

theorem created_envelope:
  assumes "create h env input key now w = (Inr res, w')" and "\<not> cer_replayed res" and "in_template input = None"
  shows "\<exists>requested places. mapE (normalizeEnvelopeAddress h) (all_recipients input) = Inr requested
    \<and> recipient_inputs h (cer_record res) = Inr places \<and> distinct (map place_address places)
    \<and> set (map place_address places) = set requested \<and> 1 \<le> length places \<and> length places \<le> 50"
proof -
  obtain requested places stored scheduledAt attachments i status hash recipients where c:
    "mapE (normalizeEnvelopeAddress h) (all_recipients input) = Inr requested"
    "recipient_inputs h stored = Inr places" "distinct (map place_address places)"
    "set (map place_address places) = set requested" "length places \<le> length requested"
    "1 \<le> length (all_recipients input)" "length (all_recipients input) \<le> 50"
    "normalizeRecipients h (with_text h input) = Inr recipients"
    "stored = new_email_record (normalized_content (with_text h input) recipients scheduledAt) attachments i status
       (to_iso now) hash"
    "\<not> cer_replayed res \<Longrightarrow> cer_record res = stored"
    by (rule created_places[OF assms(1,3)]) (rule that)
  have len: "length requested = length (all_recipients input)" by (rule mapE_length[OF c(1)])
  then have "requested \<noteq> []" using c(6) by auto
  then have "places \<noteq> []" using c(4) by auto
  then show ?thesis using c(1-5,7) c(10)[OF assms(2)] len by (auto simp: Suc_le_eq)
qed

lemma created_envelope_witness:
  "\<exists>res w' places. create demo_host demo_email_env demo_request None demo_now (empty_store, ()) = (Inr res, w')
     \<and> recipient_inputs demo_host (cer_record res) = Inr places \<and> map place_address places = [''a@example.com'']"
proof -
  obtain p where p: "prepareEmail demo_host demo_email_env demo_request None demo_now (empty_store, ()) = (Inr p, (empty_store, ()))"
      "em_id (pe_record p) = createId ''email'' demo_uuid" "recipient_inputs demo_host (pe_record p) = Inr [(Role_to, 0, ''a@example.com'')]"
      "pe_idempotency p = None" "em_status (pe_record p) = Em_queued" "pe_scheduled_at p = None"
    by (rule demo_prepared)
  let ?places = "[(Role_to, 0 :: nat, ''a@example.com'')]"
  let ?k = "''outbox:v1:'' @ createId ''email'' demo_uuid @ '':dispatch-message:0''"
  let ?c = "new_commit None p (recipients_for (pe_record p) ?places [createId ''rcpt'' demo_uuid]) ?k"
  have v: "validateDeliveryCommit demo_host ?c (demo_now div 1000) = Inr ?c"
    by (rule new_commit_valid[OF demo_host_ok _ _ prepared_well[OF p(1) demo_host_ok] _ p(3)])
      (use demo_time_valid[of 0] demo_id_drawn demo_outbox_id in \<open>simp_all add: p(2) demo_now_def\<close>)
  have fresh: "live_claim empty_store (dc_idempotency ?c) (demo_now div 1000) = None"
      "\<not> map_has (m_emails empty_store) (em_id (dc_email ?c))" "\<not> map_has (m_messages empty_store) (msg_id (dc_message ?c))"
      "\<not> map_has (m_outbox empty_store) (ob_id (dc_outbox ?c))" "distinct (map rc_id (dc_recipients ?c))"
      "\<forall>r \<in> set (dc_recipients ?c). \<not> map_has (m_recipients empty_store) (rc_id r)"
    by (simp_all add: live_claim_def map_has_def new_commit_def p(4) recipients_for_def, simp_all add: empty_store_def)
  obtain t where t: "commitDelivery demo_host silent ?c (demo_now div 1000) empty_store
      = (Inr (delivery_commit.extend ?c \<lparr>dcr_replayed = False\<rparr>), t)"
    by (rule commit_succeeds[OF v fresh]) (rule that)
  have env: "awaitW demo_email_env m = m" for m :: "(unit, 'b) world_op"
    by (simp add: fun_eq_iff awaitW_def demo_email_env_def split: prod.split)
  have ports: "es_schedule demo_email_env a b n k = returnS ()" "wo_hook demo_email_env = silent" "es_provider demo_email_env = None"
      "wo_uuid demo_email_env x = (demo_uuid, x)" for a b n k x
    by (simp_all add: demo_email_env_def)
  have "commitPreparedEmail demo_host demo_email_env p demo_now (empty_store, ())
      = (Inr \<lparr>cer_record = pe_record p, cer_replayed = False\<rparr>, (t, ()))"
    using t
    by (simp add: commitPreparedEmail_def p storeW_def env on_store_def createIdW_def uuidW_def ports demo_outbox_id
        recipients_for_def after_commit_def quietly_def returnS_def liftS_def thenS_def bindS_def catchS_def
        delivery_commit.extend_def)
  then have run: "create demo_host demo_email_env demo_request None demo_now (empty_store, ())
      = (Inr \<lparr>cer_record = pe_record p, cer_replayed = False\<rparr>, (t, ()))"
    by (simp add: create_def env bindS_def p(1))
  from created_envelope[OF run] p(3) run show ?thesis
    by (auto simp: demo_request_def demo_input_def place_address_def)
qed



text \<open>
  A copy list all of whose members are already among the primary recipients is not
  dropped by the normalisation but kept as it was, so the creation of such an email throws
  in the store's check, whatever the ports return, where a list with one more member is
  accepted without the duplicates.
\<close>

theorem duplicated_copies_refused:
  assumes "in_template input = None" and "em_cc input = Some cc" and "cc \<noteq> []"
    and "mapE (normalizeEnvelopeAddress h) (em_to input) = Inr tos" and "mapE (normalizeEnvelopeAddress h) cc = Inr ccs"
    and "set ccs \<subseteq> set tos"
  shows "isl (fst (create h env input key now w))"
proof (rule ccontr)
  assume "\<not> isl (fst (create h env input key now w))"
  then obtain res w' where run: "create h env input key now w = (Inr res, w')"
    by (cases "create h env input key now w"; cases "fst (create h env input key now w)") auto
  obtain requested places stored scheduledAt attachments i status hash recipients where c:
    "mapE (normalizeEnvelopeAddress h) (all_recipients input) = Inr requested"
    "recipient_inputs h stored = Inr places" "distinct (map place_address places)"
    "set (map place_address places) = set requested" "length places \<le> length requested"
    "1 \<le> length (all_recipients input)" "length (all_recipients input) \<le> 50"
    "normalizeRecipients h (with_text h input) = Inr recipients"
    "stored = new_email_record (normalized_content (with_text h input) recipients scheduledAt) attachments i status
       (to_iso now) hash"
    "\<not> cer_replayed res \<Longrightarrow> cer_record res = stored"
    by (rule created_places[OF run assms(1)]) (rule that)
  let ?n = "normalizeEnvelopeAddress h" and ?i = "with_text h input"
  have same: "em_to ?i = em_to input" by (simp add: with_text_def split: option.split)
  obtain to s1 kept s2 where k: "collect_recipients h [] (em_to input) = Inr (to, s1)"
      "collect_recipients h s1 cc = Inr (kept, s2)" "nr_to recipients = to" "nr_cc recipients = (if kept \<noteq> [] then Some kept else None)"
    using c(8) assms(2) by (auto simp: normalizeRecipients_def bindE_Inr_iff same)
  obtain A a where t: "mapE ?n (em_to input) = Inr A" "mapE ?n to = Inr a" "s1 = [] @ a" "set a = set A - set []"
    by (rule collect_recipients_Inr[OF k(1)])
  obtain B b where u: "mapE ?n cc = Inr B" "mapE ?n kept = Inr b" "set b = set B - set s1"
    by (rule collect_recipients_Inr[OF k(2)])
  have "set b = {}" using u(1,3) t(1,3,4) assms(4-6) by auto
  then have "b = []" by simp
  then have "kept = []" using mapE_length[OF u(2)] by simp
  then have rec: "em_to stored = to" "em_cc stored = Some cc"
    using k(3,4) assms(2) by (simp_all add: c(9) new_email_record_def normalized_content_def)
  have "mapE ?n (all_recipients stored) = Inr (map place_address places)" by (rule recipient_inputs_Inr[OF c(2)])
  then obtain zs where "a @ ccs @ zs = map place_address places"
    using rec t(2) assms(5) by (auto simp: all_recipients_def mapE_append bindE_Inr_iff)
  moreover have "ccs \<noteq> []" using mapE_length[OF assms(5)] assms(3) by auto
  moreover have "set ccs \<subseteq> set a" using t(1,4) assms(4,6) by simp
  ultimately have "\<not> distinct (map place_address places)" by (cases ccs) (auto dest!: sym[of _ "map place_address places"])
  then show False using c(3) by contradiction
qed

lemma duplicated_copies_refused_witness:
  "isl (fst (create demo_host demo_email_env (demo_input [''a@example.com''] (Some [''A@example.com''])) None demo_now (empty_store, ())))"
  by (rule duplicated_copies_refused[of _ "[''A@example.com'']" _ "[''a@example.com'']" "[''a@example.com'']"])
    (use demo_addresses in \<open>simp_all add: demo_input_def\<close>)

end
