(* ===== verification/Template_Render.thy ===== *)
theory Template_Render
  imports Email_Service
begin

text \<open>
  The texts of hosted templates (\<open>src/services/template-service.ts\<close>): the checks on a new
  version and its variables, and rendering. A placeholder \<open>{{{ KEY }}}\<close> is found the way the
  regular expression of the code finds it: three braces, white space, one to fifty letters,
  digits or underscores, white space, three braces, from left to right.
\<close>

section \<open>Placeholders\<close>

definition max_template_bytes :: nat where
  "max_template_bytes = 128 * 1024"

definition max_rendered_template_bytes :: nat where
  "max_rendered_template_bytes = 1024 * 1024"

definition is_key_char :: "char \<Rightarrow> bool" where
  "is_key_char c \<longleftrightarrow> is_alnum c \<or> c = CHR ''_''"

definition is_variable_key :: "string \<Rightarrow> bool" where
  "is_variable_key k \<longleftrightarrow> k \<noteq> [] \<and> length k \<le> 50 \<and> list_all is_key_char k"

definition skip_spaces :: "string \<Rightarrow> string" where
  "skip_spaces s = concat (dropWhile is_space (code_points s))"

definition open_braces :: string where
  "open_braces = ''{{{''"

definition close_braces :: string where
  "close_braces = ''}}}''"

text \<open>A match of the pattern at the start of a text: its key and the text after it.\<close>

definition read_placeholder :: "string \<Rightarrow> (string \<times> string) option" where
  "read_placeholder s =
     (if \<not> starts_with open_braces s then None
      else let r = skip_spaces (drop 3 s); key = takeWhile is_key_char r; t = skip_spaces (dropWhile is_key_char r)
        in if is_variable_key key \<and> starts_with close_braces t then Some (key, drop 3 t) else None)"

lemma length_skip_spaces: "length (skip_spaces s) \<le> length s"
proof -
  have "length (concat (dropWhile P xs)) \<le> length (concat xs)" for P and xs :: "string list"
    by (induction xs) auto
  from this[of is_space "code_points s"] show ?thesis by (simp add: skip_spaces_def)
qed

lemma length_dropWhile: "length (dropWhile P xs) \<le> length xs"
  by (induction xs) auto

lemma read_placeholder_length: "read_placeholder s = Some (k, r) \<Longrightarrow> length r < length s"
proof -
  assume read: "read_placeholder s = Some (k, r)"
  let ?r = "skip_spaces (drop 3 s)"
  have s: "s \<noteq> []"
    using read by (auto simp: read_placeholder_def starts_with_def open_braces_def)
  have "length r \<le> length (skip_spaces (dropWhile is_key_char ?r)) - 3"
    using read by (auto simp: read_placeholder_def Let_def split: if_splits)
  moreover have "length (skip_spaces (dropWhile is_key_char ?r)) \<le> length s - 3"
    using length_skip_spaces[of "dropWhile is_key_char ?r"] length_dropWhile[of is_key_char ?r]
      length_skip_spaces[of "drop 3 s"] by simp
  ultimately have "length r \<le> length s - 3 - 3" by linarith
  moreover have "0 < length s" using s by simp
  ultimately show ?thesis by linarith
qed

text \<open>A text as its characters outside placeholders (\<open>Inl\<close>) and the keys of its placeholders.\<close>

function pieces :: "string \<Rightarrow> (char + string) list" where
  "pieces [] = []"
| "pieces (c # s) =
     (case read_placeholder (c # s) of None \<Rightarrow> Inl c # pieces s | Some (k, r) \<Rightarrow> Inr k # pieces r)"
  by pat_completeness auto

termination
  by (relation "measure length") (auto dest: read_placeholder_length)

declare pieces.simps [simp del]

text \<open>\<open>value.replace(VARIABLE_PATTERN, f)\<close> and the keys that \<open>matchAll\<close> finds.\<close>

definition replace_placeholders :: "(string \<Rightarrow> string) \<Rightarrow> string \<Rightarrow> string" where
  "replace_placeholders f s = concat (map (\<lambda>p. case p of Inl c \<Rightarrow> [c] | Inr k \<Rightarrow> f k) (pieces s))"

definition placeholder_keys :: "string \<Rightarrow> string list" where
  "placeholder_keys s = List.map_filter (\<lambda>p. case p of Inl _ \<Rightarrow> None | Inr k \<Rightarrow> Some k) (pieces s)"

definition literal_text :: "string \<Rightarrow> string" where
  "literal_text s = List.map_filter (\<lambda>p. case p of Inl c \<Rightarrow> Some c | Inr _ \<Rightarrow> None) (pieces s)"

section \<open>Variables\<close>

record template_variable_input =
  tvi_key :: string
  tvi_type :: template_variable_type
  tvi_fallback_value :: "variable_value option"

definition reserved_variables :: "string list" where
  "reserved_variables = [''FIRST_NAME'', ''LAST_NAME'', ''EMAIL'', ''UNSUBSCRIBE_URL'', ''RESEND_UNSUBSCRIBE_URL'',
     ''contact'', ''this'']"

fun value_type :: "variable_value \<Rightarrow> template_variable_type" where
  "value_type (Str_value _) = Var_string"
| "value_type (Num_value _) = Var_number"

fun variable_type_str :: "template_variable_type \<Rightarrow> string" where
  "variable_type_str Var_string = ''string''"
| "variable_type_str Var_number = ''number''"

definition is_safe_integer :: "js_number \<Rightarrow> bool" where
  "is_safe_integer n \<longleftrightarrow> (case n of Num q \<Rightarrow> q = of_int \<lfloor>q\<rfloor> \<and> \<bar>\<lfloor>q\<rfloor>\<bar> \<le> 9007199254740991 | _ \<Rightarrow> False)"

text \<open>The bounds on a value, as a fallback and as a provided value.\<close>

definition check_value :: "string \<Rightarrow> variable_value \<Rightarrow> unit result" where
  "check_value key v = (case v of
     Str_value s \<Rightarrow> if 2000 < js_length s
       then Inl (ValidationError (''Template variable '' @ key @ '' must not exceed 2000 characters.'')) else Inr ()
   | Num_value n \<Rightarrow> if \<not> is_safe_integer n
       then Inl (ValidationError (''Template variable '' @ key @ '' must be a finite safe integer.'')) else Inr ())"

definition en_dash :: string where
  "en_dash = [CHR 0xE2, CHR 0x80, CHR 0x93]"

definition check_fallback :: "template_variable_input \<Rightarrow> unit result" where
  "check_fallback v = (case tvi_fallback_value v of None \<Rightarrow> Inr ()
     | Some fallback \<Rightarrow>
         if value_type fallback \<noteq> tvi_type v
         then Inl (ValidationError (''Template variable '' @ tvi_key v @ '' requires a '' @ variable_type_str (tvi_type v) @ '' fallback value.''))
         else check_value (tvi_key v) fallback)"

fun check_variables :: "string list \<Rightarrow> template_variable_input list \<Rightarrow> unit result" where
  "check_variables seen [] = Inr ()"
| "check_variables seen (v # vs) =
     (if \<not> is_variable_key (tvi_key v)
      then Inl (ValidationError (''Template variable keys must contain 1'' @ en_dash @ ''50 ASCII letters, numbers, or underscores.''))
      else if tvi_key v \<in> set seen
      then Inl (ValidationError (''Template variable '' @ tvi_key v @ '' is defined more than once.''))
      else if tvi_key v \<in> set reserved_variables
      then Inl (ValidationError (''Template variable '' @ tvi_key v @ '' is reserved.''))
      else bindE (check_fallback v) (\<lambda>_. check_variables (tvi_key v # seen) vs))"

definition validateVariables :: "template_variable_input list \<Rightarrow> unit result" where
  "validateVariables variables =
     (if 50 < length variables then Inl (ValidationError ''A template may define at most 50 variables.'')
      else check_variables [] variables)"

definition variable_record ::
  "('x, 'z) world_env_scheme \<Rightarrow> string \<Rightarrow> template_variable jsmap \<Rightarrow> template_variable_input \<Rightarrow> ('x, template_variable) world_op" where
  "variable_record env now previous input =
     (case map_get previous (tvi_key input) of
        Some old \<Rightarrow> returnS \<lparr>tv_id = tv_id old, tv_key = tvi_key input, tv_type = tvi_type input,
          tv_fallback_value = tvi_fallback_value input, tv_created_at = tv_created_at old, tv_updated_at = now\<rparr>
      | None \<Rightarrow> bindS (createIdW env ''tmplvar'') (\<lambda>i.
          returnS \<lparr>tv_id = i, tv_key = tvi_key input, tv_type = tvi_type input,
            tv_fallback_value = tvi_fallback_value input, tv_created_at = now, tv_updated_at = now\<rparr>))"

definition variableRecords ::
  "('x, 'z) world_env_scheme \<Rightarrow> template_variable_input list \<Rightarrow> string \<Rightarrow> template_variable list
     \<Rightarrow> ('x, template_variable list) world_op" where
  "variableRecords env inputs now previous =
     bindS (liftS (validateVariables inputs)) (\<lambda>_.
     mapS (variable_record env now (map_from (map (\<lambda>v. (tv_key v, v)) previous))) inputs)"

section \<open>Versions\<close>

definition template_variable_js :: "template_variable \<Rightarrow> js_value" where
  "template_variable_js v = JObj [(''id'', JStr (tv_id v)), (''key'', JStr (tv_key v)),
     (''type'', JStr (variable_type_str (tv_type v))),
     (''fallback_value'', (case tv_fallback_value v of None \<Rightarrow> JNull | Some x \<Rightarrow> variable_js x)),
     (''created_at'', JStr (tv_created_at v)), (''updated_at'', JStr (tv_updated_at v))]"

definition templateBytes :: "host \<Rightarrow> template_version \<Rightarrow> nat" where
  "templateBytes h v = serialized_bytes h (JObj (
     [(''name'', JStr (tver_name v)), (''html'', JStr (tver_html v))]
     @ opt_prop ''text'' JStr (tver_text v) @ opt_prop ''alias'' JStr (tver_alias v)
     @ opt_prop ''from'' JStr (tver_from v) @ opt_prop ''subject'' JStr (tver_subject v)
     @ opt_prop ''reply_to'' strings_value (tver_reply_to v)
     @ [(''variables'', JArr (map template_variable_js (tver_variables v)))]))"

definition is_alias_end :: "char \<Rightarrow> bool" where
  "is_alias_end c \<longleftrightarrow> is_lower c \<or> is_digit c"

definition is_template_alias :: "string \<Rightarrow> bool" where
  "is_template_alias s \<longleftrightarrow> \<not> starts_with ''tmpl_'' s \<and> s \<noteq> [] \<and> is_alias_end (hd s) \<and> is_alias_end (last s)
     \<and> list_all (\<lambda>c. is_alias_end c \<or> c = CHR ''_'' \<or> c = CHR ''-'') s"

definition referencedVariables :: "template_version \<Rightarrow> string list" where
  "referencedVariables v = unique_first (concat (map placeholder_keys
     ([tver_html v] @ case_option [] (\<lambda>x. [x]) (tver_text v) @ case_option [] (\<lambda>x. [x]) (tver_from v)
      @ case_option [] (\<lambda>x. [x]) (tver_subject v) @ coalesce (tver_reply_to v) [])))"

definition no_line_breaks :: "string \<times> string \<Rightarrow> unit result" where
  "no_line_breaks x = (case x of (label, field) \<Rightarrow>
     if has_crlf field then Inl (ValidationError (''Template '' @ label @ '' must not contain line breaks.'')) else Inr ())"

definition header_fields :: "template_version \<Rightarrow> (string \<times> string) list" where
  "header_fields v = case_option [] (\<lambda>x. [(''from'', x)]) (tver_from v)
     @ case_option [] (\<lambda>x. [(''subject'', x)]) (tver_subject v)
     @ map (Pair ''reply_to'') (coalesce (tver_reply_to v) [])"

definition validateVersion :: "host \<Rightarrow> template_version \<Rightarrow> unit result" where
  "validateVersion h v =
     (if js_trim (tver_name v) = [] \<or> 256 < js_length (tver_name v)
      then Inl (ValidationError ''Template name must contain between 1 and 256 characters.'')
      else if tver_html v = [] then Inl (ValidationError ''Template HTML is required.'')
      else if (case tver_alias v of None \<Rightarrow> False | Some a \<Rightarrow> 128 < js_length a \<or> \<not> is_template_alias a)
      then Inl (ValidationError ''Template alias is invalid.'')
      else bindE (eachE no_line_breaks (header_fields v)) (\<lambda>_.
        if max_template_bytes < templateBytes h v
        then Inl (ValidationError (''A template version must not exceed '' @ nat_dec max_template_bytes @ '' bytes.''))
        else eachE (\<lambda>key. if key \<notin> set (map tv_key (tver_variables v))
               then Inl (ValidationError (''Template variable '' @ key @ '' is used but not declared.'')) else Inr ())
             (referencedVariables v)))"

section \<open>Rendering\<close>

record render_template_input =
  rti_from :: "string option"
  rti_subject :: "string option"
  rti_reply_to :: "string list option"
  rti_variables :: "(string \<times> variable_value) list option"

record rendered_content =
  rr_from :: "string option"
  rr_subject :: "string option"
  rr_reply_to :: "string list option"
  rr_html :: string
  rr_text :: string

definition value_text :: "host \<Rightarrow> variable_value \<Rightarrow> string" where
  "value_text h v = (case v of Str_value s \<Rightarrow> s
     | Num_value (Num q) \<Rightarrow> number_text h q | Num_value NaN \<Rightarrow> ''NaN''
     | Num_value PosInf \<Rightarrow> ''Infinity'' | Num_value NegInf \<Rightarrow> ''-Infinity'')"

text \<open>\<open>String(variables.get(key) ?? "")\<close>.\<close>

definition replacement :: "host \<Rightarrow> variable_value jsmap \<Rightarrow> string \<Rightarrow> string" where
  "replacement h variables key = (case map_get variables key of None \<Rightarrow> [] | Some v \<Rightarrow> value_text h v)"

definition escape_html :: "string \<Rightarrow> string" where
  "escape_html s =
     replace_all_char (CHR 0x27) ''&#39;'' (replace_all_char (CHR 0x22) ''&quot;''
       (replace_all_char (CHR ''>'') ''&gt;'' (replace_all_char (CHR ''<'') ''&lt;''
         (replace_all_char (CHR ''&'') ''&amp;'' s))))"

definition renderValue :: "host \<Rightarrow> variable_value jsmap \<Rightarrow> bool \<Rightarrow> string \<Rightarrow> string" where
  "renderValue h variables escapeHtml value =
     replace_placeholders (\<lambda>key. if escapeHtml then escape_html (replacement h variables key) else replacement h variables key) value"

definition ensureSafeRenderedHeader :: "string \<Rightarrow> string \<Rightarrow> unit result" where
  "ensureSafeRenderedHeader label value =
     (if has_crlf value then Inl (ValidationError (''Rendered template '' @ label @ '' must not contain line breaks.''))
      else if 998 < utf8ByteLength value then Inl (ValidationError (''Rendered template '' @ label @ '' must not exceed 998 bytes.''))
      else Inr ())"

text \<open>
  \<open>provided[key]\<close>: an object literal inherits the properties of \<open>Object.prototype\<close>, all of
  them functions or an object, so reading one that is not provided gives a value whose type
  is neither \<open>string\<close> nor \<open>number\<close>.
\<close>

definition inherited_properties :: "string list" where
  "inherited_properties = [''constructor'', ''__defineGetter__'', ''__defineSetter__'', ''hasOwnProperty'',
     ''__lookupGetter__'', ''__lookupSetter__'', ''isPrototypeOf'', ''propertyIsEnumerable'', ''toString'',
     ''valueOf'', ''__proto__'', ''toLocaleString'']"

definition variable_value_for ::
  "(string \<times> variable_value) list \<Rightarrow> template_variable \<Rightarrow> (string \<times> variable_value) result" where
  "variable_value_for provided v =
     (let key = tv_key v;
          mistyped = ValidationError (''Template variable '' @ key @ '' must be a '' @ variable_type_str (tv_type v) @ ''.'')
      in if map_of provided key = None \<and> key \<in> set inherited_properties then Inl mistyped
         else case or_else (map_of provided key) (tv_fallback_value v) of
           None \<Rightarrow> Inl (ValidationError (''Template variable '' @ key @ '' requires a value.''))
         | Some x \<Rightarrow> if value_type x \<noteq> tv_type v then Inl mistyped
             else bindE (check_value key x) (\<lambda>_. Inr (key, x)))"

datatype render_operation = Render | Send

definition render_operation_str :: "render_operation \<Rightarrow> string" where
  "render_operation_str p = (case p of Render \<Rightarrow> ''render'' | Send \<Rightarrow> ''send'')"

definition declared_key :: "template_version \<Rightarrow> string \<Rightarrow> unit result" where
  "declared_key version key =
     (if key \<notin> set (map tv_key (tver_variables version))
      then Inl (ValidationError (''Template variable '' @ key @ '' is not declared.'')) else Inr ())"

definition render_values ::
  "template_version \<Rightarrow> render_template_input \<Rightarrow> render_operation \<Rightarrow> variable_value jsmap result" where
  "render_values version input operation =
     (let provided = coalesce (rti_variables input) []
      in if 50 < length provided
         then Inl (ValidationError (''A template '' @ render_operation_str operation @ '' may provide at most 50 variables.''))
         else bindE (eachE (declared_key version) (map fst (object_order provided))) (\<lambda>_.
           bindE (mapE (variable_value_for provided) (tver_variables version)) (\<lambda>values. Inr (map_from values))))"

definition content_too_long :: js_error where
  "content_too_long = ValidationError (''Rendered template content must not exceed '' @ nat_dec max_rendered_template_bytes @ '' bytes.'')"

text \<open>A header that is present and not empty is checked.\<close>

definition check_if_truthy :: "string \<Rightarrow> string option \<Rightarrow> unit result" where
  "check_if_truthy label value = (if truthy value then ensureSafeRenderedHeader label (the value) else Inr ())"

definition renderTemplateVersion ::
  "host \<Rightarrow> template_version \<Rightarrow> render_template_input \<Rightarrow> render_operation \<Rightarrow> rendered_content result" where
  "renderTemplateVersion h version input operation =
     bindE (render_values version input operation) (\<lambda>values.
     let from' = or_else (rti_from input) (map_option (renderValue h values False) (tver_from version));
         subject = or_else (rti_subject input) (map_option (renderValue h values False) (tver_subject version));
         replyTo = or_else (rti_reply_to input) (map_option (map (renderValue h values False)) (tver_reply_to version));
         html = renderValue h values True (tver_html version)
     in if max_rendered_template_bytes < utf8ByteLength html then Inl content_too_long
        else let text' = (case tver_text version of None \<Rightarrow> h_html_to_text h html max_rendered_template_bytes
                          | Some t \<Rightarrow> renderValue h values False t)
             in if max_rendered_template_bytes < utf8ByteLength html + utf8ByteLength text' then Inl content_too_long
                else bindE (check_if_truthy ''from'' from') (\<lambda>_.
                  bindE (check_if_truthy ''subject'' subject) (\<lambda>_.
                  bindE (eachE (ensureSafeRenderedHeader ''reply_to'') (coalesce replyTo [])) (\<lambda>_.
                  Inr \<lparr>rr_from = from', rr_subject = subject, rr_reply_to = replyTo, rr_html = html, rr_text = text'\<rparr>))))"

end
