(* ===== verification/Template_Service.thy ===== *)
theory Template_Service
  imports Template_Render
begin

text \<open>
  The operations of the template service (\<open>TemplateService\<close> in
  \<open>src/services/template-service.ts\<close>) on the in-memory store. A template is changed by
  reading it, building a new record with the next revision and handing it to the store with
  the revision that was read.
\<close>

section \<open>Public forms\<close>

datatype template_status = Tmpl_published | Tmpl_draft

record template_list_item =
  tli_id :: string
  tli_name :: string
  tli_status :: template_status
  tli_published_at :: "string option"
  tli_created_at :: string
  tli_updated_at :: string
  tli_alias :: "string option"

record public_template =
  ptm_id :: string
  ptm_current_version_id :: string
  ptm_alias :: "string option"
  ptm_name :: string
  ptm_created_at :: string
  ptm_updated_at :: string
  ptm_status :: template_status
  ptm_published_at :: "string option"
  ptm_from :: "string option"
  ptm_subject :: "string option"
  ptm_reply_to :: "string list option"
  ptm_html :: string
  ptm_text :: "string option"
  ptm_variables :: "template_variable list option"
  ptm_has_unpublished_versions :: bool

definition publicTemplate :: "template_record \<Rightarrow> public_template" where
  "publicTemplate record = (let current = tmpl_draft record in
     \<lparr>ptm_id = tmpl_id record, ptm_current_version_id = tver_id current, ptm_alias = tver_alias current,
      ptm_name = tver_name current, ptm_created_at = tmpl_created_at record, ptm_updated_at = tmpl_updated_at record,
      ptm_status = (if tmpl_published record \<noteq> None then Tmpl_published else Tmpl_draft),
      ptm_published_at = tmpl_published_at record, ptm_from = tver_from current, ptm_subject = tver_subject current,
      ptm_reply_to = tver_reply_to current, ptm_html = tver_html current, ptm_text = tver_text current,
      ptm_variables = (if tver_variables current \<noteq> [] then Some (tver_variables current) else None),
      ptm_has_unpublished_versions = map_option tver_id (tmpl_published record) \<noteq> Some (tver_id current)\<rparr>)"

definition listItem :: "template_record \<Rightarrow> template_list_item" where
  "listItem record = (let template = publicTemplate record in
     \<lparr>tli_id = ptm_id template, tli_name = ptm_name template, tli_status = ptm_status template,
      tli_published_at = ptm_published_at template, tli_created_at = ptm_created_at template,
      tli_updated_at = ptm_updated_at template, tli_alias = ptm_alias template\<rparr>)"

record template_version_list_item =
  tvl_id :: string
  tvl_template_id :: string
  tvl_published_at :: string
  tvl_expires_at :: string
  tvl_actor :: publication_actor
  tvl_source :: publication_source
  tvl_source_version_id :: "string option"

record public_template_version = template_version_list_item +
  ptv_name :: string
  ptv_alias :: "string option"
  ptv_from :: "string option"
  ptv_subject :: "string option"
  ptv_reply_to :: "string list option"
  ptv_html :: string
  ptv_text :: "string option"
  ptv_variables :: "template_variable list option"

definition versionListItem :: "template_publication \<Rightarrow> template_version_list_item" where
  "versionListItem p = \<lparr>tvl_id = tp_id p, tvl_template_id = tp_template_id p, tvl_published_at = tp_published_at p,
     tvl_expires_at = tp_expires_at p, tvl_actor = tp_actor p, tvl_source = tp_source p,
     tvl_source_version_id = tp_source_version_id p\<rparr>"

definition publicTemplateVersion :: "template_publication \<Rightarrow> public_template_version" where
  "publicTemplateVersion p = (let version = tp_version p in
     template_version_list_item.extend (versionListItem p)
       \<lparr>ptv_name = tver_name version, ptv_alias = tver_alias version, ptv_from = tver_from version,
        ptv_subject = tver_subject version, ptv_reply_to = tver_reply_to version, ptv_html = tver_html version,
        ptv_text = tver_text version,
        ptv_variables = (if tver_variables version \<noteq> [] then Some (tver_variables version) else None)\<rparr>)"

record rendered_template =
  rt_template_id :: string
  rt_version_id :: string
  rt_content :: rendered_content

section \<open>The service\<close>

record template_history =
  th_retention_days :: int
  th_limit :: int

definition bounded_integer :: "js_number \<Rightarrow> int \<Rightarrow> js_error \<Rightarrow> int result" where
  "bounded_integer n maximum e = (case js_integer n of None \<Rightarrow> Inl e
     | Some i \<Rightarrow> if i < 1 \<or> maximum < i then Inl e else Inr i)"

definition templateService :: "js_number option \<Rightarrow> js_number option \<Rightarrow> template_history result" where
  "templateService retentionDays limit =
     bindE (bounded_integer (coalesce retentionDays (Num 90)) 365
       (ValidationError ''Template history retention must be between 1 and 365 days.'')) (\<lambda>days.
     bindE (bounded_integer (coalesce limit (Num 50)) 50
       (ValidationError ''Template history limit must be between 1 and 50.'')) (\<lambda>n.
     Inr \<lparr>th_retention_days = days, th_limit = n\<rparr>))"

definition found :: "string \<Rightarrow> 'a option \<Rightarrow> 'a result" where
  "found resource x = (case x of None \<Rightarrow> Inl (NotFoundError resource) | Some r \<Rightarrow> Inr r)"

definition getRecord :: "('x, 'z) world_env_scheme \<Rightarrow> string \<Rightarrow> ('x, template_record) world_op" where
  "getRecord env identifier = bindS (readW env (getTemplate identifier)) (\<lambda>r. liftS (found ''Template'' r))"

definition getPublishedRecord :: "('x, 'z) world_env_scheme \<Rightarrow> string \<Rightarrow> ('x, template_record) world_op" where
  "getPublishedRecord env identifier =
     bindS (readW env (getPublishedTemplate identifier)) (\<lambda>r. liftS (found ''Template'' r))"

definition getPublicationRecord ::
  "host \<Rightarrow> ('x, 'z) world_env_scheme \<Rightarrow> template_record \<Rightarrow> string \<Rightarrow> int \<Rightarrow> ('x, template_publication) world_op" where
  "getPublicationRecord h env template versionId now =
     bindS (readW env (getTemplateVersion (tmpl_id template) versionId)) (\<lambda>publication.
     case publication of None \<Rightarrow> throwS (NotFoundError ''Template version'')
     | Some p \<Rightarrow>
         if tp_template_id p \<noteq> tmpl_id template \<or> tp_id p \<noteq> versionId \<or> tver_id (tp_version p) \<noteq> versionId
            \<or> \<not> date_less (Some now) (date_parse h (tp_expires_at p))
         then throwS (NotFoundError ''Template version'') else returnS p)"

record create_template_input =
  cti_name :: string
  cti_html :: string
  cti_text :: "string option"
  cti_alias :: "string option"
  cti_from :: "string option"
  cti_subject :: "string option"
  cti_reply_to :: "string list option"
  cti_variables :: "template_variable_input list option"

definition template_create ::
  "host \<Rightarrow> ('x, 'z) world_env_scheme \<Rightarrow> create_template_input \<Rightarrow> int \<Rightarrow> ('x, string) world_op" where
  "template_create h env input now =
     bindS (createIdW env ''tmplv'') (\<lambda>versionId.
     bindS (variableRecords env (coalesce (cti_variables input) []) (to_iso now) []) (\<lambda>variables.
     let version = \<lparr>tver_id = versionId, tver_name = cti_name input, tver_html = cti_html input,
           tver_text = cti_text input, tver_alias = cti_alias input, tver_from = cti_from input,
           tver_subject = cti_subject input, tver_reply_to = cti_reply_to input, tver_variables = variables,
           tver_created_at = to_iso now, tver_source_version_id = None\<rparr> in
     bindS (liftS (validateVersion h version)) (\<lambda>_.
     bindS (createIdW env ''tmpl'') (\<lambda>i.
     bindS (storeW env (createTemplate \<lparr>tmpl_id = i, tmpl_created_at = to_iso now, tmpl_updated_at = to_iso now,
       tmpl_revision = 1, tmpl_draft = version, tmpl_published = None, tmpl_published_at = None\<rparr>)) (\<lambda>_.
     returnS i)))))"

definition template_get :: "('x, 'z) world_env_scheme \<Rightarrow> string \<Rightarrow> ('x, public_template) world_op" where
  "template_get env identifier = bindS (getRecord env identifier) (\<lambda>r. returnS (publicTemplate r))"

definition map_page :: "('a \<Rightarrow> 'b) \<Rightarrow> 'a page \<Rightarrow> 'b page" where
  "map_page f p = \<lparr>pg_data = map f (pg_data p), pg_has_more = pg_has_more p, pg_next_cursor = pg_next_cursor p\<rparr>"

definition template_list ::
  "host \<Rightarrow> ('x, 'z) world_env_scheme \<Rightarrow> nat \<Rightarrow> string option \<Rightarrow> string option \<Rightarrow> ('x, template_list_item page) world_op" where
  "template_list h env limit after before =
     (let cursor = or_else after before in
      bindS (if truthy cursor then bindS (getRecord env (the cursor)) (\<lambda>r. returnS (Some (tmpl_id r))) else returnS None) (\<lambda>resolved.
      bindS (readW env (listTemplates h limit resolved (if truthy before then Page_before else Page_after))) (\<lambda>page.
      returnS (map_page listItem page))))"

definition listVersions ::
  "host \<Rightarrow> ('x, 'z) world_env_scheme \<Rightarrow> string \<Rightarrow> nat \<Rightarrow> string option \<Rightarrow> int
     \<Rightarrow> ('x, template_version_list_item page) world_op" where
  "listVersions h env identifier limit after now =
     bindS (getRecord env identifier) (\<lambda>template.
     bindS (if truthy after then bindS (getPublicationRecord h env template (the after) now) (\<lambda>p. returnS (Some p))
            else returnS None) (\<lambda>cursor.
     bindS (readW env (listTemplateVersions h (tmpl_id template) limit cursor (now div 1000))) (\<lambda>page.
     returnS (map_page versionListItem page))))"

definition getVersion ::
  "host \<Rightarrow> ('x, 'z) world_env_scheme \<Rightarrow> string \<Rightarrow> string \<Rightarrow> int \<Rightarrow> ('x, public_template_version) world_op" where
  "getVersion h env identifier versionId now =
     bindS (getRecord env identifier) (\<lambda>template.
     bindS (getPublicationRecord h env template versionId now) (\<lambda>p. returnS (publicTemplateVersion p)))"

definition renderVersion ::
  "host \<Rightarrow> ('x, 'z) world_env_scheme \<Rightarrow> string \<Rightarrow> string \<Rightarrow> render_template_input \<Rightarrow> int \<Rightarrow> ('x, rendered_template) world_op" where
  "renderVersion h env identifier versionId input now =
     bindS (getRecord env identifier) (\<lambda>template.
     bindS (getPublicationRecord h env template versionId now) (\<lambda>p.
     bindS (liftS (renderTemplateVersion h (tp_version p) input Render)) (\<lambda>rendered.
     returnS \<lparr>rt_template_id = tmpl_id template, rt_version_id = tp_id p, rt_content = rendered\<rparr>)))"

definition renderDraft ::
  "host \<Rightarrow> ('x, 'z) world_env_scheme \<Rightarrow> string \<Rightarrow> render_template_input \<Rightarrow> ('x, rendered_template) world_op" where
  "renderDraft h env identifier input =
     bindS (getRecord env identifier) (\<lambda>record.
     bindS (liftS (renderTemplateVersion h (tmpl_draft record) input Render)) (\<lambda>rendered.
     returnS \<lparr>rt_template_id = tmpl_id record, rt_version_id = tver_id (tmpl_draft record), rt_content = rendered\<rparr>))"

text \<open>The next record of a template that gets a new draft.\<close>

definition with_draft :: "template_record \<Rightarrow> template_version \<Rightarrow> int \<Rightarrow> template_record" where
  "with_draft current draft now =
     current\<lparr>tmpl_draft := draft, tmpl_updated_at := to_iso now, tmpl_revision := tmpl_revision current + 1\<rparr>"

definition replace_draft ::
  "('x, 'z) world_env_scheme \<Rightarrow> template_record \<Rightarrow> template_version \<Rightarrow> int \<Rightarrow> js_error \<Rightarrow> ('x, unit) world_op" where
  "replace_draft env current draft now conflict =
     bindS (storeW env (replaceTemplate (with_draft current draft now) (tver_alias (tmpl_draft current)) (tmpl_revision current)))
       (\<lambda>replaced. if \<not> replaced then throwS conflict else returnS ())"

record template_restore_result =
  trr_template_id :: string
  trr_source_version_id :: string
  trr_current_version_id :: string

definition restoreVersion ::
  "host \<Rightarrow> ('x, 'z) world_env_scheme \<Rightarrow> string \<Rightarrow> string \<Rightarrow> string \<Rightarrow> int \<Rightarrow> ('x, template_restore_result) world_op" where
  "restoreVersion h env identifier versionId expectedDraftVersionId now =
     bindS (getRecord env identifier) (\<lambda>current.
     if tver_id (tmpl_draft current) \<noteq> expectedDraftVersionId
     then throwS (PreconditionFailedError ''Template draft changed after restore was requested; inspect the current draft and retry.'')
     else bindS (getPublicationRecord h env current versionId now) (\<lambda>p.
       bindS (createIdW env ''tmplv'') (\<lambda>i.
       let draft = (tp_version p)\<lparr>tver_id := i, tver_created_at := to_iso now, tver_source_version_id := Some (tp_id p)\<rparr> in
       bindS (liftS (validateVersion h draft)) (\<lambda>_.
       bindS (replace_draft env current draft now (ConflictError ''Template changed concurrently; retry the restore.'')) (\<lambda>_.
       returnS \<lparr>trr_template_id = tmpl_id current, trr_source_version_id = tp_id p, trr_current_version_id = i\<rparr>)))))"

text \<open>A property of an update is absent (\<open>None\<close>), null (\<open>Some None\<close>) or a value.\<close>

record update_template_input =
  uti_name :: "string option"
  uti_html :: "string option"
  uti_text :: "string option option"
  uti_alias :: "string option option"
  uti_from :: "string option option"
  uti_subject :: "string option option"
  uti_reply_to :: "string list option option"
  uti_variables :: "template_variable_input list option"

definition updatedOptional :: "'a option option \<Rightarrow> 'a option \<Rightarrow> 'a option" where
  "updatedOptional input previous = (case input of None \<Rightarrow> previous | Some v \<Rightarrow> v)"

text \<open>The draft an update makes of the previous one.\<close>

definition edited_draft ::
  "update_template_input \<Rightarrow> template_version \<Rightarrow> string \<Rightarrow> template_variable list \<Rightarrow> int \<Rightarrow> template_version" where
  "edited_draft input previous i variables now =
     \<lparr>tver_id = i, tver_name = coalesce (uti_name input) (tver_name previous),
      tver_html = coalesce (uti_html input) (tver_html previous),
      tver_text = updatedOptional (uti_text input) (tver_text previous),
      tver_alias = updatedOptional (uti_alias input) (tver_alias previous),
      tver_from = updatedOptional (uti_from input) (tver_from previous),
      tver_subject = updatedOptional (uti_subject input) (tver_subject previous),
      tver_reply_to = updatedOptional (uti_reply_to input) (tver_reply_to previous),
      tver_variables = variables, tver_created_at = to_iso now, tver_source_version_id = None\<rparr>"

definition edited_variables ::
  "('x, 'z) world_env_scheme \<Rightarrow> update_template_input \<Rightarrow> template_version \<Rightarrow> int \<Rightarrow> ('x, template_variable list) world_op" where
  "edited_variables env input previous now = (case uti_variables input of None \<Rightarrow> returnS (tver_variables previous)
     | Some vs \<Rightarrow> variableRecords env vs (to_iso now) (tver_variables previous))"

definition template_update ::
  "host \<Rightarrow> ('x, 'z) world_env_scheme \<Rightarrow> string \<Rightarrow> update_template_input \<Rightarrow> int \<Rightarrow> ('x, string) world_op" where
  "template_update h env identifier input now =
     bindS (getRecord env identifier) (\<lambda>current.
     bindS (createIdW env ''tmplv'') (\<lambda>i.
     bindS (edited_variables env input (tmpl_draft current) now) (\<lambda>variables.
     let draft = edited_draft input (tmpl_draft current) i variables now in
     bindS (liftS (validateVersion h draft)) (\<lambda>_.
     bindS (replace_draft env current draft now (ConflictError ''Template changed concurrently; retry the update.'')) (\<lambda>_.
     returnS (tmpl_id current))))))"

record publication_context =
  pct_actor :: publication_actor
  pct_source :: publication_source

definition default_publication_context :: publication_context where
  "default_publication_context = \<lparr>pct_actor = \<lparr>pa_id = ''system'', pa_name = ''System''\<rparr>, pct_source = Source_api\<rparr>"

definition template_publish ::
  "host \<Rightarrow> ('x, 'z) world_env_scheme \<Rightarrow> template_history \<Rightarrow> string \<Rightarrow> int \<Rightarrow> string option \<Rightarrow> publication_context
     \<Rightarrow> ('x, string) world_op" where
  "template_publish h env history identifier now expectedDraftVersionId ctxt =
     bindS (getRecord env identifier) (\<lambda>current.
     let draft = tmpl_draft current in
     if expectedDraftVersionId \<noteq> None \<and> expectedDraftVersionId \<noteq> Some (tver_id draft)
     then throwS (PreconditionFailedError ''Template draft changed after it was reviewed; render and publish the current version.'')
     else if map_option tver_id (tmpl_published current) = Some (tver_id draft) then returnS (tmpl_id current)
     else bindS (liftS (date_to_iso (make_date (now + th_retention_days history * 86400000)))) (\<lambda>expires.
       bindS (storeW env (publishTemplate h
         (current\<lparr>tmpl_published := Some draft, tmpl_published_at := Some (to_iso now), tmpl_updated_at := to_iso now,
            tmpl_revision := tmpl_revision current + 1\<rparr>)
         \<lparr>tp_id = tver_id draft, tp_template_id = tmpl_id current, tp_version = draft, tp_published_at = to_iso now,
          tp_expires_at = expires, tp_actor = pct_actor ctxt, tp_source = pct_source ctxt,
          tp_source_version_id = (if truthy (tver_source_version_id draft) then tver_source_version_id draft else None)\<rparr>
         (published_alias current) (tmpl_revision current) (nat (th_limit history)))) (\<lambda>replaced.
       if \<not> replaced then throwS (ConflictError ''Template changed concurrently; retry the publish.'')
       else returnS (tmpl_id current))))"

definition duplicate :: "host \<Rightarrow> ('x, 'z) world_env_scheme \<Rightarrow> string \<Rightarrow> int \<Rightarrow> ('x, string) world_op" where
  "duplicate h env identifier now =
     bindS (getRecord env identifier) (\<lambda>source.
     let draft = tmpl_draft source in
     template_create h env \<lparr>cti_name = tver_name draft @ '' copy'', cti_html = tver_html draft, cti_text = tver_text draft,
       cti_alias = None, cti_from = tver_from draft, cti_subject = tver_subject draft, cti_reply_to = tver_reply_to draft,
       cti_variables = Some (map (\<lambda>v. \<lparr>tvi_key = tv_key v, tvi_type = tv_type v, tvi_fallback_value = tv_fallback_value v\<rparr>)
         (tver_variables draft))\<rparr> now)"

definition template_delete_op :: "('x, 'z) world_env_scheme \<Rightarrow> string \<Rightarrow> ('x, string) world_op" where
  "template_delete_op env identifier =
     bindS (getRecord env identifier) (\<lambda>current.
     bindS (storeW env (deleteTemplate current (tmpl_revision current))) (\<lambda>removed.
     if \<not> removed then throwS (ConflictError ''Template changed concurrently; retry the deletion.'')
     else returnS (tmpl_id current)))"

section \<open>Resolving a request\<close>

definition keep_truthy :: "string option \<Rightarrow> string option" where
  "keep_truthy x = (if truthy x then x else None)"

definition resolveForSend :: "host \<Rightarrow> ('x, 'z) world_env_scheme \<Rightarrow> send_email_input \<Rightarrow> ('x, send_email_input) world_op" where
  "resolveForSend h env input = (case in_template input of
     None \<Rightarrow>
       if \<not> truthy (in_from input) \<or> \<not> truthy (in_subject input)
       then throwS (ValidationError ''from and subject are required.'') else returnS input
   | Some template \<Rightarrow>
       bindS (getPublishedRecord env (tr_id template)) (\<lambda>record.
       case tmpl_published record of
         None \<Rightarrow> throwS (ValidationError (''Template '' @ tr_id template @ '' is not published.''))
       | Some version \<Rightarrow>
           bindS (liftS (renderTemplateVersion h version
             \<lparr>rti_from = keep_truthy (in_from input), rti_subject = keep_truthy (in_subject input),
              rti_reply_to = em_reply_to input, rti_variables = tr_variables template\<rparr> Send)) (\<lambda>rendered.
           if \<not> truthy (rr_from rendered)
           then throwS (ValidationError ''from is required because the template has no default sender.'')
           else if \<not> truthy (rr_subject rendered)
           then throwS (ValidationError ''subject is required because the template has no default subject.'')
           else returnS (input\<lparr>in_template := None, in_from := rr_from rendered, in_subject := rr_subject rendered,
                  em_html := Some (rr_html rendered), em_text := Some (rr_text rendered), em_reply_to := rr_reply_to rendered\<rparr>))))"

end
