(* ===== verification/Template_Calls.thy ===== *)
theory Template_Calls
  imports Template_Service Template_Properties Store_Motion
begin

text \<open>
  The calls of the template service as steps of the template store. Whatever others do
  while a call awaits, an edit is built from the very record it replaces (the revision that
  the store checks identifies it), so no edit is lost, and the alias indexes stay the
  inverse of the aliases of the stored templates.
\<close>

section \<open>How others may move the templates\<close>

text \<open>
  A template that is present keeps its record or has a later revision, and the ID of a
  template that is gone is not used again. \<open>I\<close> is the set of IDs this is known for.
\<close>

definition keeps_revisions :: "string set \<Rightarrow> mem \<Rightarrow> mem \<Rightarrow> bool" where
  "keeps_revisions I s t \<longleftrightarrow> (\<forall>i \<in> I. case map_get (m_templates t) i of None \<Rightarrow> True
     | Some r' \<Rightarrow> (\<exists>r. map_get (m_templates s) i = Some r \<and> (r' = r \<or> tmpl_revision r < tmpl_revision r')))"

definition template_motion :: "host \<Rightarrow> string set \<Rightarrow> mem \<Rightarrow> mem \<Rightarrow> bool" where
  "template_motion h I s t \<longleftrightarrow> (template_reachable h s \<longrightarrow> template_reachable h t) \<and> keeps_revisions I s t"

definition template_ids :: "mem \<Rightarrow> string set" where
  "template_ids s = set (map fst (m_templates s))"

lemma keeps_revisions_refl [simp]: "keeps_revisions I s s"
  by (auto simp: keeps_revisions_def split: option.split)

lemma keeps_revisions_D:
  "keeps_revisions I s t \<Longrightarrow> i \<in> I \<Longrightarrow> map_get (m_templates t) i = Some r'
     \<Longrightarrow> \<exists>r. map_get (m_templates s) i = Some r \<and> (r' = r \<or> tmpl_revision r < tmpl_revision r')"
  by (fastforce simp: keeps_revisions_def)

lemma keeps_revisions_trans:
  assumes "keeps_revisions I s t" "keeps_revisions I t u"
  shows "keeps_revisions I s u"
  unfolding keeps_revisions_def
proof (intro ballI)
  fix i assume i: "i \<in> I"
  show "case map_get (m_templates u) i of None \<Rightarrow> True
     | Some r' \<Rightarrow> (\<exists>r. map_get (m_templates s) i = Some r \<and> (r' = r \<or> tmpl_revision r < tmpl_revision r'))"
  proof (cases "map_get (m_templates u) i")
    case (Some r2)
    obtain r1 where r1: "map_get (m_templates t) i = Some r1" "r2 = r1 \<or> tmpl_revision r1 < tmpl_revision r2"
      using keeps_revisions_D[OF assms(2) i Some] by blast
    obtain r where "map_get (m_templates s) i = Some r" "r1 = r \<or> tmpl_revision r < tmpl_revision r1"
      using keeps_revisions_D[OF assms(1) i r1(1)] by blast
    then show ?thesis using Some r1(2) by auto
  qed simp
qed

interpretation template_store: store_motion "template_motion h I" for h I
  by unfold_locales (auto simp: template_motion_def intro: keeps_revisions_trans)

lemma template_ids_iff: "i \<in> template_ids s \<longleftrightarrow> (\<exists>r. map_get (m_templates s) i = Some r)"
  unfolding template_ids_def by (metis map_of_eq_None_iff not_None_eq set_map)

section \<open>Stored under their IDs\<close>

lemma template_step_keys:
  assumes "template_step h s t" "\<And>i r. map_get (m_templates s) i = Some r \<Longrightarrow> tmpl_id r = i"
    "map_get (m_templates t) i = Some r"
  shows "tmpl_id r = i"
  using assms(1)
proof cases
  case (template_create r' x)
  then show ?thesis using assms(2,3) by (auto simp: createTemplate_def Let_def split: if_splits)
next
  case (template_replace r' current previous revision x)
  then show ?thesis using assms(2,3) by (auto simp: replaceTemplate_def Let_def split: if_splits)
next
  case (template_publish r' current previous p revision limit x)
  then show ?thesis using assms(2,3) by (auto simp: publishTemplate_def Let_def split: if_splits)
next
  case (template_delete r' revision x)
  then show ?thesis using assms(2,3) by (auto simp: deleteTemplate_def split: if_splits option.splits)
qed

lemma template_keys:
  "template_reachable h s \<Longrightarrow> map_get (m_templates s) i = Some r \<Longrightarrow> tmpl_id r = i"
proof (induction arbitrary: i r rule: template_reachable.induct)
  case template_empty
  then show ?case by (simp add: empty_store_def)
next
  case (template_next s t)
  then show ?case using template_step_keys by blast
qed

lemma getTemplate_stored:
  assumes "template_reachable h s" "getTemplate identifier s = Some r"
  shows "map_get (m_templates s) (tmpl_id r) = Some r"
proof -
  obtain k where "map_get (m_templates s) k = Some r"
    using assms(2) by (auto simp: getTemplate_def get_if_truthy_def split: if_splits)
  then show ?thesis using template_keys[OF assms(1)] by auto
qed

section \<open>The store calls\<close>

lemma create_reachable:
  "template_reachable h s \<Longrightarrow> tmpl_published r = None \<Longrightarrow> createTemplate r s = (x, t) \<Longrightarrow> template_reachable h t"
  by (rule template_next[OF _ template_create])

lemma same_revision:
  assumes "keeps_revisions I s0 s" "i \<in> I" "map_get (m_templates s0) i = Some current"
    "map_get (m_templates s) i = Some r" "tmpl_revision r = tmpl_revision current"
  shows "r = current"
  using keeps_revisions_D[OF assms(1,2,4)] assms(3,5) by auto

text \<open>What the two calls that check a revision do.\<close>

lemma replaceTemplate_cases:
  assumes "replaceTemplate r previous revision s = (x, t)"
  obtains (same) "t = s" "x \<noteq> Inr True"
  | (replaced) c where "x = Inr True" "map_get (m_templates s) (tmpl_id r) = Some c" "tmpl_revision c = revision"
      "m_templates t = map_set (tmpl_id r) r (m_templates s)"
proof (cases "map_get (m_templates s) (tmpl_id r)")
  case None
  then show ?thesis using assms by (intro same) (auto simp: replaceTemplate_def)
next
  case (Some c)
  show ?thesis
  proof (cases "x = Inr True")
    case True
    then show ?thesis
      using assms Some by (intro replaced[OF True Some]) (auto simp: replaceTemplate_def Let_def split: if_splits)
  next
    case False
    then show ?thesis
      using assms Some by (intro same) (auto simp: replaceTemplate_def Let_def split: if_splits)
  qed
qed

lemma publishTemplate_cases:
  assumes "publishTemplate h r p previous revision limit s = (x, t)"
  obtains (same) "t = s"
  | (published) c where "map_get (m_templates s) (tmpl_id r) = Some c" "tmpl_revision c = revision"
      "m_templates t = map_set (tmpl_id r) r (m_templates s)"
proof (cases "map_get (m_templates s) (tmpl_id r)")
  case None
  then show ?thesis using assms by (intro same) (auto simp: publishTemplate_def)
next
  case (Some c)
  show ?thesis
  proof (cases "x = Inr True")
    case True
    then show ?thesis
      using assms Some by (intro published[OF Some]) (auto simp: publishTemplate_def Let_def split: if_splits)
  next
    case False
    then show ?thesis
      using assms Some by (intro same) (auto simp: publishTemplate_def Let_def split: if_splits)
  qed
qed

text \<open>The next record of a template that was read in \<open>s0\<close> takes the place of that very record.\<close>

lemma next_record_motion:
  assumes motion: "template_motion h I s0 s" and read: "i \<in> I" "map_get (m_templates s0) i = Some current"
    and new: "tmpl_id r = i" "tmpl_revision r = tmpl_revision current + 1"
    and c: "map_get (m_templates s) (tmpl_id r) = Some c" "tmpl_revision c = tmpl_revision current"
    and t: "m_templates t = map_set (tmpl_id r) r (m_templates s)"
    and step: "c = current \<Longrightarrow> template_step h s t" and reach: "template_reachable h s0"
  shows "template_motion h I s0 t \<and> map_get (m_templates s) i = Some current"
proof -
  have keeps: "keeps_revisions I s0 s" and reach_s: "template_reachable h s"
    using motion reach by (simp_all add: template_motion_def)
  have at: "map_get (m_templates s) i = Some c" using c(1) new(1) by simp
  have eq: "c = current" by (rule same_revision[OF keeps read at c(2)])
  have "keeps_revisions I s t"
    unfolding keeps_revisions_def
  proof (intro ballI)
    fix j
    show "case map_get (m_templates t) j of None \<Rightarrow> True
      | Some r' \<Rightarrow> (\<exists>r. map_get (m_templates s) j = Some r \<and> (r' = r \<or> tmpl_revision r < tmpl_revision r'))"
      by (cases "j = i") (simp_all add: t new at eq split: option.split)
  qed
  then show ?thesis
    using template_next[OF reach_s step[OF eq]] at eq keeps_revisions_trans[OF keeps]
    by (simp add: template_motion_def)
qed

lemma replace_motion:
  assumes motion: "template_motion h I s0 s" and reach: "template_reachable h s0"
    and read: "i \<in> I" "map_get (m_templates s0) i = Some current"
    and new: "tmpl_id r = i" "tmpl_revision r = tmpl_revision current + 1" "published_alias r = published_alias current"
    and run: "replaceTemplate r (draft_alias current) (tmpl_revision current) s = (x, t)"
  shows "template_motion h I s0 t \<and> (x = Inr True \<longrightarrow> map_get (m_templates s) i = Some current
    \<and> m_templates t = map_set i r (m_templates s))"
  using run
proof (cases rule: replaceTemplate_cases)
  case same
  then show ?thesis using motion by simp
next
  case (replaced c)
  have "template_motion h I s0 t \<and> map_get (m_templates s) i = Some current"
  proof (rule next_record_motion[OF motion read new(1,2) replaced(2-4) _ reach])
    assume "c = current"
    then show "template_step h s t"
      using template_replace[OF replaced(2) _ refl] new(3) run by blast
  qed
  then show ?thesis using replaced(4) new(1) by simp
qed

lemma publish_motion:
  assumes motion: "template_motion h I s0 s" and reach: "template_reachable h s0"
    and read: "i \<in> I" "map_get (m_templates s0) i = Some current"
    and new: "tmpl_id r = i" "tmpl_revision r = tmpl_revision current + 1" "draft_alias r = draft_alias current"
    and run: "publishTemplate h r p (published_alias current) (tmpl_revision current) limit s = (x, t)"
  shows "template_motion h I s0 t"
  using run
proof (cases rule: publishTemplate_cases)
  case same
  then show ?thesis using motion by simp
next
  case (published c)
  have "template_motion h I s0 t \<and> map_get (m_templates s) i = Some current"
  proof (rule next_record_motion[OF motion read new(1,2) published _ reach])
    assume "c = current"
    then show "template_step h s t"
      using template_publish[OF published(1) _ refl] new(3) run by blast
  qed
  then show ?thesis by blast
qed

lemma delete_motion:
  assumes motion: "template_motion h I s0 s" and run: "deleteTemplate r revision s = (x, t)"
  shows "template_motion h I s0 t"
proof -
  have "template_reachable h s \<longrightarrow> template_reachable h t"
    using template_next[OF _ template_delete[OF run]] by blast
  moreover have "keeps_revisions I s t"
    using run by (auto simp: deleteTemplate_def keeps_revisions_def split: option.splits if_splits)
  ultimately show ?thesis
    using motion keeps_revisions_trans by (auto simp: template_motion_def)
qed

section \<open>The calls\<close>

lemma others_keep: "others_move (template_motion h I) env \<Longrightarrow> others_preserve (template_motion h I s) env"
  unfolding others_move_def others_preserve_def by (metis template_store.motion_trans)

lemma others_keep_reachable: "others_move (template_motion h I) env \<Longrightarrow> others_preserve (template_reachable h) env"
  unfolding others_move_def others_preserve_def template_motion_def by blast

lemma preserves_liftS_bind: "(\<And>x. preserves P (f x)) \<Longrightarrow> preserves P (bindS (liftS r) f)"
  by (rule preserves_bindS) auto

lemma preserves_variableRecords [simp]: "preserves P (variableRecords env inputs now previous)"
  unfolding variableRecords_def variable_record_def
  by (intro preserves_liftS_bind preserves_mapS) (auto split: option.split)

lemma preserves_edited_variables [simp]: "preserves P (edited_variables env input previous now)"
  unfolding edited_variables_def by (simp split: option.split)

lemma preserves_getPublicationRecord:
  assumes "others_preserve P env"
  shows "preserves P (getPublicationRecord h env template versionId now)"
  unfolding getPublicationRecord_def
  by (rule preserves_bindS[OF preserves_readW[OF assms]]) (auto split: option.split)

lemma preserves_template_create:
  assumes others: "others_move (template_motion h I) env"
  shows "preserves (template_reachable h) (template_create h env input now)"
proof -
  have "preserves (template_reachable h) (storeW env (createTemplate r))" if "tmpl_published r = None" for r
    by (rule preserves_storeW[OF others_keep_reachable[OF others]]) (rule create_reachable[OF _ that])
  then show ?thesis
    unfolding template_create_def Let_def by (intro preserves_bindS preserves_liftS_bind) simp_all
qed

lemma preserves_replace_draft:
  assumes others: "others_move (template_motion h I) env" and reach: "template_reachable h s0"
    and read: "tmpl_id current \<in> I" "map_get (m_templates s0) (tmpl_id current) = Some current"
  shows "preserves (template_motion h I s0) (replace_draft env current draft now e)"
proof -
  have "preserves (template_motion h I s0) (storeW env
      (replaceTemplate (with_draft current draft now) (tver_alias (tmpl_draft current)) (tmpl_revision current)))"
  proof (rule preserves_storeW[OF others_keep[OF others]])
    fix s r t assume motion: "template_motion h I s0 s"
      and run: "replaceTemplate (with_draft current draft now) (tver_alias (tmpl_draft current)) (tmpl_revision current) s = (r, t)"
    show "template_motion h I s0 t"
      using replace_motion[OF motion reach read _ _ _ run[folded draft_alias_def]]
      by (simp add: with_draft_def published_alias_def)
  qed
  then show ?thesis unfolding replace_draft_def by (rule preserves_bindS) simp
qed

text \<open>A call that reads its template first.\<close>

lemma read_then:
  assumes others: "others_move (template_motion h I) env" and reach: "template_reachable h (fst w)"
    and rest: "\<And>current. getTemplate identifier (fst w) = Some current \<Longrightarrow> map_get (m_templates (fst w)) (tmpl_id current) = Some current
      \<Longrightarrow> preserves (template_motion h I (fst w)) (k current)"
    and run: "bindS (getRecord env identifier) k w = (r, w')"
  shows "template_motion h I (fst w) (fst w')"
proof -
  have motion: "template_motion h I (fst w) (fst (wo_others env w))"
    using others unfolding others_move_def by blast
  show ?thesis
  proof (cases "getTemplate identifier (fst w)")
    case None
    then show ?thesis
      using run motion by (simp add: getRecord_def bindS_assoc bindS_readW found_def sx_simps)
  next
    case (Some current)
    then have "k current (wo_others env w) = (r, w')"
      using run by (simp add: getRecord_def bindS_assoc bindS_readW found_def sx_simps)
    then show ?thesis
      by (rule preserves_D[OF rest[OF Some getTemplate_stored[OF reach Some]] motion])
  qed
qed

lemma restore_motion:
  assumes "others_move (template_motion h (template_ids (fst w))) env" "template_reachable h (fst w)"
    and "restoreVersion h env identifier versionId expected now w = (r, w')"
  shows "template_motion h (template_ids (fst w)) (fst w) (fst w')"
  by (rule read_then[OF assms(1,2) _ assms(3)[unfolded restoreVersion_def]])
    (auto simp: Let_def template_ids_iff
      intro!: preserves_bindS[OF preserves_getPublicationRecord[OF others_keep[OF assms(1)]]]
        preserves_bindS[OF preserves_createIdW] preserves_liftS_bind
        preserves_bindS[OF preserves_replace_draft[OF assms(1,2)]])

lemma update_motion:
  assumes "others_move (template_motion h (template_ids (fst w))) env" "template_reachable h (fst w)"
    and "template_update h env identifier input now w = (r, w')"
  shows "template_motion h (template_ids (fst w)) (fst w) (fst w')"
  by (rule read_then[OF assms(1,2) _ assms(3)[unfolded template_update_def]])
    (auto simp: Let_def template_ids_iff
      intro!: preserves_bindS[OF preserves_createIdW] preserves_bindS[OF preserves_edited_variables] preserves_liftS_bind
        preserves_bindS[OF preserves_replace_draft[OF assms(1,2)]])

lemma publish_call_motion:
  assumes others: "others_move (template_motion h (template_ids (fst w))) env" and reach: "template_reachable h (fst w)"
    and run: "template_publish h env history identifier now expected ctxt w = (r, w')"
  shows "template_motion h (template_ids (fst w)) (fst w) (fst w')"
proof (rule read_then[OF others reach _ run[unfolded template_publish_def]])
  fix current assume at: "map_get (m_templates (fst w)) (tmpl_id current) = Some current"
  have "preserves (template_motion h (template_ids (fst w)) (fst w))
      (storeW env (publishTemplate h (current\<lparr>tmpl_published := Some d, tmpl_published_at := Some ts, tmpl_updated_at := ts,
        tmpl_revision := tmpl_revision current + 1\<rparr>) p (published_alias current) (tmpl_revision current) n))" for d ts p n
  proof (rule preserves_storeW[OF others_keep[OF others]])
    let ?r = "current\<lparr>tmpl_published := Some d, tmpl_published_at := Some ts, tmpl_updated_at := ts,
      tmpl_revision := tmpl_revision current + 1\<rparr>"
    fix s x t assume motion: "template_motion h (template_ids (fst w)) (fst w) s"
      and store: "publishTemplate h ?r p (published_alias current) (tmpl_revision current) n s = (x, t)"
    show "template_motion h (template_ids (fst w)) (fst w) t"
      by (rule publish_motion[OF motion reach _ at _ _ _ store]) (auto simp: template_ids_iff at draft_alias_def)
  qed
  then show "preserves (template_motion h (template_ids (fst w)) (fst w))
     (let draft = tmpl_draft current in
     if expected \<noteq> None \<and> expected \<noteq> Some (tver_id draft)
     then throwS (PreconditionFailedError ''Template draft changed after it was reviewed; render and publish the current version.'')
     else if map_option tver_id (tmpl_published current) = Some (tver_id draft) then returnS (tmpl_id current)
     else bindS (liftS (date_to_iso (make_date (now + th_retention_days history * 86400000)))) (\<lambda>expires.
       bindS (storeW env (publishTemplate h
         (current\<lparr>tmpl_published := Some draft, tmpl_published_at := Some (to_iso now), tmpl_updated_at := to_iso now,
            tmpl_revision := tmpl_revision current + 1\<rparr>)
         \<lparr>tp_id = tver_id draft, tp_template_id = tmpl_id current, tp_version = draft, tp_published_at = to_iso now,
          tp_expires_at = expires, tp_actor = pct_actor ctxt, tp_source = pct_source ctxt,
          tp_source_version_id = (if truthy (tver_source_version_id draft) then tver_source_version_id draft else None)\<rparr>
         (published_alias current) (tmpl_revision current) (nat (th_limit history)))) (\<lambda>replaced.
       if \<not> replaced then throwS (ConflictError ''Template changed concurrently; retry the publish.'')
       else returnS (tmpl_id current))))"
    unfolding Let_def by (auto intro!: preserves_liftS_bind preserves_bindS)
qed

lemma delete_call_motion:
  assumes others: "others_move (template_motion h (template_ids (fst w))) env" and reach: "template_reachable h (fst w)"
    and run: "template_delete_op env identifier w = (r, w')"
  shows "template_motion h (template_ids (fst w)) (fst w) (fst w')"
proof (rule read_then[OF others reach _ run[unfolded template_delete_op_def]])
  fix current
  have "preserves (template_motion h (template_ids (fst w)) (fst w)) (storeW env (deleteTemplate current n))" for n
    by (rule preserves_storeW[OF others_keep[OF others]]) (auto intro: delete_motion)
  then show "preserves (template_motion h (template_ids (fst w)) (fst w))
     (bindS (storeW env (deleteTemplate current (tmpl_revision current))) (\<lambda>removed.
     if \<not> removed then throwS (ConflictError ''Template changed concurrently; retry the deletion.'')
     else returnS (tmpl_id current)))"
    by (rule preserves_bindS) simp
qed

lemma motion_reachable: "template_motion h I s t \<Longrightarrow> template_reachable h s \<Longrightarrow> template_reachable h t"
  by (simp add: template_motion_def)

lemma duplicate_reachable:
  assumes others: "others_move (template_motion h I) env" and reach: "template_reachable h (fst w)"
    and run: "duplicate h env identifier now w = (r, w')"
  shows "template_reachable h (fst w')"
proof -
  have "preserves (template_reachable h) (duplicate h env identifier now)"
    unfolding duplicate_def getRecord_def Let_def
    by (intro preserves_bindS preserves_readW[OF others_keep_reachable[OF others]] preserves_template_create[OF others])
      simp_all
  then show ?thesis using reach run unfolding preserves_def by blast
qed

end
