(* ===== verification/Template_Safety.thy ===== *)
theory Template_Safety
  imports Template_Calls
begin

text \<open>
  What the template service guarantees: a rendered text gets no markup from the values of
  its variables and no header from them either, an edit is never lost, and the calls keep
  the alias indexes right whatever else happens while they wait.
\<close>

section \<open>Escaping\<close>

definition is_markup :: "char \<Rightarrow> bool" where
  "is_markup c \<longleftrightarrow> c \<in> {CHR ''<'', CHR ''>'', CHR 0x22, CHR 0x27}"

lemma replace_all_char_append: "replace_all_char c r (s @ t) = replace_all_char c r s @ replace_all_char c r t"
  by (simp add: replace_all_char_def)

lemma escape_html_append: "escape_html (s @ t) = escape_html s @ escape_html t"
  by (simp add: escape_html_def replace_all_char_append)

lemma escape_html_Nil [simp]: "escape_html [] = []"
  by (simp add: escape_html_def replace_all_char_def)

lemma escape_html_char: "filter is_markup (escape_html [c]) = []"
proof -
  consider "c = CHR ''&''" | "c = CHR ''<''" | "c = CHR ''>''" | "c = CHR 0x22" | "c = CHR 0x27"
    | "c \<notin> {CHR ''&'', CHR ''<'', CHR ''>'', CHR 0x22, CHR 0x27}" by auto
  then show ?thesis
    by cases (simp_all add: escape_html_def replace_all_char_def is_markup_def)
qed

lemma escape_html_markup: "filter is_markup (escape_html s) = []"
proof (induction s)
  case (Cons c s)
  then show ?case using escape_html_append[of "[c]" s] escape_html_char[of c] by simp
qed simp

lemma filter_pieces:
  assumes "\<And>k. filter P (f k) = []"
  shows "filter P (concat (map (\<lambda>p. case p of Inl c \<Rightarrow> [c] | Inr k \<Rightarrow> f k) ps))
     = filter P (List.map_filter (\<lambda>p. case p of Inl c \<Rightarrow> Some c | Inr _ \<Rightarrow> None) ps)"
  by (induction ps) (auto simp: List.map_filter_simps assms split: sum.split)

lemma rendered_markup: "filter is_markup (renderValue h vals True s) = filter is_markup (literal_text s)"
  by (simp add: renderValue_def replace_placeholders_def literal_text_def filter_pieces escape_html_markup)

section \<open>A rendering that succeeds\<close>

lemma eachE_Inr_iff: "eachE f xs = Inr () \<longleftrightarrow> (\<forall>x \<in> set xs. f x = Inr ())"
  by (induction xs) (auto simp: bindE_Inr_iff)

lemma rendered_header_iff: "ensureSafeRenderedHeader label v = Inr () \<longleftrightarrow> \<not> has_crlf v \<and> length v \<le> 998"
  by (simp add: ensureSafeRenderedHeader_def)

lemma check_if_truthy_D: "check_if_truthy label x = Inr () \<Longrightarrow> v \<in> set_option x \<Longrightarrow> \<not> has_crlf v \<and> length v \<le> 998"
  by (auto simp: check_if_truthy_def rendered_header_iff has_crlf_def split: if_splits)

lemma render_Inr:
  assumes "renderTemplateVersion h version input op = Inr r"
  obtains vals where "render_values version input op = Inr vals"
    "rr_html r = renderValue h vals True (tver_html version)"
    "length (rr_html r) + length (rr_text r) \<le> max_rendered_template_bytes"
    "check_if_truthy ''from'' (rr_from r) = Inr ()" "check_if_truthy ''subject'' (rr_subject r) = Inr ()"
    "\<forall>v \<in> set (coalesce (rr_reply_to r) []). ensureSafeRenderedHeader ''reply_to'' v = Inr ()"
proof -
  obtain vals where vals: "render_values version input op = Inr vals"
    using assms by (auto simp: renderTemplateVersion_def bindE_Inr_iff)
  show ?thesis
    by (rule that[OF vals])
      (use assms vals in \<open>auto simp: renderTemplateVersion_def bindE_Inr_iff Let_def eachE_Inr_iff content_too_long_def
        split: if_splits\<close>)
qed

text \<open>
  C12. Values cannot break out of a template: when a version is rendered, the characters of
  the HTML that start or end tags and attributes are exactly those the author of the template
  wrote outside placeholders, in that order; the sender, the subject and the reply addresses
  contain no line break and at most 998 bytes; HTML and text together are within one MiB; and
  at most fifty values were given, each for a variable the version declares.
\<close>

theorem rendered_template_safe:
  assumes "renderTemplateVersion h version input op = Inr r"
  shows "filter is_markup (rr_html r) = filter is_markup (literal_text (tver_html version))
    \<and> (\<forall>v \<in> set_option (rr_from r) \<union> set_option (rr_subject r) \<union> set (coalesce (rr_reply_to r) []).
         \<not> has_crlf v \<and> length v \<le> 998)
    \<and> length (rr_html r) + length (rr_text r) \<le> 1048576
    \<and> length (coalesce (rti_variables input) []) \<le> 50
    \<and> fst ` set (object_order (coalesce (rti_variables input) [])) \<subseteq> tv_key ` set (tver_variables version)"
proof -
  obtain vals where vals: "render_values version input op = Inr vals"
    and r: "rr_html r = renderValue h vals True (tver_html version)"
      "length (rr_html r) + length (rr_text r) \<le> max_rendered_template_bytes"
      "check_if_truthy ''from'' (rr_from r) = Inr ()" "check_if_truthy ''subject'' (rr_subject r) = Inr ()"
      "\<forall>v \<in> set (coalesce (rr_reply_to r) []). ensureSafeRenderedHeader ''reply_to'' v = Inr ()"
    using assms by (rule render_Inr)
  have "length (coalesce (rti_variables input) []) \<le> 50
    \<and> (\<forall>k \<in> fst ` set (object_order (coalesce (rti_variables input) [])). declared_key version k = Inr ())"
    using vals by (auto simp: render_values_def Let_def bindE_Inr_iff eachE_Inr_iff split: if_splits)
  then have "length (coalesce (rti_variables input) []) \<le> 50"
    "fst ` set (object_order (coalesce (rti_variables input) [])) \<subseteq> tv_key ` set (tver_variables version)"
    by (auto simp: declared_key_def split: if_splits)
  moreover have "\<not> has_crlf v \<and> length v \<le> 998"
    if "v \<in> set_option (rr_from r) \<union> set_option (rr_subject r) \<union> set (coalesce (rr_reply_to r) [])" for v
    using that check_if_truthy_D[OF r(3)] check_if_truthy_D[OF r(4)] r(5) by (auto simp: rendered_header_iff)
  ultimately show ?thesis using r(1,2) by (auto simp: rendered_markup max_rendered_template_bytes_def)
qed

definition demo_variable :: "string \<Rightarrow> variable_value option \<Rightarrow> template_variable" where
  "demo_variable k fallback = \<lparr>tv_id = ''v'', tv_key = k, tv_type = Var_string, tv_fallback_value = fallback,
     tv_created_at = ''t'', tv_updated_at = ''t''\<rparr>"

definition demo_version :: "string \<Rightarrow> template_variable list \<Rightarrow> template_version" where
  "demo_version html variables = \<lparr>tver_id = ''v1'', tver_name = ''n'', tver_html = html, tver_text = Some ''t'', tver_alias = None,
     tver_from = None, tver_subject = Some ''Hi {{{ N }}}'', tver_reply_to = None, tver_variables = variables,
     tver_created_at = ''t'', tver_source_version_id = None\<rparr>"

definition demo_values :: "(string \<times> variable_value) list \<Rightarrow> render_template_input" where
  "demo_values vs = \<lparr>rti_from = None, rti_subject = None, rti_reply_to = None, rti_variables = Some vs\<rparr>"

lemma demo_pieces:
  "pieces ''<b>{{{N}}}</b>'' = map Inl ''<b>'' @ [Inr ''N''] @ map Inl ''</b>''"
  "pieces ''Hi {{{ N }}}'' = map Inl ''Hi '' @ [Inr ''N'']" "pieces ''t'' = [Inl (CHR ''t'')]"
  by code_simp+

lemma demo_rendered:
  "renderTemplateVersion h (demo_version ''<b>{{{N}}}</b>'' [demo_variable ''N'' None]) (demo_values [(''N'', Str_value ''a<i>'')]) Send
     = Inr \<lparr>rr_from = None, rr_subject = Some ''Hi a<i>'', rr_reply_to = None, rr_html = ''<b>a&lt;i&gt;</b>'', rr_text = ''t''\<rparr>"
proof -
  have order: "object_order [(''N'', Str_value ''a<i>'')] = [(''N'', Str_value ''a<i>'')]" by code_simp
  have len: "js_length ''a<i>'' = 4" by code_simp
  have vals: "render_values (demo_version ''<b>{{{N}}}</b>'' [demo_variable ''N'' None]) (demo_values [(''N'', Str_value ''a<i>'')]) Send
      = Inr [(''N'', Str_value ''a<i>'')]"
    by (simp add: render_values_def Let_def demo_version_def demo_values_def demo_variable_def order declared_key_def
        variable_value_for_def or_else_def check_value_def len inherited_properties_def map_from_def)
  have texts: "renderValue h [(''N'', Str_value ''a<i>'')] True ''<b>{{{N}}}</b>'' = ''<b>a&lt;i&gt;</b>''"
    "renderValue h [(''N'', Str_value ''a<i>'')] False ''Hi {{{ N }}}'' = ''Hi a<i>''"
    "renderValue h [(''N'', Str_value ''a<i>'')] False ''t'' = ''t''"
    by (simp_all add: renderValue_def replace_placeholders_def demo_pieces replacement_def value_text_def escape_html_def
        replace_all_char_def)
  have header: "check_if_truthy ''from'' None = Inr ()" "check_if_truthy ''subject'' (Some ''Hi a<i>'') = Inr ()"
    by (simp_all add: check_if_truthy_def ensureSafeRenderedHeader_def has_crlf_def)
  show ?thesis
    unfolding renderTemplateVersion_def vals
    by (simp add: demo_version_def demo_values_def or_else_def texts header max_rendered_template_bytes_def)
qed

theorem rendered_template_safe_witness:
  "\<exists>r. renderTemplateVersion demo_host (demo_version ''<b>{{{N}}}</b>'' [demo_variable ''N'' None])
       (demo_values [(''N'', Str_value ''a<i>'')]) Send = Inr r
     \<and> rr_html r = ''<b>a&lt;i&gt;</b>'' \<and> filter is_markup (rr_html r) = ''<><>''
     \<and> length (rr_html r) + length (rr_text r) \<le> 1048576"
  using rendered_template_safe[OF demo_rendered[of demo_host]] demo_rendered[of demo_host]
  by (auto simp: is_markup_def)

section \<open>Edits\<close>


definition demo_edit :: update_template_input where
  "demo_edit = \<lparr>uti_name = None, uti_html = Some ''<p>'', uti_text = None, uti_alias = None, uti_from = None,
     uti_subject = Some (Some ''S''), uti_reply_to = None,
     uti_variables = None\<rparr>"

lemma demo_world_moves: "others_move (template_motion h I) demo_world"
  by (simp add: others_move_def demo_world_def template_store.motion_refl)

lemma demo_world_ports: "awaitW demo_world m = m" "uuidW demo_world w = (Inr [], w)" for m :: "(unit, 'b) world_op" and w
  by (simp_all add: fun_eq_iff awaitW_def uuidW_def demo_world_def prod_eq_iff split: prod.split)

definition demo_edited :: template_version where
  "demo_edited = edited_draft demo_edit (tmpl_draft (demo_template ''t-1'' ''welcome'')) ''tmplv_'' [] demo_now"

lemma demo_edited_fields:
  "tver_name demo_edited = ''n''" "tver_html demo_edited = ''<p>''" "tver_text demo_edited = None"
  "tver_alias demo_edited = Some ''welcome''" "tver_from demo_edited = None" "tver_subject demo_edited = Some ''S''"
  "tver_reply_to demo_edited = None" "tver_variables demo_edited = []"
  by (simp_all add: demo_edited_def edited_draft_def demo_edit_def updatedOptional_def demo_template_def)

lemma demo_edit_valid: "validateVersion demo_host demo_edited = Inr ()"
proof -
  have "js_trim ''n'' = ''n''" "js_length ''n'' = 1" "js_length ''welcome'' = 7" "is_template_alias ''welcome''"
    "\<not> has_crlf ''S''" "placeholder_keys ''<p>'' = []" "placeholder_keys ''S'' = []"
    by code_simp+
  moreover have "templateBytes demo_host demo_edited \<le> max_template_bytes"
    by (simp add: templateBytes_def demo_edited_fields serialized_bytes_def opt_prop_def json_string_def json_char_def
        max_template_bytes_def)
  ultimately show ?thesis
    by (simp add: validateVersion_def demo_edited_fields header_fields_def no_line_breaks_def referencedVariables_def)
qed

lemma demo_edit_run:
  "template_update demo_host demo_world ''welcome'' demo_edit demo_now (demo_template_store, ()) =
     (Inr ''t-1'', (snd (replaceTemplate (with_draft (demo_template ''t-1'' ''welcome'') demo_edited demo_now)
       (Some ''welcome'') 1 demo_template_store), ()))"
proof -
  have get: "getTemplate ''welcome'' demo_template_store = Some (demo_template ''t-1'' ''welcome'')"
    by (simp add: getTemplate_def get_if_truthy_def demo_template_store_def map_has_def)
  have vars: "edited_variables demo_world demo_edit (tmpl_draft (demo_template ''t-1'' ''welcome'')) demo_now w = (Inr [], w)" for w
    by (simp add: edited_variables_def demo_edit_def demo_template_def returnS_def)
  have old: "tver_alias (tmpl_draft (demo_template ''t-1'' ''welcome'')) = Some ''welcome''"
    "tmpl_revision (demo_template ''t-1'' ''welcome'') = 1" by (simp_all add: demo_template_def)
  have replaced: "fst (replaceTemplate (with_draft (demo_template ''t-1'' ''welcome'') demo_edited demo_now)
       (Some ''welcome'') 1 demo_template_store) = Inr True"
    by (simp add: replaceTemplate_def demo_template_store_def with_draft_def demo_template_fields old demo_edited_fields Let_def)
  have written: "replace_draft demo_world (demo_template ''t-1'' ''welcome'') demo_edited demo_now e (demo_template_store, ()) =
     (Inr (), (snd (replaceTemplate (with_draft (demo_template ''t-1'' ''welcome'') demo_edited demo_now)
       (Some ''welcome'') 1 demo_template_store), ()))" for e
    using replaced
    by (cases "replaceTemplate (with_draft (demo_template ''t-1'' ''welcome'') demo_edited demo_now)
        (Some ''welcome'') 1 demo_template_store")
      (simp add: replace_draft_def storeW_def demo_world_ports on_store_def bindS_def returnS_def old)
  show ?thesis
    by (simp add: template_update_def getRecord_def readW_def storeW_def demo_world_ports on_store_def getS_def found_def
        get bindS_def liftS_def returnS_def createIdW_def createId_def replace_all_char_def vars demo_edited_def[symmetric]
        demo_edit_valid written Let_def demo_template_fields)
qed


text \<open>
  C27. Every call of the template service keeps the store reachable by template steps, and
  so keeps the alias indexes exact, whatever others do to the templates while it waits and
  whether it returns or throws.
\<close>

theorem template_calls_keep_aliases:
  assumes "template_reachable h (fst w)" and "others_move (template_motion h (template_ids (fst w))) env"
  shows "aliases_ok (fst (snd (template_create h env c now w))) \<and> aliases_ok (fst (snd (template_update h env identifier u now w)))
    \<and> aliases_ok (fst (snd (restoreVersion h env identifier versionId expected now w)))
    \<and> aliases_ok (fst (snd (template_publish h env history identifier now reviewed ctxt w)))
    \<and> aliases_ok (fst (snd (duplicate h env identifier now w))) \<and> aliases_ok (fst (snd (template_delete_op env identifier w)))"
proof -
  note motion = template_reachable_aliases[OF motion_reachable[OF _ assms(1)]]
  have "aliases_ok (fst (snd (template_create h env c now w)))"
    by (rule template_reachable_aliases[OF preserves_D[OF preserves_template_create[OF assms(2)] assms(1) prod.collapse[symmetric]]])
  moreover have "aliases_ok (fst (snd (duplicate h env identifier now w)))"
    by (rule template_reachable_aliases[OF duplicate_reachable[OF assms(2,1) prod.collapse[symmetric]]])
  moreover have "aliases_ok (fst (snd (template_update h env identifier u now w)))"
    by (rule motion[OF update_motion[OF assms(2,1) prod.collapse[symmetric]]])
  moreover have "aliases_ok (fst (snd (restoreVersion h env identifier versionId expected now w)))"
    by (rule motion[OF restore_motion[OF assms(2,1) prod.collapse[symmetric]]])
  moreover have "aliases_ok (fst (snd (template_publish h env history identifier now reviewed ctxt w)))"
    by (rule motion[OF publish_call_motion[OF assms(2,1) prod.collapse[symmetric]]])
  moreover have "aliases_ok (fst (snd (template_delete_op env identifier w)))"
    by (rule motion[OF delete_call_motion[OF assms(2,1) prod.collapse[symmetric]]])
  ultimately show ?thesis by blast
qed

theorem template_calls_keep_aliases_witness:
  "aliases_ok (fst (snd (template_update demo_host demo_world ''welcome'' demo_edit demo_now (demo_template_store, ()))))
   \<and> aliases_ok (fst (snd (template_delete_op demo_world ''welcome'' (demo_template_store, ()))))"
  using template_calls_keep_aliases[where w = "(demo_template_store, ())", OF _ demo_world_moves[of demo_host]]
    demo_template_reachable[of demo_host] by simp

end
