(* ===== verification/Webhook_Service.thy ===== *)
theory Webhook_Service
  imports Service_World Job_Envelope Catalog_Store
begin

text \<open>
  The webhook service (\<open>src/services/webhook-service.ts\<close>) and the shape of endpoints
  (\<open>src/core/network-safety.ts\<close>) on the in-memory store. The URL parser of the platform, the
  validator of endpoints, the HTTP client, the queue and the random bytes of a secret are
  ports of the environment. Publishing pages through the endpoints until no cursor is left,
  which need not end when others keep adding some; so it is a partial function.
\<close>

section \<open>The environment\<close>

text \<open>The parts of a URL that the code reads; \<open>url_href\<close> is \<open>toString()\<close>.\<close>

record parsed_url =
  url_href :: string
  url_protocol :: string
  url_hostname :: string
  url_username :: string
  url_password :: string
  url_hash :: string

record webhook_request =
  wq_endpoint :: string
  wq_headers :: "(string \<times> string) list"
  wq_body :: string

record webhook_response =
  wr_ok :: bool
  wr_status :: int

record 'x webhook_env = "'x world_env" +
  ws_parse_url :: "string \<Rightarrow> parsed_url option"
  ws_validate :: "parsed_url \<Rightarrow> ('x, unit) world_op"
  ws_fetch :: "webhook_request \<Rightarrow> ('x, webhook_response) world_op"
  ws_enqueue :: "job \<Rightarrow> ('x, unit) world_op"
  ws_random :: "'x \<Rightarrow> 8 word list \<times> 'x"
  ws_retention_days :: int

definition supported_events :: "webhook_event_type list" where
  "supported_events = [Wh_sent, Wh_delivered, Wh_delivery_delayed, Wh_opened, Wh_clicked, Wh_bounced, Wh_complained,
     Wh_failed, Wh_scheduled, Wh_suppressed, Wh_received]"

text \<open>The constructor takes the retention from one to thirty days.\<close>

definition webhookService :: "js_number option \<Rightarrow> int result" where
  "webhookService retentionDays =
     (let e = ValidationError ''Webhook delivery retention must be between 1 and 30 days.'' in
      case js_integer (coalesce retentionDays (Num 7)) of None \<Rightarrow> Inl e
      | Some n \<Rightarrow> if n < 1 \<or> 30 < n then Inl e else Inr n)"

section \<open>Endpoints\<close>

definition publicWebhook :: "webhook_endpoint \<Rightarrow> public_webhook_endpoint" where
  "publicWebhook w = public_webhook_endpoint.truncate w"

definition assertWebhookEndpointShape :: "parsed_url \<Rightarrow> unit result" where
  "assertWebhookEndpointShape endpoint =
     (if 2048 < js_length (url_href endpoint) \<or> url_protocol endpoint \<notin> {''http:'', ''https:''}
         \<or> url_username endpoint \<noteq> [] \<or> url_password endpoint \<noteq> [] \<or> url_hash endpoint \<noteq> []
      then Inl (ValidationError ''Webhook endpoint must be an HTTP(S) URL of at most 2048 characters without credentials or a fragment.'')
      else Inr ())"

definition parse_endpoint :: "('x, ('x, 'z) webhook_env_ext) world_env_scheme \<Rightarrow> string \<Rightarrow> parsed_url result" where
  "parse_endpoint env endpoint = (case ws_parse_url env endpoint of
     None \<Rightarrow> Inl (ValidationError ''endpoint must be a valid URL.'')
   | Some url \<Rightarrow> bindE (assertWebhookEndpointShape url) (\<lambda>_. Inr url))"

definition check_events :: "webhook_event_type list \<Rightarrow> unit result" where
  "check_events events =
     (if events = [] then Inl (ValidationError ''At least one webhook event is required.'')
      else case find (\<lambda>e. e \<notin> set supported_events) events of
        Some e \<Rightarrow> Inl (ValidationError (''Unsupported webhook event: '' @ webhook_event_str e)) | None \<Rightarrow> Inr ())"

definition secretW :: "('x, ('x, 'z) webhook_env_ext) world_env_scheme \<Rightarrow> ('x, string) world_op" where
  "secretW env w = (case ws_random env (snd w) of (bs, x) \<Rightarrow> (Inr (createWebhookSecret bs), (fst w, x)))"

definition webhook_create ::
  "('x, ('x, 'z) webhook_env_ext) world_env_scheme \<Rightarrow> string \<Rightarrow> webhook_event_type list
     \<Rightarrow> ('x, public_webhook_endpoint \<times> string) world_op" where
  "webhook_create env endpoint events =
     bindS (liftS (parse_endpoint env endpoint)) (\<lambda>url.
     bindS (liftS (check_events events)) (\<lambda>_.
     bindS (awaitW env (ws_validate env url)) (\<lambda>_.
     bindS (createIdW env ''wh'') (\<lambda>i.
     bindS (secretW env) (\<lambda>secret.
     bindS (nowW env) (\<lambda>now.
     let record = \<lparr>wh_id = i, wh_endpoint = url_href url, wh_events = unique_first events, wh_status = Wh_enabled,
           wh_created_at = to_iso now, wh_signing_secret = secret\<rparr> in
     bindS (storeW env (createWebhook record)) (\<lambda>_.
     returnS (publicWebhook record, secret))))))))"

definition required :: "string \<Rightarrow> 'a option \<Rightarrow> 'a result" where
  "required resource x = (case x of None \<Rightarrow> Inl (NotFoundError resource) | Some r \<Rightarrow> Inr r)"

definition webhook_get :: "('x, 'z) world_env_scheme \<Rightarrow> string \<Rightarrow> ('x, public_webhook_endpoint) world_op" where
  "webhook_get env i =
     bindS (readW env (getWebhook i)) (\<lambda>record.
     bindS (liftS (required ''Webhook'' record)) (\<lambda>r. returnS (publicWebhook r)))"

definition webhook_list ::
  "host \<Rightarrow> ('x, 'z) world_env_scheme \<Rightarrow> nat \<Rightarrow> string option \<Rightarrow> ('x, public_webhook_endpoint page) world_op" where
  "webhook_list h env limit cursor =
     bindS (bindS (readW env (listWebhooks h limit cursor)) liftS) (\<lambda>page.
     returnS \<lparr>pg_data = map publicWebhook (pg_data page), pg_has_more = pg_has_more page, pg_next_cursor = pg_next_cursor page\<rparr>)"

record webhook_update =
  wu_endpoint :: "string option"
  wu_events :: "webhook_event_type list option"
  wu_status :: "webhook_status option"

definition webhook_update_op ::
  "('x, ('x, 'z) webhook_env_ext) world_env_scheme \<Rightarrow> string \<Rightarrow> webhook_update \<Rightarrow> ('x, public_webhook_endpoint) world_op" where
  "webhook_update_op env i input =
     bindS (readW env (getWebhook i)) (\<lambda>current.
     bindS (liftS (required ''Webhook'' current)) (\<lambda>_.
     if wu_endpoint input = None \<and> wu_events input = None \<and> wu_status input = None
     then throwS (ValidationError ''At least one webhook field is required.'')
     else bindS (case wu_events input of None \<Rightarrow> returnS () | Some events \<Rightarrow> liftS (check_events events)) (\<lambda>_.
       bindS (case wu_endpoint input of None \<Rightarrow> returnS None
              | Some endpoint \<Rightarrow>
                  bindS (liftS (parse_endpoint env endpoint)) (\<lambda>url.
                  bindS (awaitW env (ws_validate env url)) (\<lambda>_. returnS (Some (url_href url))))) (\<lambda>href.
       bindS (storeW env (updateWebhook i (\<lambda>w. w\<lparr>
         wh_events := (case wu_events input of None \<Rightarrow> wh_events w | Some events \<Rightarrow> unique_first events),
         wh_endpoint := coalesce href (wh_endpoint w),
         wh_status := coalesce (wu_status input) (wh_status w)\<rparr>))) (\<lambda>updated.
       bindS (liftS (required ''Webhook'' updated)) (\<lambda>r. returnS (publicWebhook r)))))))"

definition webhook_delete :: "('x, 'z) world_env_scheme \<Rightarrow> string \<Rightarrow> ('x, unit) world_op" where
  "webhook_delete env i =
     bindS (storeW env (deleteWebhook i)) (\<lambda>found. if \<not> found then throwS (NotFoundError ''Webhook'') else returnS ())"

section \<open>Deliveries\<close>

text \<open>The reads and writes of deliveries look at the clock for their expiry.\<close>

definition readDelivery :: "host \<Rightarrow> ('x, 'z) world_env_scheme \<Rightarrow> string \<Rightarrow> ('x, webhook_delivery_record option) world_op" where
  "readDelivery h env i = awaitW env (bindS (nowW env) (\<lambda>now. on_store (getS (getWebhookDelivery h now i))))"

definition writeDelivery ::
  "host \<Rightarrow> ('x, 'z) world_env_scheme \<Rightarrow> string \<Rightarrow> (webhook_delivery_record \<Rightarrow> webhook_delivery_record)
     \<Rightarrow> ('x, webhook_delivery_record option) world_op" where
  "writeDelivery h env i updates = awaitW env (bindS (nowW env) (\<lambda>now. on_store (updateWebhookDelivery h now i updates)))"

definition newDelivery ::
  "('x, ('x, 'z) webhook_env_ext) world_env_scheme \<Rightarrow> string \<Rightarrow> string \<Rightarrow> webhook_event \<Rightarrow> string option
     \<Rightarrow> ('x, webhook_delivery_record) world_op" where
  "newDelivery env i webhookId event replayedFrom =
     bindS (nowW env) (\<lambda>now.
     bindS (liftS (date_to_iso (make_date (now + ws_retention_days env * 86400000)))) (\<lambda>expires.
     returnS \<lparr>wd_id = i, wd_webhook_id = webhookId, wd_event_type = we_type event, wd_status = Wd_pending, wd_attempts = 0,
       wd_response_status = None, wd_last_error = None, wd_last_attempt_at = None,
       wd_replayed_from = (if truthy replayedFrom then replayedFrom else None), wd_created_at = to_iso now,
       wd_updated_at = to_iso now, wd_expires_at = expires, wd_event = event\<rparr>))"

text \<open>A delivery whose job the queue refuses is on record as failed.\<close>

definition enqueue_or_fail ::
  "host \<Rightarrow> ('x, ('x, 'z) webhook_env_ext) world_env_scheme \<Rightarrow> string \<Rightarrow> job \<Rightarrow> ('x, unit) world_op" where
  "enqueue_or_fail h env i job =
     catchS (awaitW env (ws_enqueue env job)) (\<lambda>e.
       bindS (nowW env) (\<lambda>now.
       bindS (writeDelivery h env i (\<lambda>d. d\<lparr>wd_status := Wd_failed,
         wd_last_error := Some (safeFailureMessage h Webhook_enqueue_failed e), wd_updated_at := to_iso now\<rparr>)) (\<lambda>_.
       throwS e)))"

definition enqueueDelivery ::
  "host \<Rightarrow> ('x, ('x, 'z) webhook_env_ext) world_env_scheme \<Rightarrow> string \<Rightarrow> webhook_event \<Rightarrow> string option
     \<Rightarrow> ('x, webhook_delivery_record) world_op" where
  "enqueueDelivery h env webhookId event replayedFrom =
     bindS (createIdW env ''msg'') (\<lambda>i.
     bindS (newDelivery env i webhookId event replayedFrom) (\<lambda>delivery.
     bindS (storeW env (createWebhookDelivery delivery)) (\<lambda>created.
     if \<not> created then throwS (PlainError ''Webhook delivery identifier collision.'')
     else bindS (enqueue_or_fail h env i (Deliver_webhook webhookId (Some i) event)) (\<lambda>_. returnS delivery))))"

section \<open>Publishing an event\<close>

definition subscribed :: "webhook_event_type \<Rightarrow> webhook_endpoint \<Rightarrow> bool" where
  "subscribed t w \<longleftrightarrow> wh_status w = Wh_enabled \<and> t \<in> set (wh_events w)"

definition publish_page ::
  "host \<Rightarrow> ('x, ('x, 'z) webhook_env_ext) world_env_scheme \<Rightarrow> webhook_event \<Rightarrow> string option \<Rightarrow> ('x, string option) world_op" where
  "publish_page h env event cursor =
     bindS (bindS (readW env (listWebhooks h 100 cursor)) liftS) (\<lambda>webhooks.
     bindS (awaitW env (allS (\<lambda>w. enqueueDelivery h env (wh_id w) event None)
       (filter (subscribed (we_type event)) (pg_data webhooks)))) (\<lambda>_.
     returnS (pg_next_cursor webhooks)))"

partial_function (option) publish_pages ::
  "host \<Rightarrow> ('x, ('x, 'z) webhook_env_ext) world_env_scheme \<Rightarrow> webhook_event \<Rightarrow> string option \<Rightarrow> mem \<times> 'x
     \<Rightarrow> (unit result \<times> (mem \<times> 'x)) option" where
  "publish_pages h env event cursor w =
     (case publish_page h env event cursor w of
        (Inl e, w') \<Rightarrow> Some (Inl e, w')
      | (Inr next', w') \<Rightarrow> if truthy next' then publish_pages h env event next' w' else Some (Inr (), w'))"

definition publishData ::
  "host \<Rightarrow> ('x, ('x, 'z) webhook_env_ext) world_env_scheme \<Rightarrow> webhook_event_type \<Rightarrow> (string \<times> js_value) list \<Rightarrow> mem \<times> 'x
     \<Rightarrow> (unit result \<times> (mem \<times> 'x)) option" where
  "publishData h env t data w = (case nowW env w of
     (Inl e, w') \<Rightarrow> Some (Inl e, w')
   | (Inr now, w') \<Rightarrow> publish_pages h env \<lparr>we_type = t, we_created_at = to_iso now, we_data = data\<rparr> None w')"

text \<open>A spread in an object literal: later properties replace earlier ones in their place.\<close>

definition spread :: "(string \<times> js_value) list \<Rightarrow> (string \<times> js_value) list \<Rightarrow> (string \<times> js_value) list" where
  "spread base extra = foldl (\<lambda>m (k, v). map_set k v m) base extra"

definition email_event_data :: "email_record \<Rightarrow> (string \<times> js_value) list \<Rightarrow> (string \<times> js_value) list" where
  "email_event_data email extra = object_order (spread (spread
     [(''created_at'', JStr (em_created_at email)), (''email_id'', JStr (em_id email)), (''from'', JStr (em_from email)),
      (''to'', JArr (map JStr (em_to email))), (''subject'', JStr (em_subject email))] extra)
     (if truthy (em_provider_id email) then [(''message_id'', JStr (the (em_provider_id email)))] else []))"

definition webhook_publish ::
  "host \<Rightarrow> ('x, ('x, 'z) webhook_env_ext) world_env_scheme \<Rightarrow> webhook_event_type \<Rightarrow> email_record \<Rightarrow> (string \<times> js_value) list
     \<Rightarrow> mem \<times> 'x \<Rightarrow> (unit result \<times> (mem \<times> 'x)) option" where
  "webhook_publish h env t email extra = publishData h env t (email_event_data email extra)"

section \<open>Reading and replaying deliveries\<close>

definition deliverySummary :: "webhook_delivery_record \<Rightarrow> webhook_delivery" where
  "deliverySummary d = webhook_delivery.truncate d"

definition listDeliveries ::
  "host \<Rightarrow> ('x, 'z) world_env_scheme \<Rightarrow> string \<Rightarrow> nat \<Rightarrow> string option \<Rightarrow> ('x, webhook_delivery page) world_op" where
  "listDeliveries h env webhookId limit cursor =
     bindS (webhook_get env webhookId) (\<lambda>_.
     bindS (nowW env) (\<lambda>now.
     bindS (bindS (readW env (listWebhookDeliveries h now webhookId limit cursor)) liftS) (\<lambda>page.
     returnS \<lparr>pg_data = map deliverySummary (pg_data page), pg_has_more = pg_has_more page, pg_next_cursor = pg_next_cursor page\<rparr>)))"

definition own_delivery :: "string \<Rightarrow> webhook_delivery_record option \<Rightarrow> webhook_delivery_record result" where
  "own_delivery webhookId delivery = (case delivery of
     None \<Rightarrow> Inl (NotFoundError ''Webhook delivery'')
   | Some d \<Rightarrow> if wd_webhook_id d \<noteq> webhookId then Inl (NotFoundError ''Webhook delivery'') else Inr d)"

definition webhook_getDelivery ::
  "host \<Rightarrow> ('x, 'z) world_env_scheme \<Rightarrow> string \<Rightarrow> string \<Rightarrow> ('x, webhook_delivery_record) world_op" where
  "webhook_getDelivery h env webhookId deliveryId =
     bindS (webhook_get env webhookId) (\<lambda>_.
     bindS (readDelivery h env deliveryId) (\<lambda>delivery. liftS (own_delivery webhookId delivery)))"

definition replay ::
  "host \<Rightarrow> ('x, ('x, 'z) webhook_env_ext) world_env_scheme \<Rightarrow> string \<Rightarrow> string \<Rightarrow> ('x, webhook_delivery) world_op" where
  "replay h env webhookId deliveryId =
     bindS (readW env (getWebhook webhookId)) (\<lambda>webhook.
     bindS (liftS (required ''Webhook'' webhook)) (\<lambda>w.
     if wh_status w \<noteq> Wh_enabled then throwS (ValidationError ''Enable the webhook before replaying a delivery.'')
     else bindS (readDelivery h env deliveryId) (\<lambda>source.
       bindS (liftS (own_delivery webhookId source)) (\<lambda>d.
       bindS (awaitW env (enqueueDelivery h env webhookId (wd_event d) (Some (wd_id d)))) (\<lambda>created.
       returnS (deliverySummary created))))))"

section \<open>Delivering\<close>

definition event_text :: "host \<Rightarrow> webhook_event \<Rightarrow> string" where
  "event_text h event = coalesce (json_text h (webhook_event_value event)) []"

text \<open>The seconds of the attempt, as the text of the header.\<close>

definition attempt_seconds :: "host \<Rightarrow> string \<Rightarrow> string" where
  "attempt_seconds h attemptedAt = (case date_parse h attemptedAt of None \<Rightarrow> ''NaN'' | Some t \<Rightarrow> int_dec (t div 1000))"

definition delivery_request ::
  "host \<Rightarrow> webhook_endpoint \<Rightarrow> string \<Rightarrow> string \<Rightarrow> string \<Rightarrow> string \<Rightarrow> webhook_request result" where
  "delivery_request h webhook deliveryId timestamp payload version =
     bindE (signWebhook h (wh_signing_secret webhook) deliveryId timestamp payload) (\<lambda>signature.
     Inr \<lparr>wq_endpoint = wh_endpoint webhook,
       wq_headers = [(''content-type'', ''application/json''), (''user-agent'', ''HayaSend-Webhooks/'' @ version),
         (''svix-id'', deliveryId), (''svix-timestamp'', timestamp), (''svix-signature'', signature)],
       wq_body = payload\<rparr>)"

definition post_event ::
  "host \<Rightarrow> ('x, ('x, 'z) webhook_env_ext) world_env_scheme \<Rightarrow> webhook_endpoint \<Rightarrow> string \<Rightarrow> string \<Rightarrow> string
     \<Rightarrow> ('x, webhook_response) world_op" where
  "post_event h env webhook deliveryId timestamp payload =
     bindS (liftS (delivery_request h webhook deliveryId timestamp payload ''0.3.12'')) (\<lambda>request.
     awaitW env (ws_fetch env request))"

text \<open>What an attempt leaves in the record of its delivery.\<close>

definition attempt_outcome ::
  "webhook_delivery_status \<Rightarrow> int \<Rightarrow> int option \<Rightarrow> string option \<Rightarrow> string \<Rightarrow> string
     \<Rightarrow> webhook_delivery_record \<Rightarrow> webhook_delivery_record" where
  "attempt_outcome status attempts response error attemptedAt updatedAt d =
     d\<lparr>wd_status := status, wd_attempts := attempts, wd_response_status := response, wd_last_error := error,
       wd_last_attempt_at := Some attemptedAt, wd_updated_at := updatedAt\<rparr>"

definition attempt_delivery ::
  "host \<Rightarrow> ('x, ('x, 'z) webhook_env_ext) world_env_scheme \<Rightarrow> webhook_endpoint \<Rightarrow> webhook_delivery_record \<Rightarrow> string \<Rightarrow> int
     \<Rightarrow> ('x, unit) world_op" where
  "attempt_delivery h env webhook delivery deliveryId attempt =
     bindS (nowW env) (\<lambda>now.
     let attemptedAt = to_iso now; attempts = max attempt (wd_attempts delivery + 1) in
     bindS (writeDelivery h env deliveryId (attempt_outcome Wd_delivering attempts None None attemptedAt attemptedAt)) (\<lambda>_.
     let timestamp = attempt_seconds h attemptedAt in
     bindS (catchS (post_event h env webhook deliveryId timestamp (event_text h (wd_event delivery))) (\<lambda>e.
       bindS (nowW env) (\<lambda>later.
       bindS (writeDelivery h env deliveryId (attempt_outcome Wd_failed attempts None
         (Some (safeFailureMessage h Webhook_delivery_failed e)) attemptedAt (to_iso later))) (\<lambda>_. throwS e)))) (\<lambda>response.
     bindS (nowW env) (\<lambda>later.
     if \<not> wr_ok response
     then bindS (writeDelivery h env deliveryId (attempt_outcome Wd_failed attempts (Some (wr_status response))
         (Some (''HTTP '' @ int_dec (wr_status response))) attemptedAt (to_iso later))) (\<lambda>_.
       throwS (PlainError (''Webhook '' @ wh_id webhook @ '' returned HTTP '' @ int_dec (wr_status response) @ ''.'')))
     else bindS (writeDelivery h env deliveryId (attempt_outcome Wd_succeeded attempts (Some (wr_status response)) None
         attemptedAt (to_iso later))) (\<lambda>_. returnS ())))))"

definition known_delivery ::
  "host \<Rightarrow> ('x, ('x, 'z) webhook_env_ext) world_env_scheme \<Rightarrow> string \<Rightarrow> webhook_event \<Rightarrow> string
     \<Rightarrow> ('x, webhook_delivery_record) world_op" where
  "known_delivery h env webhookId event deliveryId =
     bindS (readDelivery h env deliveryId) (\<lambda>delivery.
     case delivery of
       None \<Rightarrow> bindS (newDelivery env deliveryId webhookId event None) (\<lambda>d.
         bindS (storeW env (createWebhookDelivery d)) (\<lambda>_. returnS d))
     | Some d \<Rightarrow> if wd_webhook_id d \<noteq> webhookId
         then throwS (PlainError ''Webhook delivery does not belong to the queued endpoint.'') else returnS d)"

definition deliver ::
  "host \<Rightarrow> ('x, ('x, 'z) webhook_env_ext) world_env_scheme \<Rightarrow> string \<Rightarrow> webhook_event \<Rightarrow> string option \<Rightarrow> int \<Rightarrow> ('x, unit) world_op" where
  "deliver h env webhookId event deliveryId attempt =
     bindS (case deliveryId of None \<Rightarrow> createIdW env ''msg'' | Some i \<Rightarrow> returnS i) (\<lambda>i.
     bindS (known_delivery h env webhookId event i) (\<lambda>delivery.
     bindS (readW env (getWebhook webhookId)) (\<lambda>webhook.
     case webhook of
       None \<Rightarrow> bindS (nowW env) (\<lambda>now.
         bindS (writeDelivery h env i (\<lambda>d. d\<lparr>wd_status := Wd_cancelled, wd_updated_at := to_iso now\<rparr>)) (\<lambda>_. returnS ()))
     | Some w \<Rightarrow>
         if wh_status w \<noteq> Wh_enabled
         then bindS (nowW env) (\<lambda>now.
           bindS (writeDelivery h env i (\<lambda>d. d\<lparr>wd_status := Wd_cancelled, wd_updated_at := to_iso now\<rparr>)) (\<lambda>_. returnS ()))
         else attempt_delivery h env w delivery i attempt)))"

end
