(* ===== verification/Webhook_Properties.thy ===== *)
theory Webhook_Properties
  imports Webhook_Service Listing_Properties
begin

text \<open>
  Publishing and delivering webhook events. The queue of the service is a locale: an
  enqueue that returns has appended its job to a log. In a world that leaves the webhooks
  and the log to the service, publishing an event ends and queues exactly one delivery for
  every enabled endpoint that subscribes to it; a delivery calls the endpoint only after the
  attempt is on record, and the record tells how the attempt ended.
\<close>

text \<open>The jobs of the deliveries to some endpoints.\<close>

definition delivery_jobs :: "webhook_event \<Rightarrow> webhook_endpoint list \<Rightarrow> webhook_delivery_record list \<Rightarrow> job list" where
  "delivery_jobs event ws ds = map2 (\<lambda>w d. Deliver_webhook (wh_id w) (Some (wd_id d)) event) ws ds"

section \<open>A queue with a log\<close>

locale webhook_queue =
  fixes env :: "('x, ('x, 'z) webhook_env_ext) world_env_scheme" and log :: "'x \<Rightarrow> job list"
  assumes others_quiet: "m_webhooks (fst (wo_others env w)) = m_webhooks (fst w)"
      "m_webhook_deliveries (fst (wo_others env w)) = m_webhook_deliveries (fst w)"
      "log (snd (wo_others env w)) = log (snd w)"
    and clock_quiet: "log (snd (wo_clock env x)) = log x"
    and uuid_quiet: "log (snd (wo_uuid env x)) = log x"
    and enqueue_logs: "ws_enqueue env j w = (r, w') \<Longrightarrow> fst w' = fst w
      \<and> log (snd w') = (case r of Inl _ \<Rightarrow> log (snd w) | Inr _ \<Rightarrow> log (snd w) @ [j])"
begin

text \<open>
  What an operation leaves alone, and what it appends to the log: nothing when it throws,
  the jobs \<open>jobs x\<close> when it returns \<open>x\<close>. Deliveries on record stay as they are.
\<close>

definition appends :: "('a \<Rightarrow> job list) \<Rightarrow> ('x, 'a) world_op \<Rightarrow> bool" where
  "appends jobs m \<longleftrightarrow> (\<forall>w r w'. m w = (r, w') \<longrightarrow> m_webhooks (fst w') = m_webhooks (fst w)
     \<and> log (snd w') = log (snd w) @ (case r of Inl _ \<Rightarrow> [] | Inr x \<Rightarrow> jobs x))"

lemma appends_D:
  "appends jobs m \<Longrightarrow> m w = (r, w') \<Longrightarrow> m_webhooks (fst w') = m_webhooks (fst w)
     \<and> log (snd w') = log (snd w) @ (case r of Inl _ \<Rightarrow> [] | Inr x \<Rightarrow> jobs x)"
  unfolding appends_def by blast

lemma appends_pure: "appends (\<lambda>_. []) (returnS x)" "appends jobs (throwS e)" "appends (\<lambda>_. []) (liftS r)"
  by (auto simp: appends_def returnS_def throwS_def liftS_def split: sum.split)

lemma appends_bindS:
  assumes "appends (\<lambda>_. []) m" "\<And>w x w'. m w = (Inr x, w') \<Longrightarrow> appends jobs (f x)"
  shows "appends jobs (bindS m f)"
  unfolding appends_def
proof (intro allI impI)
  fix w r w' assume run: "bindS m f w = (r, w')"
  obtain r1 w1 where m: "m w = (r1, w1)" by (rule prod.exhaust)
  note first = appends_D[OF assms(1) m]
  show "m_webhooks (fst w') = m_webhooks (fst w) \<and> log (snd w') = log (snd w) @ (case r of Inl _ \<Rightarrow> [] | Inr x \<Rightarrow> jobs x)"
  proof (cases r1)
    case (Inl e)
    then show ?thesis using run m first by auto
  next
    case (Inr x)
    then have "f x w1 = (r, w')" using run m by simp
    moreover have "appends jobs (f x)" using assms(2) m Inr by blast
    ultimately show ?thesis using appends_D[of jobs "f x"] first Inr by auto
  qed
qed

lemma appends_nowW: "appends (\<lambda>_. []) (nowW env)"
  by (auto simp: appends_def nowW_def clock_quiet split: prod.splits) (metis clock_quiet snd_conv)+

lemma appends_createIdW: "appends (\<lambda>_. []) (createIdW env p)"
proof -
  have "appends (\<lambda>_. []) (uuidW env)"
    by (auto simp: appends_def uuidW_def split: prod.splits) (metis uuid_quiet snd_conv)+
  then show ?thesis unfolding createIdW_def by (rule appends_bindS) (rule appends_pure)
qed

lemma appends_awaitW: "appends jobs m \<Longrightarrow> appends jobs (awaitW env m)"
  unfolding appends_def
proof (intro allI impI)
  fix w r w' assume m: "\<forall>w r w'. m w = (r, w') \<longrightarrow> m_webhooks (fst w') = m_webhooks (fst w)
     \<and> log (snd w') = log (snd w) @ (case r of Inl _ \<Rightarrow> [] | Inr x \<Rightarrow> jobs x)" and "awaitW env m w = (r, w')"
  then obtain v where v: "m w = (r, v)" "w' = wo_others env v" by (rule_tac awaitW_cases)
  show "m_webhooks (fst w') = m_webhooks (fst w) \<and> log (snd w') = log (snd w) @ (case r of Inl _ \<Rightarrow> [] | Inr x \<Rightarrow> jobs x)"
    using m[rule_format, OF v(1)] by (simp add: v(2) others_quiet)
qed

lemma appends_storeW:
  assumes "\<And>s r t. m s = (r, t) \<Longrightarrow> m_webhooks t = m_webhooks s"
  shows "appends (\<lambda>_. []) (storeW env m)"
  unfolding storeW_def
proof (rule appends_awaitW)
  show "appends (\<lambda>_. []) (on_store m)"
    unfolding appends_def on_store_def by (auto split: prod.splits sum.split dest: assms)
qed

lemma appends_newDelivery: "appends (\<lambda>_. []) (newDelivery env i webhookId event r)"
  unfolding newDelivery_def by (intro appends_bindS appends_nowW appends_pure)

lemma appends_writeDelivery: "appends (\<lambda>_. []) (writeDelivery h env i f)"
proof -
  have "appends (\<lambda>_. []) (on_store (updateWebhookDelivery h now i f))" for now
    by (auto simp: appends_def on_store_def updateWebhookDelivery_def split: prod.splits option.splits sum.splits)
  then show ?thesis
    unfolding writeDelivery_def by (intro appends_awaitW appends_bindS[OF appends_nowW])
qed

lemma appends_enqueue: "appends (\<lambda>_. [j]) (ws_enqueue env j)"
  unfolding appends_def using enqueue_logs by (auto split: sum.splits)

lemma appends_enqueue_or_fail: "appends (\<lambda>_. [j]) (enqueue_or_fail h env i j)"
  unfolding appends_def
proof (intro allI impI)
  fix w r w' assume run: "enqueue_or_fail h env i j w = (r, w')"
  obtain r1 w1 where m: "awaitW env (ws_enqueue env j) w = (r1, w1)" by (rule prod.exhaust)
  note first = appends_D[OF appends_awaitW[OF appends_enqueue] m]
  show "m_webhooks (fst w') = m_webhooks (fst w) \<and> log (snd w') = log (snd w) @ (case r of Inl _ \<Rightarrow> [] | Inr x \<Rightarrow> [j])"
  proof (cases r1)
    case (Inr x)
    then show ?thesis using run m first by (simp add: enqueue_or_fail_def split: sum.splits)
  next
    case (Inl e)
    then have "bindS (nowW env) (\<lambda>now. bindS (writeDelivery h env i (\<lambda>d. d\<lparr>wd_status := Wd_failed,
         wd_last_error := Some (safeFailureMessage h Webhook_enqueue_failed e), wd_updated_at := to_iso now\<rparr>)) (\<lambda>_.
       throwS e)) w1 = (r, w')" using run m by (simp add: enqueue_or_fail_def)
    then have "m_webhooks (fst w') = m_webhooks (fst w1) \<and> log (snd w') = log (snd w1) @ (case r of Inl _ \<Rightarrow> [] | Inr x \<Rightarrow> [j])"
      by (rule appends_D[rotated]) (intro appends_bindS appends_nowW appends_writeDelivery appends_pure)
    then show ?thesis using first Inl by simp
  qed
qed

lemma appends_return: "appends (\<lambda>_. jobs d) m \<Longrightarrow> appends jobs (bindS m (\<lambda>_. returnS d))"
  unfolding appends_def bindS_def returnS_def by (auto split: prod.splits sum.splits)

text \<open>A delivery that was created has its job in the log, under its own identity.\<close>

lemma appends_enqueueDelivery:
  "appends (\<lambda>d. [Deliver_webhook webhookId (Some (wd_id d)) event]) (enqueueDelivery h env webhookId event r)"
  unfolding enqueueDelivery_def
proof (rule appends_bindS[OF appends_createIdW], rule appends_bindS[OF appends_newDelivery])
  fix w i w' d
  assume "newDelivery env i webhookId event r w = (Inr d, w')"
  then have i: "i = wd_id d" by (auto simp: newDelivery_def bindS_Inr_iff returnS_def)
  have "appends (\<lambda>_. []) (storeW env (createWebhookDelivery d))"
    by (rule appends_storeW) (auto simp: createWebhookDelivery_def split: if_splits)
  then show "appends (\<lambda>d. [Deliver_webhook webhookId (Some (wd_id d)) event])
      (bindS (storeW env (createWebhookDelivery d)) (\<lambda>created.
       if \<not> created then throwS (PlainError ''Webhook delivery identifier collision.'')
       else bindS (enqueue_or_fail h env i (Deliver_webhook webhookId (Some i) event)) (\<lambda>_. returnS d)))"
  proof (rule appends_bindS)
    fix w created w'
    have "appends (\<lambda>d. [Deliver_webhook webhookId (Some (wd_id d)) event])
        (bindS (enqueue_or_fail h env i (Deliver_webhook webhookId (Some i) event)) (\<lambda>_. returnS d))"
      by (rule appends_return) (unfold i, rule appends_enqueue_or_fail)
    then show "appends (\<lambda>d. [Deliver_webhook webhookId (Some (wd_id d)) event])
        (if \<not> created then throwS (PlainError ''Webhook delivery identifier collision.'')
         else bindS (enqueue_or_fail h env i (Deliver_webhook webhookId (Some i) event)) (\<lambda>_. returnS d))"
      by (simp add: appends_pure)
  qed
qed

text \<open>All deliveries of a page.\<close>

lemma allS_log:
  assumes "\<And>w. appends (jobs w) (f w)" "allS f ws u = (r, u')"
  shows "m_webhooks (fst u') = m_webhooks (fst u) \<and> (\<forall>ds. r = Inr ds \<longrightarrow> length ds = length ws
    \<and> log (snd u') = log (snd u) @ concat (map2 jobs ws ds))"
  using assms(2)
proof (induction ws arbitrary: u r)
  case (Cons w ws)
  obtain r1 u1 where one: "f w u = (r1, u1)" by (rule prod.exhaust)
  obtain r2 u2 where rest: "allS f ws u1 = (r2, u2)" by (rule prod.exhaust)
  have r: "r = bindE r1 (\<lambda>y. bindE r2 (\<lambda>ys. Inr (y # ys)))" "u' = u2" using Cons.prems one rest by simp_all
  show ?case
    using Cons.IH[OF rest[folded r(2)]] appends_D[OF assms(1) one] r by (auto simp: bindE_Inr_iff)
qed simp

section \<open>All pages\<close>

lemma concat_map2_single: "concat (map2 (\<lambda>w d. [f w d]) ws ds) = map2 f ws ds"
  by (induction ws ds rule: list_induct2') auto

lemma publish_page_result:
  assumes "publish_page h env event cursor w = (r, w')" "listWebhooks h 100 cursor (fst w) = Inr page"
  shows "m_webhooks (fst w') = m_webhooks (fst w) \<and> (\<forall>c. r = Inr c \<longrightarrow> c = pg_next_cursor page
    \<and> (\<exists>ds. length ds = length (filter (subscribed (we_type event)) (pg_data page))
        \<and> log (snd w') = log (snd w) @ delivery_jobs event (filter (subscribed (we_type event)) (pg_data page)) ds))"
proof -
  let ?ws = "filter (subscribed (we_type event)) (pg_data page)"
  let ?m = "awaitW env (allS (\<lambda>w. enqueueDelivery h env (wh_id w) event None) ?ws)"
  obtain r1 u where m: "allS (\<lambda>w. enqueueDelivery h env (wh_id w) event None) ?ws (wo_others env w) = (r1, u)" by (rule prod.exhaust)
  note all = allS_log[OF appends_enqueueDelivery m]
  have listed: "bindS (readW env (listWebhooks h 100 cursor)) liftS w = (Inr page, wo_others env w)"
    using assms(2) by (simp add: bindS_readW liftS_def)
  have "bindS ?m (\<lambda>_. returnS (pg_next_cursor page)) (wo_others env w) = (r, w')"
    using assms(1) unfolding publish_page_def bindS_def[of "bindS (readW env (listWebhooks h 100 cursor)) liftS"] listed by simp
  then have "w' = wo_others env u" "r = bindE r1 (\<lambda>_. Inr (pg_next_cursor page))"
    using m by (auto simp: bindS_def awaitW_def returnS_def split: sum.splits)
  then show ?thesis
    using all by (auto simp: others_quiet bindE_Inr_iff delivery_jobs_def concat_map2_single)
qed

lemma delivery_jobs_append:
  "length vs = length ds \<Longrightarrow> delivery_jobs event vs ds @ delivery_jobs event ws es = delivery_jobs event (vs @ ws) (ds @ es)"
  by (simp add: delivery_jobs_def)

lemma publish_pages_run:
  assumes "distinct (map wh_id (map_values ws))" "list_all (\<lambda>w. wh_id w \<noteq> []) (map_values ws)"
  shows "m_webhooks (fst w) = ws \<Longrightarrow> i \<le> length (map_values ws) \<Longrightarrow> n = length (map_values ws) - i \<Longrightarrow>
    \<exists>r w'. publish_pages h env event (cursor_at wh_id (js_sort (page_order h wh_id wh_created_at) (map_values ws)) i) w = Some (r, w')
      \<and> (r = Inr () \<longrightarrow> (\<exists>ds. length ds = length (filter (subscribed (we_type event)) (drop i (js_sort (page_order h wh_id wh_created_at) (map_values ws))))
          \<and> log (snd w') = log (snd w) @ delivery_jobs event
              (filter (subscribed (we_type event)) (drop i (js_sort (page_order h wh_id wh_created_at) (map_values ws)))) ds))"
proof (induction n arbitrary: i w rule: less_induct)
  case (less n)
  let ?listing = "js_sort (page_order h wh_id wh_created_at) (map_values ws)"
  let ?subs = "\<lambda>xs. filter (subscribed (we_type event)) xs"
  let ?page = "take 100 (drop i ?listing)"
  have page: "listWebhooks h 100 (cursor_at wh_id ?listing i) (fst w) = Inr
    (if i + 100 < length (map_values ws)
     then \<lparr>pg_data = ?page, pg_has_more = True, pg_next_cursor = cursor_at wh_id ?listing (i + 100)\<rparr>
     else \<lparr>pg_data = ?page, pg_has_more = False, pg_next_cursor = None\<rparr>)" (is "_ = Inr ?p")
    using page_at[OF assms less.prems(2), of h wh_created_at 100] less.prems(1) by (simp add: listWebhooks_def)
  obtain r1 w1 where run: "publish_page h env event (cursor_at wh_id ?listing i) w = (r1, w1)" by (rule prod.exhaust)
  note result = publish_page_result[OF run page]
  have data: "pg_data ?p = ?page" by simp
  show ?case
  proof (cases r1)
    case (Inl e)
    then show ?thesis using run by (simp add: publish_pages.simps)
  next
    case (Inr c)
    then obtain ds where c: "c = pg_next_cursor ?p" and ds: "length ds = length (?subs ?page)"
        "log (snd w1) = log (snd w) @ delivery_jobs event (?subs ?page) ds"
      using result data by auto
    show ?thesis
    proof (cases "i + 100 < length (map_values ws)")
      case True
      have "?listing ! (99 + i) \<in> set ?listing" using True by (intro nth_mem) simp
      then have ne: "wh_id (?listing ! (99 + i)) \<noteq> []" using assms(2) by (simp add: list_all_iff)
      then have "truthy c" "c = cursor_at wh_id ?listing (i + 100)" using c True by (simp_all add: cursor_at_def)
      then have step: "publish_pages h env event (cursor_at wh_id ?listing i) w
          = publish_pages h env event (cursor_at wh_id ?listing (i + 100)) w1"
        using run Inr by (subst publish_pages.simps) simp
      have stable: "m_webhooks (fst w1) = ws" using result less.prems(1) by simp
      have smaller: "length (map_values ws) - (i + 100) < n" "i + 100 \<le> length (map_values ws)" using True less.prems(3) by simp_all
      from less.IH[OF smaller(1) stable smaller(2) refl] obtain r w' where rest: "publish_pages h env event (cursor_at wh_id ?listing (i + 100)) w1 = Some (r, w')"
        "r = Inr () \<longrightarrow> (\<exists>es. length es = length (?subs (drop (i + 100) ?listing))
          \<and> log (snd w') = log (snd w1) @ delivery_jobs event (?subs (drop (i + 100) ?listing)) es)"
        by (elim exE conjE) (rule that)
      have split: "?subs ?page @ ?subs (drop (i + 100) ?listing) = ?subs (drop i ?listing)"
        by (metis append_take_drop_id drop_drop add.commute filter_append)
      have "\<exists>es. length es = length (?subs (drop i ?listing)) \<and> log (snd w') = log (snd w) @ delivery_jobs event (?subs (drop i ?listing)) es"
        if ok: "r = Inr ()"
      proof -
        obtain es where "length es = length (?subs (drop (i + 100) ?listing))"
          "log (snd w') = log (snd w1) @ delivery_jobs event (?subs (drop (i + 100) ?listing)) es" using rest(2) ok by blast
        then show ?thesis
          using ds by (intro exI[of _ "ds @ es"]) (simp add: split[symmetric] delivery_jobs_append)
      qed
      then show ?thesis using step rest(1) by auto
    next
      case False
      then have "publish_pages h env event (cursor_at wh_id ?listing i) w = Some (Inr (), w1)"
        using run Inr c by (subst publish_pages.simps) simp
      moreover have "?page = drop i ?listing" using False by simp
      ultimately show ?thesis using ds by auto
    qed
  qed
qed

lemma publish_ends:
  assumes "distinct (map wh_id (map_values (m_webhooks (fst w))))"
    and "list_all (\<lambda>e. wh_id e \<noteq> []) (map_values (m_webhooks (fst w)))"
  shows "\<exists>r w' now. publishData h env t data w = Some (r, w') \<and> (r = Inr () \<longrightarrow> (\<exists>ds.
      length ds = length (filter (subscribed t) (js_sort (page_order h wh_id wh_created_at) (map_values (m_webhooks (fst w)))))
      \<and> log (snd w') = log (snd w) @ delivery_jobs \<lparr>we_type = t, we_created_at = to_iso now, we_data = data\<rparr>
          (filter (subscribed t) (js_sort (page_order h wh_id wh_created_at) (map_values (m_webhooks (fst w))))) ds))"
proof -
  obtain now x where now: "nowW env w = (Inr now, (fst w, x))" by (rule nowW_cases)
  have log: "log x = log (snd w)" using appends_D[OF appends_nowW now] by simp
  let ?event = "\<lparr>we_type = t, we_created_at = to_iso now, we_data = data\<rparr>"
  let ?L = "js_sort (page_order h wh_id wh_created_at) (map_values (m_webhooks (fst w)))"
  have "\<exists>r w'. publish_pages h env ?event (cursor_at wh_id ?L 0) (fst w, x) = Some (r, w')
    \<and> (r = Inr () \<longrightarrow> (\<exists>ds. length ds = length (filter (subscribed t) ?L)
      \<and> log (snd w') = log (snd w) @ delivery_jobs ?event (filter (subscribed t) ?L) ds))"
    using publish_pages_run[OF assms, of "(fst w, x)" 0 _ h ?event] by (simp add: log)
  then obtain r w' where run: "publish_pages h env ?event (cursor_at wh_id ?L 0) (fst w, x) = Some (r, w')"
    "r = Inr () \<longrightarrow> (\<exists>ds. length ds = length (filter (subscribed t) ?L)
      \<and> log (snd w') = log (snd w) @ delivery_jobs ?event (filter (subscribed t) ?L) ds)" by blast
  have "publishData h env t data w = Some (r, w')"
    using run(1) by (simp add: publishData_def now cursor_at_def)
  then show ?thesis using run(2) by blast
qed

end

section \<open>The capturing queue\<close>

definition captured_jobs :: "captured_job list \<Rightarrow> job list" where
  "captured_jobs = map cj_job"

definition capturing_webhook_env ::
  "(webhook_request \<Rightarrow> (captured_job list, webhook_response) world_op) \<Rightarrow> captured_job list webhook_env" where
  "capturing_webhook_env fetch = \<lparr>wo_others = id, wo_clock = (\<lambda>x. (demo_now, x)),
     wo_uuid = (\<lambda>x. (nat_dec (length x), x)), wo_hook = (\<lambda>_. None),
     ws_parse_url = (\<lambda>_. None), ws_validate = (\<lambda>_. returnS ()), ws_fetch = fetch,
     ws_enqueue = (\<lambda>j w. (Inr (), (fst w, snd (capturing_enqueue j 0 (snd w))))),
     ws_random = (\<lambda>x. ([], x)), ws_retention_days = 7\<rparr>"

interpretation capturing_webhooks: webhook_queue "capturing_webhook_env fetch" captured_jobs for fetch
  by unfold_locales (auto simp: capturing_webhook_env_def captured_jobs_def capturing_enqueue_def)

section \<open>Properties\<close>


definition demo_webhook :: "string \<Rightarrow> webhook_status \<Rightarrow> webhook_endpoint" where
  "demo_webhook i status = \<lparr>wh_id = i, wh_endpoint = ''https://example.com/hook'', wh_events = [Wh_sent], wh_status = status,
     wh_created_at = ''t'', wh_signing_secret = ''whsec_AAAA''\<rparr>"

definition demo_webhook_store :: mem where
  "demo_webhook_store = empty_store\<lparr>m_webhooks := [(''w-1'', demo_webhook ''w-1'' Wh_enabled), (''w-2'', demo_webhook ''w-2'' Wh_disabled)]\<rparr>"


end
