(* ===== verification/Webhook_Delivery.thy ===== *)
theory Webhook_Delivery
  imports Webhook_Properties
begin

text \<open>
  What a delivery job does: the attempt is on record before the endpoint is called, the
  request is signed with the secret of the endpoint, and the record afterwards says how the
  call ended.
\<close>

section \<open>Records of deliveries\<close>

definition set_delivery :: "string \<Rightarrow> webhook_delivery_record \<Rightarrow> mem \<Rightarrow> mem" where
  "set_delivery i d s = s\<lparr>m_webhook_deliveries := map_set i d (m_webhook_deliveries s)\<rparr>"

lemma map_set_set: "map_set k v (map_set k u m) = map_set k v m"
  by (induction m) auto

lemma set_delivery_facts [simp]:
  "map_get (m_webhook_deliveries (set_delivery i d s)) i = Some d" "m_webhooks (set_delivery i d s) = m_webhooks s"
  "set_delivery i e (set_delivery i d s) = set_delivery i e s"
  by (simp_all add: set_delivery_def map_set_set)

lemma attempt_outcome_facts [simp]:
  "wd_expires_at (attempt_outcome st n r e a u d) = wd_expires_at d"
  "attempt_outcome st n r e a u (attempt_outcome st' n' r' e' a' u' d) = attempt_outcome st n r e a u d"
  by (simp_all add: attempt_outcome_def)

text \<open>In a world at rest only the service acts, and the delivery has not expired.\<close>

definition at_rest :: "('x, 'z) world_env_scheme \<Rightarrow> bool" where
  "at_rest env \<longleftrightarrow> (\<forall>w. wo_others env w = w)"

definition unexpired :: "host \<Rightarrow> ('x, 'z) world_env_scheme \<Rightarrow> string \<Rightarrow> bool" where
  "unexpired h env expires \<longleftrightarrow> (\<forall>x. \<not> date_le (date_parse h expires) (Some (fst (wo_clock env x))))"

lemma at_rest_await: "at_rest env \<Longrightarrow> awaitW env m = m"
  by (auto simp: at_rest_def awaitW_def fun_eq_iff split: prod.split)

lemma clock_run: "nowW env (s, x) = (Inr (fst (wo_clock env x)), (s, snd (wo_clock env x)))"
  by (simp add: nowW_def split: prod.split)

lemma read_run:
  assumes "at_rest env" "unexpired h env (wd_expires_at d)" "map_get (m_webhook_deliveries s) i = Some d"
  shows "readDelivery h env i (s, x) = (Inr (Some d), (s, snd (wo_clock env x)))"
  using assms
  by (simp add: readDelivery_def at_rest_await clock_run on_store_def getS_def getWebhookDelivery_def unexpired_def)

lemma write_run:
  assumes "at_rest env" "unexpired h env (wd_expires_at d)" "map_get (m_webhook_deliveries s) i = Some d"
  shows "writeDelivery h env i f (s, x) = (Inr (Some (f d)), (set_delivery i (f d) s, snd (wo_clock env x)))"
  using assms
  by (simp add: writeDelivery_def at_rest_await clock_run on_store_def updateWebhookDelivery_def
      getWebhookDelivery_def unexpired_def set_delivery_def)

section \<open>Endings\<close>

text \<open>What the service records and returns when the call of the endpoint ends with \<open>r\<close>.\<close>

definition attempt_record ::
  "host \<Rightarrow> webhook_response result \<Rightarrow> int \<Rightarrow> string \<Rightarrow> string \<Rightarrow> webhook_delivery_record \<Rightarrow> webhook_delivery_record" where
  "attempt_record h r n attemptedAt endedAt d = (case r of
     Inl e \<Rightarrow> attempt_outcome Wd_failed n None (Some (safeFailureMessage h Webhook_delivery_failed e)) attemptedAt endedAt d
   | Inr response \<Rightarrow>
       if wr_ok response then attempt_outcome Wd_succeeded n (Some (wr_status response)) None attemptedAt endedAt d
       else attempt_outcome Wd_failed n (Some (wr_status response)) (Some (''HTTP '' @ int_dec (wr_status response))) attemptedAt endedAt d)"

definition attempt_result :: "webhook_endpoint \<Rightarrow> webhook_response result \<Rightarrow> unit result" where
  "attempt_result hook r = (case r of Inl e \<Rightarrow> Inl e
   | Inr response \<Rightarrow> if wr_ok response then Inr ()
       else Inl (PlainError (''Webhook '' @ wh_id hook @ '' returned HTTP '' @ int_dec (wr_status response) @ ''.'')))"

lemma attempt_run:
  assumes rest: "at_rest env" and live: "unexpired h env (wd_expires_at d)"
    and stored: "map_get (m_webhook_deliveries s) i = Some d"
    and request: "delivery_request h hook i (attempt_seconds h (to_iso (fst (wo_clock env x)))) (event_text h (wd_event d)) ''0.3.12'' = Inr request"
    and fetch: "ws_fetch env request (set_delivery i (attempt_outcome Wd_delivering (max attempt (wd_attempts d + 1)) None None
        (to_iso (fst (wo_clock env x))) (to_iso (fst (wo_clock env x))) d) s, snd (wo_clock env (snd (wo_clock env x))))
      = (r, (set_delivery i (attempt_outcome Wd_delivering (max attempt (wd_attempts d + 1)) None None
        (to_iso (fst (wo_clock env x))) (to_iso (fst (wo_clock env x))) d) s, y))"
  shows "attempt_delivery h env hook d i attempt (s, x) = (attempt_result hook r,
    (set_delivery i (attempt_record h r (max attempt (wd_attempts d + 1)) (to_iso (fst (wo_clock env x)))
       (to_iso (fst (wo_clock env y))) d) s, snd (wo_clock env (snd (wo_clock env y)))))"
proof -
  let ?n = "max attempt (wd_attempts d + 1)" and ?t = "to_iso (fst (wo_clock env x))"
  let ?begun = "attempt_outcome Wd_delivering ?n None None ?t ?t d"
  have begun: "writeDelivery h env i (attempt_outcome Wd_delivering ?n None None ?t ?t) (s, snd (wo_clock env x))
      = (Inr (Some ?begun), (set_delivery i ?begun s, snd (wo_clock env (snd (wo_clock env x)))))"
    by (rule write_run[OF rest live stored])
  have ended: "writeDelivery h env i f (set_delivery i ?begun s, z) = (Inr (Some (f ?begun)), (set_delivery i (f ?begun) s, snd (wo_clock env z)))" for f z
    using write_run[OF rest, of h ?begun "set_delivery i ?begun s" i f z] live by simp
  have post: "post_event h env hook i (attempt_seconds h ?t) (event_text h (wd_event d))
      (set_delivery i ?begun s, snd (wo_clock env (snd (wo_clock env x)))) = (r, (set_delivery i ?begun s, y))"
    using request fetch by (simp add: post_event_def liftS_def bindS_def at_rest_await[OF rest])
  have start: "attempt_delivery h env hook d i attempt (s, x) =
    bindS (catchS (post_event h env hook i (attempt_seconds h ?t) (event_text h (wd_event d))) (\<lambda>e.
       bindS (nowW env) (\<lambda>later. bindS (writeDelivery h env i (attempt_outcome Wd_failed ?n None
         (Some (safeFailureMessage h Webhook_delivery_failed e)) ?t (to_iso later))) (\<lambda>_. throwS e)))) (\<lambda>response.
     bindS (nowW env) (\<lambda>later.
     if \<not> wr_ok response
     then bindS (writeDelivery h env i (attempt_outcome Wd_failed ?n (Some (wr_status response))
         (Some (''HTTP '' @ int_dec (wr_status response))) ?t (to_iso later))) (\<lambda>_.
       throwS (PlainError (''Webhook '' @ wh_id hook @ '' returned HTTP '' @ int_dec (wr_status response) @ ''.'')))
     else bindS (writeDelivery h env i (attempt_outcome Wd_succeeded ?n (Some (wr_status response)) None ?t (to_iso later))) (\<lambda>_.
       returnS ()))) (set_delivery i ?begun s, snd (wo_clock env (snd (wo_clock env x))))"
    unfolding attempt_delivery_def Let_def by (simp add: clock_run begun)
  show ?thesis
  proof (cases r)
    case (Inl e)
    then show ?thesis
      unfolding start using post
      by (simp add: bindS_def catchS_def clock_run ended throwS_def attempt_result_def attempt_record_def)
  next
    case (Inr response)
    then show ?thesis
      unfolding start using post
      by (simp add: bindS_def catchS_def clock_run ended throwS_def returnS_def attempt_result_def attempt_record_def)
  qed
qed


definition demo_delivery_record :: webhook_delivery_record where
  "demo_delivery_record = \<lparr>wd_id = ''m-1'', wd_webhook_id = ''w-1'', wd_event_type = Wh_sent, wd_status = Wd_pending, wd_attempts = 0,
     wd_response_status = None, wd_last_error = None, wd_last_attempt_at = None, wd_replayed_from = None,
     wd_created_at = demo_time 0, wd_updated_at = demo_time 0, wd_expires_at = demo_time 1000,
     wd_event = \<lparr>we_type = Wh_sent, we_created_at = demo_time 0, we_data = []\<rparr>\<rparr>"


end
