(* ===== verification/Api_Key_Service.thy ===== *)
theory Api_Key_Service
  imports Store_Motion Catalog_Store Crypto_Properties
begin

text \<open>
  API keys (\<open>src/services/api-key-service.ts\<close>). The store keeps the hash of a token only, and
  a scoped token names its key, so a token is checked against one record; any other token
  can only be the secret of the bootstrap administrator. The provider of that secret and the
  random bytes of a new token are ports of the environment.
\<close>

section \<open>The service\<close>

record 'x api_key_env = "'x world_env" +
  ks_bootstrap :: "('x, string) world_op"
  ks_random :: "'x \<Rightarrow> 8 word list \<times> 'x"

text \<open>The group of \<open>/^re_hs_(key_[a-f0-9]{32})\.[A-Za-z0-9_-]{43}$/\<close>.\<close>

definition scoped_key :: "string \<Rightarrow> string option" where
  "scoped_key token =
     (let i = take 36 (drop 6 token); rest = drop 42 token
      in if take 6 token = ''re_hs_'' \<and> length i = 36 \<and> take 4 i = ''key_'' \<and> list_all is_hex_lower (drop 4 i)
            \<and> length rest = 44 \<and> hd rest = CHR ''.'' \<and> list_all is_id_char (tl rest)
         then Some i else None)"

definition publicApiKey :: "api_key_record \<Rightarrow> public_api_key" where
  "publicApiKey record = public_api_key.truncate record"

text \<open>\<open>record.expires_at && new Date(record.expires_at).getTime() <= Date.now()\<close>\<close>

definition key_expired :: "host \<Rightarrow> ('x, 'z) world_env_scheme \<Rightarrow> string option \<Rightarrow> ('x, bool) world_op" where
  "key_expired h env expires =
     (if truthy expires
      then bindS (nowW env) (\<lambda>now. returnS (date_le (date_parse h (coalesce expires [])) (Some now)))
      else returnS False)"

definition bootstrap_principal :: authenticated_principal where
  "bootstrap_principal = \<lparr>ap_id = ''bootstrap'', ap_name = ''Bootstrap administrator'', ap_scopes = [Scope_all], ap_bootstrap = True\<rparr>"

definition key_principal :: "api_key_record \<Rightarrow> authenticated_principal" where
  "key_principal record = \<lparr>ap_id = ak_id record, ap_name = ak_name record, ap_scopes = ak_scopes record, ap_bootstrap = False\<rparr>"

definition unauthorized :: js_error where
  "unauthorized = UnauthorizedError ''The API key is invalid or missing.''"

definition authenticate ::
  "host \<Rightarrow> ('x, ('x, 'z) api_key_env_ext) world_env_scheme \<Rightarrow> string \<Rightarrow> ('x, authenticated_principal) world_op" where
  "authenticate h env token = (case scoped_key token of
     Some i \<Rightarrow>
       bindS (readW env (getApiKey i)) (\<lambda>record. case record of
         None \<Rightarrow> throwS unauthorized
       | Some r \<Rightarrow>
           if truthy (ak_revoked_at r) then throwS unauthorized
           else bindS (key_expired h env (ak_expires_at r)) (\<lambda>expired.
             if expired \<or> \<not> secretsEqual (ak_key_hash r) (sha256 h token) then throwS unauthorized
             else returnS (key_principal r)))
   | None \<Rightarrow>
       if starts_with ''re_hs_'' token \<and> CHR ''.'' \<in> set token then throwS unauthorized
       else bindS (awaitW env (ks_bootstrap env)) (\<lambda>bootstrapKey.
         if secretsEqual token bootstrapKey then returnS bootstrap_principal else throwS unauthorized))"

record api_key_input =
  ki_name :: string
  ki_scopes :: "api_scope list"
  ki_expires_at :: "string option"

definition random_tokenW :: "('x, ('x, 'z) api_key_env_ext) world_env_scheme \<Rightarrow> ('x, string) world_op" where
  "random_tokenW env w = (case ks_random env (snd w) of (bs, x) \<Rightarrow> (Inr (createRandomToken bs), (fst w, x)))"

definition key_expiry :: "host \<Rightarrow> string option \<Rightarrow> string option result" where
  "key_expiry h expires =
     (if truthy expires then bindE (to_iso_of_string h (coalesce expires [])) (\<lambda>t. Inr (Some t)) else Inr None)"

text \<open>The record of a new key; its prefix ends with an ellipsis.\<close>

definition new_key_record ::
  "host \<Rightarrow> api_key_input \<Rightarrow> string option \<Rightarrow> string \<Rightarrow> string \<Rightarrow> int \<Rightarrow> api_key_record" where
  "new_key_record h input expiresAt i token now =
     \<lparr>ak_id = i, ak_name = ki_name input, ak_prefix = take 20 token @ [CHR 0xE2, CHR 0x80, CHR 0xA6],
      ak_scopes = unique_first (ki_scopes input), ak_created_at = to_iso now, ak_expires_at = expiresAt,
      ak_revoked_at = None, ak_key_hash = sha256 h token\<rparr>"

definition api_key_create ::
  "host \<Rightarrow> ('x, ('x, 'z) api_key_env_ext) world_env_scheme \<Rightarrow> api_key_input \<Rightarrow> ('x, public_api_key \<times> string) world_op" where
  "api_key_create h env input =
     bindS (liftS (key_expiry h (ki_expires_at input))) (\<lambda>expiresAt.
     bindS (key_expired h env expiresAt) (\<lambda>expired.
     if expired then throwS (ValidationError ''expires_at must be in the future.'')
     else bindS (createIdW env ''key'') (\<lambda>i.
     bindS (random_tokenW env) (\<lambda>secret.
     let token = ''re_hs_'' @ i @ ''.'' @ secret in
     bindS (nowW env) (\<lambda>now.
     let record = new_key_record h input expiresAt i token now in
     bindS (storeW env (createApiKey record)) (\<lambda>_. returnS (publicApiKey record, token)))))))"

definition api_key_list ::
  "host \<Rightarrow> ('x, 'z) world_env_scheme \<Rightarrow> nat \<Rightarrow> string option \<Rightarrow> ('x, public_api_key page) world_op" where
  "api_key_list h env limit cursor =
     bindS (bindS (readW env (listApiKeys h limit cursor)) liftS) (\<lambda>page.
     returnS \<lparr>pg_data = map publicApiKey (pg_data page), pg_has_more = pg_has_more page, pg_next_cursor = pg_next_cursor page\<rparr>)"

definition api_key_get :: "('x, 'z) world_env_scheme \<Rightarrow> string \<Rightarrow> ('x, public_api_key) world_op" where
  "api_key_get env i =
     bindS (readW env (getApiKey i)) (\<lambda>record. case record of
       None \<Rightarrow> throwS (NotFoundError ''API key'') | Some r \<Rightarrow> returnS (publicApiKey r))"

definition api_key_revoke :: "('x, 'z) world_env_scheme \<Rightarrow> string \<Rightarrow> ('x, public_api_key) world_op" where
  "api_key_revoke env i =
     bindS (nowW env) (\<lambda>now.
     bindS (storeW env (updateApiKey i (\<lambda>r. r\<lparr>ak_revoked_at := Some (to_iso now)\<rparr>))) (\<lambda>record. case record of
       None \<Rightarrow> throwS (NotFoundError ''API key'') | Some r \<Rightarrow> returnS (publicApiKey r)))"

section \<open>Tokens\<close>

text \<open>The URL-safe base64 text of 32 bytes has 43 characters.\<close>

lemma replace_char_single: "replace_all_char c [d] s = map (\<lambda>x. if x = c then d else x) s"
  by (induction s) (auto simp: replace_all_char_def)

lemma strip_trailing_body: "c \<notin> set body \<Longrightarrow> strip_trailing c (body @ replicate k c) = body"
proof -
  assume c: "c \<notin> set body"
  have "dropWhile ((=) c) (replicate k c @ rev body) = dropWhile ((=) c) (rev body)"
    by (rule dropWhile_append2) simp
  also have "\<dots> = rev body" using c by (cases "rev body") (auto dest: arg_cong[where f = set])
  finally show ?thesis by (simp add: strip_trailing_def)
qed

lemma base64url_text:
  "length (bytesToBase64Url bs) = length (sextets bs)" "list_all is_id_char (bytesToBase64Url bs)"
proof -
  define swap where "swap = (\<lambda>x. if (if x = CHR ''+'' then CHR ''-'' else x) = CHR ''/'' then CHR ''_''
    else if x = CHR ''+'' then CHR ''-'' else x)"
  have body: "swap (b64_char n) \<noteq> CHR ''=''" "is_id_char (swap (b64_char n))" if "n < 64" for n
    using b64_char_class(2,3)[OF that] by (auto simp: swap_def is_id_char_def)
  have all: "\<forall>n \<in> set (sextets bs). n < 64" using sextets_less[of bs] by (simp add: list_all_iff)
  have "replace_all_char CHR ''/'' ''_'' (replace_all_char CHR ''+'' ''-'' (btoa bs))
      = map (\<lambda>n. swap (b64_char n)) (sextets bs) @ replicate ((3 - length bs mod 3) mod 3) CHR ''=''"
    by (simp add: replace_char_single btoa_def swap_def comp_def)
  moreover have "CHR ''='' \<notin> set (map (\<lambda>n. swap (b64_char n)) (sextets bs))" using body(1) all by force
  ultimately have eq: "bytesToBase64Url bs = map (\<lambda>n. swap (b64_char n)) (sextets bs)"
    unfolding bytesToBase64Url_def bytesToBase64_def using strip_trailing_body by metis
  show "length (bytesToBase64Url bs) = length (sextets bs)" by (simp add: eq)
  show "list_all is_id_char (bytesToBase64Url bs)" using body(2) all by (simp add: eq list_all_iff)
qed

lemma random_token_shape:
  assumes "length bs = 32"
  shows "length (createRandomToken bs) = 43" "list_all is_id_char (createRandomToken bs)"
  using base64url_text[of bs] length_sextets(1)[of bs] assms by (simp_all add: createRandomToken_def)

lemma scoped_key_of_token:
  assumes "length u = 32" "list_all is_hex_lower u" "length secret = 43" "list_all is_id_char secret"
  shows "scoped_key (''re_hs_'' @ (''key_'' @ u) @ ''.'' @ secret) = Some (''key_'' @ u)"
  using assms by (simp add: scoped_key_def Let_def)

end
