(* ===== verification/Api_Key_Properties.thy ===== *)
theory Api_Key_Properties
  imports Api_Key_Service
begin

text \<open>
  What a token is good for: exactly the keys that are neither revoked nor expired and whose
  hash is the hash of the token; a new token until it is revoked; a revoked one never again.
\<close>

section \<open>Who is let in\<close>

definition usable_key :: "host \<Rightarrow> int \<Rightarrow> string \<Rightarrow> api_key_record \<Rightarrow> bool" where
  "usable_key h now token r \<longleftrightarrow> ak_key_hash r = sha256 h token \<and> \<not> truthy (ak_revoked_at r)
     \<and> (\<forall>e. ak_expires_at r = Some e \<longrightarrow> e \<noteq> [] \<longrightarrow> \<not> date_le (date_parse h e) (Some now))"

text \<open>The clock as it is read in a world, and hashes of a length that 32 bits can hold.\<close>

definition clock_at :: "('x, 'z) world_env_scheme \<Rightarrow> mem \<times> 'x \<Rightarrow> int" where
  "clock_at env w = fst (wo_clock env (snd w))"

definition short_hashes :: "host \<Rightarrow> mem \<Rightarrow> bool" where
  "short_hashes h s \<longleftrightarrow> (\<forall>t. length (sha256 h t) < 2 ^ 32)
     \<and> (\<forall>i r. getApiKey i s = Some r \<longrightarrow> length (ak_key_hash r) < 2 ^ 32)"

lemma key_expired_result:
  "fst (key_expired h env expires w) = Inr (truthy expires \<and> date_le (date_parse h (coalesce expires [])) (Some (clock_at env w)))"
  by (simp add: key_expired_def bindS_def nowW_def clock_at_def returnS_def split: prod.split)

lemma bindS_fst: "fst (bindS m f w) = (case m w of (Inl e, w') \<Rightarrow> Inl e | (Inr x, w') \<Rightarrow> fst (f x w'))"
  by (simp add: bindS_def split: prod.split sum.split)

lemma bindS_pure_result:
  assumes "fst (m w) = Inr x" "\<And>w'. fst (f x w') = r"
  shows "fst (bindS m f w) = r"
  using assms by (cases "m w") (auto simp: bindS_def)

lemma authenticate_key:
  assumes "scoped_key token = Some i" "length (sha256 h token) < 2 ^ 32"
    "\<And>r. getApiKey i (fst w) = Some r \<Longrightarrow> length (ak_key_hash r) < 2 ^ 32"
  shows "fst (authenticate h env token w) = (case getApiKey i (fst w) of None \<Rightarrow> Inl unauthorized
    | Some r \<Rightarrow> if usable_key h (clock_at env (wo_others env w)) token r then Inr (key_principal r) else Inl unauthorized)"
proof (cases "getApiKey i (fst w)")
  case None
  then show ?thesis using assms(1) by (simp add: authenticate_def bindS_readW throwS_def)
next
  case (Some r)
  have eq: "secretsEqual (ak_key_hash r) (sha256 h token) \<longleftrightarrow> ak_key_hash r = sha256 h token"
    using assms(2,3) Some by (intro secretsEqual_iff) blast+
  show ?thesis
  proof (cases "truthy (ak_revoked_at r)")
    case True
    then show ?thesis using assms(1) Some by (simp add: authenticate_def bindS_readW throwS_def usable_key_def)
  next
    case False
    have "fst (bindS (key_expired h env (ak_expires_at r)) (\<lambda>expired.
        if expired \<or> \<not> secretsEqual (ak_key_hash r) (sha256 h token) then throwS unauthorized
        else returnS (key_principal r)) (wo_others env w))
      = (if usable_key h (clock_at env (wo_others env w)) token r then Inr (key_principal r) else Inl unauthorized)"
      by (rule bindS_pure_result[OF key_expired_result])
        (cases "ak_expires_at r"; simp add: False eq usable_key_def throwS_def returnS_def)
    then show ?thesis using assms(1) Some False by (simp add: authenticate_def bindS_readW)
  qed
qed

lemma authenticate_bootstrap:
  assumes "scoped_key token = None" "fst (awaitW env (ks_bootstrap env) w) = Inr secret"
    "length token < 2 ^ 32" "length secret < 2 ^ 32"
  shows "fst (authenticate h env token w) =
    (if token = secret \<and> \<not> (starts_with ''re_hs_'' token \<and> CHR ''.'' \<in> set token) then Inr bootstrap_principal
     else Inl unauthorized)"
proof (cases "starts_with ''re_hs_'' token \<and> CHR ''.'' \<in> set token")
  case True
  then show ?thesis using assms(1) by (simp add: authenticate_def throwS_def)
next
  case False
  have eq: "secretsEqual token secret \<longleftrightarrow> token = secret" by (rule secretsEqual_iff[OF assms(3,4)])
  have "fst (bindS (awaitW env (ks_bootstrap env)) (\<lambda>bootstrapKey.
      if secretsEqual token bootstrapKey then returnS bootstrap_principal else throwS unauthorized) w)
    = (if token = secret then Inr bootstrap_principal else Inl unauthorized)"
    by (rule bindS_pure_result[where m = "awaitW env (ks_bootstrap env)" and w = w, OF assms(2)])
      (simp add: eq returnS_def throwS_def)
  moreover have "authenticate h env token w = bindS (awaitW env (ks_bootstrap env)) (\<lambda>bootstrapKey.
      if secretsEqual token bootstrapKey then returnS bootstrap_principal else throwS unauthorized) w"
    unfolding authenticate_def assms(1) by (simp only: False if_False option.case)
  ultimately show ?thesis by (simp only: False simp_thms)
qed

text \<open>
  C10. A token lets its bearer in exactly when it is the token of a stored key that is not
  revoked, not expired at the time of the check and stored with the hash of this token, and
  then with the name and the scopes of that key; or when it is the secret of the bootstrap
  administrator and does not look like the token of a key. Everything else is refused as
  unauthorized.
\<close>

theorem authentication_exact:
  assumes "short_hashes h (fst w)" and "fst (awaitW env (ks_bootstrap env) w) = Inr secret"
    and "length token < 2 ^ 32" and "length secret < 2 ^ 32"
  shows "(fst (authenticate h env token w) = Inr p \<longleftrightarrow>
      (\<exists>i r. scoped_key token = Some i \<and> getApiKey i (fst w) = Some r
        \<and> usable_key h (clock_at env (wo_others env w)) token r \<and> p = key_principal r)
    \<or> (scoped_key token = None \<and> token = secret \<and> \<not> (starts_with ''re_hs_'' token \<and> CHR ''.'' \<in> set token)
        \<and> p = bootstrap_principal))
    \<and> (fst (authenticate h env token w) \<in> {Inl unauthorized} \<union> range Inr)"
proof (cases "scoped_key token")
  case None
  show ?thesis unfolding authenticate_bootstrap[OF None assms(2-4)] using None by auto
next
  case (Some i)
  have "length (sha256 h token) < 2 ^ 32" "\<And>r. getApiKey i (fst w) = Some r \<Longrightarrow> length (ak_key_hash r) < 2 ^ 32"
    using assms(1) unfolding short_hashes_def by blast+
  then have result: "fst (authenticate h env token w) = (case getApiKey i (fst w) of None \<Rightarrow> Inl unauthorized
    | Some r \<Rightarrow> if usable_key h (clock_at env (wo_others env w)) token r then Inr (key_principal r) else Inl unauthorized)"
    by (rule authenticate_key[OF Some])
  show ?thesis unfolding result using Some by (auto split: option.split)
qed

section \<open>Calls of the service\<close>

datatype api_key_call =
    Call_create api_key_input
  | Call_list nat "string option"
  | Call_get string
  | Call_revoke string
  | Call_authenticate string

text \<open>The world after a call, whether it returned or threw, and after a sequence of them.\<close>

fun after_call :: "host \<Rightarrow> ('x, ('x, 'z) api_key_env_ext) world_env_scheme \<Rightarrow> api_key_call \<Rightarrow> mem \<times> 'x \<Rightarrow> mem \<times> 'x" where
  "after_call h env (Call_create input) w = snd (api_key_create h env input w)"
| "after_call h env (Call_list limit cursor) w = snd (api_key_list h env limit cursor w)"
| "after_call h env (Call_get i) w = snd (api_key_get env i w)"
| "after_call h env (Call_revoke i) w = snd (api_key_revoke env i w)"
| "after_call h env (Call_authenticate token) w = snd (authenticate h env token w)"

definition after_calls ::
  "host \<Rightarrow> ('x, ('x, 'z) api_key_env_ext) world_env_scheme \<Rightarrow> api_key_call list \<Rightarrow> mem \<times> 'x \<Rightarrow> mem \<times> 'x" where
  "after_calls h env cs w = fold (after_call h env) cs w"

text \<open>A key that is revoked, and the motion of a store that keeps it so.\<close>

definition key_revoked :: "string \<Rightarrow> mem \<Rightarrow> bool" where
  "key_revoked i s \<longleftrightarrow> (\<exists>r. getApiKey i s = Some r \<and> truthy (ak_revoked_at r))"

definition stays_revoked :: "string \<Rightarrow> mem \<Rightarrow> mem \<Rightarrow> bool" where
  "stays_revoked i s t \<longleftrightarrow> (key_revoked i s \<longrightarrow> key_revoked i t)"

interpretation revocation: store_motion "stays_revoked i" for i
  by unfold_locales (auto simp: stays_revoked_def)

text \<open>Others undo no revocation, and no new key gets the identity of this one.\<close>

definition respects_revocation :: "string \<Rightarrow> ('x, ('x, 'z) api_key_env_ext) world_env_scheme \<Rightarrow> bool" where
  "respects_revocation i env \<longleftrightarrow> others_move (stays_revoked i) env \<and> moves (stays_revoked i) (ks_bootstrap env)
     \<and> (\<forall>x. createId ''key'' (fst (wo_uuid env x)) \<noteq> i)"

lemma create_keeps:
  assumes "i \<noteq> ak_id record"
  shows "createApiKey record s = (r, t) \<Longrightarrow> stays_revoked i s t"
  using assms by (auto simp: createApiKey_def stays_revoked_def key_revoked_def getApiKey_def)

lemma revoke_keeps: "updateApiKey j (\<lambda>r. r\<lparr>ak_revoked_at := Some (to_iso now)\<rparr>) s = (r, t) \<Longrightarrow> stays_revoked i s t"
  using to_iso_nonempty[of now]
  by (auto simp: updateApiKey_def stays_revoked_def key_revoked_def getApiKey_def split: option.splits)

lemma moves_if: "moves R m \<Longrightarrow> moves R n \<Longrightarrow> moves R (if b then m else n)"
  by simp

lemma moves_snd: "moves R m \<Longrightarrow> R (fst w) (fst (snd (m w)))"
  by (metis moves_D prod.collapse)

lemma random_token_moves: "moves (stays_revoked i) (random_tokenW env)"
  by (auto simp: moves_def random_tokenW_def stays_revoked_def split: prod.splits)

lemma key_expired_moves: "moves (stays_revoked i) (key_expired h env expires)"
  unfolding key_expired_def by (auto intro: revocation.moves_bindS)

text \<open>Identities other than \<open>i\<close> are drawn for new keys.\<close>

lemma create_moves:
  assumes "respects_revocation i env"
  shows "moves (stays_revoked i) (api_key_create h env input)"
proof -
  note others = assms[unfolded respects_revocation_def]
  have drawn: "moves (stays_revoked i) (bindS (createIdW env ''key'') k)"
    if k: "\<And>j. j \<noteq> i \<Longrightarrow> moves (stays_revoked i) (k j)" for k :: "string \<Rightarrow> ('a, public_api_key \<times> string) world_op"
    unfolding moves_def
  proof (intro allI impI)
    fix w r w' assume run: "bindS (createIdW env ''key'') k w = (r, w')"
    obtain u x where u: "wo_uuid env (snd w) = (u, x)" by fastforce
    have fresh: "createId ''key'' u \<noteq> i" using others u by (metis fst_conv)
    have "k (createId ''key'' u) (fst w, x) = (r, w')"
      using run by (simp add: createIdW_def bindS_def uuidW_def u returnS_def)
    from moves_D[OF k[OF fresh] this] show "stays_revoked i (fst w) (fst w')" by simp
  qed
  have stored: "moves (stays_revoked i) (bindS (storeW env (createApiKey (new_key_record h input e j token now))) k)"
    if "j \<noteq> i" "\<And>x. moves (stays_revoked i) (k x)" for e j token now and k :: "unit \<Rightarrow> ('a, public_api_key \<times> string) world_op"
    using that(1)
    by (intro revocation.moves_bindS revocation.moves_storeW that(2) conjunct1[OF others] create_keeps)
      (auto simp: new_key_record_def)
  show ?thesis
    unfolding api_key_create_def Let_def
    by (rule revocation.moves_bindS, rule revocation.moves_pure)
      (intro revocation.moves_bindS[OF key_expired_moves] moves_if revocation.moves_pure drawn
        revocation.moves_bindS[OF random_token_moves] revocation.moves_bindS[OF revocation.moves_draw(1)] stored)
qed

lemma calls_move:
  assumes "respects_revocation i env"
  shows "moves (stays_revoked i) (api_key_list h env limit cursor)" "moves (stays_revoked i) (api_key_get env j)"
    "moves (stays_revoked i) (api_key_revoke env j)" "moves (stays_revoked i) (authenticate h env token)"
proof -
  note others = assms[unfolded respects_revocation_def]
  note read = revocation.moves_readW[OF conjunct1[OF others]]
  show "moves (stays_revoked i) (api_key_list h env limit cursor)"
    unfolding api_key_list_def by (intro revocation.moves_bindS revocation.moves_pure read)
  show "moves (stays_revoked i) (api_key_get env j)"
    unfolding api_key_get_def by (intro revocation.moves_bindS read) (auto split: option.split)
  show "moves (stays_revoked i) (api_key_revoke env j)"
    unfolding api_key_revoke_def
    by (intro revocation.moves_bindS revocation.moves_storeW revocation.moves_draw conjunct1[OF others])
      (auto intro: revoke_keeps split: option.split)
  have bootstrap: "moves (stays_revoked i) (awaitW env (ks_bootstrap env))"
    using others by (intro revocation.moves_awaitW) blast+
  have key: "moves (stays_revoked i) (bindS (key_expired h env e) k)"
    if "\<And>b. moves (stays_revoked i) (k b)" for e and k :: "bool \<Rightarrow> ('a, authenticated_principal) world_op"
    by (rule revocation.moves_bindS[OF key_expired_moves that])
  show "moves (stays_revoked i) (authenticate h env token)"
  proof (cases "scoped_key token")
    case None
    have "moves (stays_revoked i) (if secretsEqual token b then returnS bootstrap_principal else throwS unauthorized)" for b
      by (simp add: revocation.moves_pure)
    then show ?thesis unfolding authenticate_def None option.case
      by (simp add: revocation.moves_bindS[OF bootstrap] revocation.moves_pure)
  next
    case (Some j)
    have "moves (stays_revoked i) (case stored of None \<Rightarrow> throwS unauthorized
       | Some r \<Rightarrow> if truthy (ak_revoked_at r) then throwS unauthorized
           else bindS (key_expired h env (ak_expires_at r)) (\<lambda>expired.
             if expired \<or> \<not> secretsEqual (ak_key_hash r) (sha256 h token) then throwS unauthorized
             else returnS (key_principal r)))" for stored
      by (cases stored) (simp_all add: key revocation.moves_pure)
    then show ?thesis unfolding authenticate_def Some option.case by (rule revocation.moves_bindS[OF read])
  qed
qed

lemma after_calls_revoked:
  assumes "respects_revocation i env" "key_revoked i (fst w)"
  shows "key_revoked i (fst (after_calls h env cs w))"
  using assms(2)
proof (induction cs arbitrary: w)
  case Nil
  then show ?case by (simp add: after_calls_def)
next
  case (Cons c cs)
  have "stays_revoked i (fst w) (fst (after_call h env c w))"
    by (cases c) (simp_all add: moves_snd[OF create_moves[OF assms(1)]] calls_move[OF assms(1), THEN moves_snd])
  then have "key_revoked i (fst (after_call h env c w))" using Cons.prems by (simp add: stays_revoked_def)
  then show ?case using Cons.IH by (simp add: after_calls_def)
qed

lemma revoke_result:
  assumes "others_move (stays_revoked i) env" "api_key_revoke env i w = (Inr k, w')"
  shows "key_revoked i (fst w')"
proof -
  obtain now x where now: "nowW env w = (Inr now, (fst w, x))" by (rule nowW_cases)
  define stored where "stored = storeW env (updateApiKey i (\<lambda>r. r\<lparr>ak_revoked_at := Some (to_iso now)\<rparr>))"
  have "bindS stored (\<lambda>record. case record of None \<Rightarrow> throwS (NotFoundError ''API key'') | Some r \<Rightarrow> returnS (publicApiKey r)) (fst w, x)
      = (Inr k, w')"
    using assms(2) by (simp add: api_key_revoke_def now stored_def)
  then obtain r where "stored (fst w, x) = (Inr (Some r), w')"
    by (auto simp: bindS_Inr_iff throwS_def returnS_def split: option.splits)
  then obtain t where upd: "updateApiKey i (\<lambda>r. r\<lparr>ak_revoked_at := Some (to_iso now)\<rparr>) (fst w) = (Inr (Some r), t)"
    and w': "w' = wo_others env (t, x)"
    unfolding stored_def by (elim storeW_cases) simp
  have "key_revoked i t"
    using upd to_iso_nonempty[of now] by (auto simp: updateApiKey_def key_revoked_def getApiKey_def split: option.splits)
  then show ?thesis using assms(1) w' unfolding others_move_def stays_revoked_def by (metis fst_conv)
qed

text \<open>
  C20. Once a key was revoked, its token is refused as unauthorized: after any sequence of
  calls of the service, which may return or throw and may fall at any time, whatever others
  do in between that does not undo the revocation.
\<close>

theorem revoked_key_stays_refused:
  assumes "respects_revocation i env" and "api_key_revoke env i w = (Inr k, w1)" and "scoped_key token = Some i"
  shows "fst (authenticate h env token (after_calls h env cs w1)) = Inl unauthorized"
proof -
  have "key_revoked i (fst (after_calls h env cs w1))"
    by (rule after_calls_revoked[OF assms(1) revoke_result[OF _ assms(2)]])
      (use assms(1) in \<open>simp add: respects_revocation_def\<close>)
  then obtain r where "getApiKey i (fst (after_calls h env cs w1)) = Some r" "truthy (ak_revoked_at r)"
    unfolding key_revoked_def by blast
  then show ?thesis using assms(3) by (simp add: authenticate_def bindS_readW throwS_def)
qed

section \<open>A new token\<close>

text \<open>Others leave the keys alone; UUIDs and random bytes have the shape the platform gives them.\<close>

definition keys_left_alone :: "('x, 'z) world_env_scheme \<Rightarrow> bool" where
  "keys_left_alone env \<longleftrightarrow> (\<forall>w. m_api_keys (fst (wo_others env w)) = m_api_keys (fst w))"

definition draws_well :: "('x, ('x, 'z) api_key_env_ext) world_env_scheme \<Rightarrow> bool" where
  "draws_well env \<longleftrightarrow> (\<forall>x. length (replace_all_char CHR ''-'' [] (fst (wo_uuid env x))) = 32
     \<and> list_all is_hex_lower (replace_all_char CHR ''-'' [] (fst (wo_uuid env x)))
     \<and> length (fst (ks_random env x)) = 32)"

lemma create_result:
  assumes "keys_left_alone env" "draws_well env" "api_key_create h env input w = (Inr (k, token), w')"
  obtains u secret e now where "token = ''re_hs_'' @ ak_id k @ ''.'' @ secret" "ak_id k = ''key_'' @ u"
    "length u = 32" "list_all is_hex_lower u" "length secret = 43" "list_all is_id_char secret"
    "k = publicApiKey (new_key_record h input e (ak_id k) token now)"
    "getApiKey (ak_id k) (fst w') = Some (new_key_record h input e (ak_id k) token now)"
proof -
  obtain e x1 where e: "key_expired h env e w = (Inr False, x1)"
    and rest: "bindS (createIdW env ''key'') (\<lambda>i. bindS (random_tokenW env) (\<lambda>secret.
       let token = ''re_hs_'' @ i @ ''.'' @ secret in
       bindS (nowW env) (\<lambda>now. let record = new_key_record h input e i token now in
       bindS (storeW env (createApiKey record)) (\<lambda>_. returnS (publicApiKey record, token))))) x1 = (Inr (k, token), w')"
    using assms(3) by (auto simp: api_key_create_def bindS_Inr_iff[of "liftS _"] bindS_Inr_iff[of "key_expired _ _ _"] liftS_def
        throwS_def split: if_splits)
  obtain v x2 where v: "uuidW env x1 = (Inr v, (fst x1, x2))" by (rule uuidW_cases)
  obtain bs x3 where bs: "ks_random env x2 = (bs, x3)" by fastforce
  obtain now x4 where now: "nowW env (fst x1, x3) = (Inr now, (fst x1, x4))" using nowW_cases by (metis fst_conv)
  define u where "u = replace_all_char CHR ''-'' [] v"
  define secret where "secret = createRandomToken bs"
  define tok where "tok = ''re_hs_'' @ (''key_'' @ u) @ ''.'' @ secret"
  define r where "r = new_key_record h input e (''key_'' @ u) tok now"
  have created: "createIdW env ''key'' x1 = (Inr (''key_'' @ u), (fst x1, x2))"
    by (simp add: createIdW_def v createId_def u_def returnS_def)
  have random: "random_tokenW env (fst x1, x2) = (Inr secret, (fst x1, x3))"
    by (simp add: random_tokenW_def bs secret_def)
  have "bindS (storeW env (createApiKey r)) (\<lambda>_. returnS (publicApiKey r, tok)) (fst x1, x4) = (Inr (k, token), w')"
    using rest by (simp add: created random now r_def tok_def Let_def)
  then have end': "k = publicApiKey r" "token = tok" "w' = wo_others env (snd (createApiKey r (fst x1)), x4)"
    by (simp_all add: storeW_def awaitW_def on_store_def createApiKey_def bindS_def returnS_def)
  have id_k: "ak_id k = ''key_'' @ u" "ak_id r = ''key_'' @ u"
    by (simp_all add: end'(1) r_def new_key_record_def publicApiKey_def public_api_key.truncate_def)
  have "getApiKey (ak_id r) (fst w') = Some r"
    using assms(1) by (simp add: end'(3) getApiKey_def createApiKey_def keys_left_alone_def)
  moreover have "v = fst (wo_uuid env (snd x1))" using v by (auto simp: uuidW_def split: prod.splits)
  then have "length u = 32" "list_all is_hex_lower u" using assms(2) unfolding draws_well_def u_def by blast+
  moreover have "length bs = 32" using assms(2) bs unfolding draws_well_def by (metis fst_conv)
  then have "length secret = 43" "list_all is_id_char secret" unfolding secret_def by (rule random_token_shape)+
  ultimately show thesis
    using that[of secret u e now] end'(1,2) id_k by (simp add: r_def tok_def)
qed

text \<open>
  C30. The token of a new key lets its bearer in with the name and the scopes that were asked
  for, each scope once, in every later world that still has the keys and in which the key
  has not expired. The prefix that is shown with the key is the same whatever the secret
  part of the token is.
\<close>

theorem new_token_works:
  assumes "keys_left_alone env" and "draws_well env" and "\<And>t. length (sha256 h t) < 2 ^ 32"
    and "api_key_create h env input w = (Inr (k, token), w1)" and "m_api_keys (fst w2) = m_api_keys (fst w1)"
    and "\<And>e. ak_expires_at k = Some e \<Longrightarrow> \<not> date_le (date_parse h e) (Some (clock_at env (wo_others env w2)))"
  shows "fst (authenticate h env token w2) =
      Inr \<lparr>ap_id = ak_id k, ap_name = ki_name input, ap_scopes = unique_first (ki_scopes input), ap_bootstrap = False\<rparr>
    \<and> ak_prefix k = take 20 (''re_hs_'' @ ak_id k) @ [CHR 0xE2, CHR 0x80, CHR 0xA6]"
proof -
  obtain u secret e now where t: "token = ''re_hs_'' @ ak_id k @ ''.'' @ secret" "ak_id k = ''key_'' @ u"
    "length u = 32" "list_all is_hex_lower u" "length secret = 43" "list_all is_id_char secret"
    and k: "k = publicApiKey (new_key_record h input e (ak_id k) token now)"
    and stored: "getApiKey (ak_id k) (fst w1) = Some (new_key_record h input e (ak_id k) token now)"
    by (rule create_result[OF assms(1,2,4)])
  let ?r = "new_key_record h input e (ak_id k) token now"
  have fields: "ak_expires_at k = e" "ak_prefix k = take 20 token @ [CHR 0xE2, CHR 0x80, CHR 0xA6]"
    by (subst k; simp add: publicApiKey_def public_api_key.truncate_def new_key_record_def)+
  have scoped: "scoped_key token = Some (ak_id k)" unfolding t(1,2) by (rule scoped_key_of_token[OF t(3-6)])
  have found: "getApiKey (ak_id k) (fst w2) = Some ?r" using stored assms(5) by (simp add: getApiKey_def)
  have "usable_key h (clock_at env (wo_others env w2)) token ?r"
    using assms(6) fields(1) by (simp add: usable_key_def new_key_record_def)
  moreover have "key_principal ?r =
      \<lparr>ap_id = ak_id k, ap_name = ki_name input, ap_scopes = unique_first (ki_scopes input), ap_bootstrap = False\<rparr>"
    by (simp add: key_principal_def new_key_record_def)
  moreover have "fst (authenticate h env token w2) = (case getApiKey (ak_id k) (fst w2) of None \<Rightarrow> Inl unauthorized
    | Some r \<Rightarrow> if usable_key h (clock_at env (wo_others env w2)) token r then Inr (key_principal r) else Inl unauthorized)"
  proof (rule authenticate_key[OF scoped assms(3)])
    fix r assume "getApiKey (ak_id k) (fst w2) = Some r"
    then have "r = ?r" using found by simp
    then have "ak_key_hash r = sha256 h token" by (simp add: new_key_record_def)
    then show "length (ak_key_hash r) < 2 ^ 32" using assms(3)[of token] by simp
  qed
  ultimately have "fst (authenticate h env token w2) =
      Inr \<lparr>ap_id = ak_id k, ap_name = ki_name input, ap_scopes = unique_first (ki_scopes input), ap_bootstrap = False\<rparr>"
    using found by simp
  moreover have "take 20 token = take 20 (''re_hs_'' @ ak_id k)" using t(3) by (simp add: t(1,2))
  ultimately show ?thesis using fields(2) by simp
qed

section \<open>Witnesses\<close>

definition demo_key_env :: "unit api_key_env" where
  "demo_key_env = \<lparr>wo_others = id, wo_clock = (\<lambda>x. (demo_now, x)), wo_uuid = (\<lambda>x. (replicate 32 CHR ''a'', x)),
     wo_hook = (\<lambda>_. None), ks_bootstrap = returnS ''root secret'', ks_random = (\<lambda>x. (replicate 32 0, x))\<rparr>"

definition demo_key_id :: string where "demo_key_id = ''key_'' @ replicate 32 CHR ''b''"

definition demo_token :: string where "demo_token = ''re_hs_'' @ demo_key_id @ ''.'' @ replicate 43 CHR ''A''"

definition demo_key_input :: api_key_input where
  "demo_key_input = \<lparr>ki_name = ''ci'', ki_scopes = [Emails_send, Emails_read, Emails_send], ki_expires_at = None\<rparr>"

definition demo_key_store :: mem where
  "demo_key_store = empty_store\<lparr>m_api_keys :=
     [(demo_key_id, new_key_record demo_host demo_key_input None demo_key_id demo_token demo_now)]\<rparr>"

lemma demo_key_ports:
  "awaitW demo_key_env m = m" "nowW demo_key_env w = (Inr demo_now, w)"
  by (simp_all add: fun_eq_iff awaitW_def nowW_def demo_key_env_def prod_eq_iff split: prod.split)

lemma demo_short: "length (sha256 demo_host t) < 2 ^ 32"
  by (simp add: sha256_def demo_host_def length_pad_dec)

lemma demo_scoped: "scoped_key demo_token = Some demo_key_id"
  unfolding demo_token_def demo_key_id_def
  by (rule scoped_key_of_token) (simp_all add: is_hex_lower_def is_id_char_def is_alnum_def list_all_iff is_upper_def)

lemma demo_uuid:
  "replace_all_char CHR ''-'' [] (replicate 32 CHR ''a'') = replicate 32 CHR ''a''" "list_all is_hex_lower (replicate 32 CHR ''a'')"
  by code_simp+

lemma authentication_exact_witness:
  "fst (authenticate demo_host demo_key_env ''root secret'' (empty_store, ())) = Inr bootstrap_principal
   \<and> fst (authenticate demo_host demo_key_env demo_token (demo_key_store, ()))
      = Inr \<lparr>ap_id = demo_key_id, ap_name = ''ci'', ap_scopes = [Emails_send, Emails_read], ap_bootstrap = False\<rparr>"
proof
  have root: "scoped_key ''root secret'' = None" "\<not> starts_with ''re_hs_'' ''root secret''" by code_simp+
  have boot: "fst (awaitW demo_key_env (ks_bootstrap demo_key_env) w) = Inr ''root secret''" for w
    by (simp add: demo_key_ports) (simp add: demo_key_env_def returnS_def)
  have "short_hashes demo_host (fst (empty_store, ()))"
    using demo_short by (simp add: short_hashes_def getApiKey_def empty_store_def)
  from authentication_exact[OF this boot, where token = "''root secret''" and p = bootstrap_principal] root
  show "fst (authenticate demo_host demo_key_env ''root secret'' (empty_store, ())) = Inr bootstrap_principal" by simp
  let ?r = "new_key_record demo_host demo_key_input None demo_key_id demo_token demo_now"
  have get: "getApiKey demo_key_id demo_key_store = Some ?r" by (simp add: getApiKey_def demo_key_store_def)
  have "length (ak_key_hash r) < 2 ^ 32" if "getApiKey i demo_key_store = Some r" for i r
    using that demo_short[of demo_token]
    by (auto simp: getApiKey_def demo_key_store_def new_key_record_def split: if_splits)
  then have short: "short_hashes demo_host (fst (demo_key_store, ()))" using demo_short unfolding short_hashes_def by simp
  have "usable_key demo_host now demo_token ?r" for now by (simp add: usable_key_def new_key_record_def)
  moreover have "length demo_token < 2 ^ 32" by (simp add: demo_token_def demo_key_id_def)
  ultimately have "fst (authenticate demo_host demo_key_env demo_token (demo_key_store, ())) = Inr (key_principal ?r)"
    using authentication_exact[OF short boot, where token = demo_token and p = "key_principal ?r"] demo_scoped get by auto
  then show "fst (authenticate demo_host demo_key_env demo_token (demo_key_store, ()))
      = Inr \<lparr>ap_id = demo_key_id, ap_name = ''ci'', ap_scopes = [Emails_send, Emails_read], ap_bootstrap = False\<rparr>"
    by (simp add: key_principal_def new_key_record_def demo_key_input_def)
qed

lemma revoked_key_stays_refused_witness:
  "\<exists>k w1. api_key_revoke demo_key_env demo_key_id (demo_key_store, ()) = (Inr k, w1)
     \<and> fst (authenticate demo_host demo_key_env demo_token
         (after_calls demo_host demo_key_env [Call_create demo_key_input, Call_revoke demo_key_id, Call_list 10 None] w1))
       = Inl unauthorized"
proof -
  have env: "respects_revocation demo_key_id demo_key_env"
  proof -
    have "createId ''key'' (replicate 32 CHR ''a'') \<noteq> demo_key_id" by code_simp
    then show ?thesis
      by (simp add: respects_revocation_def others_move_def moves_def stays_revoked_def demo_key_env_def returnS_def)
  qed
  obtain k w1 where run: "api_key_revoke demo_key_env demo_key_id (demo_key_store, ()) = (Inr k, w1)"
    by (simp add: api_key_revoke_def storeW_def demo_key_ports on_store_def updateApiKey_def demo_key_store_def
        bindS_def returnS_def)
  from revoked_key_stays_refused[OF env run demo_scoped] run show ?thesis by blast
qed

lemma new_token_works_witness:
  "\<exists>k token w1. api_key_create demo_host demo_key_env demo_key_input (empty_store, ()) = (Inr (k, token), w1)
     \<and> fst (authenticate demo_host demo_key_env token w1)
       = Inr \<lparr>ap_id = ak_id k, ap_name = ''ci'', ap_scopes = [Emails_send, Emails_read], ap_bootstrap = False\<rparr>"
proof -
  have env: "keys_left_alone demo_key_env" "draws_well demo_key_env"
    by (simp_all add: keys_left_alone_def draws_well_def demo_key_env_def demo_uuid)
  have draws: "createIdW demo_key_env ''key'' w = (Inr (createId ''key'' (replicate 32 CHR ''a'')), w)"
    "random_tokenW demo_key_env w = (Inr (createRandomToken (replicate 32 0)), w)"
    "storeW demo_key_env (createApiKey r) w = (Inr (), (snd (createApiKey r (fst w)), snd w))" for w r
    by (simp_all add: createIdW_def uuidW_def random_tokenW_def demo_key_env_def bindS_def returnS_def storeW_def awaitW_def
        on_store_def createApiKey_def prod_eq_iff)
  define token where "token = ''re_hs_'' @ createId ''key'' (replicate 32 CHR ''a'') @ ''.'' @ createRandomToken (replicate 32 0)"
  define r where "r = new_key_record demo_host demo_key_input None (createId ''key'' (replicate 32 CHR ''a'')) token demo_now"
  have start: "key_expiry demo_host (ki_expires_at demo_key_input) = Inr None" "key_expired demo_host demo_key_env None = returnS False"
    by (simp_all add: key_expiry_def key_expired_def demo_key_input_def)
  have "api_key_create demo_host demo_key_env demo_key_input (empty_store, ()) = (Inr (publicApiKey r, token), (snd (createApiKey r empty_store), ()))"
    by (simp add: api_key_create_def bindS_def liftS_def start draws demo_key_ports Let_def r_def token_def returnS_def)
  moreover have "ak_expires_at (publicApiKey r) = None"
    by (simp add: publicApiKey_def public_api_key.truncate_def new_key_record_def r_def)
  ultimately have "\<exists>k token w1. api_key_create demo_host demo_key_env demo_key_input (empty_store, ()) = (Inr (k, token), w1)
      \<and> ak_expires_at k = None" by blast
  then obtain k token w1 where run: "api_key_create demo_host demo_key_env demo_key_input (empty_store, ()) = (Inr (k, token), w1)"
    and none: "ak_expires_at k = None" by blast
  from new_token_works[OF env demo_short run refl] none run show ?thesis by (auto simp: demo_key_input_def)
qed

end
