(* ===== verification/Network_Safety.thy ===== *)
theory Network_Safety
  imports Webhook_Service
begin

text \<open>
  Where a webhook may be sent (\<open>src/adapters/node-network-safety.ts\<close>): textual IP addresses, the
  networks that are not public, the check of an endpoint, the lookup that a connection uses
  and the HTTPS client made of them. \<open>isIP\<close> and \<open>BlockList\<close> of the platform are written out:
  an address is its number of 128 bits, an IPv4 address the one mapped into \<open>::ffff:0:0/96\<close>,
  as \<open>BlockList\<close> compares the two families. DNS, timers and the conversation with a connected
  peer are ports of the environment.
\<close>

section \<open>Addresses\<close>

text \<open>A part of a dotted quad: decimal, at most 255, without leading zeros.\<close>

definition parse_octet :: "string \<Rightarrow> nat option" where
  "parse_octet s = (if s \<noteq> [] \<and> list_all is_digit s \<and> (hd s \<noteq> CHR ''0'' \<or> tl s = []) \<and> dec_val s < 256
     then Some (dec_val s) else None)"

text \<open>An IPv4 address is read as two groups of 16 bits.\<close>

definition parse_v4 :: "string \<Rightarrow> (nat \<times> nat) option" where
  "parse_v4 s = (case those (map parse_octet (split_on CHR ''.'' s)) of
     Some [a, b, c, d] \<Rightarrow> Some (a * 256 + b, c * 256 + d) | _ \<Rightarrow> None)"

definition hex_value :: "char \<Rightarrow> nat option" where
  "hex_value c = (if is_digit c then Some (digit_val c)
     else if 97 \<le> code c \<and> code c \<le> 102 then Some (code c - 87)
     else if 65 \<le> code c \<and> code c \<le> 70 then Some (code c - 55) else None)"

definition parse_group :: "string \<Rightarrow> nat option" where
  "parse_group s = (if 1 \<le> length s \<and> length s \<le> 4
     then map_option (foldl (\<lambda>n d. 16 * n + d) 0) (those (map hex_value s)) else None)"

text \<open>Groups up to the end of an IPv6 address; the last of them may be a dotted quad.\<close>

fun parse_groups :: "string list \<Rightarrow> nat list option" where
  "parse_groups [] = Some []"
| "parse_groups [p] = (case parse_v4 p of Some (x, y) \<Rightarrow> Some [x, y] | None \<Rightarrow> map_option (\<lambda>g. [g]) (parse_group p))"
| "parse_groups (p # q # ps) =
     (case parse_group p of None \<Rightarrow> None | Some g \<Rightarrow> map_option (\<lambda>gs. g # gs) (parse_groups (q # ps)))"

fun split_gap :: "string \<Rightarrow> (string \<times> string) option" where
  "split_gap (c # d # s) =
     (if c = CHR '':'' \<and> d = CHR '':'' then Some ([], s) else map_option (\<lambda>(l, r). (c # l, r)) (split_gap (d # s)))"
| "split_gap _ = None"

definition colon_parts :: "string \<Rightarrow> string list" where
  "colon_parts s = (if s = [] then [] else split_on CHR '':'' s)"

text \<open>The gap \<open>::\<close> stands for one group of zeros or more.\<close>

definition parse_v6_groups :: "string \<Rightarrow> nat list option" where
  "parse_v6_groups s = (case split_gap s of
     None \<Rightarrow> (case parse_groups (split_on CHR '':'' s) of
       Some gs \<Rightarrow> if length gs = 8 then Some gs else None | None \<Rightarrow> None)
   | Some (l, r) \<Rightarrow> (case (those (map parse_group (colon_parts l)), parse_groups (colon_parts r)) of
       (Some ls, Some rs) \<Rightarrow>
         if length ls + length rs < 8 then Some (ls @ replicate (8 - (length ls + length rs)) 0 @ rs) else None
     | _ \<Rightarrow> None))"

text \<open>A zone index after \<open>%\<close> is not part of the number.\<close>

definition is_zone_char :: "char \<Rightarrow> bool" where
  "is_zone_char c \<longleftrightarrow> is_alnum c \<or> c = CHR ''-'' \<or> c = CHR ''.'' \<or> c = CHR '':''"

definition parse_v6 :: "string \<Rightarrow> nat list option" where
  "parse_v6 s =
     (let body = takeWhile (\<lambda>c. c \<noteq> CHR ''%'') s; zone = dropWhile (\<lambda>c. c \<noteq> CHR ''%'') s
      in if zone = [] \<or> (tl zone \<noteq> [] \<and> list_all is_zone_char (tl zone)) then parse_v6_groups body else None)"

definition isIP :: "string \<Rightarrow> nat" where
  "isIP s = (if parse_v4 s \<noteq> None then 4 else if parse_v6 s \<noteq> None then 6 else 0)"

definition address_of_groups :: "nat list \<Rightarrow> 128 word" where
  "address_of_groups gs = word_of_nat (foldl (\<lambda>n g. 65536 * n + g) 0 gs)"

definition mapped_address :: "nat \<times> nat \<Rightarrow> 128 word" where
  "mapped_address = (\<lambda>(x, y). address_of_groups [0, 0, 0, 0, 0, 65535, x, y])"

definition parse_address :: "string \<Rightarrow> 128 word option" where
  "parse_address s = (case parse_v4 s of
     Some q \<Rightarrow> Some (mapped_address q) | None \<Rightarrow> map_option address_of_groups (parse_v6 s))"

section \<open>Networks that are not public\<close>

definition ipv4_networks :: "(string \<times> nat) list" where
  "ipv4_networks = [(''0.0.0.0'', 8), (''10.0.0.0'', 8), (''100.64.0.0'', 10), (''127.0.0.0'', 8), (''169.254.0.0'', 16),
     (''172.16.0.0'', 12), (''192.0.0.0'', 24), (''192.0.2.0'', 24), (''192.88.99.0'', 24), (''192.168.0.0'', 16),
     (''198.18.0.0'', 15), (''198.51.100.0'', 24), (''203.0.113.0'', 24), (''224.0.0.0'', 4), (''240.0.0.0'', 4)]"

definition ipv6_networks :: "(string \<times> nat) list" where
  "ipv6_networks = [(''::'', 96), (''::1'', 128), (''::ffff:0:0:0'', 96), (''64:ff9b::'', 96), (''64:ff9b:1::'', 48),
     (''100::'', 64), (''100:0:0:1::'', 64), (''2001::'', 23), (''2001:db8::'', 32), (''2002::'', 16), (''3fff::'', 20),
     (''5f00::'', 16), (''fc00::'', 7), (''fe80::'', 10), (''fec0::'', 10), (''ff00::'', 8)]"

text \<open>\<open>addSubnet\<close>: the address with the number of its leading bits.\<close>

definition subnet :: "nat \<Rightarrow> string \<times> nat \<Rightarrow> (128 word \<times> nat) option" where
  "subnet offset = (\<lambda>(network, prefix). map_option (\<lambda>a. (a, offset + prefix)) (parse_address network))"

definition nonPublicAddresses :: "(128 word \<times> nat) list" where
  "nonPublicAddresses = List.map_filter (subnet 96) ipv4_networks @ List.map_filter (subnet 0) ipv6_networks"

definition in_subnet :: "128 word \<Rightarrow> 128 word \<times> nat \<Rightarrow> bool" where
  "in_subnet a = (\<lambda>(network, prefix). drop_bit (128 - prefix) a = drop_bit (128 - prefix) network)"

definition isPublicIpAddress :: "string \<Rightarrow> bool" where
  "isPublicIpAddress address = (case parse_address address of
     None \<Rightarrow> False | Some a \<Rightarrow> \<not> list_ex (in_subnet a) nonPublicAddresses)"

section \<open>Resolving and checking\<close>

record lookup_address =
  la_address :: string
  la_family :: nat

record lookup_options =
  lo_family :: "nat option"
  lo_all :: bool

datatype lookup_reply =
    Lookup_error js_error "string option"
  | Lookup_all "lookup_address list" "nat option"
  | Lookup_one string "nat option"

record https_request =
  hq_url :: parsed_url
  hq_headers :: "(string \<times> string) list"
  hq_body :: string

text \<open>What comes of a conversation with one address.\<close>

datatype https_event =
    Https_response "int option"
  | Https_upgrade
  | Https_timeout
  | Https_error js_error
  | Connect_failed js_error

text \<open>
  The ports: the resolver, whether its timer fires before it answers, what a thrown value
  that is no error becomes, the parser of URLs, the headers as a request presents them, the
  options of a connection's lookup, and the conversation with a peer.
\<close>

record 's network_env =
  ne_resolve :: "string \<Rightarrow> ('s, lookup_address list) sx"
  ne_timer_first :: "string \<Rightarrow> 's \<Rightarrow> bool"
  ne_foreign_error :: "js_value \<Rightarrow> js_error"
  ne_parse_url :: "string \<Rightarrow> parsed_url option"
  ne_headers :: "webhook_request \<Rightarrow> (string \<times> string) list"
  ne_lookup_options :: lookup_options
  ne_exchange :: "string \<Rightarrow> https_request \<Rightarrow> ('s, https_event) sx"

definition normalizedIpHostname :: "string \<Rightarrow> string" where
  "normalizedIpHostname hostname =
     (if starts_with ''['' hostname \<and> hostname \<noteq> [] \<and> last hostname = CHR '']'' then butlast (tl hostname) else hostname)"

definition resolve_in_time :: "'s network_env \<Rightarrow> string \<Rightarrow> ('s, lookup_address list) sx" where
  "resolve_in_time env hostname s =
     (if ne_timer_first env hostname s
      then (Inl (PlainError ''Webhook DNS resolution timed out.''), snd (ne_resolve env hostname s))
      else ne_resolve env hostname s)"

definition publicAddresses :: "'s network_env \<Rightarrow> string \<Rightarrow> ('s, lookup_address list) sx" where
  "publicAddresses env hostname =
     (let normalized = normalizedIpHostname hostname; literalFamily = isIP normalized in
      bindS (if literalFamily \<noteq> 0 then returnS [\<lparr>la_address = normalized, la_family = literalFamily\<rparr>]
             else resolve_in_time env normalized) (\<lambda>addresses.
      if addresses = [] \<or> list_ex (\<lambda>a. la_family a \<noteq> isIP (la_address a) \<or> \<not> isPublicIpAddress (la_address a)) addresses
      then throwS (ValidationError ''Webhook endpoints must resolve only to public IP addresses.'')
      else returnS addresses))"

definition assertPublicWebhookEndpoint :: "'s network_env \<Rightarrow> parsed_url \<Rightarrow> ('s, unit) sx" where
  "assertPublicWebhookEndpoint env endpoint =
     bindS (liftS (assertWebhookEndpointShape endpoint)) (\<lambda>_.
     if url_protocol endpoint \<noteq> ''https:'' then throwS (ValidationError ''Webhook endpoint must be a public HTTPS URL.'')
     else catchS (bindS (publicAddresses env (url_hostname endpoint)) (\<lambda>_. returnS ()))
       (\<lambda>e. case e of ValidationError _ \<Rightarrow> throwS e
          | _ \<Rightarrow> throwS (ValidationError ''Webhook endpoint hostname could not be resolved.'')))"

definition as_error :: "'s network_env \<Rightarrow> js_error \<Rightarrow> js_error" where
  "as_error env e = (case e of Foreign v \<Rightarrow> ne_foreign_error env v | _ \<Rightarrow> e)"

definition lookup_answer :: "lookup_options \<Rightarrow> lookup_address list \<Rightarrow> lookup_reply" where
  "lookup_answer options addresses =
     (let candidates = (if lo_family options \<in> {Some 4, Some 6}
            then filter (\<lambda>a. Some (la_family a) = lo_family options) addresses else addresses)
      in case candidates of
           [] \<Rightarrow> Lookup_error (PlainError ''Webhook endpoint has no public address in the requested family.'') (Some ''ENOTFOUND'')
         | first # _ \<Rightarrow> if lo_all options then Lookup_all candidates (Some (la_family first))
             else Lookup_one (la_address first) (Some (la_family first)))"

definition createPublicLookup :: "'s network_env \<Rightarrow> string \<Rightarrow> lookup_options \<Rightarrow> ('s, lookup_reply) sx" where
  "createPublicLookup env hostname options =
     catchS (bindS (publicAddresses env hostname) (\<lambda>addresses. returnS (lookup_answer options addresses)))
       (\<lambda>e. returnS (Lookup_error (as_error env e) None))"

section \<open>The HTTPS client\<close>

text \<open>
  How the platform connects: a literal address directly, another host to the answers of the
  lookup, one after another until a connection stands.
\<close>

fun try_addresses :: "(string \<Rightarrow> ('s, https_event) sx) \<Rightarrow> string list \<Rightarrow> ('s, https_event) sx" where
  "try_addresses exchange [] = returnS (Connect_failed TypeError)"
| "try_addresses exchange [a] = exchange a"
| "try_addresses exchange (a # b # as) = bindS (exchange a) (\<lambda>event. case event of
     Connect_failed _ \<Rightarrow> try_addresses exchange (b # as) | _ \<Rightarrow> returnS event)"

definition httpsRequest ::
  "'s network_env \<Rightarrow> https_request \<Rightarrow> (string \<Rightarrow> lookup_options \<Rightarrow> ('s, lookup_reply) sx) \<Rightarrow> ('s, https_event) sx" where
  "httpsRequest env request lookup =
     (let host = normalizedIpHostname (url_hostname (hq_url request)); exchange = (\<lambda>a. ne_exchange env a request) in
      if isIP host \<noteq> 0 then exchange host
      else bindS (lookup host (ne_lookup_options env)) (\<lambda>reply. case reply of
          Lookup_error e _ \<Rightarrow> returnS (Https_error e)
        | Lookup_all addresses _ \<Rightarrow> try_addresses exchange (map la_address addresses)
        | Lookup_one a _ \<Rightarrow> exchange a))"

definition https_outcome :: "https_event \<Rightarrow> webhook_response result" where
  "https_outcome event = (case event of
     Https_response statusCode \<Rightarrow>
       (let status = coalesce statusCode 500 in Inr \<lparr>wr_ok = 200 \<le> status \<and> status < 300, wr_status = status\<rparr>)
   | Https_upgrade \<Rightarrow> Inr \<lparr>wr_ok = False, wr_status = 502\<rparr>
   | Https_timeout \<Rightarrow> Inl (PlainError ''Webhook request timed out.'')
   | Https_error e \<Rightarrow> Inl e
   | Connect_failed e \<Rightarrow> Inl e)"

definition createSafeWebhookFetch :: "'s network_env \<Rightarrow> webhook_request \<Rightarrow> ('s, webhook_response) sx" where
  "createSafeWebhookFetch env input = (case ne_parse_url env (wq_endpoint input) of
     None \<Rightarrow> throwS TypeError
   | Some endpoint \<Rightarrow>
       bindS (assertPublicWebhookEndpoint env endpoint) (\<lambda>_.
       bindS (httpsRequest env
           \<lparr>hq_url = endpoint, hq_headers = map_set ''content-length'' (nat_dec (length (wq_body input))) (ne_headers env input),
            hq_body = wq_body input\<rparr> (createPublicLookup env)) (\<lambda>event.
       liftS (https_outcome event))))"

end
