(* ===== verification/Network_Properties.thy ===== *)
theory Network_Properties
  imports Network_Safety
begin

text \<open>
  Which addresses are public, however they are written, and that a webhook never speaks to
  one that is not.
\<close>

section \<open>The text of an address\<close>

definition ipv4_text :: "nat \<Rightarrow> nat \<Rightarrow> nat \<Rightarrow> nat \<Rightarrow> string" where
  "ipv4_text a b c d = join_with ''.'' (map nat_dec [a, b, c, d])"

lemma nat_dec_chars: "x \<in> set (nat_dec n) \<Longrightarrow> is_digit x"
  using nat_dec_digits[of n] by (simp add: list_all_iff)

lemma no_special_in_nat_dec:
  "CHR ''.'' \<notin> set (nat_dec n)" "CHR '':'' \<notin> set (nat_dec n)" "CHR ''%'' \<notin> set (nat_dec n)"
  using nat_dec_chars[of _ n] by (fastforce simp: is_digit_def)+

lemma digit_char_zero: "d < 10 \<Longrightarrow> digit_char d = CHR ''0'' \<longleftrightarrow> d = 0"
proof -
  assume d: "d < 10"
  have "digit_char d = CHR ''0'' \<longleftrightarrow> code (digit_char d) = code (CHR ''0'')" by (rule of_char_eq_iff[symmetric])
  then show ?thesis using d by simp
qed

lemma nat_dec_head: "hd (nat_dec n) \<noteq> CHR ''0'' \<or> n = 0"
proof (induction n rule: nat_dec.induct)
  case (1 n)
  then show ?case by (subst nat_dec.simps) (auto simp: digit_char_zero)
qed

lemma parse_octet_nat_dec: "n < 256 \<Longrightarrow> parse_octet (nat_dec n) = Some n"
  using nat_dec_head[of n] by (auto simp: parse_octet_def nat_dec_digits nat_dec.simps[of 0])

lemma parse_v4_text:
  assumes "a < 256" "b < 256" "c < 256" "d < 256"
  shows "parse_v4 (ipv4_text a b c d) = Some (a * 256 + b, c * 256 + d)"
proof -
  have "split_on CHR ''.'' (ipv4_text a b c d) = map nat_dec [a, b, c, d]"
    unfolding ipv4_text_def by (rule split_on_join) (simp_all add: no_special_in_nat_dec)
  then show ?thesis using assms by (simp add: parse_v4_def parse_octet_nat_dec)
qed

lemma ipv4_text_chars: "CHR '':'' \<notin> set (ipv4_text a b c d)" "CHR ''%'' \<notin> set (ipv4_text a b c d)"
  by (simp_all add: ipv4_text_def no_special_in_nat_dec)

lemma those_None: "None \<in> set xs \<Longrightarrow> those xs = None"
  by (induction xs) (auto split: option.splits)

text \<open>A text with a colon is no dotted quad.\<close>

lemma parse_v4_colon: "CHR '':'' \<in> set s \<Longrightarrow> parse_v4 s = None"
proof -
  assume colon: "CHR '':'' \<in> set s"
  have "\<exists>p \<in> set (split_on CHR ''.'' s). CHR '':'' \<in> set p"
    using colon by (induction s) (auto split: list.splits)
  then obtain p where p: "p \<in> set (split_on CHR ''.'' s)" "CHR '':'' \<in> set p" by blast
  then have "parse_octet p = None" by (fastforce simp: parse_octet_def list_all_iff is_digit_def)
  then have "None \<in> set (map parse_octet (split_on CHR ''.'' s))" using p(1) by force
  then have "those (map parse_octet (split_on CHR ''.'' s)) = None" by (rule those_None)
  then show ?thesis by (simp add: parse_v4_def)
qed

section \<open>The networks as numbers\<close>

definition ipv4_prefixes :: "((nat \<times> nat) \<times> nat) list" where
  "ipv4_prefixes = [
    ((0, 0), 8), ((2560, 0), 8), ((25664, 0), 10), ((32512, 0), 8), ((43518, 0), 16), ((44048, 0), 12), ((49152, 0),
    24), ((49152, 512), 24), ((49240, 25344), 24), ((49320, 0), 16), ((50706, 0), 15), ((50739, 25600), 24),
    ((51968, 28928), 24), ((57344, 0), 4), ((61440, 0), 4)]"

definition ipv6_prefixes :: "(nat list \<times> nat) list" where
  "ipv6_prefixes = [
    ([0, 0, 0, 0, 0, 0, 0, 0], 96), ([0, 0, 0, 0, 0, 0, 0, 1], 128), ([0, 0, 0, 0, 65535, 0, 0, 0], 96),
    ([100, 65435, 0, 0, 0, 0, 0, 0], 96), ([100, 65435, 1, 0, 0, 0, 0, 0], 48), ([256, 0, 0, 0, 0, 0, 0, 0], 64),
    ([256, 0, 0, 1, 0, 0, 0, 0], 64), ([8193, 0, 0, 0, 0, 0, 0, 0], 23), ([8193, 3512, 0, 0, 0, 0, 0, 0], 32),
    ([8194, 0, 0, 0, 0, 0, 0, 0], 16), ([16383, 0, 0, 0, 0, 0, 0, 0], 20), ([24320, 0, 0, 0, 0, 0, 0, 0], 16),
    ([64512, 0, 0, 0, 0, 0, 0, 0], 7), ([65152, 0, 0, 0, 0, 0, 0, 0], 10), ([65216, 0, 0, 0, 0, 0, 0, 0], 10),
    ([65280, 0, 0, 0, 0, 0, 0, 0], 8)]"

lemma v4_texts:
  "parse_v4 ''0.0.0.0'' = Some (0, 0)"
  "parse_v4 ''10.0.0.0'' = Some (2560, 0)"
  "parse_v4 ''100.64.0.0'' = Some (25664, 0)"
  "parse_v4 ''127.0.0.0'' = Some (32512, 0)"
  "parse_v4 ''169.254.0.0'' = Some (43518, 0)"
  "parse_v4 ''172.16.0.0'' = Some (44048, 0)"
  "parse_v4 ''192.0.0.0'' = Some (49152, 0)"
  "parse_v4 ''192.0.2.0'' = Some (49152, 512)"
  "parse_v4 ''192.88.99.0'' = Some (49240, 25344)"
  "parse_v4 ''192.168.0.0'' = Some (49320, 0)"
  "parse_v4 ''198.18.0.0'' = Some (50706, 0)"
  "parse_v4 ''198.51.100.0'' = Some (50739, 25600)"
  "parse_v4 ''203.0.113.0'' = Some (51968, 28928)"
  "parse_v4 ''224.0.0.0'' = Some (57344, 0)"
  "parse_v4 ''240.0.0.0'' = Some (61440, 0)"
  by (simp_all add: parse_v4_def parse_octet_def is_digit_def dec_val_def digit_val_def)

lemma v6_texts:
  "parse_v6 ''::'' = Some [0, 0, 0, 0, 0, 0, 0, 0]"
  "parse_v6 ''::1'' = Some [0, 0, 0, 0, 0, 0, 0, 1]"
  "parse_v6 ''::ffff:0:0:0'' = Some [0, 0, 0, 0, 65535, 0, 0, 0]"
  "parse_v6 ''64:ff9b::'' = Some [100, 65435, 0, 0, 0, 0, 0, 0]"
  "parse_v6 ''64:ff9b:1::'' = Some [100, 65435, 1, 0, 0, 0, 0, 0]"
  "parse_v6 ''100::'' = Some [256, 0, 0, 0, 0, 0, 0, 0]"
  "parse_v6 ''100:0:0:1::'' = Some [256, 0, 0, 1, 0, 0, 0, 0]"
  "parse_v6 ''2001::'' = Some [8193, 0, 0, 0, 0, 0, 0, 0]"
  "parse_v6 ''2001:db8::'' = Some [8193, 3512, 0, 0, 0, 0, 0, 0]"
  "parse_v6 ''2002::'' = Some [8194, 0, 0, 0, 0, 0, 0, 0]"
  "parse_v6 ''3fff::'' = Some [16383, 0, 0, 0, 0, 0, 0, 0]"
  "parse_v6 ''5f00::'' = Some [24320, 0, 0, 0, 0, 0, 0, 0]"
  "parse_v6 ''fc00::'' = Some [64512, 0, 0, 0, 0, 0, 0, 0]"
  "parse_v6 ''fe80::'' = Some [65152, 0, 0, 0, 0, 0, 0, 0]"
  "parse_v6 ''fec0::'' = Some [65216, 0, 0, 0, 0, 0, 0, 0]"
  "parse_v6 ''ff00::'' = Some [65280, 0, 0, 0, 0, 0, 0, 0]"
  by (simp_all add: parse_v6_def parse_v6_groups_def colon_parts_def parse_group_def hex_value_def parse_v4_def parse_octet_def
    is_digit_def dec_val_def digit_val_def Let_def)
    (simp_all add: eval_nat_numeral)

lemma networks_read:
  "map (\<lambda>(n, p). (parse_v4 n, p)) ipv4_networks = map (\<lambda>(q, p). (Some q, p)) ipv4_prefixes"
  "map (\<lambda>(n, p). ((parse_v4 n, parse_v6 n), p)) ipv6_networks = map (\<lambda>(gs, p). ((None, Some gs), p)) ipv6_prefixes"
  by (simp_all add: ipv4_networks_def ipv4_prefixes_def ipv6_networks_def ipv6_prefixes_def v4_texts v6_texts parse_v4_colon)

lemma subnets_v4:
  "map (\<lambda>(n, p). (parse_v4 n, p)) ns = map (\<lambda>(q, p). (Some q, p)) qs \<Longrightarrow>
     List.map_filter (subnet k) ns = map (\<lambda>(q, p). (mapped_address q, k + p)) qs"
proof (induction ns arbitrary: qs)
  case Nil
  then show ?case by (simp add: List.map_filter_simps)
next
  case (Cons n ns)
  obtain q p rest where qs: "qs = (q, p) # rest" using Cons.prems by (cases qs) auto
  then have "subnet k n = Some (mapped_address q, k + p)"
    using Cons.prems by (cases n) (auto simp: subnet_def parse_address_def)
  then show ?case using Cons qs by (simp add: List.map_filter_simps)
qed

lemma subnets_v6:
  "map (\<lambda>(n, p). ((parse_v4 n, parse_v6 n), p)) ns = map (\<lambda>(gs, p). ((None, Some gs), p)) qs \<Longrightarrow>
     List.map_filter (subnet k) ns = map (\<lambda>(gs, p). (address_of_groups gs, k + p)) qs"
proof (induction ns arbitrary: qs)
  case Nil
  then show ?case by (simp add: List.map_filter_simps)
next
  case (Cons n ns)
  obtain gs p rest where qs: "qs = (gs, p) # rest" using Cons.prems by (cases qs) auto
  then have "subnet k n = Some (address_of_groups gs, k + p)"
    using Cons.prems by (cases n) (auto simp: subnet_def parse_address_def)
  then show ?case using Cons qs by (simp add: List.map_filter_simps)
qed

lemma nonPublicAddresses_eq:
  "nonPublicAddresses = map (\<lambda>(q, p). (mapped_address q, 96 + p)) ipv4_prefixes
     @ map (\<lambda>(gs, p). (address_of_groups gs, p)) ipv6_prefixes"
  unfolding nonPublicAddresses_def subnets_v4[OF networks_read(1)] subnets_v6[OF networks_read(2)] by simp

section \<open>Every spelling of an IPv4 address\<close>

text \<open>The special ranges of IPv4, read from the four parts of an address.\<close>

definition public_quad :: "nat \<Rightarrow> nat \<Rightarrow> nat \<Rightarrow> nat \<Rightarrow> bool" where
  "public_quad a b c d \<longleftrightarrow> \<not> (a \<in> {0, 10, 127} \<or> 224 \<le> a \<or> (a = 100 \<and> 64 \<le> b \<and> b < 128) \<or> (a = 169 \<and> b = 254)
     \<or> (a = 172 \<and> 16 \<le> b \<and> b < 32) \<or> (a = 192 \<and> (b = 168 \<or> (b = 0 \<and> c \<in> {0, 2}) \<or> (b = 88 \<and> c = 99)))
     \<or> (a = 198 \<and> (b \<in> {18, 19} \<or> (b = 51 \<and> c = 100))) \<or> (a = 203 \<and> b = 0 \<and> c = 113))"

lemma in_subnet_div: "in_subnet a (n, p) \<longleftrightarrow> unat a div 2 ^ (128 - p) = unat n div 2 ^ (128 - p)"
  unfolding in_subnet_def prod.case word_unat_eq_iff unat_drop_bit_eq by (simp add: drop_bit_eq_div)

definition quad_number :: "nat \<Rightarrow> nat \<Rightarrow> nat \<Rightarrow> nat \<Rightarrow> nat" where
  "quad_number a b c d = 281470681743360 + a * 16777216 + b * 65536 + c * 256 + d"

lemma unat_mapped:
  assumes "a < 256" "b < 256" "c < 256" "d < 256"
  shows "unat (mapped_address (a * 256 + b, c * 256 + d)) = quad_number a b c d"
proof -
  have "foldl (\<lambda>n g. 65536 * n + g) 0 [0, 0, 0, 0, 0, 65535, a * 256 + b, c * 256 + d] = quad_number a b c d"
    by (simp add: quad_number_def)
  moreover have "quad_number a b c d < 2 ^ 128" using assms by (simp add: quad_number_def)
  ultimately show ?thesis
    unfolding mapped_address_def prod.case address_of_groups_def unat_of_nat by simp
qed

lemma unat_mapped_number:
  assumes "x < 65536" "y < 65536"
  shows "unat (mapped_address (x, y)) = 281470681743360 + x * 65536 + y"
proof -
  have "foldl (\<lambda>n g. 65536 * n + g) 0 [0, 0, 0, 0, 0, 65535, x, y] = 281470681743360 + x * 65536 + y" by simp
  then show ?thesis
    unfolding mapped_address_def prod.case address_of_groups_def unat_of_nat using assms by simp
qed

lemma quad_div:
  assumes "a < 256" "b < 256" "c < 256" "d < 256"
  shows "quad_number a b c d div 16777216 = 16776960 + a"
    "quad_number a b c d div 65536 = 4294901760 + a * 256 + b"
    "quad_number a b c d div 256 = 1099494850560 + a * 65536 + b * 256 + c"
    "quad_number a b c d div 268435456 = 1048560 + a div 16"
    "quad_number a b c d div 4194304 = 67107840 + a * 4 + b div 64"
    "quad_number a b c d div 1048576 = 268431360 + a * 16 + b div 16"
    "quad_number a b c d div 131072 = 2147450880 + a * 128 + b div 2"
    "quad_number a b c d div 4294967296 = 65535"
    "quad_number a b c d < 281474976710656"
  using assms by (auto simp: quad_number_def intro!: div_nat_eqI)

text \<open>Leading digits and the rest of a number.\<close>

lemma digits_eq:
  fixes a q :: nat
  assumes "q < n"
  shows "a * n + q = x \<longleftrightarrow> a = x div n \<and> q = x mod n"
proof
  assume eq: "a * n + q = x"
  have "(a * n + q) div n = a" "(a * n + q) mod n = q" using assms by (simp_all add: div_nat_eqI)
  then show "a = x div n \<and> q = x mod n" using eq by simp
qed simp

lemma three_digits_eq:
  fixes a b c :: nat
  assumes "b < 256" "c < 256"
  shows "a * 65536 + (b * 256 + c) = x \<longleftrightarrow> a = x div 65536 \<and> b = x div 256 mod 256 \<and> c = x mod 256"
proof -
  have sum: "a * 65536 + (b * 256 + c) = (a * 256 + b) * 256 + c" by simp
  show ?thesis
    unfolding sum digits_eq[OF assms(2)] digits_eq[OF assms(1)] by (simp add: div_mult2_eq[symmetric])
qed

lemma part_eq: "0 < n \<Longrightarrow> b div n = q \<longleftrightarrow> n * q \<le> b \<and> b < n * Suc q" for n :: nat
  by (auto intro: div_nat_eqI dividend_less_times_div simp: dividend_less_times_div)

lemma subnet_of_quad:
  assumes "a < 256" "b < 256" "c < 256" "d < 256"
  shows "list_ex (in_subnet (mapped_address (a * 256 + b, c * 256 + d))) nonPublicAddresses \<longleftrightarrow> \<not> public_quad a b c d"
proof -
  note n = unat_mapped[OF assms] and div = quad_div[OF assms]
  let ?w = "mapped_address (a * 256 + b, c * 256 + d)"
  have parts: "b div 64 < 4" "b div 16 < 16" "b div 2 < 128" using assms(2) by simp_all
  note number = in_subnet_div n div unat_mapped_number digits_eq[OF assms(2)] digits_eq[OF parts(1)] digits_eq[OF parts(2)]
    digits_eq[OF parts(3)] three_digits_eq[OF assms(2,3)] part_eq
  have nets:
    "in_subnet ?w (mapped_address (0, 0), 96 + 8) \<longleftrightarrow> a = 0"
    "in_subnet ?w (mapped_address (2560, 0), 96 + 8) \<longleftrightarrow> a = 10"
    "in_subnet ?w (mapped_address (25664, 0), 96 + 10) \<longleftrightarrow> a = 100 \<and> 64 \<le> b \<and> b < 128"
    "in_subnet ?w (mapped_address (32512, 0), 96 + 8) \<longleftrightarrow> a = 127"
    "in_subnet ?w (mapped_address (43518, 0), 96 + 16) \<longleftrightarrow> a = 169 \<and> b = 254"
    "in_subnet ?w (mapped_address (44048, 0), 96 + 12) \<longleftrightarrow> a = 172 \<and> 16 \<le> b \<and> b < 32"
    "in_subnet ?w (mapped_address (49152, 0), 96 + 24) \<longleftrightarrow> a = 192 \<and> b = 0 \<and> c = 0"
    "in_subnet ?w (mapped_address (49152, 512), 96 + 24) \<longleftrightarrow> a = 192 \<and> b = 0 \<and> c = 2"
    "in_subnet ?w (mapped_address (49240, 25344), 96 + 24) \<longleftrightarrow> a = 192 \<and> b = 88 \<and> c = 99"
    "in_subnet ?w (mapped_address (49320, 0), 96 + 16) \<longleftrightarrow> a = 192 \<and> b = 168"
    "in_subnet ?w (mapped_address (50706, 0), 96 + 15) \<longleftrightarrow> a = 198 \<and> (b = 18 \<or> b = 19)"
    "in_subnet ?w (mapped_address (50739, 25600), 96 + 24) \<longleftrightarrow> a = 198 \<and> b = 51 \<and> c = 100"
    "in_subnet ?w (mapped_address (51968, 28928), 96 + 24) \<longleftrightarrow> a = 203 \<and> b = 0 \<and> c = 113"
    "in_subnet ?w (mapped_address (57344, 0), 96 + 4) \<longleftrightarrow> 224 \<le> a \<and> a < 240"
    "in_subnet ?w (mapped_address (61440, 0), 96 + 4) \<longleftrightarrow> 240 \<le> a"
    using assms(1) by (auto simp: number)
  have high: "(224 \<le> a \<and> a < 240) \<or> 240 \<le> a \<longleftrightarrow> 224 \<le> a" by linarith
  have v4: "list_ex (in_subnet ?w) (map (\<lambda>(q, p). (mapped_address q, 96 + p)) ipv4_prefixes) \<longleftrightarrow> \<not> public_quad a b c d"
    unfolding ipv4_prefixes_def list.map prod.case list_ex_Cons_iff list_ex_Nil_iff nets public_quad_def insert_iff empty_iff
    using high by argo
  have "quad_number a b c d div 2 ^ 32 = 65535" "quad_number a b c d div 2 ^ k = 0" if "48 \<le> k" for k
    using div(8,9) that by (auto intro!: div_less order_less_le_trans[OF div(9)] power_increasing[of 48 k 2, simplified])
  then have v6: "\<not> list_ex (in_subnet ?w) (map (\<lambda>(gs, p). (address_of_groups gs, p)) ipv6_prefixes)"
    unfolding ipv6_prefixes_def list.map prod.case list_ex_Cons_iff list_ex_Nil_iff in_subnet_div n
    using quad_div(8,9)[OF assms] by (simp add: address_of_groups_def unat_of_nat quad_number_def)
  show ?thesis unfolding nonPublicAddresses_eq list_ex_append using v4 v6 by blast
qed

text \<open>
  C25. Whether an IPv4 address may be contacted depends on its four numbers only, and it may
  exactly when they lie in none of the special ranges: written as a dotted quad it is an
  address of family 4, written as an IPv6 address with an embedded quad it is one of family
  6, and both spellings are public or not together.
\<close>

theorem ipv4_spellings:
  assumes "a < 256" "b < 256" "c < 256" "d < 256"
  shows "isIP (ipv4_text a b c d) = 4 \<and> isIP (''::ffff:'' @ ipv4_text a b c d) = 6
    \<and> (isPublicIpAddress (ipv4_text a b c d) \<longleftrightarrow> public_quad a b c d)
    \<and> (isPublicIpAddress (''::ffff:'' @ ipv4_text a b c d) \<longleftrightarrow> public_quad a b c d)"
proof -
  let ?t = "ipv4_text a b c d" and ?m = "''::ffff:'' @ ipv4_text a b c d"
  note v4 = parse_v4_text[OF assms]
  have none: "parse_v4 ?m = None" by (rule parse_v4_colon) simp
  have percent: "takeWhile (\<lambda>c. c \<noteq> CHR ''%'') ?m = ?m" "dropWhile (\<lambda>c. c \<noteq> CHR ''%'') ?m = []"
    using ipv4_text_chars(2)[of a b c d] by (auto simp: takeWhile_eq_all_conv dropWhile_eq_Nil_conv)
  have gap: "split_gap ?m = Some ([], ''ffff:'' @ ?t)" by simp
  have parts: "colon_parts (''ffff:'' @ ?t) = [''ffff'', ?t]"
    using split_on_append[of "CHR '':''" "''ffff''" ?t] split_on_free[OF ipv4_text_chars(1)[of a b c d]]
    by (simp add: colon_parts_def)
  have ffff: "parse_group ''ffff'' = Some 65535" by (simp add: parse_group_def hex_value_def is_digit_def)
  have v6: "parse_v6 ?m = Some [0, 0, 0, 0, 0, 65535, a * 256 + b, c * 256 + d]"
    unfolding parse_v6_def Let_def percent parse_v6_groups_def gap option.case prod.case parts
    by (simp add: ffff v4 colon_parts_def) (simp add: eval_nat_numeral)
  have "parse_address ?t = Some (mapped_address (a * 256 + b, c * 256 + d))" by (simp add: parse_address_def v4)
  moreover have "parse_address ?m = Some (mapped_address (a * 256 + b, c * 256 + d))"
    unfolding parse_address_def none v6 option.case option.map mapped_address_def prod.case by (rule refl)
  ultimately show ?thesis
    unfolding isPublicIpAddress_def isIP_def none v4 v6 by (simp add: subnet_of_quad[OF assms])
qed

lemma ipv4_spellings_witness:
  "\<not> isPublicIpAddress (''::ffff:'' @ ipv4_text 169 254 169 254) \<and> \<not> isPublicIpAddress (ipv4_text 172 31 0 1)
   \<and> isPublicIpAddress (''::ffff:'' @ ipv4_text 8 8 8 8) \<and> isIP (ipv4_text 8 8 8 8) = 4"
  using ipv4_spellings[of 169 254 169 254] ipv4_spellings[of 172 31 0 1] ipv4_spellings[of 8 8 8 8]
  by (simp add: public_quad_def)

section \<open>What a webhook can reach\<close>

text \<open>An environment that refuses to speak to other addresses than public ones.\<close>

definition guarded ::
  "(string \<Rightarrow> https_request \<Rightarrow> ('s, https_event) sx) \<Rightarrow> 's network_env \<Rightarrow> 's network_env" where
  "guarded breach env =
     env\<lparr>ne_exchange := (\<lambda>a request. if isPublicIpAddress a then ne_exchange env a request else breach a request)\<rparr>"

lemma guarded_same:
  "publicAddresses (guarded breach env) = publicAddresses env"
  "assertPublicWebhookEndpoint (guarded breach env) = assertPublicWebhookEndpoint env"
  "createPublicLookup (guarded breach env) = createPublicLookup env"
proof -
  have resolve: "resolve_in_time (guarded breach env) = resolve_in_time env"
    by (rule ext)+ (simp add: resolve_in_time_def guarded_def)
  show addresses: "publicAddresses (guarded breach env) = publicAddresses env"
    by (rule ext) (simp only: publicAddresses_def resolve)
  show "assertPublicWebhookEndpoint (guarded breach env) = assertPublicWebhookEndpoint env"
    by (rule ext) (simp only: assertPublicWebhookEndpoint_def addresses)
  have "as_error (guarded breach env) = as_error env" by (rule ext) (simp add: as_error_def guarded_def split: js_error.split)
  then show "createPublicLookup (guarded breach env) = createPublicLookup env"
    by (intro ext) (simp only: createPublicLookup_def addresses)
qed

lemma publicAddresses_sound:
  assumes "publicAddresses env hostname s = (Inr addresses, t)"
  shows "\<forall>a \<in> set addresses. isPublicIpAddress (la_address a)"
    "isIP (normalizedIpHostname hostname) \<noteq> 0 \<Longrightarrow> isPublicIpAddress (normalizedIpHostname hostname)"
  using assms
  by (auto simp: publicAddresses_def Let_def bindS_Inr_iff returnS_def throwS_def list_ex_iff split: if_splits)

fun reply_addresses :: "lookup_reply \<Rightarrow> string list" where
  "reply_addresses (Lookup_error e c) = []"
| "reply_addresses (Lookup_all addresses family) = map la_address addresses"
| "reply_addresses (Lookup_one a family) = [a]"

lemma lookup_answer_addresses: "set (reply_addresses (lookup_answer options addresses)) \<subseteq> la_address ` set addresses"
proof -
  define candidates where "candidates = (if lo_family options \<in> {Some 4, Some 6}
    then filter (\<lambda>a. Some (la_family a) = lo_family options) addresses else addresses)"
  have "set candidates \<subseteq> set addresses" by (auto simp: candidates_def)
  then show ?thesis
    unfolding lookup_answer_def Let_def candidates_def[symmetric] by (auto split: list.split if_splits)
qed

lemma lookup_public:
  assumes "createPublicLookup env hostname options s = (Inr reply, t)" "a \<in> set (reply_addresses reply)"
  shows "isPublicIpAddress a"
proof (cases "publicAddresses env hostname s")
  case (Pair r t')
  show ?thesis
  proof (cases r)
    case (Inl e)
    then show ?thesis using assms Pair by (auto simp: createPublicLookup_def catchS_def bindS_def returnS_def)
  next
    case (Inr addresses)
    then have "reply = lookup_answer options addresses"
      using assms(1) Pair by (simp add: createPublicLookup_def catchS_def bindS_def returnS_def)
    then have member: "a \<in> la_address ` set addresses" using assms(2) lookup_answer_addresses by blast
    have "publicAddresses env hostname s = (Inr addresses, t')" using Pair Inr by simp
    from publicAddresses_sound(1)[OF this] member show ?thesis by auto
  qed
qed

lemma try_addresses_cong:
  "(\<And>a. a \<in> set as \<Longrightarrow> f a = g a) \<Longrightarrow> try_addresses f as = try_addresses g as"
proof (induction as)
  case (Cons a as)
  then have "f a = g a" "try_addresses f as = try_addresses g as" by simp_all
  then show ?case by (cases as) (simp_all only: try_addresses.simps)
qed simp

lemma httpsRequest_guarded:
  assumes "isIP (normalizedIpHostname (url_hostname (hq_url request))) \<noteq> 0
    \<Longrightarrow> isPublicIpAddress (normalizedIpHostname (url_hostname (hq_url request)))"
  shows "httpsRequest (guarded breach env) request (createPublicLookup env) s
    = httpsRequest env request (createPublicLookup env) s"
proof (cases "isIP (normalizedIpHostname (url_hostname (hq_url request))) = 0")
  case False
  then show ?thesis using assms by (simp add: httpsRequest_def Let_def guarded_def)
next
  case True
  let ?host = "normalizedIpHostname (url_hostname (hq_url request))"
  obtain r t where run: "createPublicLookup env ?host (ne_lookup_options env) s = (r, t)" by fastforce
  have options: "ne_lookup_options (guarded breach env) = ne_lookup_options env" by (simp add: guarded_def)
  show ?thesis
  proof (cases r)
    case (Inl e)
    then show ?thesis using run True by (simp add: httpsRequest_def Let_def options)
  next
    case (Inr reply)
    have same: "ne_exchange (guarded breach env) a request = ne_exchange env a request" if "a \<in> set (reply_addresses reply)" for a
      using lookup_public[OF run[unfolded Inr] that] by (simp add: guarded_def)
    show ?thesis
      using run Inr True same
      by (cases reply) (auto simp: httpsRequest_def Let_def options intro!: fun_cong[OF try_addresses_cong])
  qed
qed

text \<open>
  C11. A webhook never speaks to an address that is not public, whatever the resolver answers
  to the check and then to the connection, whether the host is a name or a literal address:
  what happens when such an address is contacted has no influence on the client, so it
  contacts none.
\<close>

theorem no_private_contact:
  "createSafeWebhookFetch (guarded breach env) input s = createSafeWebhookFetch env input s"
proof (cases "ne_parse_url env (wq_endpoint input)")
  case None
  then show ?thesis by (simp add: createSafeWebhookFetch_def guarded_def)
next
  case (Some endpoint)
  define request where "request = \<lparr>hq_url = endpoint,
    hq_headers = map_set ''content-length'' (nat_dec (length (wq_body input))) (ne_headers env input), hq_body = wq_body input\<rparr>"
  have ports: "ne_parse_url (guarded breach env) = ne_parse_url env" "ne_headers (guarded breach env) = ne_headers env"
    by (simp_all add: guarded_def)
  have fetch: "createSafeWebhookFetch env' input = bindS (assertPublicWebhookEndpoint env endpoint) (\<lambda>_.
      bindS (httpsRequest env' request (createPublicLookup env)) (\<lambda>event. liftS (https_outcome event)))"
    if "env' \<in> {env, guarded breach env}" for env'
    using that Some by (auto simp: createSafeWebhookFetch_def request_def ports guarded_same)
  obtain r t where check: "assertPublicWebhookEndpoint env endpoint s = (r, t)" by fastforce
  show ?thesis
  proof (cases r)
    case (Inl e)
    then show ?thesis using check by (simp add: fetch)
  next
    case (Inr u)
    then obtain addresses t' where "publicAddresses env (url_hostname endpoint) s = (Inr addresses, t')"
      using check
      by (auto simp: assertPublicWebhookEndpoint_def bindS_def liftS_def catchS_def throwS_def returnS_def
          split: sum.splits if_splits prod.splits js_error.splits)
    then have "isPublicIpAddress (normalizedIpHostname (url_hostname (hq_url request)))"
      if "isIP (normalizedIpHostname (url_hostname (hq_url request))) \<noteq> 0"
      using publicAddresses_sound(2) that by (simp add: request_def)
    from httpsRequest_guarded[OF this, where s = t] show ?thesis using check Inr by (simp add: fetch bindS_def)
  qed
qed

end
