(* ===== verification/Attachment_Service.thy ===== *)
theory Attachment_Service
  imports Store_Motion Catalog_Store Crypto_Properties Demo_Delivery
begin

text \<open>
  Attachments (\<open>src/services/attachment-service.ts\<close>): uploads that are announced, authorised by
  a token and checked against what was announced, and the attachments of a send request,
  which are part of the request or refer to an upload. The object storage
  (\<open>src/ports/attachment-storage.ts\<close>) and the random bytes of a token are ports of the
  environment. The digest of bytes is the digest of the text they encode.
\<close>

section \<open>The environment\<close>

record attachment_upload_target =
  aut_url :: string
  aut_headers :: "(string \<times> string) list"
  aut_expires_at :: string

record 'x attachment_env = "'x world_env" +
  as_assert_configured :: "('x, unit) world_op"
  as_create_upload_target :: "attachment_upload_record \<Rightarrow> string \<Rightarrow> string \<Rightarrow> ('x, attachment_upload_target) world_op"
  as_upload :: "attachment_upload_record \<Rightarrow> 8 word list \<Rightarrow> string \<Rightarrow> ('x, unit) world_op"
  as_verify :: "attachment_object_reference \<Rightarrow> ('x, unit) world_op"
  as_read :: "attachment_object_reference \<Rightarrow> ('x, 8 word list) world_op"
  as_random :: "'x \<Rightarrow> 8 word list \<times> 'x"

definition sha256Bytes :: "host \<Rightarrow> 8 word list \<Rightarrow> string" where
  "sha256Bytes h value = h_sha256 h (map (\<lambda>b. char_of (unat b)) value)"

definition max_attachment_bytes :: int where
  "max_attachment_bytes = 25 * 1024 * 1024"

section \<open>Uploads\<close>

record create_upload_input =
  cu_filename :: string
  cu_content_type :: string
  cu_size_bytes :: int
  cu_checksum_sha256 :: string

record created_upload =
  cr_upload_id :: string
  cr_filename :: string
  cr_content_type :: string
  cr_size_bytes :: int
  cr_checksum_sha256 :: string
  cr_upload_url :: string
  cr_upload_headers :: "(string \<times> string) list"
  cr_expires_at :: string
  cr_attachment_expires_at :: string

definition objectReference :: "attachment_upload_record \<Rightarrow> attachment_object_reference" where
  "objectReference record = \<lparr>aor_object_key = au_object_key record, aor_size_bytes = au_size_bytes record,
     aor_checksum_sha256 = au_checksum_sha256 record\<rparr>"

definition upload_tokenW :: "('x, ('x, 'z) attachment_env_ext) world_env_scheme \<Rightarrow> ('x, string) world_op" where
  "upload_tokenW env w = (case as_random env (snd w) of (bs, x) \<Rightarrow> (Inr (createRandomToken bs), (fst w, x)))"

definition attachment_create ::
  "host \<Rightarrow> ('x, ('x, 'z) attachment_env_ext) world_env_scheme \<Rightarrow> create_upload_input \<Rightarrow> string \<Rightarrow> int
     \<Rightarrow> ('x, created_upload) world_op" where
  "attachment_create h env input apiBaseUrl now =
     bindS (as_assert_configured env) (\<lambda>_.
     bindS (createIdW env ''att'') (\<lambda>i.
     bindS (upload_tokenW env) (\<lambda>uploadToken.
     bindS (liftS (date_to_iso (make_date (now + 15 * 60 * 1000)))) (\<lambda>uploadExpiresAt.
     bindS (liftS (date_to_iso (make_date (now + 24 * 60 * 60 * 1000)))) (\<lambda>expiresAt.
     let record = \<lparr>au_id = i, au_filename = cu_filename input, au_content_type = cu_content_type input,
           au_size_bytes = cu_size_bytes input, au_checksum_sha256 = js_lower h (cu_checksum_sha256 input),
           au_object_key = ''attachments/'' @ i @ ''/content'', au_upload_token_hash = sha256 h uploadToken,
           au_created_at = to_iso now, au_upload_expires_at = uploadExpiresAt, au_expires_at = expiresAt\<rparr> in
     bindS (storeW env (putAttachmentUpload record)) (\<lambda>_.
     bindS (awaitW env (as_create_upload_target env record uploadToken apiBaseUrl)) (\<lambda>target.
     returnS \<lparr>cr_upload_id = i, cr_filename = cu_filename input, cr_content_type = cu_content_type input,
       cr_size_bytes = cu_size_bytes input, cr_checksum_sha256 = au_checksum_sha256 record,
       cr_upload_url = aut_url target, cr_upload_headers = aut_headers target, cr_expires_at = aut_expires_at target,
       cr_attachment_expires_at = expiresAt\<rparr>)))))))"

definition length_error :: "attachment_upload_record \<Rightarrow> js_error" where
  "length_error record =
     ValidationError (''Attachment content length must be exactly '' @ int_dec (au_size_bytes record) @ '' bytes.'')"

definition authorizeProxyUpload ::
  "host \<Rightarrow> ('x, 'z) world_env_scheme \<Rightarrow> string \<Rightarrow> string \<Rightarrow> int option \<Rightarrow> int \<Rightarrow> ('x, attachment_upload_record) world_op" where
  "authorizeProxyUpload h env i token contentLength now =
     bindS (readW env (getAttachmentUpload i)) (\<lambda>record.
     let invalid = throwS (ValidationError ''The attachment upload URL is invalid or expired.'') in
     case record of None \<Rightarrow> invalid
     | Some r \<Rightarrow>
         if \<not> secretsEqual (sha256 h token) (au_upload_token_hash r) then invalid
         else if date_le (date_parse h (au_upload_expires_at r)) (Some now) then invalid
         else if contentLength \<noteq> None \<and> contentLength \<noteq> Some (au_size_bytes r) then throwS (length_error r)
         else returnS r)"

definition attachment_upload ::
  "host \<Rightarrow> ('x, ('x, 'z) attachment_env_ext) world_env_scheme \<Rightarrow> attachment_upload_record \<Rightarrow> 8 word list \<Rightarrow> string
     \<Rightarrow> ('x, unit) world_op" where
  "attachment_upload h env record content contentType =
     (if int (length content) \<noteq> au_size_bytes record then throwS (length_error record)
      else if contentType \<noteq> au_content_type record
      then throwS (ValidationError (''Attachment content type must be '' @ au_content_type record @ ''.''))
      else if sha256Bytes h content \<noteq> au_checksum_sha256 record
      then throwS (ValidationError ''Attachment checksum does not match.'')
      else bindS (awaitW env (as_upload env record content contentType)) (\<lambda>_.
        awaitW env (as_verify env (objectReference record))))"

section \<open>The attachments of a request\<close>

definition resolve_inline :: "string \<Rightarrow> string \<Rightarrow> attachment_presentation \<Rightarrow> email_attachment result" where
  "resolve_inline filename content p =
     (if content = [] \<or> \<not> isCanonicalBase64 content
      then Inl (ValidationError (''Attachment '' @ filename @ '' content must be canonical base64.''))
      else bindE (base64ToBytes content) (\<lambda>bytes.
        Inr (attachment_presentation.extend p
          \<lparr>att_filename = filename, att_content = Some content, att_attachment_id = None, att_object_key = None,
           att_size_bytes = Some (int (length bytes)), att_checksum_sha256 = None\<rparr>)))"

text \<open>An attachment that refers to an upload takes what it leaves open from the record.\<close>

definition uploaded_attachment ::
  "attachment_upload_record \<Rightarrow> string option \<Rightarrow> attachment_presentation \<Rightarrow> email_attachment" where
  "uploaded_attachment r filename p =
     \<lparr>atp_content_type = Some (coalesce (atp_content_type p) (au_content_type r)),
      atp_content_id = (if truthy (atp_content_id p) then atp_content_id p else None),
      atp_content_disposition = atp_content_disposition p,
      att_filename = coalesce filename (au_filename r), att_content = None, att_attachment_id = Some (au_id r),
      att_object_key = Some (au_object_key r), att_size_bytes = Some (au_size_bytes r),
      att_checksum_sha256 = Some (au_checksum_sha256 r)\<rparr>"

definition resolve_attachment ::
  "host \<Rightarrow> ('x, ('x, 'z) attachment_env_ext) world_env_scheme \<Rightarrow> int \<Rightarrow> attachment_input \<Rightarrow> ('x, email_attachment) world_op" where
  "resolve_attachment h env now a = (case a of
     Inline_attachment filename content p \<Rightarrow> liftS (resolve_inline filename content p)
   | Uploaded_attachment i filename p \<Rightarrow>
       bindS (readW env (getAttachmentUpload i)) (\<lambda>record.
       let invalid = throwS (ValidationError (''Attachment '' @ i @ '' is invalid or expired.'')) in
       case record of None \<Rightarrow> invalid
       | Some r \<Rightarrow>
           if date_le (date_parse h (au_expires_at r)) (Some now) then invalid
           else bindS (awaitW env (as_verify env (objectReference r))) (\<lambda>_. returnS (uploaded_attachment r filename p))))"

text \<open>
  \<open>(bodyBytes + attachmentBytes) * 1.37 + n * 2048 > 39 * 1024 * 1024\<close>, in hundredths. The
  two sides differ by at least a hundredth or not at all, which is more than doubles of this
  size lose.
\<close>

definition message_too_large :: "nat \<Rightarrow> int \<Rightarrow> nat \<Rightarrow> bool" where
  "message_too_large bodyBytes attachmentBytes n \<longleftrightarrow>
     39 * 1024 * 1024 * 100 < (int bodyBytes + attachmentBytes) * 137 + int n * 204800"

definition total_bytes :: "email_attachment list \<Rightarrow> int" where
  "total_bytes as = sum_list (map (\<lambda>a. coalesce (att_size_bytes a) 0) as)"

definition attachment_resolve ::
  "host \<Rightarrow> ('x, ('x, 'z) attachment_env_ext) world_env_scheme \<Rightarrow> attachment_input list option \<Rightarrow> nat \<Rightarrow> int
     \<Rightarrow> ('x, email_attachment list option) world_op" where
  "attachment_resolve h env attachments bodyBytes now = (case attachments of
     None \<Rightarrow> returnS None
   | Some inputs \<Rightarrow>
       bindS (awaitW env (allS (resolve_attachment h env now) inputs)) (\<lambda>resolved.
       if max_attachment_bytes < total_bytes resolved
       then throwS (ValidationError ''Decoded attachment content must not exceed 25 MiB.'')
       else if message_too_large bodyBytes (total_bytes resolved) (length resolved)
       then throwS (ValidationError ''The estimated MIME message size must remain below 39 MiB.'')
       else returnS (Some resolved)))"

definition attachment_read ::
  "('x, ('x, 'z) attachment_env_ext) world_env_scheme \<Rightarrow> email_attachment \<Rightarrow> ('x, 8 word list) world_op" where
  "attachment_read env a =
     (if truthy (att_content a) then liftS (base64ToBytes (coalesce (att_content a) []))
      else case (att_object_key a, att_size_bytes a, att_checksum_sha256 a) of
        (Some key, Some bytes, Some checksum) \<Rightarrow>
          if key = [] \<or> checksum = []
          then throwS (PlainError (''Attachment '' @ att_filename a @ '' has no readable content.''))
          else awaitW env (as_read env \<lparr>aor_object_key = key, aor_size_bytes = bytes, aor_checksum_sha256 = checksum\<rparr>)
      | _ \<Rightarrow> throwS (PlainError (''Attachment '' @ att_filename a @ '' has no readable content.'')))"

end
