(* ===== verification/Attachment_Properties.thy ===== *)
theory Attachment_Properties
  imports Attachment_Service
begin

text \<open>
  The attachments of an accepted request are within the limits, can be read back as what they
  were said to be, and refer only to verified uploads; and nothing is stored for an upload
  but the content that was announced, by the bearer of its token.
\<close>

section \<open>Attachments of a request\<close>

text \<open>What an input may have become: its own bytes, or a live upload the storage has verified.\<close>

definition resolved_from ::
  "host \<Rightarrow> ('x, ('x, 'z) attachment_env_ext) world_env_scheme \<Rightarrow> int \<Rightarrow> attachment_input \<Rightarrow> email_attachment \<Rightarrow> bool" where
  "resolved_from h env now input a = (case input of
     Inline_attachment filename content p \<Rightarrow>
       (\<exists>bytes. bytes \<noteq> [] \<and> content = bytesToBase64 bytes \<and> att_filename a = filename
          \<and> att_size_bytes a = Some (int (length bytes)) \<and> (\<forall>w. attachment_read env a w = (Inr bytes, w)))
   | Uploaded_attachment i filename p \<Rightarrow>
       (\<exists>r s v1 v2. getAttachmentUpload i s = Some r \<and> \<not> date_le (date_parse h (au_expires_at r)) (Some now)
          \<and> awaitW env (as_verify env (objectReference r)) v1 = (Inr (), v2) \<and> a = uploaded_attachment r filename p))"

lemma canonical_content:
  assumes "isCanonicalBase64 content"
  obtains bytes where "bytes \<noteq> []" "content = bytesToBase64 bytes" "base64ToBytes content = Inr bytes"
proof -
  obtain bytes where b: "base64ToBytes content = Inr bytes" "bytesToBase64 bytes = content" "js_length content \<noteq> 0"
    using assms by (auto simp: isCanonicalBase64_def split: if_splits sum.splits)
  moreover have "bytes \<noteq> []" using b(2,3) by (auto simp: bytesToBase64_def btoa_def js_length_def)
  ultimately show thesis using that by blast
qed

lemma resolve_inline_sound:
  assumes "resolve_inline filename content p = Inr a"
  shows "resolved_from h env now (Inline_attachment filename content p) a"
proof -
  have content: "content \<noteq> []" "isCanonicalBase64 content"
    using assms by (auto simp: resolve_inline_def split: if_splits)
  obtain bytes where b: "bytes \<noteq> []" "content = bytesToBase64 bytes" "base64ToBytes content = Inr bytes"
    by (rule canonical_content[OF content(2)])
  have a: "att_filename a = filename" "att_content a = Some content" "att_size_bytes a = Some (int (length bytes))"
    using assms content b(3) by (auto simp: resolve_inline_def attachment_presentation.defs)
  have "attachment_read env a w = (Inr bytes, w)" for w
    using a(2) content(1) b(3) by (simp add: attachment_read_def liftS_def)
  then show ?thesis using a b(1,2) by (auto simp: resolved_from_def)
qed

lemma resolve_attachment_sound:
  assumes "resolve_attachment h env now input w = (Inr a, w')"
  shows "resolved_from h env now input a"
proof (cases input)
  case (Inline_attachment filename content p)
  then show ?thesis using assms resolve_inline_sound by (auto simp: resolve_attachment_def liftS_def)
next
  case (Uploaded_attachment i filename p)
  have run: "(case getAttachmentUpload i (fst w) of
        None \<Rightarrow> throwS (ValidationError (''Attachment '' @ i @ '' is invalid or expired.''))
      | Some r \<Rightarrow> if date_le (date_parse h (au_expires_at r)) (Some now)
          then throwS (ValidationError (''Attachment '' @ i @ '' is invalid or expired.''))
          else bindS (awaitW env (as_verify env (objectReference r))) (\<lambda>_. returnS (uploaded_attachment r filename p)))
      (wo_others env w) = (Inr a, w')"
    using assms by (simp only: resolve_attachment_def Uploaded_attachment attachment_input.case bindS_readW Let_def)
  then obtain r where r: "getAttachmentUpload i (fst w) = Some r" by (cases "getAttachmentUpload i (fst w)") (auto simp: throwS_def)
  then have live: "\<not> date_le (date_parse h (au_expires_at r)) (Some now)" using run by (auto simp: throwS_def)
  then have "bindS (awaitW env (as_verify env (objectReference r))) (\<lambda>_. returnS (uploaded_attachment r filename p))
      (wo_others env w) = (Inr a, w')" using run r by simp
  then obtain v2 where "awaitW env (as_verify env (objectReference r)) (wo_others env w) = (Inr (), v2)"
    and "a = uploaded_attachment r filename p"
    by (auto simp: bindS_Inr_iff returnS_def)
  then show ?thesis using r live unfolding resolved_from_def Uploaded_attachment attachment_input.case by blast
qed

lemma allS_sound:
  assumes "allS f xs w = (Inr ys, w')" "\<And>x y v v'. f x v = (Inr y, v') \<Longrightarrow> P x y"
  shows "list_all2 P xs ys"
  using assms(1)
proof (induction xs arbitrary: w ys w')
  case (Cons x xs)
  obtain r w1 where f: "f x w = (r, w1)" by fastforce
  obtain rs w2 where rest: "allS f xs w1 = (rs, w2)" by fastforce
  from Cons.prems f rest obtain y zs where "r = Inr y" "rs = Inr zs" "ys = y # zs"
    by (auto simp: bindE_Inr_iff)
  then show ?case using Cons.IH[of w1 zs w2] rest assms(2) f by simp
qed simp


section \<open>Uploads\<close>

text \<open>A storage that takes only what was announced for a record.\<close>

definition announced :: "host \<Rightarrow> attachment_upload_record \<Rightarrow> 8 word list \<Rightarrow> string \<Rightarrow> bool" where
  "announced h r content contentType \<longleftrightarrow> int (length content) = au_size_bytes r \<and> contentType = au_content_type r
     \<and> sha256Bytes h content = au_checksum_sha256 r"

definition checked_storage ::
  "host \<Rightarrow> (8 word list \<Rightarrow> ('x, unit) world_op) \<Rightarrow> ('x, ('x, 'z) attachment_env_ext) world_env_scheme
     \<Rightarrow> ('x, ('x, 'z) attachment_env_ext) world_env_scheme" where
  "checked_storage h breach env = env\<lparr>as_upload := (\<lambda>r content contentType.
     if announced h r content contentType then as_upload env r content contentType else breach content)\<rparr>"

lemma upload_checked: "attachment_upload h (checked_storage h breach env) r content contentType = attachment_upload h env r content contentType"
proof -
  have await: "awaitW (checked_storage h breach env) m = awaitW env m" for m :: "('a, unit) world_op"
    by (rule ext) (simp add: awaitW_def checked_storage_def)
  have verify: "as_verify (checked_storage h breach env) = as_verify env" by (simp add: checked_storage_def)
  show ?thesis
  proof (cases "announced h r content contentType")
    case True
    then have "as_upload (checked_storage h breach env) r content contentType = as_upload env r content contentType"
      by (simp add: checked_storage_def)
    then show ?thesis unfolding attachment_upload_def await verify by (simp only:)
  next
    case False
    then show ?thesis by (auto simp: attachment_upload_def announced_def)
  qed
qed

text \<open>
  C29. An upload is authorised only for the bearer of a token with the stored hash, before the
  upload expires and for the announced length; and whatever is then sent, the storage is
  handed nothing but content of the announced length, type and checksum: what a storage would
  do with anything else has no influence.
\<close>

theorem only_announced_content_stored:
  assumes "authorizeProxyUpload h env i token contentLength now w = (Inr r, w')"
    and "length (sha256 h token) < 2 ^ 32" and "length (au_upload_token_hash r) < 2 ^ 32"
  shows "getAttachmentUpload i (fst w) = Some r \<and> sha256 h token = au_upload_token_hash r
    \<and> \<not> date_le (date_parse h (au_upload_expires_at r)) (Some now) \<and> contentLength \<in> {None, Some (au_size_bytes r)}
    \<and> attachment_upload h (checked_storage h breach env') r content contentType = attachment_upload h env' r content contentType"
proof -
  obtain r0 where r0: "getAttachmentUpload i (fst w) = Some r0"
    using assms(1) by (cases "getAttachmentUpload i (fst w)") (auto simp: authorizeProxyUpload_def bindS_readW Let_def throwS_def)
  then have "r0 = r" "secretsEqual (sha256 h token) (au_upload_token_hash r)"
    "\<not> date_le (date_parse h (au_upload_expires_at r)) (Some now)" "contentLength = None \<or> contentLength = Some (au_size_bytes r)"
    using assms(1) by (auto simp: authorizeProxyUpload_def bindS_readW Let_def throwS_def returnS_def split: if_splits)
  then show ?thesis using r0 secretsEqual_iff[OF assms(2,3)] upload_checked by auto
qed

section \<open>Witnesses\<close>

definition demo_attachment_env :: "unit attachment_env" where
  "demo_attachment_env = \<lparr>wo_others = id, wo_clock = (\<lambda>x. (demo_now, x)), wo_uuid = (\<lambda>x. ([], x)), wo_hook = (\<lambda>_. None),
     as_assert_configured = returnS (),
     as_create_upload_target = (\<lambda>r t u. returnS \<lparr>aut_url = u @ t, aut_headers = [], aut_expires_at = au_upload_expires_at r\<rparr>),
     as_upload = (\<lambda>_ _ _. returnS ()), as_verify = (\<lambda>_. returnS ()), as_read = (\<lambda>_. returnS []), as_random = (\<lambda>x. ([], x))\<rparr>"

definition demo_upload :: attachment_upload_record where
  "demo_upload = \<lparr>au_id = ''att_1'', au_filename = ''a.txt'', au_content_type = ''text/plain'', au_size_bytes = 2,
     au_checksum_sha256 = sha256Bytes demo_host [104, 105], au_object_key = ''attachments/att_1/content'',
     au_upload_token_hash = sha256 demo_host ''token'', au_created_at = demo_time 0,
     au_upload_expires_at = demo_time 900, au_expires_at = demo_time 86400\<rparr>"

definition demo_upload_store :: mem where
  "demo_upload_store = empty_store\<lparr>m_attachment_uploads := [(''att_1'', demo_upload)]\<rparr>"

definition plain_presentation :: attachment_presentation where
  "plain_presentation = \<lparr>atp_content_type = None, atp_content_id = None, atp_content_disposition = None\<rparr>"

lemma canonical_encoding: "bs \<noteq> [] \<Longrightarrow> isCanonicalBase64 (bytesToBase64 bs) \<and> bytesToBase64 bs \<noteq> []"
  using btoa_shape[of bs] by (auto simp: isCanonicalBase64_def bytesToBase64_def base64ToBytes_def js_length_ascii)


lemma only_announced_content_stored_witness:
  "fst (authorizeProxyUpload demo_host demo_attachment_env ''att_1'' ''token'' (Some 2) demo_now (demo_upload_store, ())) = Inr demo_upload
   \<and> attachment_upload demo_host (checked_storage demo_host (\<lambda>_. throwS TypeError) demo_attachment_env) demo_upload [104] ''text/plain''
      = attachment_upload demo_host demo_attachment_env demo_upload [104] ''text/plain''"
proof -
  have hash: "length (sha256 demo_host t) < 2 ^ 32" for t by (simp add: sha256_def demo_host_def)
  have same: "secretsEqual (sha256 demo_host ''token'') (au_upload_token_hash demo_upload)"
    using secretsEqual_iff[OF hash hash] by (simp add: demo_upload_def)
  have live: "date_parse demo_host (au_upload_expires_at demo_upload) = Some (demo_now + 900000)"
    by (simp add: demo_upload_def)
  have run: "authorizeProxyUpload demo_host demo_attachment_env ''att_1'' ''token'' (Some 2) demo_now (demo_upload_store, ())
      = (Inr demo_upload, wo_others demo_attachment_env (demo_upload_store, ()))"
    by (simp add: authorizeProxyUpload_def bindS_readW getAttachmentUpload_def demo_upload_store_def same live Let_def returnS_def)
      (simp add: demo_upload_def)
  have "length (au_upload_token_hash demo_upload) < 2 ^ 32" using hash by (simp add: demo_upload_def)
  from only_announced_content_stored[OF run hash this, where breach = "\<lambda>_. throwS TypeError" and env' = demo_attachment_env
      and content = "[104]" and contentType = "''text/plain''"] run
  show ?thesis by simp
qed

end
