(* ===== verification/Email_Scheduler.thy ===== *)
theory Email_Scheduler
  imports Schedule Job_Envelope Job_Queues
begin

text \<open>
  The email schedulers (\<open>src/ports/email-scheduler.ts\<close>, \<open>src/adapters/email-scheduler.ts\<close>): a
  wake-up for the outbox item of an email, as a delayed job of the queue when it is due
  within fifteen minutes, else as a one-time schedule of the cloud. The queue and the client
  of the schedule service are ports. A delay of \<open>None\<close> is not a number.
\<close>

section \<open>The ports\<close>

text \<open>
  The input of a schedule, without its literal properties (time zone UTC, no flexible window,
  deletion after completion, retry policy).
\<close>

record schedule_input =
  sch_name :: string
  sch_group :: string
  sch_description :: string
  sch_expression :: string
  sch_target_arn :: string
  sch_role_arn :: string
  sch_target_input :: string
  sch_dead_letter_arn :: string

datatype scheduler_command =
    Create_schedule schedule_input
  | Update_schedule schedule_input
  | Delete_schedule string string

record 's scheduler_env =
  sc_enqueue :: "job \<Rightarrow> int option \<Rightarrow> ('s, unit) sx"
  sc_send :: "scheduler_command \<Rightarrow> ('s, unit) sx"

record scheduler_options =
  so_group_name :: string
  so_queue_arn :: string
  so_role_arn :: string
  so_dead_letter_arn :: string

definition wake_up_job :: "string option \<Rightarrow> job" where
  "wake_up_job jobId = Reconcile_outbox (if truthy jobId then jobId else None)"

section \<open>The scheduler of a queue\<close>

definition queue_schedule ::
  "host \<Rightarrow> 's scheduler_env \<Rightarrow> string \<Rightarrow> string option \<Rightarrow> int \<Rightarrow> string option \<Rightarrow> ('s, unit) sx" where
  "queue_schedule h env emailId scheduledAt now jobId =
     sc_enqueue env (wake_up_job jobId) (delaySecondsUntil h scheduledAt now)"

definition queue_reschedule ::
  "host \<Rightarrow> 's scheduler_env \<Rightarrow> string \<Rightarrow> string \<Rightarrow> int \<Rightarrow> string option \<Rightarrow> ('s, unit) sx" where
  "queue_reschedule h env emailId scheduledAt now jobId = queue_schedule h env emailId (Some scheduledAt) now jobId"

definition queue_rescheduleDelivery :: "host \<Rightarrow> 's scheduler_env \<Rightarrow> string \<Rightarrow> string \<Rightarrow> int \<Rightarrow> ('s, unit) sx" where
  "queue_rescheduleDelivery h env emailId scheduledAt now =
     sc_enqueue env (Send_email emailId None) (delaySecondsUntil h (Some scheduledAt) now)"

definition queue_cancel :: "string \<Rightarrow> ('s, unit) sx" where
  "queue_cancel emailId = returnS ()"

section \<open>The scheduler of the cloud\<close>

definition scheduleName :: "string \<Rightarrow> string" where
  "scheduleName emailId = ''hayasend-'' @ emailId"

definition atExpression :: "host \<Rightarrow> string \<Rightarrow> string result" where
  "atExpression h scheduledAt = bindE (to_iso_of_string h scheduledAt) (\<lambda>t. Inr (''at('' @ take 19 t @ '')''))"

text \<open>Reading a property of \<open>null\<close> or \<open>undefined\<close> throws.\<close>

definition isAwsError :: "js_error \<Rightarrow> string \<Rightarrow> bool result" where
  "isAwsError e name =
     (if thrown_value e \<in> {JNull, JUndefined} then Inl TypeError else Inr (js_prop (thrown_value e) ''name'' = JStr name))"

text \<open>A call whose failure under this name is handled.\<close>

definition unless_named :: "string \<Rightarrow> ('s, unit) sx \<Rightarrow> ('s, unit) sx \<Rightarrow> ('s, unit) sx" where
  "unless_named name call handler =
     catchS call (\<lambda>e. bindS (liftS (isAwsError e name)) (\<lambda>named. if named then handler else throwS e))"

definition soon :: "host \<Rightarrow> string option \<Rightarrow> int \<Rightarrow> bool" where
  "soon h scheduledAt now \<longleftrightarrow> (case secondsUntil h scheduledAt now of None \<Rightarrow> False | Some n \<Rightarrow> n \<le> 900)"

definition aws_cancel :: "'s scheduler_env \<Rightarrow> scheduler_options \<Rightarrow> string \<Rightarrow> ('s, unit) sx" where
  "aws_cancel env options emailId =
     unless_named ''ResourceNotFoundException''
       (sc_send env (Delete_schedule (so_group_name options) (scheduleName emailId))) (returnS ())"

definition schedule_input_of :: "host \<Rightarrow> scheduler_options \<Rightarrow> string \<Rightarrow> string \<Rightarrow> job \<Rightarrow> schedule_input result" where
  "schedule_input_of h options emailId scheduledAt job =
     bindE (atExpression h scheduledAt) (\<lambda>expression.
     Inr \<lparr>sch_name = scheduleName emailId, sch_group = so_group_name options,
       sch_description = ''HayaSend outbox wake-up for '' @ emailId, sch_expression = expression,
       sch_target_arn = so_queue_arn options, sch_role_arn = so_role_arn options,
       sch_target_input = coalesce (json_text h (job_value job)) [], sch_dead_letter_arn = so_dead_letter_arn options\<rparr>)"

definition upsert ::
  "host \<Rightarrow> 's scheduler_env \<Rightarrow> scheduler_options \<Rightarrow> string \<Rightarrow> string \<Rightarrow> job \<Rightarrow> ('s, unit) sx" where
  "upsert h env options emailId scheduledAt job =
     bindS (liftS (schedule_input_of h options emailId scheduledAt job)) (\<lambda>input.
     unless_named ''ConflictException'' (sc_send env (Create_schedule input)) (sc_send env (Update_schedule input)))"

definition aws_schedule ::
  "host \<Rightarrow> 's scheduler_env \<Rightarrow> scheduler_options \<Rightarrow> string \<Rightarrow> string option \<Rightarrow> int \<Rightarrow> string option \<Rightarrow> ('s, unit) sx" where
  "aws_schedule h env options emailId scheduledAt now jobId =
     (if \<not> truthy scheduledAt \<or> soon h scheduledAt now
      then sc_enqueue env (wake_up_job jobId) (delaySecondsUntil h scheduledAt now)
      else upsert h env options emailId (the scheduledAt) (wake_up_job jobId))"

text \<open>A new time replaces the schedule, or deletes it before the job is queued.\<close>

definition move_wake_up ::
  "host \<Rightarrow> 's scheduler_env \<Rightarrow> scheduler_options \<Rightarrow> string \<Rightarrow> string \<Rightarrow> int \<Rightarrow> job \<Rightarrow> ('s, unit) sx" where
  "move_wake_up h env options emailId scheduledAt now job =
     (if soon h (Some scheduledAt) now
      then thenS (aws_cancel env options emailId) (sc_enqueue env job (delaySecondsUntil h (Some scheduledAt) now))
      else upsert h env options emailId scheduledAt job)"

definition aws_reschedule ::
  "host \<Rightarrow> 's scheduler_env \<Rightarrow> scheduler_options \<Rightarrow> string \<Rightarrow> string \<Rightarrow> int \<Rightarrow> string option \<Rightarrow> ('s, unit) sx" where
  "aws_reschedule h env options emailId scheduledAt now jobId =
     move_wake_up h env options emailId scheduledAt now (wake_up_job jobId)"

definition aws_rescheduleDelivery ::
  "host \<Rightarrow> 's scheduler_env \<Rightarrow> scheduler_options \<Rightarrow> string \<Rightarrow> string \<Rightarrow> int \<Rightarrow> ('s, unit) sx" where
  "aws_rescheduleDelivery h env options emailId scheduledAt now =
     move_wake_up h env options emailId scheduledAt now (Send_email emailId None)"

end
