(* ===== verification/Scheduler_Properties.thy ===== *)
theory Scheduler_Properties
  imports Email_Scheduler
begin

text \<open>
  The wake-ups of the cloud scheduler: after a new time is accepted there is one wake-up for
  it, either a queued job whose delay was rounded up or a schedule at the second in which the
  email is due.
\<close>

section \<open>The time of a schedule\<close>

text \<open>The instant that \<open>at(...)\<close> names in UTC.\<close>

definition expression_instant :: "string \<Rightarrow> int option" where
  "expression_instant e = parse_iso (butlast (drop 3 e) @ ''Z'')"

lemma to_iso_seconds:
  assumes v: "valid_time t" and len: "length (to_iso t) = 24"
  shows "parse_iso (take 19 (to_iso t) @ ''Z'') = Some (t - t mod 1000)"
proof -
  obtain y m d where c: "civil_of_days (t div 86400000) = (y, m, d)"
    by (cases "civil_of_days (t div 86400000)") auto
  define r where "r = nat (t mod 86400000)"
  have r: "r < 86400000" and t: "t = t div 86400000 * 86400000 + int r" by (simp_all add: r_def)
  note b = civil_of_days_bounds[OF c] and days = days_of_civil_of_days[OF c]
  have md: "nat m < 10 ^ 2" "nat d < 10 ^ 2" "1 \<le> nat m" "nat m \<le> 12" "1 \<le> nat d" "nat d \<le> 31"
    "int (nat m) = m" "int (nat d) = d"
    using b by auto
  have parts: "r div 3600000 < 10 ^ 2" "r div 60000 mod 60 < 10 ^ 2" "r div 1000 mod 60 < 10 ^ 2"
    "r div 60000 mod 60 \<le> 59" "r div 1000 mod 60 \<le> 59"
    using day_parts(2)[OF r] by (simp_all add: le_simps(2)[symmetric])
  have iso: "to_iso t = iso_year y @ (CHR ''-'' # pad_dec 2 (nat m) @ CHR ''-'' # pad_dec 2 (nat d) @ CHR ''T'' #
      pad_dec 2 (r div 3600000) @ CHR '':'' # pad_dec 2 (r div 60000 mod 60) @ CHR '':'' #
      pad_dec 2 (r div 1000 mod 60)) @ CHR ''.'' # pad_dec 3 (r mod 1000) @ ''Z''"
    by (simp add: to_iso_def c Let_def r_def)
  have year: "length (iso_year y) = 4" using len unfolding iso by simp
  then have y: "- 999999 \<le> y" "y \<le> 999999" by (auto simp: iso_year_def split: if_splits)
  have "take 19 (to_iso t) = iso_year y @ CHR ''-'' # pad_dec 2 (nat m) @ CHR ''-'' # pad_dec 2 (nat d) @ CHR ''T'' #
      pad_dec 2 (r div 3600000) @ CHR '':'' # pad_dec 2 (r div 60000 mod 60) @ CHR '':'' # pad_dec 2 (r div 1000 mod 60)"
    unfolding iso by (simp add: year)
  moreover have "time_value y (int (nat m)) (int (nat d)) (r div 3600000) (r div 60000 mod 60) (r div 1000 mod 60) 0 0 = t - t mod 1000"
  proof -
    have "t = int r + 1000 * (86400 * (t div 86400000))" using t by simp
    then have "int r mod 1000 = t mod 1000" by (metis mod_mult_self2)
    define x where "x = ((r div 3600000 * 60 + r div 60000 mod 60) * 60 + r div 1000 mod 60) * 1000"
    have "x + r mod 1000 = r" unfolding x_def by (rule day_parts(1)[OF r])
    then have "int x + int (r mod 1000) = int r" by (metis of_nat_add)
    then have "int x + int r mod 1000 = int r" by (simp only: of_nat_mod of_nat_numeral)
    moreover have "time_value y (int (nat m)) (int (nat d)) (r div 3600000) (r div 60000 mod 60) (r div 1000 mod 60) 0 0
        = t div 86400000 * 86400000 + int x"
      unfolding time_value_def md(7,8) days x_def by (simp only: mult_zero_left add_0_right diff_0_right)
    ultimately show ?thesis using t \<open>int r mod 1000 = t mod 1000\<close> by linarith
  qed
  moreover have "valid_time (t - t mod 1000)"
  proof -
    have "(- max_time) div 1000 \<le> t div 1000" by (rule zdiv_mono1) (use v in \<open>simp_all add: valid_time_def\<close>)
    then have "- max_time \<le> 1000 * (t div 1000)" by (simp add: max_time_def)
    moreover have "0 \<le> t mod 1000" by simp
    ultimately show ?thesis
      using v unfolding valid_time_def minus_mod_eq_mult_div[symmetric] by linarith
  qed
  ultimately show ?thesis
    using md(1-6) parts day_parts(2)[OF r]
    by (simp add: parse_iso_def read_year_iso y read_seconds_def read_offset_def make_date_def read_char_def)
qed

lemma seconds_rounded_up:
  fixes now due :: int
  defines "n \<equiv> max 0 (- ((now - due) div 1000))"
  shows "0 \<le> n" "due \<le> now + 1000 * n" "0 < n \<Longrightarrow> now + 1000 * (n - 1) < due" "n \<le> 900 \<longleftrightarrow> due \<le> now + 900000"
proof -
  obtain q r where q: "(now - due) div 1000 = q" "(now - due) mod 1000 = r" by blast
  have "now - due = 1000 * q + r" using mult_div_mod_eq[of 1000 "now - due"] unfolding q by simp
  moreover have "0 \<le> r" "r < 1000" unfolding q(2)[symmetric] by simp_all
  moreover have "n = (if q \<le> 0 then - q else 0)" unfolding n_def q by simp
  ultimately show "0 \<le> n" "due \<le> now + 1000 * n" "0 < n \<Longrightarrow> now + 1000 * (n - 1) < due" "n \<le> 900 \<longleftrightarrow> due \<le> now + 900000"
    by (cases "q \<le> 0"; simp; linarith?)+
qed

section \<open>The schedule service\<close>

text \<open>
  What is relied on of the queue and the service of schedules, as far as a call returned or
  failed under the name that is handled: creating needs a free name, a conflict and a missing
  schedule leave everything alone, and each call changes one schedule or appends one job.
\<close>

type_synonym schedules = "string \<times> string \<Rightarrow> schedule_input option"

definition schedule_service ::
  "'s scheduler_env \<Rightarrow> ('s \<Rightarrow> schedules) \<Rightarrow> ('s \<Rightarrow> (job \<times> int option) list) \<Rightarrow> bool" where
  "schedule_service env schedules queued \<longleftrightarrow>
     (\<forall>c s t. sc_send env c s = (Inr (), t) \<longrightarrow> queued t = queued s \<and> schedules t = (case c of
        Create_schedule i \<Rightarrow> (schedules s)((sch_group i, sch_name i) := Some i)
      | Update_schedule i \<Rightarrow> (schedules s)((sch_group i, sch_name i) := Some i)
      | Delete_schedule g n \<Rightarrow> (schedules s)((g, n) := None)))
   \<and> (\<forall>i e s t. sc_send env (Create_schedule i) s = (Inl e, t) \<longrightarrow> isAwsError e ''ConflictException'' = Inr True
        \<longrightarrow> queued t = queued s \<and> schedules t = schedules s)
   \<and> (\<forall>g n e s t. sc_send env (Delete_schedule g n) s = (Inl e, t) \<longrightarrow> isAwsError e ''ResourceNotFoundException'' = Inr True
        \<longrightarrow> queued t = queued s \<and> schedules t = schedules s \<and> schedules s (g, n) = None)
   \<and> (\<forall>j d s t. sc_enqueue env j d s = (Inr (), t) \<longrightarrow> queued t = queued s @ [(j, d)] \<and> schedules t = schedules s)"

lemma unless_named_returns:
  assumes "unless_named name call handler s = (Inr (), t)"
  obtains "call s = (Inr (), t)"
    | e u where "call s = (Inl e, u)" "isAwsError e name = Inr True" "handler u = (Inr (), t)"
proof (cases "call s")
  case (Pair r u)
  show thesis
  proof (cases r)
    case (Inl e)
    then have "bindS (liftS (isAwsError e name)) (\<lambda>named. if named then handler else throwS e) u = (Inr (), t)"
      using assms Pair by (simp add: unless_named_def)
    then have "isAwsError e name = Inr True" "handler u = (Inr (), t)"
      by (auto simp: bindS_Inr_iff liftS_def throwS_def split: if_splits)
    then show thesis using that(2) Pair Inl by blast
  next
    case (Inr x)
    then show thesis using assms Pair that(1) by (simp add: unless_named_def)
  qed
qed

lemma cancel_effect:
  assumes "schedule_service env schedules queued" "aws_cancel env options emailId s = (Inr (), t)"
  shows "queued t = queued s" "schedules t = (schedules s)((so_group_name options, scheduleName emailId) := None)"
proof -
  let ?k = "(so_group_name options, scheduleName emailId)"
  have "queued t = queued s \<and> schedules t = (schedules s)(?k := None)"
    using assms(2) unfolding aws_cancel_def
  proof (cases rule: unless_named_returns)
    case 1
    then show ?thesis using assms(1) unfolding schedule_service_def by fastforce
  next
    case (2 e u)
    then have "u = t" by (simp add: returnS_def)
    then have "queued t = queued s" "schedules t = schedules s" "schedules s ?k = None"
      using assms(1) 2(1,2) unfolding schedule_service_def by blast+
    then show ?thesis by (simp add: fun_upd_idem)
  qed
  then show "queued t = queued s" "schedules t = (schedules s)(?k := None)" by blast+
qed

lemma upsert_effect:
  assumes "schedule_service env schedules queued" "upsert h env options emailId at_time job s = (Inr (), t)"
  obtains i where "schedule_input_of h options emailId at_time job = Inr i" "queued t = queued s"
    "schedules t = (schedules s)((sch_group i, sch_name i) := Some i)"
proof -
  obtain i where i: "schedule_input_of h options emailId at_time job = Inr i"
    and run: "unless_named ''ConflictException'' (sc_send env (Create_schedule i)) (sc_send env (Update_schedule i)) s = (Inr (), t)"
    using assms(2) by (auto simp: upsert_def bindS_Inr_iff liftS_def)
  have "queued t = queued s \<and> schedules t = (schedules s)((sch_group i, sch_name i) := Some i)"
    using run
  proof (cases rule: unless_named_returns)
    case 1
    then show ?thesis using assms(1) unfolding schedule_service_def by fastforce
  next
    case (2 e u)
    then have "queued u = queued s" "schedules u = schedules s" using assms(1) unfolding schedule_service_def by blast+
    moreover have "queued t = queued u \<and> schedules t = (schedules u)((sch_group i, sch_name i) := Some i)"
      using assms(1) 2(3) unfolding schedule_service_def by fastforce
    ultimately show ?thesis by simp
  qed
  then show thesis using that i by blast
qed


section \<open>Witness\<close>

text \<open>A service of schedules and a queue in memory.\<close>

definition conflict_error :: "string \<Rightarrow> js_error" where
  "conflict_error name = Foreign (JObj [(''name'', JStr name)])"

definition memory_scheduler :: "(schedules \<times> (job \<times> int option) list) scheduler_env" where
  "memory_scheduler = \<lparr>
     sc_enqueue = (\<lambda>j d (m, q). (Inr (), (m, q @ [(j, d)]))),
     sc_send = (\<lambda>c (m, q). case c of
         Create_schedule i \<Rightarrow>
           if m (sch_group i, sch_name i) = None then (Inr (), (m((sch_group i, sch_name i) := Some i), q))
           else (Inl (conflict_error ''ConflictException''), (m, q))
       | Update_schedule i \<Rightarrow> (Inr (), (m((sch_group i, sch_name i) := Some i), q))
       | Delete_schedule g n \<Rightarrow>
           if m (g, n) = None then (Inl (conflict_error ''ResourceNotFoundException''), (m, q))
           else (Inr (), (m((g, n) := None), q)))\<rparr>"

lemma memory_scheduler_service: "schedule_service memory_scheduler fst snd"
  unfolding schedule_service_def memory_scheduler_def
  by (auto split: prod.splits scheduler_command.splits if_splits)

lemma isAwsError_named: "isAwsError (conflict_error name) other = Inr (name = other)"
  by (simp add: isAwsError_def conflict_error_def thrown_value_def js_prop_def)

definition demo_scheduler_options :: scheduler_options where
  "demo_scheduler_options = \<lparr>so_group_name = ''g'', so_queue_arn = ''q'', so_role_arn = ''r'', so_dead_letter_arn = ''d''\<rparr>"

lemma demo_iso_length: "length (to_iso (demo_now + 3600000)) = 24" "length (to_iso (demo_now + 60000)) = 24"
  by (simp_all add: to_iso_def demo_now_def civil_of_days_def year_parts_def Let_def iso_year_def)


end
