(* ===== verification/Domain_Service.thy ===== *)
theory Domain_Service
  imports Store_Motion Catalog_Store
begin

text \<open>
  Sending domains (\<open>src/services/domain-service.ts\<close>): a domain is created and checked with the
  provider of the transport (\<open>src/ports/transport-domain-provider.ts\<close>), which is a port, and
  its record follows what the provider answers.
\<close>

record 'x domain_env = "'x world_env" +
  ds_create :: "string \<Rightarrow> ('x, domain_provider_result) world_op"
  ds_get :: "string \<Rightarrow> ('x, domain_provider_result) world_op"
  ds_delete :: "string \<Rightarrow> ('x, unit) world_op"
  ds_region :: string

text \<open>\<open>name.trim().toLowerCase().replace(/\.$/, "")\<close>\<close>

definition drop_final_dot :: "string \<Rightarrow> string" where
  "drop_final_dot s = (if s \<noteq> [] \<and> last s = CHR ''.'' then butlast s else s)"

definition normalize_domain :: "host \<Rightarrow> string \<Rightarrow> string" where
  "normalize_domain h name = drop_final_dot (js_lower h (js_trim name))"

definition domain_create ::
  "host \<Rightarrow> ('x, ('x, 'z) domain_env_ext) world_env_scheme \<Rightarrow> string \<Rightarrow> ('x, domain_record) world_op" where
  "domain_create h env name =
     (let normalizedName = normalize_domain h name in
      bindS (awaitW env (ds_create env normalizedName)) (\<lambda>providerResult.
      bindS (nowW env) (\<lambda>now.
      bindS (createIdW env ''dom'') (\<lambda>i.
      let record = \<lparr>dom_id = i, dom_name = normalizedName, dom_status = dpr_status providerResult, dom_region = ds_region env,
            dom_created_at = to_iso now, dom_updated_at = to_iso now, dom_records = dpr_records providerResult\<rparr> in
      bindS (storeW env (createDomain record)) (\<lambda>_. returnS record)))))"

definition domain_get :: "('x, 'z) world_env_scheme \<Rightarrow> string \<Rightarrow> ('x, domain_record) world_op" where
  "domain_get env i =
     bindS (readW env (getDomain i)) (\<lambda>record. case record of
       None \<Rightarrow> throwS (NotFoundError ''Domain'') | Some r \<Rightarrow> returnS r)"

definition domain_list ::
  "host \<Rightarrow> ('x, 'z) world_env_scheme \<Rightarrow> nat \<Rightarrow> string option \<Rightarrow> ('x, domain_record page) world_op" where
  "domain_list h env limit cursor = bindS (readW env (listDomains h limit cursor)) liftS"

definition domain_verify :: "('x, ('x, 'z) domain_env_ext) world_env_scheme \<Rightarrow> string \<Rightarrow> ('x, domain_record) world_op" where
  "domain_verify env i =
     bindS (awaitW env (domain_get env i)) (\<lambda>record.
     bindS (awaitW env (ds_get env (dom_name record))) (\<lambda>providerResult.
     bindS (nowW env) (\<lambda>now.
     bindS (storeW env (updateDomain i (\<lambda>r. r\<lparr>dom_status := dpr_status providerResult,
       dom_records := dpr_records providerResult, dom_updated_at := to_iso now\<rparr>))) (\<lambda>updated. case updated of
       None \<Rightarrow> throwS (NotFoundError ''Domain'') | Some r \<Rightarrow> returnS r))))"

definition domain_delete :: "('x, ('x, 'z) domain_env_ext) world_env_scheme \<Rightarrow> string \<Rightarrow> ('x, unit) world_op" where
  "domain_delete env i =
     bindS (awaitW env (domain_get env i)) (\<lambda>record.
     bindS (awaitW env (ds_delete env (dom_name record))) (\<lambda>_.
     bindS (storeW env (deleteDomain i)) (\<lambda>found.
     if \<not> found then throwS (NotFoundError ''Domain'') else returnS ())))"

section \<open>What the record says\<close>

text \<open>A domain that was verified says what the provider said last of the name it was created for.\<close>

lemma domain_verify_follows_provider:
  assumes "domain_verify env i w = (Inr r, w')"
  shows "\<exists>name result v v'. ds_get env name v = (Inr result, v')
    \<and> dom_status r = dpr_status result \<and> dom_records r = dpr_records result"
proof -
  obtain d :: domain_record and w1 and result :: domain_provider_result and w2 now w3 x w4 where result: "awaitW env (ds_get env (dom_name d)) w1 = (Inr result, w2)"
    and stored: "storeW env (updateDomain i (\<lambda>r. r\<lparr>dom_status := dpr_status result,
       dom_records := dpr_records result, dom_updated_at := to_iso now\<rparr>)) w3 = (Inr x, w4)"
    and last: "(case x of None \<Rightarrow> throwS (NotFoundError ''Domain'') | Some r \<Rightarrow> returnS r) w4 = (Inr r, w')"
    using assms unfolding domain_verify_def bindS_Inr_iff by blast
  have x: "x = Some r" using last by (cases x) (simp_all add: throwS_def returnS_def)
  obtain t where "updateDomain i (\<lambda>r. r\<lparr>dom_status := dpr_status result,
       dom_records := dpr_records result, dom_updated_at := to_iso now\<rparr>) (fst w3) = (Inr (Some r), t)"
    by (rule storeW_cases[OF stored[unfolded x]])
  then have "dom_status r = dpr_status result" "dom_records r = dpr_records result"
    by (auto simp: updateDomain_def split: option.splits)
  moreover obtain v where "ds_get env (dom_name d) w1 = (Inr result, v)" by (rule awaitW_cases[OF result])
  ultimately show ?thesis by blast
qed

end
