(* ===== verification/Spec2Isabelle.thy ===== *)
theory Spec2Isabelle
  imports Store_Ledger_Properties Outbox_Metrics Email_Send_Properties Listing_Properties
    Template_Properties Received_Claims
    Outbox_Reconciler Schedule Job_Envelope Runtime_Capabilities
    Email_Creation Template_Safety Webhook_Delivery
    Api_Key_Properties Network_Properties Attachment_Properties Scheduler_Properties Domain_Service
begin

text \<open>
  HayaSend is a self-hosted email service with the interface of a hosted one: an HTTP
  application accepts a request to send, commits it with a transactional outbox, and workers
  hand it to a provider, record what the provider says and tell the subscribed webhooks. This
  development models the core of it, the files under \<open>src/core\<close>, \<open>src/services\<close> and the
  in-memory store \<open>src/adapters/memory-store.ts\<close>, and proves what the rest relies on.

  \<^bold>\<open>How the parts interact.\<close> A service operation (\<open>services/\<close>) reads and writes the store
  through its port, calls a provider, a queue or another service, and awaits each of these.
  The store keeps the delivery ledger: an email, its provider-neutral message, its recipients,
  attempts and provider events, the idempotency claim of the request, and one outbox item.
  The pure planner of \<open>core/recipient-ledger.ts\<close> decides every transition of a ledger; the
  validator of \<open>core/delivery-commit.ts\<close> decides what may be written together. The reconciler
  leases due outbox items, queues one deterministic job per item, and settles the item. A
  worker takes the job, claims the email, starts an attempt in the ledger, calls the
  transport, completes the attempt and publishes the event.

  \<^bold>\<open>Conventions.\<close> A fallible function returns \<open>js_error + 'a\<close> (\<open>Inl\<close> what is thrown); an
  operation with state is a function \<open>'s \<Rightarrow> (js_error + 'a) \<times> 's\<close>, so a throw keeps what was
  written before it. Text is its UTF-8 encoding, a list of \<open>char\<close>; dates are integers of
  milliseconds; numbers of the language are integers where the code keeps them so. A
  \<open>Map\<close> is an association list in insertion order, an optional property an \<open>option\<close>. Wherever
  a service awaits, a function of the environment (\<open>others\<close>, \<open>wo_others\<close>) changes the whole
  world in an arbitrary way; a theorem names what it needs of it as a hypothesis.

  \<^bold>\<open>The theories.\<close> Paths are relative to \<open>src/src\<close>.

  \<^item> Foundations. \<open>Prelude\<close>: errors, results, maps, stable sorting, rule collections.
    \<open>Js_Text\<close>: the text functions of the language. \<open>Iso_Time\<close>: dates and their text.
    \<open>Byte_Text\<close> (\<open>core/bytes.ts\<close>): UTF-8, base64, base64url; what decodes to a text that
    encodes back is exactly what the check of canonical base64 accepts. \<open>Crypto\<close>,
    \<open>Crypto_Properties\<close> (\<open>core/crypto.ts\<close>): identities, tokens, canonical request hashes
    (independent of property order), and the constant-time comparison, which decides equality.
    \<open>Error_Telemetry\<close> (\<open>core/errors.ts\<close>, \<open>core/error-telemetry.ts\<close>): the error classes, their
    category and what may be retried; a failure message never shows what was thrown.
  \<^item> Records. \<open>Delivery_Model\<close> (\<open>core/delivery-model.ts\<close>) and \<open>Email_Types\<close>
    (\<open>core/types.ts\<close>): one record or datatype per type, one predicate per schema.
    \<open>Demo_Delivery\<close>: the concrete delivery on which the witnesses evaluate the model.
  \<^item> The ledger. \<open>Recipient_Ledger\<close> (\<open>core/recipient-ledger.ts\<close>): the status of a
    recipient and the four planners. \<open>Ledger_Facts\<close>, \<open>Ledger_Properties\<close>: each planner on
    every branch, the step relation of a ledger, its invariant (attempts are numbered from 1,
    all but the last failed retryably, at most one is open) and that a message which its
    provider accepted is never submitted again.
  \<^item> The commit. \<open>Delivery_Commit\<close> (\<open>core/delivery-commit.ts\<close>): the checks on the records of
    one delivery. \<open>Commit_Properties\<close>: a commit writes everything or nothing, whatever the
    hook of the store throws; it can be read back; a replay returns the first delivery.
  \<^item> The store. \<open>Store_State\<close>, \<open>Delivery_Store\<close>, \<open>Catalog_Store\<close> (\<open>adapters/memory-store.ts\<close>
    and the types of \<open>ports/\<close>): the state of \<open>MemoryStore\<close> as one record of maps and each of its
    methods. \<open>Delivery_Store_Facts\<close>, \<open>Delivery_Protocol\<close>: the well-formedness of the delivery
    maps, the step relation of all operations with any fault and any clock, and its
    invariant. \<open>Store_Simulation\<close>, \<open>Store_Ledger_Properties\<close>: the store refines the abstract
    ledger protocol message by message; events and attempts are recognised when repeated.
    \<open>Outbox_Facts\<close>, \<open>Outbox_Properties\<close>, \<open>Outbox_Metrics\<close>: a lease hands out the first due
    items, belongs to one worker until it expires, and a dispatched item is final.
    \<open>Email_Send_Properties\<close>, \<open>Received_Claims\<close>: claims of outgoing and received emails exclude
    each other. \<open>Listing_Properties\<close>: a client that follows the cursors sees each record once.
    \<open>Template_Properties\<close>: the alias indexes are the inverse of the aliases of the templates.
  \<^item> Jobs. \<open>Schedule\<close> (\<open>core/schedule.ts\<close>): when a scheduled email is due. \<open>Job_Envelope\<close>
    (\<open>core/job-envelope.ts\<close>): the envelope of a queued job and its check. \<open>Job_Queues\<close>
    (\<open>ports/job-queue.ts\<close>, \<open>adapters/sqs-job-queue.ts\<close>, \<open>adapters/wakeup-job-queue.ts\<close>): the
    contract of a queue as a locale with its implementations. \<open>Outbox_Reconciler\<close>
    (\<open>services/outbox-reconciler.ts\<close>): the sweep and the run loop over an outbox port, also a
    locale; an item is marked as dispatched only after the queue took its job.
  \<^item> Capabilities. \<open>Provider_Capabilities\<close> (\<open>core/provider-capabilities.ts\<close>) and
    \<open>Runtime_Capabilities\<close> (\<open>core/runtime-capabilities.ts\<close>): documents, the conformance report
    against the catalogue of its cases, and a deployment that claims no more than its parts.
  \<^item> Services. \<open>Service_World\<close>: the world of a service, awaits, clock and UUIDs.
    \<open>Store_Motion\<close>: a locale for what every operation, with whatever runs between its steps,
    does to the store. \<open>Suppression_Service\<close> (\<open>services/suppression-service.ts\<close>): any spelling
    of an address finds its suppression. \<open>Email_Service\<close>, \<open>Email_Processing\<close>
    (\<open>services/email-service.ts\<close>): from a request to its commit; reading, cancelling and
    rescheduling; the send job and provider events. \<open>Email_Creation\<close>: what a request commits,
    and that a prepared email passes the validator. \<open>Email_Submission\<close>: in which states the
    transport can be reached at all. \<open>Template_Render\<close>, \<open>Template_Service\<close>
    (\<open>services/template-service.ts\<close>), \<open>Template_Calls\<close>, \<open>Template_Safety\<close>: hosted templates; no
    lost edit, no markup or header from the value of a variable. \<open>Webhook_Service\<close>
    (\<open>services/webhook-service.ts\<close>, \<open>core/network-safety.ts\<close>), \<open>Webhook_Properties\<close>,
    \<open>Webhook_Delivery\<close>: endpoints, publishing page by page, deliveries with their attempts.
    \<open>Network_Safety\<close> (\<open>adapters/node-network-safety.ts\<close>), \<open>Network_Properties\<close>: textual
    addresses, the networks that are not public, the lookup of a connection and the client; a
    webhook speaks to public addresses only. \<open>Api_Key_Service\<close>
    (\<open>services/api-key-service.ts\<close>), \<open>Api_Key_Properties\<close>: who is let in, new and revoked
    keys. \<open>Attachment_Service\<close> (\<open>services/attachment-service.ts\<close>), \<open>Attachment_Properties\<close>:
    uploads and the attachments of a request. \<open>Email_Scheduler\<close> (\<open>adapters/email-scheduler.ts\<close>),
    \<open>Scheduler_Properties\<close>: the wake-ups of scheduled emails. \<open>Domain_Service\<close>
    (\<open>services/domain-service.ts\<close>): sending domains.

  \<^bold>\<open>Bounds and fuel.\<close> \<open>run_rounds\<close>, the loop of the reconciler, has the rounds it may run as
  fuel: it returns as soon as there is one more than the rounds before the signal is raised.
  \<open>all_pages\<close>, the loop of a listing client, needs one page more than there are records.
  \<open>publish_pages\<close> is a partial function, since others could add endpoints for ever; it is
  proved to end when the endpoints are left alone. Every other loop is structural, or its
  termination is proved where it stands.

  \<^bold>\<open>Not modelled, and why.\<close>
  \<^item> Parameters: SHA-256 and HMAC, random values, the date parser outside the ISO formats,
    Unicode case mapping and normalisation outside ASCII, the email and URL parsers, the
    conversion of HTML to text, the transport, HTTP, DNS and queues. They are code of the
    platform or of a service; the hypotheses a theorem makes of one are in its statement.
  \<^item> The mutation hook of the in-memory store may throw but does not re-enter the store.
    \<open>updateWebhookDelivery\<close>, the one method of the store that awaits another, is one step.
    The steps of a \<open>Promise.all\<close> are taken one after another. \<open>structuredClone\<close> is the
    identity, as records are values here. Time arithmetic is exact.
  \<^item> Literal fields with one possible value (\<open>schema_version\<close>, \<open>record_type\<close>) are left out of
    the records, and input that lacks the shape of a record is not looked at where the schema
    library decides it. Counters and log lines are left out.
  \<^item> The stores on DynamoDB, PostgreSQL and D1 are requests and SQL for systems that decide
    concurrency themselves and cannot be read here; the adapters of the clouds and of the
    mail providers call their clients. The command line, the HTTP application with its
    request schemas, the console, the preview and the wiring of the runtimes orchestrate
    what is modelled and have little logic of their own.

  \<^bold>\<open>Defects found.\<close> The in-memory store looks for an attempt identity only within its message
  and then writes it into a map shared by all messages, so an attempt of another message can
  be overwritten; theorems that need it exclude that with \<open>attempt_id_free\<close>. A request whose
  carbon copies all repeat a recipient is refused, because preparing it keeps the raw list
  (\<open>duplicated_copies_refused\<close>). Both are recorded with their place in the manifest.
\<close>

end
